(* ===== verification/Prelude.thy ===== *)
theory Prelude
  imports Main "HOL-Library.AList" "HOL-Library.Char_ord" "HOL-Library.List_Lexorder" "HOL-Library.Multiset"
begin

text \<open>
  What every component shares: Go maps as association lists, the list combinators the source takes
  from \<open>samber/lo\<close> and from \<open>slices\<close>, \<open>strings\<close>, \<open>strconv\<close> and \<open>fmt\<close>, Go errors as values, and the
  shape of a Go function that returns an error and changes state.

  Go strings are byte strings, so they are HOL \<open>string\<close>s (a \<open>char\<close> is a byte) and their order is the
  byte-wise lexicographic order of \<open>List_Lexorder\<close>, as in \<open>sort.Strings\<close>, \<open>cmp.Compare\<close> and
  \<open>strings.Compare\<close>.
\<close>

named_theorems go_defs "definitions of the Go and lo helpers"
named_theorems gom_simps "evaluation of computations with errors"

section \<open>Go maps\<close>

text \<open>
  A Go map is an association list without duplicate keys (\<open>gomap_ok\<close>). The position of an entry in the
  list stands for the iteration order, which Go leaves open; what the code computes from a map is
  independent of it exactly where a lemma says so. A map that may be \<open>nil\<close> is an \<open>option\<close>.
\<close>

type_synonym ('k, 'v) gomap = "('k \<times> 'v) list"
type_synonym labels = "(string, string) gomap"

definition gomap_ok :: "('k, 'v) gomap \<Rightarrow> bool" where
  "gomap_ok m \<longleftrightarrow> distinct (map fst m)"

definition mput :: "'k \<Rightarrow> 'v \<Rightarrow> ('k, 'v) gomap \<Rightarrow> ('k, 'v) gomap" where
  "mput k v m = AList.update k v m"

text \<open>\<open>lo.Assign\<close>: merge, later maps win. \<open>lo.Keys\<close>, \<open>lo.Values\<close>, \<open>lo.HasKey\<close>.\<close>

definition lo_assign :: "('k, 'v) gomap \<Rightarrow> ('k, 'v) gomap \<Rightarrow> ('k, 'v) gomap" where
  "lo_assign m m' = AList.merge m m'"

definition lo_keys :: "('k, 'v) gomap \<Rightarrow> 'k list" where
  "lo_keys m = map fst m"

definition lo_values :: "('k, 'v) gomap \<Rightarrow> 'v list" where
  "lo_values m = map snd m"

definition lo_has_key :: "('k, 'v) gomap \<Rightarrow> 'k \<Rightarrow> bool" where
  "lo_has_key m k = (k \<in> set (map fst m))"

text \<open>\<open>lo.Every\<close>: every element of the second list is in the first.\<close>

definition lo_every :: "'a list \<Rightarrow> 'a list \<Rightarrow> bool" where
  "lo_every xs ys = list_all (\<lambda>y. y \<in> set xs) ys"

text \<open>\<open>lo.ElementsMatch\<close>: the same elements with the same multiplicities.\<close>

definition lo_elements_match :: "'a list \<Rightarrow> 'a list \<Rightarrow> bool" where
  "lo_elements_match xs ys \<longleftrightarrow>
     length xs = length ys \<and> list_all (\<lambda>x. count_list xs x = count_list ys x) xs"

text \<open>\<open>lo.Uniq\<close> keeps the first occurrence; \<open>lo.FilterMap\<close>; \<open>lo.Find\<close> is \<open>List.find\<close>.\<close>

fun lo_uniq_aux :: "'a list \<Rightarrow> 'a list \<Rightarrow> 'a list" where
  "lo_uniq_aux seen [] = []"
| "lo_uniq_aux seen (x # xs) =
     (if x \<in> set seen then lo_uniq_aux seen xs else x # lo_uniq_aux (x # seen) xs)"

definition lo_uniq :: "'a list \<Rightarrow> 'a list" where
  "lo_uniq xs = lo_uniq_aux [] xs"

text \<open>Sorting the entries of a map by key, the way every sorted map iteration of the source does.\<close>

definition sort_entries :: "('k::linorder, 'v) gomap \<Rightarrow> ('k, 'v) gomap" where
  "sort_entries m = sort_key fst m"

lemma map_of_mput [simp]: "map_of (mput k v m) = (map_of m)(k \<mapsto> v)"
  by (simp add: mput_def update_conv')

lemma gomap_ok_Nil [simp]: "gomap_ok []"
  by (simp add: gomap_ok_def)

lemma gomap_ok_mput [simp]: "gomap_ok m \<Longrightarrow> gomap_ok (mput k v m)"
  by (simp add: gomap_ok_def mput_def distinct_update)

lemma keys_mput [simp]: "fst ` set (mput k v m) = insert k (fst ` set m)"
  by (metis dom_map_of_conv_image_fst dom_fun_upd map_of_mput option.distinct(1))

lemma map_of_lo_assign [simp]: "map_of (lo_assign m m') = map_of m ++ map_of m'"
  by (simp add: lo_assign_def merge_conv')

lemma gomap_ok_lo_assign [simp]: "gomap_ok m \<Longrightarrow> gomap_ok (lo_assign m m')"
  by (simp add: gomap_ok_def lo_assign_def distinct_merge)

lemma keys_lo_assign [simp]:
  "fst ` set (lo_assign m m') = fst ` set m \<union> fst ` set m'"
  by (metis dom_map_add dom_map_of_conv_image_fst map_of_lo_assign sup_commute)

lemma gomap_entry_iff: "gomap_ok m \<Longrightarrow> (k, v) \<in> set m \<longleftrightarrow> map_of m k = Some v"
  by (simp add: gomap_ok_def)

lemma lo_every_iff [simp]: "lo_every xs ys \<longleftrightarrow> set ys \<subseteq> set xs"
  by (auto simp: lo_every_def list_all_iff)

lemma lo_every_map_le:
  assumes "gomap_ok m" "gomap_ok m'"
  shows "lo_every m m' \<longleftrightarrow> map_of m' \<subseteq>\<^sub>m map_of m"
  using assms by (auto simp: map_le_def gomap_ok_def dom_map_of_conv_image_fst
      dest: map_of_SomeD)

lemma lo_uniq_aux_set: "set (lo_uniq_aux seen xs) = set xs - set seen"
  by (induction seen xs rule: lo_uniq_aux.induct) auto

lemma lo_uniq_aux_distinct: "distinct (lo_uniq_aux seen xs)"
  by (induction seen xs rule: lo_uniq_aux.induct) (auto simp: lo_uniq_aux_set)

lemma set_lo_uniq [simp]: "set (lo_uniq xs) = set xs"
  by (simp add: lo_uniq_def lo_uniq_aux_set)

lemma distinct_lo_uniq [simp]: "distinct (lo_uniq xs)"
  by (simp add: lo_uniq_def lo_uniq_aux_distinct)

lemma set_sort_entries [simp]: "set (sort_entries m) = set m"
  by (simp add: sort_entries_def)

lemma map_of_sort_entries [simp]: "gomap_ok m \<Longrightarrow> map_of (sort_entries m) = map_of m"
  by (rule map_of_eqI)
    (auto simp: gomap_ok_def sort_entries_def distinct_map inj_on_def
      intro!: map_of_eq_Some_iff [THEN iffD2] dest!: map_of_SomeD)

lemma sorted_keys_sort_entries [simp]: "sorted (map fst (sort_entries m))"
  by (simp add: sort_entries_def)


text \<open>The sorted entries depend on the map only, not on the order of its entries.\<close>

definition map_entries :: "('k::linorder \<rightharpoonup> 'v) \<Rightarrow> ('k \<times> 'v) list" where
  "map_entries f = map (\<lambda>k. (k, the (f k))) (sorted_list_of_set (dom f))"

lemma sort_keys_dom:
  assumes "gomap_ok m"
  shows "sort (map fst m) = sorted_list_of_set (dom (map_of m))"
  using assms sorted_list_of_set_sort_remdups [of "map fst m"]
  by (simp add: gomap_ok_def distinct_remdups_id dom_map_of_conv_image_fst)

lemma sort_entries_map_entries:
  assumes "gomap_ok m"
  shows "sort_entries m = map_entries (map_of m)"
proof -
  have ok: "gomap_ok (sort_entries m)"
    using assms by (simp add: gomap_ok_def sort_entries_def distinct_map inj_on_def)
  then have keys: "map fst (sort_entries m) = sort (map fst (sort_entries m))"
    by (simp add: sorted_sort_id)
  have "map (\<lambda>k. (k, the (map_of (sort_entries m) k))) (map fst (sort_entries m)) = sort_entries m"
    unfolding map_map by (rule map_idI) (use ok in \<open>auto simp: gomap_ok_def\<close>)
  then have "sort_entries m = map (\<lambda>k. (k, the (map_of (sort_entries m) k))) (map fst (sort_entries m))"
    by simp
  also have "map fst (sort_entries m) = sorted_list_of_set (dom (map_of m))"
    unfolding sort_keys_dom [OF ok, folded keys] using assms by simp
  finally show ?thesis using assms by (simp add: map_entries_def)
qed

lemma sort_mset_cong: "mset xs = mset ys \<Longrightarrow> sort xs = sort ys"
  by (metis sorted_list_of_multiset_mset)

section \<open>Strings\<close>

text \<open>Decimal rendering of \<open>%d\<close>, \<open>strconv.Itoa\<close> and \<open>strconv.FormatInt(_, 10)\<close>.\<close>

fun nat_dec :: "nat \<Rightarrow> string" where
  "nat_dec n = (if n < 10 then [char_of (48 + n)] else nat_dec (n div 10) @ [char_of (48 + n mod 10)])"

declare nat_dec.simps [simp del]

definition int_dec :: "int \<Rightarrow> string" where
  "int_dec i = (if i < 0 then ''-'' @ nat_dec (nat (- i)) else nat_dec (nat i))"

definition bool_str :: "bool \<Rightarrow> string" where
  "bool_str b = (if b then ''true'' else ''false'')"

text \<open>\<open>strings.Join\<close>, \<open>strings.HasPrefix\<close>, \<open>strings.TrimPrefix\<close>, \<open>strings.Contains\<close> of one byte.\<close>

fun str_join :: "string \<Rightarrow> string list \<Rightarrow> string" where
  "str_join sep [] = []"
| "str_join sep [x] = x"
| "str_join sep (x # y # xs) = x @ sep @ str_join sep (y # xs)"

definition has_prefix :: "string \<Rightarrow> string \<Rightarrow> bool" where
  "has_prefix s p \<longleftrightarrow> take (length p) s = p"

definition trim_prefix :: "string \<Rightarrow> string \<Rightarrow> string" where
  "trim_prefix s p = (if has_prefix s p then drop (length p) s else s)"

text \<open>\<open>strings.SplitN(s, sep, 2)\<close> for a one-byte separator: the part before the first separator, and the
  part after it when there is one.\<close>

definition split2 :: "char \<Rightarrow> string \<Rightarrow> string \<times> string option" where
  "split2 c s = (takeWhile (\<lambda>x. x \<noteq> c) s,
     (case dropWhile (\<lambda>x. x \<noteq> c) s of [] \<Rightarrow> None | _ # r \<Rightarrow> Some r))"

text \<open>\<open>strings.Split\<close> for a one-byte separator.\<close>

fun str_split :: "char \<Rightarrow> string \<Rightarrow> string list" where
  "str_split c [] = [[]]"
| "str_split c (x # xs) =
     (if x = c then [] # str_split c xs
      else (case str_split c xs of [] \<Rightarrow> [[x]] | y # ys \<Rightarrow> (x # y) # ys))"

text \<open>
  \<open>path.Join\<close> of an absolute directory and a file name: both are clean paths in every use of the
  source (no empty, \<open>.\<close> or \<open>..\<close> element, no trailing slash), where \<open>path.Join\<close> puts one slash between
  them.
\<close>

definition path_join :: "string \<Rightarrow> string \<Rightarrow> string" where
  "path_join d f = d @ ''/'' @ f"

lemma has_prefix_append [simp]: "has_prefix (p @ s) p"
  by (simp add: has_prefix_def)

lemma has_prefixE:
  assumes "has_prefix s p" obtains r where "s = p @ r"
  using assms by (metis append_take_drop_id has_prefix_def)

lemma trim_prefix_append [simp]: "trim_prefix (p @ s) p = s"
  by (simp add: trim_prefix_def)

lemma dropWhile_neq_Nil: "dropWhile (\<lambda>x. x \<noteq> c) s = [] \<longleftrightarrow> c \<notin> set s"
  by (induction s) auto

lemma dropWhile_neq_Cons: "dropWhile (\<lambda>x. x \<noteq> c) s = y # r \<Longrightarrow> y = c \<and> c \<in> set s"
  by (induction s) (auto split: if_splits)

lemma split2_None: "snd (split2 c s) = None \<longleftrightarrow> c \<notin> set s"
proof (cases "c \<in> set s")
  case True
  then obtain y r where "dropWhile (\<lambda>x. x \<noteq> c) s = y # r"
    by (metis dropWhile_neq_Nil neq_Nil_conv)
  with True show ?thesis by (simp add: split2_def)
next
  case False
  then have d: "dropWhile (\<lambda>x. x \<noteq> c) s = []" by (rule dropWhile_neq_Nil [THEN iffD2])
  have "snd (split2 c s) = None" by (simp only: split2_def d snd_conv list.case)
  with False show ?thesis by simp
qed

lemma split2_join:
  "s = fst (split2 c s) @ (case snd (split2 c s) of None \<Rightarrow> [] | Some r \<Rightarrow> c # r)"
proof (induction s)
  case Nil
  show ?case by (simp add: split2_def)
next
  case (Cons x s)
  then show ?case by (cases "x = c") (simp_all add: split2_def split: option.splits)
qed

lemma split2_fst: "c \<notin> set (fst (split2 c s))"
  by (auto simp: split2_def dest: set_takeWhileD)

lemma nat_dec_ne [simp]: "nat_dec n \<noteq> []"
  by (subst nat_dec.simps) simp

lemma nat_dec_ne' [simp]: "[] \<noteq> nat_dec n"
  using nat_dec_ne [of n] by metis

lemma digit_inject: "a < 10 \<Longrightarrow> b < 10 \<Longrightarrow> char_of (48 + a) = (char_of (48 + b) :: char) \<longleftrightarrow> a = (b::nat)"
  by (simp add: char_of_eq_iff of_char_of take_bit_nat_eq_self)

lemma nat_dec_inject: "nat_dec m = nat_dec n \<Longrightarrow> m = n"
proof (induction m arbitrary: n rule: nat_dec.induct)
  case (1 m)
  show ?case
  proof (cases "m < 10")
    case True
    then have m: "nat_dec m = [char_of (48 + m)]"
      by (simp add: nat_dec.simps [of m])
    have "n < 10"
    proof (rule ccontr)
      assume "\<not> n < 10"
      then have "nat_dec n = nat_dec (n div 10) @ [char_of (48 + n mod 10)]"
        by (simp add: nat_dec.simps [of n])
      with m 1(2) show False by (simp add: Cons_eq_append_conv)
    qed
    with True m 1(2) show ?thesis
      by (simp add: nat_dec.simps [of n] digit_inject)
  next
    case False
    then have m: "nat_dec m = nat_dec (m div 10) @ [char_of (48 + m mod 10)]"
      by (simp add: nat_dec.simps [of m])
    have n: "\<not> n < 10"
    proof
      assume "n < 10"
      then have "nat_dec n = [char_of (48 + n)]"
        by (simp add: nat_dec.simps [of n])
      with m 1(2) show False by (simp add: append_eq_Cons_conv)
    qed
    then have "nat_dec n = nat_dec (n div 10) @ [char_of (48 + n mod 10)]"
      by (simp add: nat_dec.simps [of n])
    with m 1(2) have eq: "nat_dec (m div 10) = nat_dec (n div 10)" "m mod 10 = n mod 10"
      by (simp_all add: digit_inject)
    from 1(1) [OF False eq(1)] eq(2) show ?thesis
      by (metis div_mult_mod_eq)
  qed
qed

lemma str_split_ne [simp]: "str_split c s \<noteq> []"
  by (induction s) (simp_all split: list.split)

lemma str_join_Cons_head: "str_join sep ((x # y) # ys) = x # str_join sep (y # ys)"
  by (cases ys) simp_all

lemma str_split_join: "str_join [c] (str_split c s) = s"
proof (induction s)
  case (Cons x s)
  obtain y ys where split: "str_split c s = y # ys"
    using str_split_ne [of c s] by (cases "str_split c s") simp_all
  with Cons show ?case by (simp add: str_join_Cons_head)
qed simp

section \<open>Errors\<close>

text \<open>
  A Go \<open>error\<close> of the source is a sentinel (\<open>errors.New\<close> at package level), an error status of the
  Kubernetes API, an error of a library or of the network, a wrapped error (\<open>fmt.Errorf\<close> with \<open>%w\<close>, the
  text being what precedes \<open>: %w\<close>) or a joined list (\<open>errors.Join\<close>). A nil dereference, an index out of
  range and an unguarded type assertion panic; the panic is an error value \<open>EPanic\<close> of its own, which no
  handler of the source recovers from.
\<close>

record status_cause =
  cause_type :: string
  cause_field :: string
  cause_message :: string

datatype api_reason =
    NotFound
  | Invalid "status_cause list"
  | OtherReason string

datatype gerr =
    EApi api_reason
  | ESentinel string
  | ELib string
  | EPanic string
  | EWrap string gerr
  | EJoin "gerr list"

text \<open>\<open>errors.As(err, &APIStatus)\<close>: the first API status in the tree of the error.\<close>

fun find_api :: "gerr \<Rightarrow> api_reason option" and find_api_list :: "gerr list \<Rightarrow> api_reason option" where
  "find_api (EApi r) = Some r"
| "find_api (EWrap m e) = find_api e"
| "find_api (EJoin es) = find_api_list es"
| "find_api (ESentinel s) = None"
| "find_api (ELib s) = None"
| "find_api (EPanic s) = None"
| "find_api_list [] = None"
| "find_api_list (e # es) = (case find_api e of Some r \<Rightarrow> Some r | None \<Rightarrow> find_api_list es)"

definition is_not_found :: "gerr \<Rightarrow> bool" where
  "is_not_found e \<longleftrightarrow> find_api e = Some NotFound"

definition is_invalid :: "gerr \<Rightarrow> bool" where
  "is_invalid e \<longleftrightarrow> (case find_api e of Some (Invalid cs) \<Rightarrow> True | _ \<Rightarrow> False)"

definition error_causes :: "gerr \<Rightarrow> status_cause list" where
  "error_causes e = (case find_api e of Some (Invalid cs) \<Rightarrow> cs | _ \<Rightarrow> [])"

text \<open>\<open>errors.Is\<close> for a sentinel.\<close>

fun err_is :: "string \<Rightarrow> gerr \<Rightarrow> bool" where
  "err_is s (ESentinel t) = (s = t)"
| "err_is s (EWrap m e) = err_is s e"
| "err_is s (EJoin es) = list_ex (err_is s) es"
| "err_is s _ = False"

text \<open>An error value that stands for a panic, and the text of an error, given the texts of the API errors.\<close>

fun panics :: "gerr \<Rightarrow> bool" where
  "panics (EPanic s) = True"
| "panics (EWrap m e) = panics e"
| "panics (EJoin es) = list_ex panics es"
| "panics _ = False"

fun err_text :: "(api_reason \<Rightarrow> string) \<Rightarrow> gerr \<Rightarrow> string" where
  "err_text api (EApi r) = api r"
| "err_text api (EWrap m e) = m @ '': '' @ err_text api e"
| "err_text api (EJoin es) = str_join [CHR 0x0A] (map (err_text api) es)"
| "err_text api (ESentinel s) = s"
| "err_text api (ELib s) = s"
| "err_text api (EPanic s) = s"

text \<open>\<open>errors.Join\<close> drops the nil errors and is nil when nothing is left.\<close>

definition errors_join :: "gerr option list \<Rightarrow> gerr option" where
  "errors_join es = (case List.map_filter id es of [] \<Rightarrow> None | xs \<Rightarrow> Some (EJoin xs))"

lemma errors_join_None_iff: "errors_join es = None \<longleftrightarrow> (\<forall>e \<in> set es. e = None)"
proof -
  have "List.map_filter id es = [] \<longleftrightarrow> (\<forall>e \<in> set es. e = None)"
    by (auto simp: List.map_filter_def filter_empty_conv)
  then show ?thesis by (auto simp: errors_join_def split: list.splits)
qed

section \<open>Functions with an error result and state\<close>

text \<open>
  A Go function that returns \<open>(T, error)\<close> and works on state maps the state before to the result and the
  state after; the state changes made before an error stay. \<open>gbind\<close> is the sequence
  \<open>if err != nil { return err }\<close>, \<open>gwrap\<close> the same with \<open>fmt.Errorf("m: %w", err)\<close>.
\<close>

type_synonym ('s, 'a) gom = "'s \<Rightarrow> (gerr + 'a) \<times> 's"

definition gret :: "'a \<Rightarrow> ('s, 'a) gom" where
  "gret x s = (Inr x, s)"

definition gfail :: "gerr \<Rightarrow> ('s, 'a) gom" where
  "gfail e s = (Inl e, s)"

definition gbind :: "('s, 'a) gom \<Rightarrow> ('a \<Rightarrow> ('s, 'b) gom) \<Rightarrow> ('s, 'b) gom" where
  "gbind m f s = (case m s of (Inl e, s') \<Rightarrow> (Inl e, s') | (Inr x, s') \<Rightarrow> f x s')"

definition gseq :: "('s, 'a) gom \<Rightarrow> ('s, 'b) gom \<Rightarrow> ('s, 'b) gom" where
  "gseq m k = gbind m (\<lambda>_. k)"

definition gwrap :: "string \<Rightarrow> ('s, 'a) gom \<Rightarrow> ('s, 'a) gom" where
  "gwrap msg m s = (case m s of (Inl e, s') \<Rightarrow> (Inl (EWrap msg e), s') | (Inr x, s') \<Rightarrow> (Inr x, s'))"

text \<open>\<open>gtry\<close> gives the error to the code that follows, for the places that inspect it.\<close>

definition gtry :: "('s, 'a) gom \<Rightarrow> ('s, gerr + 'a) gom" where
  "gtry m s = (case m s of (r, s') \<Rightarrow> (Inr r, s'))"

definition gget :: "('s \<Rightarrow> 'a) \<Rightarrow> ('s, 'a) gom" where
  "gget f s = (Inr (f s), s)"

definition gmod :: "('s \<Rightarrow> 's) \<Rightarrow> ('s, unit) gom" where
  "gmod f s = (Inr (), f s)"

text \<open>A \<open>for\<close> loop that returns at the first error.\<close>

fun gfor :: "'x list \<Rightarrow> ('x \<Rightarrow> ('s, unit) gom) \<Rightarrow> ('s, unit) gom" where
  "gfor [] f = gret ()"
| "gfor (x # xs) f = gseq (f x) (gfor xs f)"

text \<open>A loop that collects a value per element and returns at the first error.\<close>

fun gcollect :: "'x list \<Rightarrow> ('x \<Rightarrow> ('s, 'y) gom) \<Rightarrow> ('s, 'y list) gom" where
  "gcollect [] f = gret []"
| "gcollect (x # xs) f = gbind (f x) (\<lambda>y. gbind (gcollect xs f) (\<lambda>ys. gret (y # ys)))"

lemmas gom_defs = gret_def gfail_def gbind_def gseq_def gwrap_def gtry_def gget_def gmod_def

declare gom_defs [gom_simps]

lemma gbind_gret [simp]: "gbind (gret x) f = f x"
  by (rule ext) (simp add: gom_simps)

lemma gbind_gfail [simp]: "gbind (gfail e) f = gfail e"
  by (rule ext) (simp add: gom_simps)

lemma gbind_assoc: "gbind (gbind m f) g = gbind m (\<lambda>x. gbind (f x) g)"
  by (rule ext) (simp add: gbind_def split: prod.split sum.split)

lemma gbind_InrE:
  assumes "gbind m f s = (Inr y, s')"
  obtains x s1 where "m s = (Inr x, s1)" "f x s1 = (Inr y, s')"
  using assms by (auto simp: gbind_def split: prod.splits sum.splits)

lemma gseq_InrE:
  assumes "gseq m k s = (Inr y, s')"
  obtains x s1 where "m s = (Inr x, s1)" "k s1 = (Inr y, s')"
  using assms by (auto simp: gseq_def elim: gbind_InrE)

lemma gwrap_InrE:
  assumes "gwrap msg m s = (Inr y, s')"
  obtains "m s = (Inr y, s')"
  using assms by (auto simp: gwrap_def split: prod.splits sum.splits)

lemmas gom_InrE = gbind_InrE gseq_InrE gwrap_InrE

text \<open>Running a computation step by step, from what its first part gives.\<close>

lemma gbind_run: "m s = (Inr x, s1) \<Longrightarrow> gbind m f s = f x s1"
  by (simp add: gbind_def)

lemma gbind_fail: "m s = (Inl e, s1) \<Longrightarrow> gbind m f s = (Inl e, s1)"
  by (simp add: gbind_def)

lemma gseq_run: "m s = (Inr x, s1) \<Longrightarrow> gseq m k s = k s1"
  by (simp add: gseq_def gbind_def)

lemma gseq_fail: "m s = (Inl e, s1) \<Longrightarrow> gseq m k s = (Inl e, s1)"
  by (simp add: gseq_def gbind_def)

lemma gwrap_run: "m s = (Inr x, s1) \<Longrightarrow> gwrap msg m s = (Inr x, s1)"
  by (simp add: gwrap_def)

lemma gwrap_fail: "m s = (Inl e, s1) \<Longrightarrow> gwrap msg m s = (Inl (EWrap msg e), s1)"
  by (simp add: gwrap_def)

lemma gtry_run: "m s = (r, s1) \<Longrightarrow> gtry m s = (Inr r, s1)"
  by (simp add: gtry_def)

lemma gret_run: "gret x s = (Inr x, s)"
  by (simp add: gret_def)

lemma gfail_run: "gfail e s = (Inl e, s)"
  by (simp add: gfail_def)

lemma gret_eq: "gret x s = (r, s') \<longleftrightarrow> r = Inr x \<and> s' = s"
  by (auto simp: gret_def)

lemma gfail_eq: "gfail e s = (r, s') \<longleftrightarrow> r = Inl e \<and> s' = s"
  by (auto simp: gfail_def)

lemma gtry_eq: "gtry m s = (r, s') \<longleftrightarrow> (\<exists>x. m s = (x, s') \<and> r = Inr x)"
  by (auto simp: gtry_def split: prod.splits)

lemmas gom_run = gbind_run gbind_fail gseq_run gseq_fail gwrap_run gwrap_fail gtry_run gret_run gfail_run

text \<open>
  A property of the state that every step keeps, whatever the step returns: \<open>keeps P m\<close>. It is closed
  under all the combinators, so an operation keeps what the calls it makes keep.
\<close>

definition keeps :: "('s \<Rightarrow> 's \<Rightarrow> bool) \<Rightarrow> ('s, 'a) gom \<Rightarrow> bool" where
  "keeps R m \<longleftrightarrow> (\<forall>s. R s (snd (m s)))"

named_theorems keeps_intros "closure of preserved relations under the combinators"

lemma keepsD: "keeps R m \<Longrightarrow> m s = (r, s') \<Longrightarrow> R s s'"
  by (metis keeps_def snd_conv)

lemma keeps_gret [keeps_intros]: "reflp R \<Longrightarrow> keeps R (gret x)"
  by (simp add: keeps_def gret_def reflpD)

lemma keeps_gfail [keeps_intros]: "reflp R \<Longrightarrow> keeps R (gfail e)"
  by (simp add: keeps_def gfail_def reflpD)

lemma keeps_gget [keeps_intros]: "reflp R \<Longrightarrow> keeps R (gget f)"
  by (simp add: keeps_def gget_def reflpD)

lemma keeps_gbind [keeps_intros]:
  "transp R \<Longrightarrow> keeps R m \<Longrightarrow> (\<And>x. keeps R (f x)) \<Longrightarrow> keeps R (gbind m f)"
  unfolding keeps_def gbind_def by (auto split: prod.split sum.split) (metis snd_conv transpD)+

lemma keeps_gseq [keeps_intros]: "transp R \<Longrightarrow> keeps R m \<Longrightarrow> keeps R k \<Longrightarrow> keeps R (gseq m k)"
  by (simp add: gseq_def keeps_gbind)

lemma keeps_gwrap [keeps_intros]: "keeps R m \<Longrightarrow> keeps R (gwrap msg m)"
  unfolding keeps_def gwrap_def by (auto split: prod.split sum.split) (metis snd_conv)+

lemma keeps_gtry [keeps_intros]: "keeps R m \<Longrightarrow> keeps R (gtry m)"
  unfolding keeps_def gtry_def by (auto split: prod.split) (metis snd_conv)

lemma keeps_gfor [keeps_intros]:
  "reflp R \<Longrightarrow> transp R \<Longrightarrow> (\<And>x. keeps R (f x)) \<Longrightarrow> keeps R (gfor xs f)"
  by (induction xs) (simp_all add: keeps_intros)

lemma keeps_gcollect [keeps_intros]:
  "reflp R \<Longrightarrow> transp R \<Longrightarrow> (\<And>x. keeps R (f x)) \<Longrightarrow> keeps R (gcollect xs f)"
  by (induction xs) (simp_all add: keeps_intros)

lemma keeps_if [keeps_intros]: "keeps R m \<Longrightarrow> keeps R k \<Longrightarrow> keeps R (if b then m else k)"
  by simp

lemma keeps_case_sum [keeps_intros]:
  "(\<And>x. r = Inl x \<Longrightarrow> keeps R (f x)) \<Longrightarrow> (\<And>y. r = Inr y \<Longrightarrow> keeps R (g y))
    \<Longrightarrow> keeps R (case r of Inl x \<Rightarrow> f x | Inr y \<Rightarrow> g y)"
  by (cases r) simp_all

lemma keeps_case_option [keeps_intros]:
  "(r = None \<Longrightarrow> keeps R m) \<Longrightarrow> (\<And>y. r = Some y \<Longrightarrow> keeps R (g y))
    \<Longrightarrow> keeps R (case r of None \<Rightarrow> m | Some y \<Rightarrow> g y)"
  by (cases r) simp_all

lemma keeps_case_prod [keeps_intros]:
  "(\<And>x y. r = (x, y) \<Longrightarrow> keeps R (f x y)) \<Longrightarrow> keeps R (case r of (x, y) \<Rightarrow> f x y)"
  by (cases r) simp_all

lemma keeps_Let [keeps_intros]: "(\<And>x. keeps R (f x)) \<Longrightarrow> keeps R (let x = t in f x)"
  by simp

end
