(* ===== verification/ApiTypes.thy ===== *)
theory ApiTypes
  imports Prelude
begin

text \<open>
  The API types of \<open>api/v1alpha1\<close>: one record per struct, a struct embedded \<open>inline\<close> as the record that
  is extended, a pointer or an optional field as an \<open>option\<close>, and the \<open>OrDefault\<close> accessors.

  A \<open>resource.Quantity\<close> is an exact decimal number whose smallest step is one nano-unit: it is an \<open>int\<close>
  that counts nano-units, \<open>Cmp\<close>, \<open>Add\<close> and \<open>Sub\<close> are exact, \<open>Value()\<close> rounds up to a whole unit.
  A \<open>time.Time\<close> is an \<open>int\<close> of nanoseconds since Go's zero time, so \<open>IsZero\<close> is \<open>= 0\<close>; a
  \<open>time.Duration\<close> is an \<open>int\<close> of nanoseconds. An \<open>int32\<close> field that the code only copies and compares
  is an \<open>int\<close>. An audit policy (\<open>auditv1.Policy\<close>) is only handed to the YAML encoder: it is its text.
\<close>

type_synonym quantity = int
type_synonym gtime = int
type_synonym duration = int

definition nano :: int where "nano = 1000000000"

definition quantity_of :: "int \<Rightarrow> quantity" where
  \<comment> \<open>\<open>resource.NewQuantity\<close>\<close>
  "quantity_of v = v * nano"

definition quantity_value :: "quantity \<Rightarrow> int" where
  \<comment> \<open>\<open>Quantity.Value\<close>: rounds up\<close>
  "quantity_value q = - ((- q) div nano)"

definition deref :: "'a option \<Rightarrow> 'a \<Rightarrow> 'a" where
  \<comment> \<open>\<open>ptr.Deref\<close>\<close>
  "deref p d = (case p of None \<Rightarrow> d | Some x \<Rightarrow> x)"

lemma deref_simps [simp]: "deref None d = d" "deref (Some x) d = x"
  by (simp_all add: deref_def)

lemma quantity_value_of [simp]: "quantity_value (quantity_of v) = v"
proof -
  have "- (v * nano) div nano = - v"
    unfolding mult_minus_left [symmetric] by (rule nonzero_mult_div_cancel_right) (simp add: nano_def)
  then show ?thesis by (simp add: quantity_value_def quantity_of_def)
qed

lemma quantity_of_le [simp]: "quantity_of a \<le> quantity_of b \<longleftrightarrow> a \<le> b"
  by (simp add: quantity_of_def nano_def)

lemma quantity_value_ge: "q \<le> quantity_of (quantity_value q)"
proof -
  have "(- q) div nano * nano \<le> - q"
    using div_mult_mod_eq [of "- q" nano] pos_mod_sign [of nano "- q"] by (simp add: nano_def)
  then show ?thesis by (simp add: quantity_value_def quantity_of_def)
qed

section \<open>Specification\<close>

record resource_claim =
  claim_name :: string
  claim_request :: string

record resource_requirements =
  rr_limits :: "(string, quantity) gomap"
  rr_requests :: "(string, quantity) gomap"
  rr_claims :: "resource_claim list"

record ImageSpec =
  Registry :: "string option"
  Repository :: "string option"
  Tag :: "string option"

record ContainerSpec =
  Image :: "ImageSpec option"
  ImagePullPolicy :: "string option"
  Args :: labels
  Resources :: "resource_requirements option"

record PodSpec = ContainerSpec +
  PriorityClassName :: string

record ScalablePod = PodSpec +
  PodReplicas :: "int option"

record KubeProxyComponent = PodSpec +
  Disabled :: "bool option"

record GatewayReference =
  GatewayNamespace :: string
  GatewayName :: string

record CertificatesSpec =
  RootCACertificateDuration :: "duration option"
  CACertificateDuration :: "duration option"

record ETCDBackupSecret =
  SecretName :: string
  SecretNamespace :: "string option"
  AccessKeyIDKey :: "string option"
  SecretAccessKeyKey :: "string option"
  HostKey :: "string option"
  RegionKey :: "string option"
  BucketKey :: "string option"

record ETCDBackup =
  Schedule :: string
  BackupSecret :: ETCDBackupSecret

record ETCDComponent = ContainerSpec +
  VolumeSize :: "quantity option"
  AutoGrow :: "bool option"
  EtcdPriorityClassName :: string
  Backup :: "ETCDBackup option"

record AuditWebhookAuthentication =
  AuthSecretName :: string
  AuthSecretNamespace :: "string option"
  TokenKey :: "string option"

record AuditWebhookTarget =
  Server :: string
  Authentication :: "AuditWebhookAuthentication option"

record AuditWebhook = ContainerSpec +
  Targets :: "AuditWebhookTarget list"

record Audit =
  Policy :: string
  Mode :: "string option"
  Webhook :: "AuditWebhook option"

record key_to_path =
  ktp_key :: string
  ktp_path :: string

record volume_source_ref =
  \<comment> \<open>\<open>corev1.SecretVolumeSource\<close>, \<open>corev1.ConfigMapVolumeSource\<close>: the name and the items\<close>
  vsr_name :: string
  vsr_items :: "key_to_path list"

record Mount =
  Path :: string
  ConfigMap :: "volume_source_ref option"
  Secret :: "volume_source_ref option"

record APIServerPod = PodSpec +
  Mounts :: "(string, Mount) gomap"
  Konnectivity :: ContainerSpec
  APIServerAudit :: "Audit option"

record HostedControlPlaneDeployment =
  APIServer :: APIServerPod
  ControllerManager :: ScalablePod
  Scheduler :: ScalablePod

record OIDCClaimValidationRule =
  Expression :: string
  Message :: string

record OIDCClaimMappings =
  Username :: string
  Groups :: string

record OIDCProvider =
  CertificateAuthority :: string
  Audiences :: "string list"
  ClaimValidationRules :: "OIDCClaimValidationRule list"
  ClaimMappings :: OIDCClaimMappings

record HostedControlPlaneInlineSpec =
  Deployment :: HostedControlPlaneDeployment
  Gateway :: GatewayReference
  KonnectivityClient :: ScalablePod
  KubeProxy :: KubeProxyComponent
  CoreDNS :: ScalablePod
  ETCD :: ETCDComponent
  OIDCProviders :: "(string, OIDCProvider) gomap"
  Certificates :: CertificatesSpec

record HostedControlPlaneSpec = HostedControlPlaneInlineSpec +
  Version :: string
  Replicas :: "int option"

section \<open>Status and object\<close>

datatype condition_status = ConditionTrue | ConditionFalse | ConditionUnknown

record condition =
  \<comment> \<open>\<open>metav1.Condition\<close>\<close>
  cond_type :: string
  cond_status :: condition_status
  cond_reason :: string
  cond_message :: string

record HostedControlPlaneStatus =
  Conditions :: "condition list"
  LegacyIP :: string
  ETCDVolumeSize :: quantity
  ETCDVolumeUsage :: quantity
  ETCDLastBackupTime :: gtime
  ETCDNextBackupTime :: gtime
  ETCDLastDefragTime :: gtime
  ETCDLastAttemptedDefragTime :: gtime
  StatusSelector :: string
  StatusReplicas :: int
  ReadyReplicas :: int
  AvailableReplicas :: int
  UpToDateReplicas :: int
  ControlPlaneInitialized :: "bool option"
  Ready :: bool
  StatusVersion :: string
  ExternalManagedControlPlane :: "bool option"
  ObservedGeneration :: int

record HostedControlPlane =
  APIVersion :: string
  Kind :: string
  Name :: string
  Namespace :: string
  UID :: string
  Generation :: int
  DeletionTimestamp :: gtime
  Finalizers :: "string list"
  Spec :: HostedControlPlaneSpec
  Status :: HostedControlPlaneStatus

text \<open>\<open>GetConditions\<close> and \<open>SetConditions\<close>.\<close>

definition GetConditions :: "HostedControlPlane \<Rightarrow> condition list" where
  "GetConditions hcp = Conditions (Status hcp)"

definition SetConditions :: "HostedControlPlane \<Rightarrow> condition list \<Rightarrow> HostedControlPlane" where
  "SetConditions hcp cs = hcp\<lparr>Status := (Status hcp)\<lparr>Conditions := cs\<rparr>\<rparr>"

text \<open>
  The owner \<open>Cluster\<close> of Cluster API, as far as the controller reads it; the CIDR strings are the
  \<open>String()\<close> of the network ranges.
\<close>

record APIEndpoint =
  Host :: string
  Port :: int

record Cluster =
  ClusterName :: string
  ClusterNamespace :: string
  ControlPlaneEndpoint :: APIEndpoint
  ServiceDomain :: string
  ServicesCIDR :: string
  PodsCIDR :: string

section \<open>Defaults\<close>

text \<open>
  The accessors have pointer receivers: a nil receiver is \<open>None\<close>. The two duration accessors do not
  check their receiver, which is always the address of a field.
\<close>

definition ReplicasOrDefault :: "HostedControlPlaneSpec option \<Rightarrow> int" where
  "ReplicasOrDefault s = (case s of None \<Rightarrow> 2 | Some s \<Rightarrow> deref (Replicas s) 2)"

definition AutoGrowEnabled :: "ETCDComponent option \<Rightarrow> bool" where
  "AutoGrowEnabled e = (case e of None \<Rightarrow> True | Some e \<Rightarrow> deref (AutoGrow e) True)"

definition KubeProxyEnabled :: "KubeProxyComponent option \<Rightarrow> bool" where
  "KubeProxyEnabled kp = (case kp of None \<Rightarrow> True | Some kp \<Rightarrow> \<not> deref (Disabled kp) False)"

definition TokenKeyOrDefault :: "AuditWebhookAuthentication option \<Rightarrow> string" where
  "TokenKeyOrDefault awc = (case awc of None \<Rightarrow> ''token'' | Some a \<Rightarrow> deref (TokenKey a) ''token'')"

definition ReplicaCount :: "ScalablePod option \<Rightarrow> int \<Rightarrow> int" where
  "ReplicaCount sp defaultReplicas =
     (case sp of None \<Rightarrow> defaultReplicas | Some sp \<Rightarrow> deref (PodReplicas sp) defaultReplicas)"

definition ImagePullPolicyOrDefault :: "'a ContainerSpec_scheme option \<Rightarrow> string" where
  "ImagePullPolicyOrDefault c =
     (case c of None \<Rightarrow> ''Always'' | Some c \<Rightarrow> deref (ImagePullPolicy c) ''Always'')"

definition ModeOrDefault :: "Audit option \<Rightarrow> string" where
  "ModeOrDefault a = (case a of None \<Rightarrow> ''batch'' | Some a \<Rightarrow> deref (Mode a) ''batch'')"

definition HostKeyOrDefault :: "ETCDBackupSecret option \<Rightarrow> string" where
  "HostKeyOrDefault ebs = (case ebs of None \<Rightarrow> ''host'' | Some e \<Rightarrow> deref (HostKey e) ''host'')"

definition RegionKeyOrDefault :: "ETCDBackupSecret option \<Rightarrow> string" where
  "RegionKeyOrDefault ebs = (case ebs of None \<Rightarrow> ''region'' | Some e \<Rightarrow> deref (RegionKey e) ''region'')"

definition BucketKeyOrDefault :: "ETCDBackupSecret option \<Rightarrow> string" where
  "BucketKeyOrDefault ebs = (case ebs of None \<Rightarrow> ''bucket'' | Some e \<Rightarrow> deref (BucketKey e) ''bucket'')"

definition AccessKeyIDKeyOrDefault :: "ETCDBackupSecret option \<Rightarrow> string" where
  "AccessKeyIDKeyOrDefault ebs =
     (case ebs of None \<Rightarrow> ''accessKeyID'' | Some e \<Rightarrow> deref (AccessKeyIDKey e) ''accessKeyID'')"

definition SecretAccessKeyKeyOrDefault :: "ETCDBackupSecret option \<Rightarrow> string" where
  "SecretAccessKeyKeyOrDefault ebs =
     (case ebs of None \<Rightarrow> ''secretAccessKey'' | Some e \<Rightarrow> deref (SecretAccessKeyKey e) ''secretAccessKey'')"

definition hour :: duration where "hour = 60 * 60 * nano"

definition RootCACertificateDurationOrDefault :: "CertificatesSpec \<Rightarrow> duration" where
  "RootCACertificateDurationOrDefault c =
     (case RootCACertificateDuration c of Some d \<Rightarrow> d | None \<Rightarrow> 2 * 24 * hour)"

definition CACertificateDurationOrDefault :: "CertificatesSpec \<Rightarrow> duration" where
  "CACertificateDurationOrDefault c =
     (case CACertificateDuration c of Some d \<Rightarrow> d | None \<Rightarrow> 2 * 24 * hour)"

section \<open>Condition types and reasons\<close>

definition APIServerServiceReadyCondition :: string where "APIServerServiceReadyCondition = ''APIServerServiceReady''"
definition APIServerServiceFailedReason :: string where "APIServerServiceFailedReason = ''APIServerServiceFailed''"
definition APIServerTLSRoutesReadyCondition :: string where "APIServerTLSRoutesReadyCondition = ''APIServerTLSRoutesReady''"
definition APIServerTLSRoutesFailedReason :: string where "APIServerTLSRoutesFailedReason = ''APIServerTLSRoutesFailed''"
definition SyncControlPlaneEndpointReadyCondition :: string where "SyncControlPlaneEndpointReadyCondition = ''SyncControlPlaneEndpointReady''"
definition SyncControlPlaneEndpointFailedReason :: string where "SyncControlPlaneEndpointFailedReason = ''SyncControlPlaneEndpointFailed''"
definition APIServerDeploymentsReadyCondition :: string where "APIServerDeploymentsReadyCondition = ''APIServerDeploymentsReady''"
definition APIServerDeploymentsFailedReason :: string where "APIServerDeploymentsFailedReason = ''APIServerDeploymentsFailed''"
definition KubernetesServiceReadyCondition :: string where "KubernetesServiceReadyCondition = ''KubernetesServiceReady''"
definition KubernetesServiceFailedReason :: string where "KubernetesServiceFailedReason = ''KubernetesServiceFailed''"
definition CACertificatesReadyCondition :: string where "CACertificatesReadyCondition = ''CACertificatesReady''"
definition CACertificatesFailedReason :: string where "CACertificatesFailedReason = ''CACertificatesFailed''"
definition CABundleReadyCondition :: string where "CABundleReadyCondition = ''CABundleReady''"
definition CABundleFailedReason :: string where "CABundleFailedReason = ''CABundleFailed''"
definition CARotationAnnotationReadyCondition :: string where "CARotationAnnotationReadyCondition = ''CARotationAnnotationReady''"
definition CARotationAnnotationFailedReason :: string where "CARotationAnnotationFailedReason = ''CARotationAnnotationFailed''"
definition CertificatesReadyCondition :: string where "CertificatesReadyCondition = ''CertificatesReady''"
definition CertificatesFailedReason :: string where "CertificatesFailedReason = ''CertificatesFailed''"
definition InternalKubeconfigReadyCondition :: string where "InternalKubeconfigReadyCondition = ''InternalKubeconfigReady''"
definition InternalKubeconfigFailedReason :: string where "InternalKubeconfigFailedReason = ''InternalKubeconfigFailed''"
definition AdminKubeconfigReadyCondition :: string where "AdminKubeconfigReadyCondition = ''AdminKubeconfigReady''"
definition AdminKubeconfigFailedReason :: string where "AdminKubeconfigFailedReason = ''AdminKubeconfigFailed''"
definition EtcdClusterReadyCondition :: string where "EtcdClusterReadyCondition = ''EtcdClusterReady''"
definition EtcdClusterFailedReason :: string where "EtcdClusterFailedReason = ''EtcdClusterFailed''"
definition WorkloadClusterResourcesReadyCondition :: string where "WorkloadClusterResourcesReadyCondition = ''WorkloadSetupReady''"
definition WorkloadClusterResourcesFailedReason :: string where "WorkloadClusterResourcesFailedReason = ''WorkloadSetupFailed''"
definition WorkloadRBACReadyCondition :: string where "WorkloadRBACReadyCondition = ''WorkloadRBACReady''"
definition WorkloadRBACFailedReason :: string where "WorkloadRBACFailedReason = ''WorkloadRBACFailed''"
definition WorkloadClusterInfoReadyCondition :: string where "WorkloadClusterInfoReadyCondition = ''WorkloadClusterInfoReady''"
definition WorkloadClusterInfoFailedReason :: string where "WorkloadClusterInfoFailedReason = ''WorkloadClusterInfoFailed''"
definition WorkloadKubeadmConfigReadyCondition :: string where "WorkloadKubeadmConfigReadyCondition = ''WorkloadKubeadmConfigReady''"
definition WorkloadKubeadmConfigFailedReason :: string where "WorkloadKubeadmConfigFailedReason = ''WorkloadKubeadmConfigFailed''"
definition WorkloadKubeletConfigReadyCondition :: string where "WorkloadKubeletConfigReadyCondition = ''WorkloadKubeletConfigReady''"
definition WorkloadKubeletConfigFailedReason :: string where "WorkloadKubeletConfigFailedReason = ''WorkloadKubeletConfigFailed''"
definition WorkloadKonnectivityReadyCondition :: string where "WorkloadKonnectivityReadyCondition = ''WorkloadKonnectivityReady''"
definition WorkloadKonnectivityFailedReason :: string where "WorkloadKonnectivityFailedReason = ''WorkloadKonnectivityFailed''"
definition WorkloadCoreDNSReadyCondition :: string where "WorkloadCoreDNSReadyCondition = ''WorkloadCoreDNSReady''"
definition WorkloadCoreDNSFailedReason :: string where "WorkloadCoreDNSFailedReason = ''WorkloadCoreDNSFailed''"
definition WorkloadKubeProxyReadyCondition :: string where "WorkloadKubeProxyReadyCondition = ''WorkloadKubeProxyReady''"
definition WorkloadKubeProxyFailedReason :: string where "WorkloadKubeProxyFailedReason = ''WorkloadKubeProxyFailed''"

lemmas condition_name_defs =
  APIServerServiceReadyCondition_def APIServerServiceFailedReason_def APIServerTLSRoutesReadyCondition_def
  APIServerTLSRoutesFailedReason_def SyncControlPlaneEndpointReadyCondition_def
  SyncControlPlaneEndpointFailedReason_def APIServerDeploymentsReadyCondition_def
  APIServerDeploymentsFailedReason_def KubernetesServiceReadyCondition_def KubernetesServiceFailedReason_def
  CACertificatesReadyCondition_def CACertificatesFailedReason_def CABundleReadyCondition_def
  CABundleFailedReason_def CARotationAnnotationReadyCondition_def CARotationAnnotationFailedReason_def
  CertificatesReadyCondition_def CertificatesFailedReason_def InternalKubeconfigReadyCondition_def
  InternalKubeconfigFailedReason_def AdminKubeconfigReadyCondition_def AdminKubeconfigFailedReason_def
  EtcdClusterReadyCondition_def EtcdClusterFailedReason_def WorkloadClusterResourcesReadyCondition_def
  WorkloadClusterResourcesFailedReason_def
  WorkloadRBACReadyCondition_def WorkloadRBACFailedReason_def
  WorkloadClusterInfoReadyCondition_def WorkloadClusterInfoFailedReason_def
  WorkloadKubeadmConfigReadyCondition_def WorkloadKubeadmConfigFailedReason_def
  WorkloadKubeletConfigReadyCondition_def WorkloadKubeletConfigFailedReason_def
  WorkloadKonnectivityReadyCondition_def WorkloadKonnectivityFailedReason_def
  WorkloadCoreDNSReadyCondition_def WorkloadCoreDNSFailedReason_def
  WorkloadKubeProxyReadyCondition_def WorkloadKubeProxyFailedReason_def

end
