(* ===== verification/Names.thy ===== *)
theory Names
  imports ApiTypes
begin

text \<open>
  The names and labels of every resource (package \<open>pkg/operator/util/names\<close>), one definition per function.
  The values of the API constants the package reads (\<open>capiv2.ClusterNameLabel\<close>) are the documented ones.
\<close>

section \<open>Names\<close>

definition GetRootIssuerName :: "Cluster \<Rightarrow> string" where
  "GetRootIssuerName cluster = ClusterName cluster @ ''-root''"

definition GetCAIssuerName :: "Cluster \<Rightarrow> string" where
  "GetCAIssuerName cluster = ClusterName cluster @ ''-ca''"

definition GetCASecretName :: "Cluster \<Rightarrow> string" where
  "GetCASecretName cluster = ClusterName cluster @ ''-ca''"

definition GetCABundleSecretName :: "Cluster \<Rightarrow> string" where
  "GetCABundleSecretName cluster = ClusterName cluster @ ''-ca-bundle''"

definition GetCACertificateName :: "Cluster \<Rightarrow> string" where
  "GetCACertificateName cluster = ClusterName cluster @ ''-ca''"

definition GetAPIServerCertificateName :: "Cluster \<Rightarrow> string" where
  "GetAPIServerCertificateName cluster = ClusterName cluster @ ''-apiserver''"

definition GetAPIServerSecretName :: "Cluster \<Rightarrow> string" where
  "GetAPIServerSecretName cluster = ClusterName cluster @ ''-apiserver''"

definition GetAPIServerKubeletClientCertificateName :: "Cluster \<Rightarrow> string" where
  "GetAPIServerKubeletClientCertificateName cluster = ClusterName cluster @ ''-apiserver-kubelet-client''"

definition GetAPIServerKubeletClientSecretName :: "Cluster \<Rightarrow> string" where
  "GetAPIServerKubeletClientSecretName cluster = ClusterName cluster @ ''-apiserver-kubelet-client''"

definition GetFrontProxyCertificateName :: "Cluster \<Rightarrow> string" where
  "GetFrontProxyCertificateName cluster = ClusterName cluster @ ''-front-proxy''"

definition GetFrontProxySecretName :: "Cluster \<Rightarrow> string" where
  "GetFrontProxySecretName cluster = ClusterName cluster @ ''-front-proxy''"

definition GetFrontProxyCAName :: "Cluster \<Rightarrow> string" where
  "GetFrontProxyCAName cluster = ClusterName cluster @ ''-front-proxy-ca''"

definition GetFrontProxyCASecretName :: "Cluster \<Rightarrow> string" where
  "GetFrontProxyCASecretName cluster = ClusterName cluster @ ''-front-proxy-ca''"

definition GetFrontProxyCABundleSecretName :: "Cluster \<Rightarrow> string" where
  "GetFrontProxyCABundleSecretName cluster = ClusterName cluster @ ''-front-proxy-ca-bundle''"

definition GetServiceAccountCertificateName :: "Cluster \<Rightarrow> string" where
  "GetServiceAccountCertificateName cluster = ClusterName cluster @ ''-service-account''"

definition GetServiceAccountSecretName :: "Cluster \<Rightarrow> string" where
  "GetServiceAccountSecretName cluster = ClusterName cluster @ ''-service-account''"

definition GetServiceName :: "Cluster \<Rightarrow> string" where
  "GetServiceName cluster = ''s-'' @ ClusterName cluster"

definition GetKonnectivityServiceName :: "Cluster \<Rightarrow> string" where
  "GetKonnectivityServiceName cluster = GetServiceName cluster @ ''-konnectivity''"

definition GetAdminCertificateName :: "Cluster \<Rightarrow> string" where
  "GetAdminCertificateName cluster = ClusterName cluster @ ''-admin''"

definition GetAdminKubeconfigCertificateName :: "Cluster \<Rightarrow> string" where
  "GetAdminKubeconfigCertificateName cluster = ClusterName cluster @ ''-admin''"

definition GetAdminKubeconfigCertificateSecretName :: "Cluster \<Rightarrow> string" where
  "GetAdminKubeconfigCertificateSecretName cluster = ClusterName cluster @ ''-admin''"

definition GetControllerManagerKubeconfigCertificateName :: "Cluster \<Rightarrow> string" where
  "GetControllerManagerKubeconfigCertificateName cluster = ClusterName cluster @ ''-controller-manager''"

definition GetControllerManagerKubeconfigCertificateSecretName :: "Cluster \<Rightarrow> string" where
  "GetControllerManagerKubeconfigCertificateSecretName cluster = ClusterName cluster @ ''-controller-manager''"

definition GetSchedulerKubeconfigCertificateName :: "Cluster \<Rightarrow> string" where
  "GetSchedulerKubeconfigCertificateName cluster = ClusterName cluster @ ''-scheduler''"

definition GetSchedulerKubeconfigCertificateSecretName :: "Cluster \<Rightarrow> string" where
  "GetSchedulerKubeconfigCertificateSecretName cluster = ClusterName cluster @ ''-scheduler''"

definition GetKonnectivityConfigMapName :: "Cluster \<Rightarrow> string" where
  "GetKonnectivityConfigMapName cluster = ClusterName cluster @ ''-konnectivity''"

definition GetAuthenticationConfigMapName :: "Cluster \<Rightarrow> string" where
  "GetAuthenticationConfigMapName cluster = ClusterName cluster @ ''-authentication''"

definition GetAuditWebhookSecretName :: "Cluster \<Rightarrow> string" where
  "GetAuditWebhookSecretName cluster = ClusterName cluster @ ''-audit-webhook''"

definition GetKonnectivityClientKubeconfigCertificateName :: "Cluster \<Rightarrow> string" where
  "GetKonnectivityClientKubeconfigCertificateName cluster = ClusterName cluster @ ''-konnectivity-client''"

definition GetKonnectivityClientKubeconfigCertificateSecretName :: "Cluster \<Rightarrow> string" where
  "GetKonnectivityClientKubeconfigCertificateSecretName cluster = ClusterName cluster @ ''-konnectivity-client''"

definition GetControlPlaneControllerKubeconfigCertificateName :: "Cluster \<Rightarrow> string" where
  "GetControlPlaneControllerKubeconfigCertificateName cluster = ClusterName cluster @ ''-control-plane-controller''"

definition GetControlPlaneControllerKubeconfigCertificateSecretName :: "Cluster \<Rightarrow> string" where
  "GetControlPlaneControllerKubeconfigCertificateSecretName cluster = ClusterName cluster @ ''-control-plane-controller''"

definition GetKubeconfigSecretName :: "Cluster \<Rightarrow> string \<Rightarrow> string" where
  "GetKubeconfigSecretName cluster username = ClusterName cluster @ ''-'' @ username @ ''-kubeconfig''"

definition GetEtcdCAName :: "Cluster \<Rightarrow> string" where
  "GetEtcdCAName cluster = ClusterName cluster @ ''-etcd-ca''"

definition GetEtcdCASecretName :: "Cluster \<Rightarrow> string" where
  "GetEtcdCASecretName cluster = ClusterName cluster @ ''-etcd-ca''"

definition GetEtcdCABundleSecretName :: "Cluster \<Rightarrow> string" where
  "GetEtcdCABundleSecretName cluster = ClusterName cluster @ ''-etcd-ca-bundle''"

definition GetEtcdServerCertificateName :: "Cluster \<Rightarrow> string" where
  "GetEtcdServerCertificateName cluster = ClusterName cluster @ ''-etcd-server''"

definition GetEtcdServerSecretName :: "Cluster \<Rightarrow> string" where
  "GetEtcdServerSecretName cluster = ClusterName cluster @ ''-etcd-server''"

definition GetEtcdPeerCertificateName :: "Cluster \<Rightarrow> string" where
  "GetEtcdPeerCertificateName cluster = ClusterName cluster @ ''-etcd-peer''"

definition GetEtcdPeerSecretName :: "Cluster \<Rightarrow> string" where
  "GetEtcdPeerSecretName cluster = ClusterName cluster @ ''-etcd-peer''"

definition GetEtcdAPIServerClientCertificateName :: "Cluster \<Rightarrow> string" where
  "GetEtcdAPIServerClientCertificateName cluster = ClusterName cluster @ ''-etcd-apiserver-client''"

definition GetEtcdAPIServerClientCertificateSecretName :: "Cluster \<Rightarrow> string" where
  "GetEtcdAPIServerClientCertificateSecretName cluster = ClusterName cluster @ ''-etcd-apiserver-client''"

definition GetEtcdControllerClientCertificateName :: "Cluster \<Rightarrow> string" where
  "GetEtcdControllerClientCertificateName cluster = ClusterName cluster @ ''-etcd-controller-client''"

definition GetEtcdControllerClientCertificateSecretName :: "Cluster \<Rightarrow> string" where
  "GetEtcdControllerClientCertificateSecretName cluster = ClusterName cluster @ ''-etcd-controller-client''"

definition GetEtcdServiceName :: "Cluster \<Rightarrow> string" where
  "GetEtcdServiceName cluster = ''e-'' @ ClusterName cluster @ ''-etcd''"

definition GetEtcdClientServiceName :: "Cluster \<Rightarrow> string" where
  "GetEtcdClientServiceName cluster = GetEtcdServiceName cluster @ ''-client''"

definition GetEtcdClientServiceDNSName :: "Cluster \<Rightarrow> string" where
  "GetEtcdClientServiceDNSName cluster = GetEtcdClientServiceName cluster @ ''.'' @ ClusterNamespace cluster @ ''.svc''"

definition GetEtcdStatefulSetName :: "Cluster \<Rightarrow> string" where
  "GetEtcdStatefulSetName cluster = ClusterName cluster @ ''-etcd''"

definition GetInternalServiceHost :: "Cluster \<Rightarrow> string" where
  "GetInternalServiceHost cluster = GetServiceName cluster @ ''.'' @ ClusterNamespace cluster @ ''.svc''"

definition GetEtcdDNSNames :: "Cluster \<Rightarrow> labels" where
  "GetEtcdDNSNames cluster =
     (let serviceName = GetEtcdServiceName cluster in
      map (\<lambda>i. let host = GetEtcdStatefulSetName cluster @ ''-'' @ nat_dec i in
               (host, host @ ''.'' @ serviceName @ ''.'' @ ClusterNamespace cluster @ ''.svc''))
        [0..<3])"

definition GetTLSRouteName :: "Cluster \<Rightarrow> string" where
  "GetTLSRouteName cluster = ClusterName cluster"

definition GetKonnectivityTLSRouteName :: "Cluster \<Rightarrow> string" where
  "GetKonnectivityTLSRouteName cluster = ClusterName cluster @ ''-konnectivity''"

definition GetKonnectivityServerHost :: "Cluster \<Rightarrow> string" where
  "GetKonnectivityServerHost cluster = ''konnectivity.'' @ Host (ControlPlaneEndpoint cluster)"

lemmas names_defs =
  GetRootIssuerName_def GetCAIssuerName_def GetCASecretName_def GetCABundleSecretName_def
  GetCACertificateName_def GetAPIServerCertificateName_def GetAPIServerSecretName_def
  GetAPIServerKubeletClientCertificateName_def GetAPIServerKubeletClientSecretName_def
  GetFrontProxyCertificateName_def GetFrontProxySecretName_def GetFrontProxyCAName_def
  GetFrontProxyCASecretName_def GetFrontProxyCABundleSecretName_def
  GetServiceAccountCertificateName_def GetServiceAccountSecretName_def GetServiceName_def
  GetKonnectivityServiceName_def GetAdminCertificateName_def GetAdminKubeconfigCertificateName_def
  GetAdminKubeconfigCertificateSecretName_def GetControllerManagerKubeconfigCertificateName_def
  GetControllerManagerKubeconfigCertificateSecretName_def GetSchedulerKubeconfigCertificateName_def
  GetSchedulerKubeconfigCertificateSecretName_def GetKonnectivityConfigMapName_def
  GetAuthenticationConfigMapName_def GetAuditWebhookSecretName_def
  GetKonnectivityClientKubeconfigCertificateName_def
  GetKonnectivityClientKubeconfigCertificateSecretName_def
  GetControlPlaneControllerKubeconfigCertificateName_def
  GetControlPlaneControllerKubeconfigCertificateSecretName_def GetKubeconfigSecretName_def
  GetEtcdCAName_def GetEtcdCASecretName_def GetEtcdCABundleSecretName_def
  GetEtcdServerCertificateName_def GetEtcdServerSecretName_def GetEtcdPeerCertificateName_def
  GetEtcdPeerSecretName_def GetEtcdAPIServerClientCertificateName_def
  GetEtcdAPIServerClientCertificateSecretName_def GetEtcdControllerClientCertificateName_def
  GetEtcdControllerClientCertificateSecretName_def GetEtcdServiceName_def GetEtcdClientServiceName_def
  GetEtcdClientServiceDNSName_def GetEtcdStatefulSetName_def GetInternalServiceHost_def
  GetTLSRouteName_def GetKonnectivityTLSRouteName_def GetKonnectivityServerHost_def

section \<open>Labels\<close>

definition ClusterNameLabel :: string where
  "ClusterNameLabel = ''cluster.x-k8s.io/cluster-name''"

definition KubeconfigLabel :: string where
  "KubeconfigLabel = ''controlplane.cluster.x-k8s.io/kubeconfig''"

definition KubeconfigUsernameLabel :: string where
  "KubeconfigUsernameLabel = ''controlplane.cluster.x-k8s.io/kubeconfig-username''"

definition CertificateKindLabel :: string where
  "CertificateKindLabel = ''controlplane.cluster.x-k8s.io/certificate-kind''"

definition CACertificateKind :: string where "CACertificateKind = ''ca''"
definition ClientCertificateKind :: string where "ClientCertificateKind = ''client''"
definition KubeconfigLabelValue :: string where "KubeconfigLabelValue = ''true''"

definition GetControlPlaneLabels :: "Cluster \<Rightarrow> string \<Rightarrow> labels" where
  "GetControlPlaneLabels cluster component =
     (let l = [(ClusterNameLabel, ClusterName cluster)] in
      if component \<noteq> [] then mput ''app.kubernetes.io/component'' component l else l)"

text \<open>The selector has these labels as its \<open>matchLabels\<close>, and nothing else.\<close>

definition GetControlPlaneSelector :: "Cluster \<Rightarrow> string \<Rightarrow> labels" where
  "GetControlPlaneSelector cluster component = GetControlPlaneLabels cluster component"

definition GetKubeconfigUserLabel :: "string \<Rightarrow> labels" where
  "GetKubeconfigUserLabel username = [(KubeconfigUsernameLabel, username)]"

definition GetKubeconfigLabel :: labels where
  "GetKubeconfigLabel = [(KubeconfigLabel, KubeconfigLabelValue)]"

definition GetKubeconfigLabels :: "string \<Rightarrow> labels" where
  "GetKubeconfigLabels username = lo_assign GetKubeconfigLabel (GetKubeconfigUserLabel username)"

lemma map_of_GetControlPlaneLabels:
  "map_of (GetControlPlaneLabels cluster component) =
     (if component = [] then [ClusterNameLabel \<mapsto> ClusterName cluster]
      else [ClusterNameLabel \<mapsto> ClusterName cluster, ''app.kubernetes.io/component'' \<mapsto> component])"
  by (simp add: GetControlPlaneLabels_def)

lemma GetControlPlaneLabels_ok [simp]: "gomap_ok (GetControlPlaneLabels cluster component)"
  by (auto simp: GetControlPlaneLabels_def Let_def gomap_ok_def mput_def)

text \<open>Two components of a cluster never have the same labels, nor do two clusters.\<close>

lemma GetControlPlaneLabels_inject:
  assumes "map_of (GetControlPlaneLabels cluster a) = map_of (GetControlPlaneLabels cluster' b)"
  shows "ClusterName cluster = ClusterName cluster'" "a = b"
proof -
  have ne: "ClusterNameLabel \<noteq> ''app.kubernetes.io/component''"
    by (simp add: ClusterNameLabel_def)
  from fun_cong [OF assms, of ClusterNameLabel] ne
  show "ClusterName cluster = ClusterName cluster'"
    by (simp add: map_of_GetControlPlaneLabels split: if_splits)
  from fun_cong [OF assms, of "''app.kubernetes.io/component''"] ne
  show "a = b"
    by (simp add: map_of_GetControlPlaneLabels split: if_splits)
qed

section \<open>Etcd members\<close>

lemma upt_0_3: "[0..<3] = [0, 1, 2::nat]"
  by (simp add: upt_rec)

lemma GetEtcdDNSNames_length [simp]: "length (GetEtcdDNSNames cluster) = 3"
  by (simp add: GetEtcdDNSNames_def Let_def)

lemma keys_GetEtcdDNSNames:
  "map fst (GetEtcdDNSNames cluster) = map (\<lambda>i. GetEtcdStatefulSetName cluster @ ''-'' @ nat_dec i) [0..<3]"
  by (simp add: GetEtcdDNSNames_def Let_def comp_def)

lemma GetEtcdDNSNames_ok [simp]: "gomap_ok (GetEtcdDNSNames cluster)"
  unfolding gomap_ok_def keys_GetEtcdDNSNames
  by (auto simp: distinct_map inj_on_def dest: nat_dec_inject)

section \<open>Constants of several packages\<close>

text \<open>The API group, \<open>importcycle/consts.go\<close>, and the key of a kubeconfig in its secret.\<close>

definition GroupName :: string where "GroupName = ''controlplane.cluster.x-k8s.io''"
definition ControllerUsername :: string where "ControllerUsername = ''control-plane-controller''"
definition KonnectivityClientUsername :: string where "KonnectivityClientUsername = ''konnectivity-client''"

definition LocalClusterOIDCEndpoint :: string where
  "LocalClusterOIDCEndpoint = ''https://kubernetes.default.svc.cluster.local''"

definition KubeconfigDataName :: string where "KubeconfigDataName = ''value''"

end
