(* ===== verification/Samples.thy ===== *)
theory Samples
  imports Names
begin

text \<open>One concrete cluster and hosted control plane, the inputs at which the properties are instantiated.\<close>

definition wit_cluster :: Cluster where
  "wit_cluster = \<lparr>ClusterName = ''foo'', ClusterNamespace = ''prod'',
     ControlPlaneEndpoint = \<lparr>Host = ''foo.prod.example.org'', Port = 443\<rparr>, ServiceDomain = [],
     ServicesCIDR = [], PodsCIDR = []\<rparr>"

definition wit_container :: ContainerSpec where
  "wit_container = \<lparr>Image = None, ImagePullPolicy = None, Args = [], Resources = None\<rparr>"

definition wit_scalable :: ScalablePod where
  "wit_scalable = \<lparr>Image = None, ImagePullPolicy = None, Args = [], Resources = None, PriorityClassName = [],
     PodReplicas = None\<rparr>"

definition wit_etcd :: ETCDComponent where
  "wit_etcd = \<lparr>Image = None, ImagePullPolicy = None, Args = [], Resources = None, VolumeSize = None,
     AutoGrow = None, EtcdPriorityClassName = [], Backup = None\<rparr>"

definition wit_spec :: HostedControlPlaneSpec where
  "wit_spec = \<lparr>
     Deployment = \<lparr>
       APIServer = \<lparr>Image = None, ImagePullPolicy = None, Args = [], Resources = None, PriorityClassName = [],
         Mounts = [], Konnectivity = wit_container, APIServerAudit = None\<rparr>,
       ControllerManager = wit_scalable, Scheduler = wit_scalable\<rparr>,
     Gateway = \<lparr>GatewayNamespace = ''gateways'', GatewayName = ''public''\<rparr>,
     KonnectivityClient = wit_scalable,
     KubeProxy = \<lparr>Image = None, ImagePullPolicy = None, Args = [], Resources = None, PriorityClassName = [],
       Disabled = None\<rparr>,
     CoreDNS = wit_scalable, ETCD = wit_etcd, OIDCProviders = [],
     Certificates = \<lparr>RootCACertificateDuration = None, CACertificateDuration = None\<rparr>,
     Version = ''v1.34.1'', Replicas = None\<rparr>"

definition wit_status :: HostedControlPlaneStatus where
  "wit_status = \<lparr>Conditions = [], LegacyIP = [], ETCDVolumeSize = 0, ETCDVolumeUsage = 0, ETCDLastBackupTime = 0,
     ETCDNextBackupTime = 0, ETCDLastDefragTime = 0, ETCDLastAttemptedDefragTime = 0, StatusSelector = [],
     StatusReplicas = 0, ReadyReplicas = 0, AvailableReplicas = 0, UpToDateReplicas = 0,
     ControlPlaneInitialized = None, Ready = False, StatusVersion = [], ExternalManagedControlPlane = None,
     ObservedGeneration = 0\<rparr>"

definition wit_hcp :: HostedControlPlane where
  "wit_hcp = \<lparr>APIVersion = ''controlplane.cluster.x-k8s.io/v1alpha1'', Kind = ''HostedControlPlane'',
     Name = ''foo'', Namespace = ''prod'', UID = ''0815'', Generation = 1, DeletionTimestamp = 0,
     Finalizers = [], Spec = wit_spec, Status = wit_status\<rparr>"

lemmas wit_defs = wit_cluster_def wit_container_def wit_scalable_def wit_etcd_def wit_spec_def wit_status_def wit_hcp_def

end
