(* ===== verification/KubeTypes.thy ===== *)
theory KubeTypes
  imports Samples
begin

text \<open>
  The Kubernetes objects the reconcilers exchange with the API servers, as far as the source reads or
  writes them: the apply configurations the code builds (\<open>*ac\<close> packages of client-go) and the objects
  that come back. A builder \<open>X().WithA(a).WithB(b)\<close> is the empty record \<open>x0\<close> updated at the fields; a
  builder that appends (\<open>WithVolumes\<close>, \<open>WithOwnerReferences\<close>) appends to the list and one that merges
  a map (\<open>WithLabels\<close>, \<open>WithAnnotations\<close>, \<open>WithMatchLabels\<close>) merges with \<open>lo_assign\<close>.
\<close>

section \<open>Metadata\<close>

record owner_ref =
  or_api_version :: string
  or_kind :: string
  or_name :: string
  or_uid :: string
  or_controller :: "bool option"
  or_block :: "bool option"

section \<open>Pods\<close>

record container_port =
  cp_name :: string
  cp_port :: int
  cp_protocol :: string

record env_var =
  ev_name :: string
  ev_value :: "string option"
  ev_field_path :: "string option"

record probe =
  pr_path :: string
  pr_port :: string
  pr_scheme :: string
  pr_initial_delay :: "int option"
  pr_timeout :: "int option"
  pr_failure_threshold :: "int option"
  pr_period :: "int option"

record security_context =
  sc_privileged :: bool
  sc_allow_privilege_escalation :: bool
  sc_seccomp :: string
  sc_read_only_root :: bool
  sc_user :: int
  sc_group :: int
  sc_non_root :: bool
  sc_cap_drop :: "string list"
  sc_cap_add :: "string list"

record volume_mount =
  vm_name :: string
  vm_path :: string
  vm_read_only :: "bool option"
  vm_sub_path :: "string option"

record container =
  c_name :: string
  c_image :: string
  c_pull_policy :: string
  c_command :: "string list"
  c_args :: "string list"
  c_env :: "env_var list"
  c_ports :: "container_port list"
  c_resources :: "resource_requirements option"
  c_startup_probe :: "probe option"
  c_readiness_probe :: "probe option"
  c_liveness_probe :: "probe option"
  c_volume_mounts :: "volume_mount list"
  c_security_context :: "security_context option"
  c_restart_policy :: "string option"

definition container0 :: container where
  "container0 = \<lparr>c_name = [], c_image = [], c_pull_policy = [], c_command = [], c_args = [], c_env = [],
     c_ports = [], c_resources = None, c_startup_probe = None, c_readiness_probe = None,
     c_liveness_probe = None, c_volume_mounts = [], c_security_context = None,
     c_restart_policy = None\<rparr>"

datatype projection =
    PSecret string "key_to_path list"
  | PConfigMap string "key_to_path list"
  | PServiceAccountToken "string option" int string
  | PDownwardAPI "(string \<times> string) list"

record volume =
  vol_name :: string
  vol_secret :: "volume_source_ref option"
  vol_configmap :: "volume_source_ref option"
  vol_projected :: "projection list option"
  vol_projected_mode :: "int option"
  vol_empty_dir :: "string option"
    \<comment> \<open>the medium\<close>
  vol_host_path :: "(string \<times> string) option"
  vol_optional :: "bool option"
    \<comment> \<open>of the secret or the config map\<close>

definition volume0 :: "string \<Rightarrow> volume" where
  "volume0 name = \<lparr>vol_name = name, vol_secret = None, vol_configmap = None, vol_projected = None,
     vol_projected_mode = None, vol_empty_dir = None, vol_host_path = None, vol_optional = None\<rparr>"

record topology_spread =
  ts_topology_key :: string
  ts_selector :: labels
  ts_max_skew :: int
  ts_when_unsatisfiable :: string
  ts_node_taints_policy :: string
  ts_node_affinity_policy :: string

record pod_affinity =
  \<comment> \<open>the one preferred term the code builds\<close>
  pa_weight :: int
  pa_selector :: labels
  pa_topology_key :: string

record toleration =
  tol_key :: string
  tol_operator :: string
  tol_effect :: string
  tol_value :: string

record pod_spec =
  ps_automount_token :: bool
  ps_service_account :: string
  ps_priority_class :: string
  ps_service_links :: bool
  ps_tolerations :: "toleration list"
  ps_affinity :: "pod_affinity option"
  ps_dns_policy :: string
  ps_host_network :: bool
  ps_init_containers :: "container list"
  ps_containers :: "container list"
  ps_run_as_user :: int
  ps_run_as_group :: int
  ps_run_as_non_root :: bool
  ps_fs_group :: int
  ps_volumes :: "volume list"
  ps_topology_spread :: "topology_spread list"

record pod_template =
  pt_labels :: labels
  pt_annotations :: labels
  pt_spec :: pod_spec

section \<open>Workloads\<close>

record pvc_ac =
  pvc_name :: string
  pvc_namespace :: string
  pvc_access_modes :: "string list"
  pvc_storage :: quantity

record deployment_part =
  dp_strategy :: string
  dp_max_surge :: int

record statefulset_part =
  st_service_name :: string
  st_pod_management :: string
  st_max_unavailable :: "int option"
  st_claims :: "pvc_ac list"
  st_when_deleted :: string
  st_when_scaled :: string

record workload_spec =
  ws_selector :: labels
  ws_template :: pod_template
  ws_replicas :: "int option"
  ws_deployment :: "deployment_part option"
  ws_statefulset :: "statefulset_part option"

record workload_ac =
  wl_kind :: string
  wl_name :: string
  wl_namespace :: string
  wl_owner_refs :: "owner_ref list"
  wl_labels :: labels
  wl_spec :: workload_spec

record live_workload =
  lw_name :: string
  lw_uid :: string
  lw_selector :: labels
  lw_template_labels :: labels
  lw_available_replicas :: int
    \<comment> \<open>\<open>NumberAvailable\<close> of a daemon set\<close>
  lw_ready_replicas :: int
  lw_updated_replicas :: int
  lw_desired :: int
    \<comment> \<open>\<open>DesiredNumberScheduled\<close> of a daemon set\<close>

section \<open>Services, secrets, config maps, disruption budgets\<close>

record service_port =
  sp_name :: string
  sp_port :: int
  sp_target_port :: string
  sp_protocol :: string

record service_ac =
  svc_name :: string
  svc_namespace :: string
  svc_owner_refs :: "owner_ref list"
  svc_labels :: labels
  svc_type :: string
  svc_selector :: labels
  svc_ports :: "service_port list"
  svc_cluster_ip :: "string option"
  svc_publish_not_ready :: bool

record live_service =
  ls_name :: string
  ls_cluster_ip :: string
  ls_lb_ingress :: "string list"

record secret_ac =
  sec_name :: string
  sec_namespace :: string
  sec_owner_refs :: "owner_ref list"
  sec_labels :: labels
  sec_data :: labels
  sec_type :: string

record live_secret =
  lsec_name :: string
  lsec_uid :: string
  lsec_data :: labels

record configmap_ac =
  cma_name :: string
  cma_namespace :: string
  cma_owner_refs :: "owner_ref list"
  cma_labels :: labels
  cma_data :: labels

record live_configmap =
  lcm_data :: labels
  lcm_binary_data :: labels

datatype pdb_bound = PdbUnset | PdbMinAvailable int | PdbMaxUnavailable int

record pdb_ac =
  pdb_name :: string
  pdb_namespace :: string
  pdb_owner_refs :: "owner_ref list"
  pdb_labels :: labels
  pdb_selector :: labels
  pdb_bound :: pdb_bound

section \<open>Network policies\<close>

record np_peer =
  \<comment> \<open>\<open>networkingv1ac.NetworkPolicyPeer\<close>\<close>
  npp_pod_selector :: "labels option"
  npp_namespace_selector :: "labels option"
  npp_ip_block :: "string option"

record np_port =
  npo_port :: int
  npo_protocol :: "string option"

record np_rule =
  npr_ports :: "np_port list"
  npr_peers :: "np_peer list"

record netpol_ac =
  np_name :: string
  np_namespace :: string
  np_owner_refs :: "owner_ref list"
  np_labels :: labels
  np_pod_selector :: labels
  np_policy_types :: "string list"
  np_ingress :: "np_rule list"
  np_egress :: "np_rule list"

record cilium_port =
  cpo_port :: string
  cpo_protocol :: "string option"
  cpo_dns :: "string list"
    \<comment> \<open>the match patterns of the layer-7 DNS rule\<close>

record cilium_rule =
  \<comment> \<open>\<open>api.IngressRule\<close> and \<open>api.EgressRule\<close>: the peers are \<open>From*\<close> or \<open>To*\<close>\<close>
  cr_ports :: "cilium_port list"
  cr_endpoints :: "labels list"
  cr_cidrs :: "string list"
  cr_fqdns :: "string list"
  cr_entities :: "string list"

record cnp =
  cnp_name :: string
  cnp_namespace :: string
  cnp_labels :: labels
  cnp_owner_refs :: "owner_ref list"
  cnp_resource_version :: string
  cnp_endpoint_selector :: labels
  cnp_ingress :: "cilium_rule list option"
  cnp_egress :: "cilium_rule list option"

record live_condition =
  lc_type :: string
  lc_status :: string
  lc_message :: string

record live_cnp =
  lcnp_resource_version :: string
  lcnp_conditions :: "live_condition list"

section \<open>Pods, volume claims and statistics\<close>

record live_pod =
  pod_name :: string
  pod_namespace :: string
  pod_node :: string

record live_pvc =
  lpvc_name :: string
  lpvc_namespace :: string
  lpvc_storage :: quantity

record volume_stats =
  \<comment> \<open>\<open>kubeletstatsv1alpha1.VolumeStats\<close>: \<open>UsedBytes\<close> is a \<open>*uint64\<close>\<close>
  vs_name :: string
  vs_pvc_ref :: "string option"
  vs_used_bytes :: "nat option"

record pod_stats =
  pst_name :: string
  pst_namespace :: string
  pst_volumes :: "volume_stats list"

section \<open>Access control, accounts and endpoints\<close>

record policy_rule =
  pru_api_groups :: "string list"
  pru_resources :: "string list"
  pru_resource_names :: "string list"
  pru_verbs :: "string list"

record role_ac =
  \<comment> \<open>a cluster role if it has no namespace\<close>
  role_name :: string
  role_namespace :: "string option"
  role_rules :: "policy_rule list"

record subject =
  sub_kind :: string
  sub_name :: string
  sub_namespace :: "string option"

record role_binding_ac =
  \<comment> \<open>a cluster role binding if it has no namespace; the API group of the reference is the one of RBAC\<close>
  rb_name :: string
  rb_namespace :: "string option"
  rb_ref_kind :: string
  rb_ref_name :: string
  rb_subjects :: "subject list"

record service_account_ac =
  sa_name :: string
  sa_namespace :: string

record endpoints_ac =
  \<comment> \<open>an \<open>EndpointSlice\<close> (with an address type) or an \<open>Endpoints\<close> with its one subset\<close>
  epa_name :: string
  epa_namespace :: string
  epa_labels :: labels
  epa_address_type :: "string option"
  epa_addresses :: "string list"
  epa_ready :: "bool option"
  epa_port_name :: string
  epa_protocol :: string
  epa_port :: int

section \<open>Kubeconfigs\<close>

text \<open>\<open>clientcmd/api.Config\<close>; an empty text is a field that is not set.\<close>

record kc_cluster =
  kcl_server :: string
  kcl_ca_data :: string
  kcl_ca_file :: string

record kc_context =
  kcx_cluster :: string
  kcx_user :: string

record kc_user =
  kcu_client_certificate :: string
  kcu_client_key :: string
  kcu_token :: string
  kcu_token_file :: string

record api_config =
  kc_clusters :: "(string, kc_cluster) gomap"
  kc_contexts :: "(string, kc_context) gomap"
  kc_current :: string
  kc_users :: "(string, kc_user) gomap"

section \<open>Constants of the Kubernetes APIs\<close>

text \<open>Documented values of constants the source takes from its libraries.\<close>

definition ClusterIPNone :: string where "ClusterIPNone = ''None''"
definition CACertName :: string where "CACertName = ''ca.crt''"
definition TLSCertKey :: string where "TLSCertKey = ''tls.crt''"
definition TLSPrivateKeyKey :: string where "TLSPrivateKeyKey = ''tls.key''"
definition LabelHostname :: string where "LabelHostname = ''kubernetes.io/hostname''"
definition LabelMetadataName :: string where "LabelMetadataName = ''kubernetes.io/metadata.name''"
definition PodNamespaceLabel :: string where "PodNamespaceLabel = ''io.kubernetes.pod.namespace''"
definition PodNamespaceMetaLabelsPrefix :: string where
  "PodNamespaceMetaLabelsPrefix = ''io.cilium.k8s.namespace.labels.''"
definition ServiceAccountVolumeName :: string where "ServiceAccountVolumeName = ''kube-api-access''"
definition DefaultAPITokenMountPath :: string where
  "DefaultAPITokenMountPath = ''/var/run/secrets/kubernetes.io/serviceaccount''"
definition RootCACertConfigMapName :: string where "RootCACertConfigMapName = ''kube-root-ca.crt''"
definition WarnOnlyBoundTokenExpirationSeconds :: int where
  "WarnOnlyBoundTokenExpirationSeconds = 60 * 60 + 7"
definition AppsV1 :: string where "AppsV1 = ''apps/v1''"

end
