(* ===== verification/NetPolicy.thy ===== *)
theory NetPolicy
  imports KubeTypes
begin

text \<open>
  The network policy targets of \<open>pkg/util/networkpolicy/target.go\<close>: what a target adds to a peer of a
  Kubernetes \<open>NetworkPolicy\<close> and to a peer of a Cilium policy. The two Go interfaces are two datatypes, so
  that a target occurs exactly in the interface it implements (the \<open>var _ I = T{}\<close> lines).
  A map that the code compares with \<open>nil\<close> is an \<open>option\<close>.
\<close>

record CiliumPolicyPeer =
  Endpoints :: "labels list"
  CIDR :: "string list"
  FQDNs :: "string list"
  Identities :: "string list"

definition CiliumPolicyPeer0 :: CiliumPolicyPeer where
  "CiliumPolicyPeer0 = \<lparr>Endpoints = [], CIDR = [], FQDNs = [], Identities = []\<rparr>"

definition np_peer0 :: np_peer where
  "np_peer0 = \<lparr>npp_pod_selector = None, npp_namespace_selector = None, npp_ip_block = None\<rparr>"

section \<open>The targets\<close>

datatype CIDRTarget = CIDRNetworkPolicyTarget string
datatype DNSTarget = DNSNetworkPolicyTarget string
datatype APIServerTarget = APIServerNetworkPolicyTarget HostedControlPlane
datatype ComponentTarget = ComponentNetworkPolicyTarget Cluster string
datatype LabelTarget = LabelNetworkPolicyTarget "labels option" "labels option"
datatype HCPControllerTarget = HCPControllerNetworkPolicyTarget string

datatype IngressNetworkPolicyTarget =
    InCIDR CIDRTarget
  | InWorld
  | InAPIServer APIServerTarget
  | InInCluster
  | InComponent ComponentTarget
  | InLabel LabelTarget
  | InHCPController HCPControllerTarget

datatype EgressNetworkPolicyTarget =
    EgDNS DNSTarget
  | EgCIDR CIDRTarget
  | EgCluster
  | EgWorld
  | EgAPIServer APIServerTarget
  | EgInCluster
  | EgComponent ComponentTarget
  | EgLabel LabelTarget

definition NewCIDRNetworkPolicyTarget :: "string \<Rightarrow> CIDRTarget" where
  "NewCIDRNetworkPolicyTarget cidr = CIDRNetworkPolicyTarget cidr"

definition NewIPNetworkPolicyTarget :: "string \<Rightarrow> CIDRTarget" where
  "NewIPNetworkPolicyTarget ip = CIDRNetworkPolicyTarget (ip @ ''/32'')"

definition NewLabelNetworkPolicyTarget :: "labels option \<Rightarrow> labels option \<Rightarrow> LabelTarget" where
  "NewLabelNetworkPolicyTarget podLabels namespaceLabels = LabelNetworkPolicyTarget podLabels namespaceLabels"

definition NewNamespaceLabelNetworkPolicyTarget :: "labels option \<Rightarrow> LabelTarget" where
  "NewNamespaceLabelNetworkPolicyTarget namespaceLabels = LabelNetworkPolicyTarget None namespaceLabels"

section \<open>CIDR and DNS\<close>

fun CIDR_kubernetes_ingress :: "CIDRTarget \<Rightarrow> np_peer \<Rightarrow> np_peer" where
  "CIDR_kubernetes_ingress (CIDRNetworkPolicyTarget c) p = p\<lparr>npp_ip_block := Some c\<rparr>"

definition CIDR_kubernetes_egress :: "CIDRTarget \<Rightarrow> np_peer \<Rightarrow> np_peer" where
  "CIDR_kubernetes_egress c p = CIDR_kubernetes_ingress c p"

fun CIDR_cilium_ingress :: "CIDRTarget \<Rightarrow> CiliumPolicyPeer \<Rightarrow> CiliumPolicyPeer" where
  "CIDR_cilium_ingress (CIDRNetworkPolicyTarget c) p = p\<lparr>CIDR := CIDR p @ [c]\<rparr>"

definition CIDR_cilium_egress :: "CIDRTarget \<Rightarrow> CiliumPolicyPeer \<Rightarrow> CiliumPolicyPeer" where
  "CIDR_cilium_egress c p = CIDR_cilium_ingress c p"

definition anywhere :: "np_peer \<Rightarrow> np_peer" where
  \<comment> \<open>what the targets fall back to that a NetworkPolicy cannot express\<close>
  "anywhere p = CIDR_kubernetes_ingress (NewCIDRNetworkPolicyTarget ''0.0.0.0/0'') p"

definition DNS_kubernetes_egress :: "DNSTarget \<Rightarrow> np_peer \<Rightarrow> np_peer" where
  "DNS_kubernetes_egress d p = anywhere p"

fun DNS_cilium_egress :: "DNSTarget \<Rightarrow> CiliumPolicyPeer \<Rightarrow> CiliumPolicyPeer" where
  "DNS_cilium_egress (DNSNetworkPolicyTarget h) p = p\<lparr>FQDNs := FQDNs p @ [h]\<rparr>"

section \<open>Cluster, world and the API servers\<close>

definition Cluster_kubernetes_egress :: "np_peer \<Rightarrow> np_peer" where
  "Cluster_kubernetes_egress p = anywhere p"

definition Cluster_cilium_egress :: "CiliumPolicyPeer \<Rightarrow> CiliumPolicyPeer" where
  "Cluster_cilium_egress p = p\<lparr>Identities := Identities p @ [''cluster'']\<rparr>"

definition World_kubernetes_ingress :: "np_peer \<Rightarrow> np_peer" where
  "World_kubernetes_ingress p = anywhere p"

definition World_kubernetes_egress :: "np_peer \<Rightarrow> np_peer" where
  "World_kubernetes_egress p = World_kubernetes_ingress p"

definition World_cilium_ingress :: "CiliumPolicyPeer \<Rightarrow> CiliumPolicyPeer" where
  "World_cilium_ingress p = p\<lparr>Identities := Identities p @ [''world'']\<rparr>"

definition World_cilium_egress :: "CiliumPolicyPeer \<Rightarrow> CiliumPolicyPeer" where
  "World_cilium_egress p = World_cilium_ingress p"

fun APIServer_kubernetes_ingress :: "APIServerTarget \<Rightarrow> np_peer \<Rightarrow> np_peer" where
  "APIServer_kubernetes_ingress (APIServerNetworkPolicyTarget hcp) p =
     CIDR_kubernetes_ingress (NewIPNetworkPolicyTarget (LegacyIP (Status hcp))) p"

definition APIServer_kubernetes_egress :: "APIServerTarget \<Rightarrow> np_peer \<Rightarrow> np_peer" where
  "APIServer_kubernetes_egress a p = APIServer_kubernetes_ingress a p"

definition APIServer_cilium_ingress :: "APIServerTarget \<Rightarrow> CiliumPolicyPeer \<Rightarrow> CiliumPolicyPeer" where
  "APIServer_cilium_ingress a p = p\<lparr>Identities := Identities p @ [''kube-apiserver'']\<rparr>"

definition APIServer_cilium_egress :: "APIServerTarget \<Rightarrow> CiliumPolicyPeer \<Rightarrow> CiliumPolicyPeer" where
  "APIServer_cilium_egress a p = APIServer_cilium_ingress a p"

definition InCluster_kubernetes_ingress :: "np_peer \<Rightarrow> np_peer" where
  "InCluster_kubernetes_ingress p = anywhere p"

definition InCluster_kubernetes_egress :: "np_peer \<Rightarrow> np_peer" where
  "InCluster_kubernetes_egress p = InCluster_kubernetes_ingress p"

definition InCluster_cilium_ingress :: "CiliumPolicyPeer \<Rightarrow> CiliumPolicyPeer" where
  "InCluster_cilium_ingress p = p\<lparr>Identities := Identities p @ [''kube-apiserver'']\<rparr>"

definition InCluster_cilium_egress :: "CiliumPolicyPeer \<Rightarrow> CiliumPolicyPeer" where
  "InCluster_cilium_egress p = InCluster_cilium_ingress p"

section \<open>Labels and components\<close>

fun Label_kubernetes_ingress :: "LabelTarget \<Rightarrow> np_peer \<Rightarrow> np_peer" where
  "Label_kubernetes_ingress (LabelNetworkPolicyTarget podLabels namespaceLabels) p =
     (let p1 = (if podLabels = None
                then p\<lparr>npp_pod_selector := Some (case podLabels of None \<Rightarrow> [] | Some l \<Rightarrow> l)\<rparr> else p);
          p2 = (case namespaceLabels of None \<Rightarrow> p1 | Some l \<Rightarrow> p1\<lparr>npp_namespace_selector := Some l\<rparr>)
      in p2)"

definition Label_kubernetes_egress :: "LabelTarget \<Rightarrow> np_peer \<Rightarrow> np_peer" where
  "Label_kubernetes_egress l p = Label_kubernetes_ingress l p"

fun Label_cilium_ingress :: "LabelTarget \<Rightarrow> CiliumPolicyPeer \<Rightarrow> CiliumPolicyPeer" where
  "Label_cilium_ingress (LabelNetworkPolicyTarget podLabels namespaceLabels) p =
     (let p1 = (case podLabels of None \<Rightarrow> p | Some l \<Rightarrow> p\<lparr>Endpoints := Endpoints p @ [l]\<rparr>);
          p2 = (case namespaceLabels of None \<Rightarrow> p1
                | Some l \<Rightarrow> p1\<lparr>Endpoints := Endpoints p1
                    @ [map (\<lambda>(k, v). (PodNamespaceMetaLabelsPrefix @ k, v)) l]\<rparr>)
      in p2)"

definition Label_cilium_egress :: "LabelTarget \<Rightarrow> CiliumPolicyPeer \<Rightarrow> CiliumPolicyPeer" where
  "Label_cilium_egress l p = Label_cilium_ingress l p"

fun Component_kubernetes_ingress :: "ComponentTarget \<Rightarrow> np_peer \<Rightarrow> np_peer" where
  "Component_kubernetes_ingress (ComponentNetworkPolicyTarget cluster component) p =
     Label_kubernetes_ingress
       (NewLabelNetworkPolicyTarget (Some (GetControlPlaneLabels cluster component))
         (Some [(LabelMetadataName, ClusterNamespace cluster)])) p"

definition Component_kubernetes_egress :: "ComponentTarget \<Rightarrow> np_peer \<Rightarrow> np_peer" where
  "Component_kubernetes_egress c p = Component_kubernetes_ingress c p"

fun Component_cilium_ingress :: "ComponentTarget \<Rightarrow> CiliumPolicyPeer \<Rightarrow> CiliumPolicyPeer" where
  "Component_cilium_ingress (ComponentNetworkPolicyTarget cluster component) p =
     (let l = mput PodNamespaceLabel (ClusterNamespace cluster) (GetControlPlaneLabels cluster component)
      in p\<lparr>Endpoints := Endpoints p @ [l]\<rparr>)"

definition Component_cilium_egress :: "ComponentTarget \<Rightarrow> CiliumPolicyPeer \<Rightarrow> CiliumPolicyPeer" where
  "Component_cilium_egress c p = Component_cilium_ingress c p"

fun HCPController_kubernetes_ingress :: "HCPControllerTarget \<Rightarrow> np_peer \<Rightarrow> np_peer" where
  "HCPController_kubernetes_ingress (HCPControllerNetworkPolicyTarget ns) p =
     Label_kubernetes_ingress (NewNamespaceLabelNetworkPolicyTarget (Some [(LabelMetadataName, ns)])) p"

fun HCPController_cilium_ingress :: "HCPControllerTarget \<Rightarrow> CiliumPolicyPeer \<Rightarrow> CiliumPolicyPeer" where
  "HCPController_cilium_ingress (HCPControllerNetworkPolicyTarget ns) p =
     Label_cilium_ingress (NewNamespaceLabelNetworkPolicyTarget (Some [(LabelMetadataName, ns)])) p"

section \<open>The interface methods\<close>

fun ApplyToKubernetesIngressNetworkPolicy :: "IngressNetworkPolicyTarget \<Rightarrow> np_peer \<Rightarrow> np_peer" where
  "ApplyToKubernetesIngressNetworkPolicy (InCIDR c) p = CIDR_kubernetes_ingress c p"
| "ApplyToKubernetesIngressNetworkPolicy InWorld p = World_kubernetes_ingress p"
| "ApplyToKubernetesIngressNetworkPolicy (InAPIServer a) p = APIServer_kubernetes_ingress a p"
| "ApplyToKubernetesIngressNetworkPolicy InInCluster p = InCluster_kubernetes_ingress p"
| "ApplyToKubernetesIngressNetworkPolicy (InComponent c) p = Component_kubernetes_ingress c p"
| "ApplyToKubernetesIngressNetworkPolicy (InLabel l) p = Label_kubernetes_ingress l p"
| "ApplyToKubernetesIngressNetworkPolicy (InHCPController h) p = HCPController_kubernetes_ingress h p"

fun ApplyToCiliumIngressNetworkPolicy :: "IngressNetworkPolicyTarget \<Rightarrow> CiliumPolicyPeer \<Rightarrow> CiliumPolicyPeer" where
  "ApplyToCiliumIngressNetworkPolicy (InCIDR c) p = CIDR_cilium_ingress c p"
| "ApplyToCiliumIngressNetworkPolicy InWorld p = World_cilium_ingress p"
| "ApplyToCiliumIngressNetworkPolicy (InAPIServer a) p = APIServer_cilium_ingress a p"
| "ApplyToCiliumIngressNetworkPolicy InInCluster p = InCluster_cilium_ingress p"
| "ApplyToCiliumIngressNetworkPolicy (InComponent c) p = Component_cilium_ingress c p"
| "ApplyToCiliumIngressNetworkPolicy (InLabel l) p = Label_cilium_ingress l p"
| "ApplyToCiliumIngressNetworkPolicy (InHCPController h) p = HCPController_cilium_ingress h p"

fun ApplyToKubernetesEgressNetworkPolicy :: "EgressNetworkPolicyTarget \<Rightarrow> np_peer \<Rightarrow> np_peer" where
  "ApplyToKubernetesEgressNetworkPolicy (EgDNS d) p = DNS_kubernetes_egress d p"
| "ApplyToKubernetesEgressNetworkPolicy (EgCIDR c) p = CIDR_kubernetes_egress c p"
| "ApplyToKubernetesEgressNetworkPolicy EgCluster p = Cluster_kubernetes_egress p"
| "ApplyToKubernetesEgressNetworkPolicy EgWorld p = World_kubernetes_egress p"
| "ApplyToKubernetesEgressNetworkPolicy (EgAPIServer a) p = APIServer_kubernetes_egress a p"
| "ApplyToKubernetesEgressNetworkPolicy EgInCluster p = InCluster_kubernetes_egress p"
| "ApplyToKubernetesEgressNetworkPolicy (EgComponent c) p = Component_kubernetes_egress c p"
| "ApplyToKubernetesEgressNetworkPolicy (EgLabel l) p = Label_kubernetes_egress l p"

fun ApplyToCiliumEgressNetworkPolicy :: "EgressNetworkPolicyTarget \<Rightarrow> CiliumPolicyPeer \<Rightarrow> CiliumPolicyPeer" where
  "ApplyToCiliumEgressNetworkPolicy (EgDNS d) p = DNS_cilium_egress d p"
| "ApplyToCiliumEgressNetworkPolicy (EgCIDR c) p = CIDR_cilium_egress c p"
| "ApplyToCiliumEgressNetworkPolicy EgCluster p = Cluster_cilium_egress p"
| "ApplyToCiliumEgressNetworkPolicy EgWorld p = World_cilium_egress p"
| "ApplyToCiliumEgressNetworkPolicy (EgAPIServer a) p = APIServer_cilium_egress a p"
| "ApplyToCiliumEgressNetworkPolicy EgInCluster p = InCluster_cilium_egress p"
| "ApplyToCiliumEgressNetworkPolicy (EgComponent c) p = Component_cilium_egress c p"
| "ApplyToCiliumEgressNetworkPolicy (EgLabel l) p = Label_cilium_egress l p"

section \<open>What a peer admits\<close>

text \<open>
  The documented meaning of a peer, for a pod with the labels \<open>pl\<close> in a namespace with the labels \<open>nl\<close>
  (as maps). In Kubernetes a missing selector does not restrict, except that without a namespace selector
  only the policy's own namespace is meant; \<open>own\<close> says that the pod is in it. In Cilium the endpoint
  selectors are alternatives; a selector sees the pod's labels together with the name of its namespace.
\<close>

definition selects :: "labels \<Rightarrow> (string \<rightharpoonup> string) \<Rightarrow> bool" where
  "selects sel m \<longleftrightarrow> list_all (\<lambda>(k, v). m k = Some v) sel"

definition np_peer_admits :: "np_peer \<Rightarrow> bool \<Rightarrow> (string \<rightharpoonup> string) \<Rightarrow> (string \<rightharpoonup> string) \<Rightarrow> bool" where
  "np_peer_admits p own pl nl \<longleftrightarrow>
     npp_ip_block p = None
     \<and> (npp_pod_selector p \<noteq> None \<or> npp_namespace_selector p \<noteq> None)
     \<and> (case npp_namespace_selector p of None \<Rightarrow> own | Some s \<Rightarrow> selects s nl)
     \<and> (case npp_pod_selector p of None \<Rightarrow> True | Some s \<Rightarrow> selects s pl)"

definition cilium_peer_admits :: "CiliumPolicyPeer \<Rightarrow> (string \<rightharpoonup> string) \<Rightarrow> string \<Rightarrow> bool" where
  "cilium_peer_admits p pl ns \<longleftrightarrow> list_ex (\<lambda>s. selects s (pl(PodNamespaceLabel \<mapsto> ns))) (Endpoints p)"

lemma selects_iff: "gomap_ok sel \<Longrightarrow> selects sel m \<longleftrightarrow> map_of sel \<subseteq>\<^sub>m m"
  by (auto simp: selects_def list_all_iff map_le_def gomap_ok_def dom_def)

lemma component_kubernetes_admits:
  "np_peer_admits (ApplyToKubernetesIngressNetworkPolicy
      (InComponent (ComponentNetworkPolicyTarget cluster component)) np_peer0) own pl nl
    \<longleftrightarrow> nl LabelMetadataName = Some (ClusterNamespace cluster)"
  by (simp add: np_peer_admits_def NewLabelNetworkPolicyTarget_def np_peer0_def selects_def)

lemma component_cilium_admits:
  assumes "pl PodNamespaceLabel = None"
  shows "cilium_peer_admits (ApplyToCiliumIngressNetworkPolicy
      (InComponent (ComponentNetworkPolicyTarget cluster component)) CiliumPolicyPeer0) pl ns
    \<longleftrightarrow> ns = ClusterNamespace cluster \<and> map_of (GetControlPlaneLabels cluster component) \<subseteq>\<^sub>m pl"
proof -
  let ?l = "GetControlPlaneLabels cluster component"
  have ne: "PodNamespaceLabel \<noteq> ClusterNameLabel" "PodNamespaceLabel \<noteq> ''app.kubernetes.io/component''"
    by (simp_all add: PodNamespaceLabel_def ClusterNameLabel_def)
  then have free: "map_of ?l PodNamespaceLabel = None"
    by (simp add: map_of_GetControlPlaneLabels)
  have "cilium_peer_admits (ApplyToCiliumIngressNetworkPolicy
      (InComponent (ComponentNetworkPolicyTarget cluster component)) CiliumPolicyPeer0) pl ns
    \<longleftrightarrow> (map_of ?l)(PodNamespaceLabel \<mapsto> ClusterNamespace cluster) \<subseteq>\<^sub>m pl(PodNamespaceLabel \<mapsto> ns)"
    by (simp add: cilium_peer_admits_def CiliumPolicyPeer0_def Let_def selects_iff)
  also have "\<dots> \<longleftrightarrow> ns = ClusterNamespace cluster \<and> map_of ?l \<subseteq>\<^sub>m pl"
    using free assms by (auto simp: map_le_def dom_def split: if_splits)
  finally show ?thesis .
qed

text \<open>
  C31: where the cluster has Cilium, a component target admits exactly the pods of that component in the
  namespace of the cluster; the plain Kubernetes peer of the same target admits every pod of that
  namespace, whatever its labels.
\<close>

theorem component_target_pods:
  assumes "pl PodNamespaceLabel = None"
  shows "(cilium_peer_admits (ApplyToCiliumIngressNetworkPolicy
        (InComponent (ComponentNetworkPolicyTarget cluster component)) CiliumPolicyPeer0) pl ns
      \<longleftrightarrow> ns = ClusterNamespace cluster \<and> map_of (GetControlPlaneLabels cluster component) \<subseteq>\<^sub>m pl)
    \<and> (np_peer_admits (ApplyToKubernetesIngressNetworkPolicy
        (InComponent (ComponentNetworkPolicyTarget cluster component)) np_peer0) own pl nl
      \<longleftrightarrow> nl LabelMetadataName = Some (ClusterNamespace cluster))"
  by (rule conjI [OF component_cilium_admits [where pl = pl, OF assms] component_kubernetes_admits])

theorem component_target_pods_witness:
  "\<not> cilium_peer_admits (ApplyToCiliumIngressNetworkPolicy
      (InComponent (ComponentNetworkPolicyTarget wit_cluster ''etcd'')) CiliumPolicyPeer0)
      [''app'' \<mapsto> ''shell''] ''prod''
   \<and> np_peer_admits (ApplyToKubernetesIngressNetworkPolicy
      (InComponent (ComponentNetworkPolicyTarget wit_cluster ''etcd'')) np_peer0) True
      [''app'' \<mapsto> ''shell''] [LabelMetadataName \<mapsto> ''prod'']"
proof -
  have free: "[''app'' \<mapsto> ''shell''] PodNamespaceLabel = None"
    by (simp add: PodNamespaceLabel_def)
  have "\<not> map_of (GetControlPlaneLabels wit_cluster ''etcd'') \<subseteq>\<^sub>m [''app'' \<mapsto> ''shell'']"
    by (simp add: map_of_GetControlPlaneLabels map_le_def ClusterNameLabel_def)
  then show ?thesis
    using component_target_pods [where pl = "[''app'' \<mapsto> ''shell'']" and ns = "''prod''" and own = True
        and nl = "[LabelMetadataName \<mapsto> ''prod'']" and cluster = wit_cluster and component = "''etcd''",
        OF free]
    by (simp add: wit_cluster_def)
qed

end
