(* ===== verification/Effects.thy ===== *)
theory Effects
  imports NetPolicy
begin

text \<open>
  The outside of the controller: the objects of cert-manager, of the Gateway API and of Cluster API, the
  clients of all API servers, the recorder and the clock, and the world a reconciler runs in.

  A client is a record of functions of the environment \<open>'e\<close>, about which nothing is assumed: an
  environment answers every call with an error or a result and a new environment, so a theorem over all
  clients covers every behaviour of the servers. The world keeps the environment, the log of all calls
  in the order in which they were made, the recorded events, and the \<open>HostedControlPlane\<close> that the
  reconcilers share through a pointer and change in place.
\<close>

section \<open>cert-manager, Gateway API, Cluster API\<close>

record cert_spec =
  cs_issuer :: string
  cs_common_name :: string
  cs_secret_name :: string
  cs_is_ca :: bool
  cs_usages :: "string list"
  cs_rotation_policy :: "string option"
  cs_duration :: duration
  cs_renew_before :: int
  cs_dns_names :: "string list"
  cs_ips :: "string list"
  cs_organizations :: "string list"
  cs_revision_limit :: "int option"
  cs_secret_labels :: "labels option"

record certificate_ac =
  cert_name :: string
  cert_namespace :: string
  cert_labels :: labels
  cert_owner_refs :: "owner_ref list"
  cert_spec_of :: cert_spec

record live_certificate =
  lcert_name :: string
  lcert_secret_name :: string
  lcert_not_before :: "gtime option"
  lcert_conditions :: "live_condition list"
  lcert_owner_refs :: "owner_ref list"

record issuer_ac =
  iss_name :: string
  iss_namespace :: string
  iss_labels :: labels
  iss_owner_refs :: "owner_ref list"
  iss_ca_secret :: "string option"
    \<comment> \<open>\<open>None\<close>: self-signed\<close>

record live_issuer =
  liss_conditions :: "live_condition list"

record backend_ref =
  br_name :: string
  br_port :: int
  br_weight :: int

record tlsroute_ac =
  tr_name :: string
  tr_namespace :: string
  tr_labels :: labels
  tr_owner_refs :: "owner_ref list"
  tr_hostnames :: "string list"
  tr_parents :: "(string \<times> string) list"
  tr_backends :: "backend_ref list"

record route_parent =
  rp_name :: string
  rp_conditions :: "live_condition list"

record live_listener =
  ll_protocol :: string
  ll_hostname :: "string option"

record infra_cluster =
  \<comment> \<open>the unstructured infrastructure object: its identity and its \<open>spec.controlPlaneEndpoint\<close>\<close>
  ic_id :: string
  ic_endpoint :: "APIEndpoint option"

record machine_deployment =
  md_name :: string
  md_namespace :: string
  md_rollout_after :: gtime

record machine_pool =
  mp_name :: string
  mp_namespace :: string
  mp_annotations :: "labels option"

datatype alarm_type = AlarmNone | AlarmNoSpace | AlarmCorrupt

record alarm_member =
  al_member :: nat
  al_alarm :: alarm_type

record etcd_status =
  \<comment> \<open>\<open>clientv3.StatusResponse\<close>: the two sizes are \<open>int64\<close>\<close>
  es_db_size :: int
  es_db_size_in_use :: int

section \<open>The calls\<close>

datatype (plugins only: code size) call =
    CServiceApply service_ac
  | CWorkloadGet string string string
  | CWorkloadApply workload_ac
  | CWorkloadDelete string string string string
  | CSecretGet string string
  | CSecretApply secret_ac
  | CSecretDelete string string
  | CConfigMapGet string string
  | CConfigMapApply configmap_ac
  | CConfigMapDelete string string
  | CPdbApply pdb_ac
  | CPdbDelete string string
  | CNetpolApply netpol_ac
  | CNetpolDelete string string
  | CCnpGet string string
  | CCnpCreate cnp
  | CCnpUpdate cnp
  | CCnpDelete string string
  | CPodList string labels
  | CPvcList string labels
  | CPvcApply pvc_ac
  | CNodeStats string
  | CIssuerApply issuer_ac
  | CCertificateApply certificate_ac
  | CCertificateGet string string
  | CCertificateList string labels
  | CCertificateDelete string string
  | CTLSRouteApply tlsroute_ac
  | CGatewayGet string string
  | CInfraGet
  | CInfraPatch infra_cluster
  | CMachineDeploymentList string labels
  | CMachineDeploymentPatch machine_deployment
  | CMachinePoolList string labels
  | CMachinePoolPatch machine_pool
  | CEtcdNewClient string
  | CEtcdStatus string
  | CEtcdDefragment string
  | CEtcdSnapshot string
  | CEtcdAlarmList string
  | CEtcdAlarmDisarm string alarm_member
  | CEtcdClose string
  | CS3Upload string string
  | CServerGroups
  | CHcpGet string string
  | CHcpFinalizer string
  | CHcpPaused
  | CHcpPatch HostedControlPlane HostedControlPlane "string list"
  | CHcpList string
  | COwnerCluster
  | CServiceAccountApply service_account_ac
  | CServiceAccountDelete string string
  | CRoleApply role_ac
  | CRoleDelete "string option" string
  | CRoleBindingApply role_binding_ac
  | CRoleBindingDelete "string option" string
  | CNodeList
  | CEndpointSliceApply endpoints_ac
  | CEndpointsApply endpoints_ac

record event =
  ev_warning :: bool
  ev_reason :: string
  ev_action :: string

record 'e world =
  env :: 'e
  clog :: "call list"
  events :: "event list"
  hcp :: HostedControlPlane

type_synonym ('e, 'a) op = "'e \<Rightarrow> (gerr + 'a) \<times> 'e"
type_synonym ('e, 'a) act = "('e world, 'a) gom"

definition invoke :: "call \<Rightarrow> ('e, 'a) op \<Rightarrow> ('e, 'a) act" where
  "invoke c f w = (case f (env w) of (r, e) \<Rightarrow> (r, w\<lparr>env := e, clog := clog w @ [c]\<rparr>))"

text \<open>\<open>emit.Info\<close> and \<open>emit.Warn\<close> with the recorder sink.\<close>

definition emit :: "bool \<Rightarrow> string \<Rightarrow> string \<Rightarrow> ('e, unit) act" where
  "emit warning reason action =
     gmod (\<lambda>w. w\<lparr>events := events w @ [\<lparr>ev_warning = warning, ev_reason = reason, ev_action = action\<rparr>]\<rparr>)"

definition get_hcp :: "('e, HostedControlPlane) act" where
  "get_hcp = gget hcp"

definition mod_status :: "(HostedControlPlaneStatus \<Rightarrow> HostedControlPlaneStatus) \<Rightarrow> ('e, unit) act" where
  "mod_status f = gmod (\<lambda>w. w\<lparr>hcp := (hcp w)\<lparr>Status := f (Status (hcp w))\<rparr>\<rparr>)"

definition mod_hcp :: "(HostedControlPlane \<Rightarrow> HostedControlPlane) \<Rightarrow> ('e, unit) act" where
  "mod_hcp f = gmod (\<lambda>w. w\<lparr>hcp := f (hcp w)\<rparr>)"

section \<open>The clients\<close>

text \<open>The management cluster: the parts of \<open>kubernetes.Interface\<close> and of the Cilium clientset that are used.\<close>

record 'e core_api =
  k_service_apply :: "service_ac \<Rightarrow> ('e, live_service) op"
  k_workload_get :: "string \<Rightarrow> string \<Rightarrow> string \<Rightarrow> ('e, live_workload) op"
  k_workload_apply :: "workload_ac \<Rightarrow> ('e, live_workload) op"
  k_workload_delete :: "string \<Rightarrow> string \<Rightarrow> string \<Rightarrow> string \<Rightarrow> ('e, unit) op"
  k_secret_get :: "string \<Rightarrow> string \<Rightarrow> ('e, live_secret) op"
  k_secret_apply :: "secret_ac \<Rightarrow> ('e, unit) op"
  k_secret_delete :: "string \<Rightarrow> string \<Rightarrow> ('e, unit) op"
  k_configmap_get :: "string \<Rightarrow> string \<Rightarrow> ('e, live_configmap) op"
  k_configmap_apply :: "configmap_ac \<Rightarrow> ('e, unit) op"
  k_configmap_delete :: "string \<Rightarrow> string \<Rightarrow> ('e, unit) op"
  k_pdb_apply :: "pdb_ac \<Rightarrow> ('e, unit) op"
  k_pdb_delete :: "string \<Rightarrow> string \<Rightarrow> ('e, unit) op"
  k_netpol_apply :: "netpol_ac \<Rightarrow> ('e, unit) op"
  k_netpol_delete :: "string \<Rightarrow> string \<Rightarrow> ('e, unit) op"
  k_pod_list :: "string \<Rightarrow> labels \<Rightarrow> ('e, live_pod list) op"
  k_pvc_list :: "string \<Rightarrow> labels \<Rightarrow> ('e, live_pvc list) op"
  k_pvc_apply :: "pvc_ac \<Rightarrow> ('e, unit) op"
  k_node_stats :: "string \<Rightarrow> ('e, string) op"

text \<open>What else of \<open>kubernetes.Interface\<close> the workload cluster is asked for: \<open>k_node_list\<close> counts the nodes.\<close>

record 'e workload_api =
  k_core :: "'e core_api"
  k_service_account_apply :: "service_account_ac \<Rightarrow> ('e, unit) op"
  k_service_account_delete :: "string \<Rightarrow> string \<Rightarrow> ('e, unit) op"
  k_role_apply :: "role_ac \<Rightarrow> ('e, unit) op"
  k_role_delete :: "string option \<Rightarrow> string \<Rightarrow> ('e, unit) op"
  k_role_binding_apply :: "role_binding_ac \<Rightarrow> ('e, unit) op"
  k_role_binding_delete :: "string option \<Rightarrow> string \<Rightarrow> ('e, unit) op"
  k_node_list :: "('e, nat) op"
  k_endpoint_slice_apply :: "endpoints_ac \<Rightarrow> ('e, unit) op"
  k_endpoints_apply :: "endpoints_ac \<Rightarrow> ('e, unit) op"

record 'e cilium_api =
  k_cnp_get :: "string \<Rightarrow> string \<Rightarrow> ('e, live_cnp) op"
  k_cnp_create :: "cnp \<Rightarrow> ('e, live_cnp) op"
  k_cnp_update :: "cnp \<Rightarrow> ('e, live_cnp) op"
  k_cnp_delete :: "string \<Rightarrow> string \<Rightarrow> ('e, unit) op"

record 'e cert_api =
  k_issuer_apply :: "issuer_ac \<Rightarrow> ('e, live_issuer) op"
  k_certificate_apply :: "certificate_ac \<Rightarrow> ('e, live_certificate) op"
  k_certificate_get :: "string \<Rightarrow> string \<Rightarrow> ('e, live_certificate) op"
  k_certificate_list :: "string \<Rightarrow> labels \<Rightarrow> ('e, live_certificate list) op"
  k_certificate_delete :: "string \<Rightarrow> string \<Rightarrow> ('e, unit) op"

record 'e capi_api =
  k_gateway_get :: "string \<Rightarrow> string \<Rightarrow> ('e, live_listener list) op"
  k_tlsroute_apply :: "tlsroute_ac \<Rightarrow> ('e, route_parent list) op"
  k_infra_get :: "('e, infra_cluster) op"
  k_infra_patch :: "infra_cluster \<Rightarrow> ('e, unit) op"
  k_md_list :: "string \<Rightarrow> labels \<Rightarrow> ('e, machine_deployment list) op"
  k_md_patch :: "machine_deployment \<Rightarrow> ('e, unit) op"
  k_mp_list :: "string \<Rightarrow> labels \<Rightarrow> ('e, machine_pool list) op"
  k_mp_patch :: "machine_pool \<Rightarrow> ('e, unit) op"

text \<open>The clock, \<open>time.Now\<close>: reading it may change the environment, the time only has to be read there.\<close>

type_synonym 'e clock = "'e \<Rightarrow> gtime \<times> 'e"

definition now :: "'e clock \<Rightarrow> ('e, gtime) act" where
  "now clk w = (case clk (env w) of (t, e) \<Rightarrow> (Inr t, w\<lparr>env := e\<rparr>))"

text \<open>A failed delete is tolerated where the code tests \<open>err != nil && !apierrors.IsNotFound(err)\<close>.\<close>

definition ignore_not_found :: "('s, unit) gom \<Rightarrow> ('s, unit) gom" where
  "ignore_not_found m =
     gbind (gtry m) (\<lambda>r. case r of
       Inr _ \<Rightarrow> gret ()
     | Inl err \<Rightarrow> if is_not_found err then gret () else gfail err)"

section \<open>What is kept\<close>

text \<open>The log only grows: nothing that was sent is taken back.\<close>

definition log_extends :: "'e world \<Rightarrow> 'e world \<Rightarrow> bool" where
  "log_extends w w' \<longleftrightarrow> (\<exists>cs. clog w' = clog w @ cs)"

definition same_hcp :: "'e world \<Rightarrow> 'e world \<Rightarrow> bool" where
  "same_hcp w w' \<longleftrightarrow> hcp w' = hcp w"

text \<open>All calls made in between satisfy \<open>P\<close>.\<close>

definition calls_ok :: "(call \<Rightarrow> bool) \<Rightarrow> 'e world \<Rightarrow> 'e world \<Rightarrow> bool" where
  "calls_ok P w w' \<longleftrightarrow> (\<exists>cs. clog w' = clog w @ cs \<and> list_all P cs)"

lemma reflp_same_hcp [keeps_intros, simp]: "reflp same_hcp"
  by (simp add: reflp_def same_hcp_def)

lemma transp_same_hcp [keeps_intros, simp]: "transp same_hcp"
  by (simp add: transp_def same_hcp_def)

lemma reflp_calls_ok [keeps_intros, simp]: "reflp (calls_ok P)"
  by (simp add: reflp_def calls_ok_def)

lemma transp_calls_ok [keeps_intros, simp]: "transp (calls_ok P)"
  by (rule transpI) (auto simp: calls_ok_def)

lemma keeps_same_hcp_invoke [keeps_intros]: "keeps same_hcp (invoke c f)"
  by (simp add: keeps_def invoke_def same_hcp_def split: prod.split)

lemma keeps_calls_ok_invoke [keeps_intros]: "P c \<Longrightarrow> keeps (calls_ok P) (invoke c f)"
  by (simp add: keeps_def invoke_def calls_ok_def split: prod.split)

lemma keeps_same_hcp_emit [keeps_intros]: "keeps same_hcp (emit a b c)"
  by (simp add: keeps_def emit_def gmod_def same_hcp_def)

lemma keeps_calls_ok_emit [keeps_intros]: "keeps (calls_ok P) (emit a b c)"
  by (simp add: keeps_def emit_def gmod_def calls_ok_def)

lemma keeps_same_hcp_now [keeps_intros]: "keeps same_hcp (now clk)"
  by (simp add: keeps_def now_def same_hcp_def split: prod.split)

lemma keeps_calls_ok_now [keeps_intros]: "keeps (calls_ok P) (now clk)"
  by (simp add: keeps_def now_def calls_ok_def split: prod.split)

lemma keeps_get_hcp [keeps_intros]: "reflp R \<Longrightarrow> keeps R get_hcp"
  by (simp add: get_hcp_def keeps_gget)

lemma keeps_calls_ok_mod_status [keeps_intros]: "keeps (calls_ok P) (mod_status f)"
  by (simp add: keeps_def mod_status_def gmod_def calls_ok_def)

lemma keeps_calls_ok_mod_hcp [keeps_intros]: "keeps (calls_ok P) (mod_hcp f)"
  by (simp add: keeps_def mod_hcp_def gmod_def calls_ok_def)

lemma keeps_ignore_not_found [keeps_intros]:
  "reflp R \<Longrightarrow> transp R \<Longrightarrow> keeps R m \<Longrightarrow> keeps R (ignore_not_found m)"
  unfolding ignore_not_found_def
  by (intro keeps_gbind keeps_gtry) (simp_all add: keeps_gret keeps_gfail split: sum.split)

lemma calls_ok_mono: "calls_ok P w w' \<Longrightarrow> (\<And>c. P c \<Longrightarrow> Q c) \<Longrightarrow> calls_ok Q w w'"
  by (auto simp: calls_ok_def list_all_iff)

lemma invoke_clog: "invoke c f w = (r, w') \<Longrightarrow> clog w' = clog w @ [c]"
  by (auto simp: invoke_def split: prod.splits)

lemma ignore_not_found_clog:
  assumes "ignore_not_found (invoke c f) w = (r, w')"
  shows "clog w' = clog w @ [c]"
proof -
  obtain x w1 where run: "invoke c f w = (x, w1)" by fastforce
  with assms have "w' = w1"
    by (auto simp: ignore_not_found_def gbind_run gtry_run gret_eq gfail_eq split: sum.splits if_splits)
  with invoke_clog [OF run] show ?thesis by simp
qed

section \<open>A sample environment\<close>

text \<open>An environment without a state of its own, for the instances of the properties.\<close>

definition wit_env_api :: "unit core_api" where
  "wit_env_api = \<lparr>
     k_service_apply = (\<lambda>s e. (Inr \<lparr>ls_name = svc_name s, ls_cluster_ip = ''10.0.0.1'', ls_lb_ingress = []\<rparr>, e)),
     k_workload_get = (\<lambda>k ns n e. (Inl (EApi NotFound), e)),
     k_workload_apply = (\<lambda>a e. (Inr \<lparr>lw_name = wl_name a, lw_uid = ''u1'', lw_selector = ws_selector (wl_spec a),
        lw_template_labels = pt_labels (ws_template (wl_spec a)), lw_available_replicas = 1,
        lw_ready_replicas = 1, lw_updated_replicas = 1, lw_desired = 1\<rparr>, e)),
     k_workload_delete = (\<lambda>k ns n p e. (Inr (), e)),
     k_secret_get = (\<lambda>ns n e. (Inr \<lparr>lsec_name = n, lsec_uid = ''u2'', lsec_data = [(''ca.crt'', ''PEM'')]\<rparr>, e)),
     k_secret_apply = (\<lambda>s e. (Inr (), e)),
     k_secret_delete = (\<lambda>ns n e. (Inr (), e)),
     k_configmap_get = (\<lambda>ns n e. (Inr \<lparr>lcm_data = [], lcm_binary_data = []\<rparr>, e)),
     k_configmap_apply = (\<lambda>c e. (Inr (), e)),
     k_configmap_delete = (\<lambda>ns n e. (Inr (), e)),
     k_pdb_apply = (\<lambda>p e. (Inr (), e)),
     k_pdb_delete = (\<lambda>ns n e. (Inl (EApi NotFound), e)),
     k_netpol_apply = (\<lambda>p e. (Inr (), e)),
     k_netpol_delete = (\<lambda>ns n e. (Inl (EApi NotFound), e)),
     k_pod_list = (\<lambda>ns l e. (Inr [], e)),
     k_pvc_list = (\<lambda>ns l e. (Inr [], e)),
     k_pvc_apply = (\<lambda>p e. (Inr (), e)),
     k_node_stats = (\<lambda>n e. (Inr n, e))\<rparr>"

definition wit_world :: "unit world" where
  "wit_world = \<lparr>env = (), clog = [], events = [], hcp = wit_hcp\<rparr>"

end
