(* ===== verification/OperatorUtil.thy ===== *)
theory OperatorUtil
  imports Effects
begin

text \<open>
  The helpers of \<open>pkg/operator/util\<close>: arguments of the components, images, checksum annotations, the check
  of volume mounts, probes, owner references, topology spread constraints.

  MD5 with the hexadecimal encoding is a parameter \<open>md5hex\<close>; \<open>semver.ParseTolerant\<close> is a parameter that
  gives the minor version or an error. The \<open>%v\<close> of the checksum only ever sees strings
  (\<open>CalculateSecretChecksum\<close> and \<open>CalculateConfigMapChecksum\<close> convert), where it is the identity.
\<close>

section \<open>Arguments (\<open>args.go\<close>)\<close>

record ArgOption =
  Prefix :: "string option"
  Delimiter :: "string option"

definition ArgOption0 :: ArgOption where
  "ArgOption0 = \<lparr>Prefix = None, Delimiter = None\<rparr>"

text \<open>The pointer to the options is never nil: \<open>ArgsToSlice\<close> passes the address of a local.\<close>

definition argsToSlice :: "labels \<Rightarrow> labels \<Rightarrow> ArgOption \<Rightarrow> string list" where
  "argsToSlice userArgs controllerArgs opts =
     (let prefix = deref (Prefix opts) ''--'';
          joiner = deref (Delimiter opts) ''='';
          argsSlice = sort_entries (lo_assign userArgs controllerArgs)
      in concat (map (\<lambda>(key, value).
           if joiner = '' '' then [prefix @ key, value] else [prefix @ key @ joiner @ value]) argsSlice))"

text \<open>The warnings, one per user argument with a different value of the controller.\<close>

definition overridden_args :: "labels \<Rightarrow> labels \<Rightarrow> string list" where
  "overridden_args userArgs controllerArgs =
     filter (\<lambda>key. map_of userArgs key \<noteq> map_of controllerArgs key)
       (filter (\<lambda>key. lo_has_key controllerArgs key) (lo_keys userArgs))"

definition ArgsToSlice :: "labels \<Rightarrow> labels \<Rightarrow> ArgOption list \<Rightarrow> ('e, string list) act" where
  "ArgsToSlice userArgs controllerArgs opts =
     gseq (gfor (overridden_args userArgs controllerArgs)
            (\<lambda>key. emit True ''ControllerArgumentTakesPrecedence'' ''ArgumentOverridden''))
       (let opt = (case opts of [] \<Rightarrow> ArgOption0 | o1 # _ \<Rightarrow> o1)
        in gret (argsToSlice userArgs controllerArgs opt))"

section \<open>Images (\<open>images.go\<close>)\<close>

definition maxKonnectivityMinor :: nat where "maxKonnectivityMinor = 36"
definition coreDNSTag :: string where "coreDNSTag = ''v1.12.0''"
definition nginxTag :: string where "nginxTag = ''1.31.8''"
definition etcdTag :: string where "etcdTag = ''3.7.1''"

definition buildImageString :: "string \<Rightarrow> string \<Rightarrow> string \<Rightarrow> string" where
  "buildImageString registry repository tag =
     (if registry = [] then repository @ '':'' @ tag else registry @ ''/'' @ repository @ '':'' @ tag)"

definition resolveImageFromSpec :: "ImageSpec option \<Rightarrow> string \<Rightarrow> string \<Rightarrow> string \<Rightarrow> string" where
  "resolveImageFromSpec imageSpec defaultRegistry defaultRepository defaultTag =
     (case imageSpec of
        None \<Rightarrow> buildImageString defaultRegistry defaultRepository defaultTag
      | Some i \<Rightarrow> buildImageString (deref (Registry i) defaultRegistry)
          (deref (Repository i) defaultRepository) (deref (Tag i) defaultTag))"

definition ResolveKubernetesComponentImage :: "ImageSpec option \<Rightarrow> string \<Rightarrow> string \<Rightarrow> string" where
  "ResolveKubernetesComponentImage imageSpec component version =
     resolveImageFromSpec imageSpec ''registry.k8s.io'' component version"

definition ResolveETCDImage :: "ImageSpec option \<Rightarrow> string" where
  "ResolveETCDImage imageSpec = resolveImageFromSpec imageSpec ''registry.k8s.io'' ''etcd'' (etcdTag @ ''-0'')"

definition DefaultETCDVersion :: string where
  "DefaultETCDVersion = etcdTag"

definition ResolveKonnectivityImage :: "ImageSpec option \<Rightarrow> string \<Rightarrow> nat \<Rightarrow> string" where
  "ResolveKonnectivityImage imageSpec component minorVersion =
     resolveImageFromSpec imageSpec ''registry.k8s.io'' (''kas-network-proxy/'' @ component)
       (''v0.'' @ nat_dec (min minorVersion maxKonnectivityMinor) @ ''.0'')"

definition ResolveKubeProxyImage :: "ImageSpec option \<Rightarrow> string \<Rightarrow> string" where
  "ResolveKubeProxyImage imageSpec version = resolveImageFromSpec imageSpec ''k8s.gcr.io'' ''kube-proxy'' version"

definition ResolveCoreDNSImage :: "ImageSpec option \<Rightarrow> string" where
  "ResolveCoreDNSImage imageSpec = resolveImageFromSpec imageSpec ''registry.k8s.io'' ''coredns/coredns'' coreDNSTag"

definition ResolveNginxImage :: "ImageSpec option \<Rightarrow> string" where
  "ResolveNginxImage imageSpec = resolveImageFromSpec imageSpec ''docker.io'' ''nginx'' nginxTag"

section \<open>Owner references, versions, topology, resources, probes\<close>

definition GetOwnerReferenceApplyConfiguration :: "HostedControlPlane \<Rightarrow> owner_ref" where
  "GetOwnerReferenceApplyConfiguration h =
     \<lparr>or_api_version = APIVersion h, or_kind = Kind h, or_name = Name h, or_uid = UID h,
      or_controller = Some True, or_block = Some True\<rparr>"

definition GetMinorVersion :: "(string \<Rightarrow> gerr + nat) \<Rightarrow> HostedControlPlane \<Rightarrow> gerr + nat" where
  "GetMinorVersion parse_minor h =
     (case parse_minor (Version (Spec h)) of
        Inl err \<Rightarrow> Inl (EWrap (''failed to parse version '' @ Version (Spec h)) err)
      | Inr minor \<Rightarrow> Inr minor)"

definition CreatePodTopologySpreadConstraints :: "labels \<Rightarrow> topology_spread" where
  "CreatePodTopologySpreadConstraints labelSelector =
     \<lparr>ts_topology_key = LabelHostname, ts_selector = labelSelector, ts_max_skew = 1,
      ts_when_unsatisfiable = ''DoNotSchedule'', ts_node_taints_policy = ''Honor'',
      ts_node_affinity_policy = ''Honor''\<rparr>"

definition ResourceRequirementsToResourcesApplyConfiguration ::
  "resource_requirements option \<Rightarrow> resource_requirements option" where
  "ResourceRequirementsToResourcesApplyConfiguration resources =
     (case resources of None \<Rightarrow> None
      | Some r \<Rightarrow> Some \<lparr>rr_limits = rr_limits r, rr_requests = rr_requests r,
          rr_claims = map (\<lambda>claim. \<lparr>claim_name = claim_name claim, claim_request = claim_request claim\<rparr>)
                        (rr_claims r)\<rparr>)"

definition createProbe :: "string \<Rightarrow> container_port \<Rightarrow> string \<Rightarrow> probe" where
  "createProbe path probePort scheme =
     \<lparr>pr_path = path, pr_port = cp_name probePort, pr_scheme = scheme, pr_initial_delay = None,
      pr_timeout = None, pr_failure_threshold = None, pr_period = None\<rparr>"

text \<open>\<open>healthCheckTimeout\<close> is kubeadm's \<open>ControlPlaneComponentHealthCheckTimeout\<close> in whole seconds
  (4 minutes): the threshold is \<open>math.Ceil\<close> of the quotient.\<close>

definition CreateStartupProbe :: "nat \<Rightarrow> container_port \<Rightarrow> string \<Rightarrow> string \<Rightarrow> probe" where
  "CreateStartupProbe healthCheckTimeout probePort path scheme =
     (createProbe path probePort scheme)\<lparr>pr_initial_delay := Some 0, pr_timeout := Some 15,
       pr_failure_threshold := Some (int ((healthCheckTimeout + 9) div 10)), pr_period := Some 10\<rparr>"

definition CreateReadinessProbe :: "container_port \<Rightarrow> string \<Rightarrow> string \<Rightarrow> probe" where
  "CreateReadinessProbe probePort path scheme =
     (createProbe path probePort scheme)\<lparr>pr_initial_delay := Some 0, pr_timeout := Some 15,
       pr_failure_threshold := Some 3, pr_period := Some 1\<rparr>"

definition CreateLivenessProbe :: "container_port \<Rightarrow> string \<Rightarrow> string \<Rightarrow> probe" where
  "CreateLivenessProbe probePort path scheme =
     (createProbe path probePort scheme)\<lparr>pr_initial_delay := Some 0, pr_timeout := Some 15,
       pr_failure_threshold := Some 3, pr_period := Some 10\<rparr>"

section \<open>Volume mounts (\<open>pod.go\<close>)\<close>

definition ErrInvalidMount :: gerr where
  "ErrInvalidMount = ESentinel ''volume mount invalid or using non-existing volume''"

definition invalidMounts :: "pod_spec \<Rightarrow> volume_mount list" where
  "invalidMounts podSpec =
     filter (\<lambda>mount. vm_path mount = [] \<or>
         \<not> list_ex (\<lambda>volume. vm_name mount = vol_name volume) (ps_volumes podSpec))
       (concat (map c_volume_mounts (ps_containers podSpec)))"

definition ValidateMounts :: "pod_spec \<Rightarrow> gerr option" where
  "ValidateMounts podSpec =
     (if invalidMounts podSpec \<noteq> []
      then Some (EWrap (''VolumeMounts '' @ str_join '','' (map vm_name (invalidMounts podSpec))
             @ '' are using a non-existent volume or have an empty mountPath'') ErrInvalidMount)
      else None)"

section \<open>Checksums (\<open>checksum.go\<close>)\<close>

text \<open>The bytes the hasher of one map gets, the two hash rounds, and the volumes' names.\<close>

definition hash_input :: "labels \<Rightarrow> string" where
  "hash_input dataMap =
     concat (map (\<lambda>key. key @ (case map_of dataMap key of None \<Rightarrow> [] | Some v \<Rightarrow> v)) (sort (lo_keys dataMap)))"

definition calculateChecksum :: "(string \<Rightarrow> string) \<Rightarrow> labels list \<Rightarrow> string" where
  "calculateChecksum md5hex dataMaps =
     (let checksums = map (\<lambda>dataMap. md5hex (hash_input dataMap)) dataMaps in
      if checksums = [] then [] else md5hex (concat (sort checksums)))"

definition extractNames :: "(volume \<Rightarrow> string) \<Rightarrow> (projection \<Rightarrow> string) \<Rightarrow> volume list \<Rightarrow> string list" where
  "extractNames directAccess projectedAccess volumes =
     concat (map (\<lambda>volume.
       if directAccess volume \<noteq> [] then [directAccess volume]
       else (case vol_projected volume of
               Some sources \<Rightarrow> filter (\<lambda>value. value \<noteq> []) (map projectedAccess sources)
             | None \<Rightarrow> [])) volumes)"

definition extractSecretNames :: "volume list \<Rightarrow> string list" where
  "extractSecretNames volumes = extractNames
     (\<lambda>volume. case vol_secret volume of Some s \<Rightarrow> vsr_name s | None \<Rightarrow> [])
     (\<lambda>source. case source of PSecret name _ \<Rightarrow> name | _ \<Rightarrow> []) volumes"

definition extractConfigMapNames :: "volume list \<Rightarrow> string list" where
  "extractConfigMapNames volumes = extractNames
     (\<lambda>volume. case vol_configmap volume of Some c \<Rightarrow> vsr_name c | None \<Rightarrow> [])
     (\<lambda>source. case source of PConfigMap name _ \<Rightarrow> name | _ \<Rightarrow> []) volumes"

definition CalculateSecretChecksum ::
  "(string \<Rightarrow> string) \<Rightarrow> 'e core_api \<Rightarrow> string \<Rightarrow> string list \<Rightarrow> ('e, string) act" where
  "CalculateSecretChecksum md5hex K namespace secretNames =
     gbind (gcollect secretNames (\<lambda>secretName.
         gbind (gwrap ''secret fetch failed''
                 (invoke (CSecretGet namespace secretName) (k_secret_get K namespace secretName)))
           (\<lambda>secret. gret (lsec_data secret))))
       (\<lambda>secretMaps. gret (calculateChecksum md5hex secretMaps))"

definition CalculateConfigMapChecksum ::
  "(string \<Rightarrow> string) \<Rightarrow> 'e core_api \<Rightarrow> string \<Rightarrow> string list \<Rightarrow> ('e, string) act" where
  "CalculateConfigMapChecksum md5hex K namespace configMapNames =
     gbind (gcollect configMapNames (\<lambda>configMapName.
         gbind (gwrap ''configmap fetch failed''
                 (invoke (CConfigMapGet namespace configMapName) (k_configmap_get K namespace configMapName)))
           (\<lambda>configMap. gret (lo_assign (lcm_data configMap) (lcm_binary_data configMap)))))
       (\<lambda>configMapMaps. gret (calculateChecksum md5hex configMapMaps))"

definition annotate :: "string \<Rightarrow> string \<Rightarrow> pod_template \<Rightarrow> pod_template" where
  "annotate k v t = t\<lparr>pt_annotations := mput k v (pt_annotations t)\<rparr>"

definition SetChecksumAnnotations ::
  "(string \<Rightarrow> string) \<Rightarrow> 'e core_api \<Rightarrow> string \<Rightarrow> pod_template \<Rightarrow> ('e, pod_template) act" where
  "SetChecksumAnnotations md5hex K namespace template =
     (let usedSecretNames = extractSecretNames (ps_volumes (pt_spec template)) in
      gbind (if usedSecretNames \<noteq> []
             then gbind (gwrap ''failed to calculate secret checksum''
                          (CalculateSecretChecksum md5hex K namespace usedSecretNames))
                    (\<lambda>c. gret (if c \<noteq> [] then annotate ''checksum/secrets'' c template else template))
             else gret template)
       (\<lambda>template.
         let usedConfigMapNames = extractConfigMapNames (ps_volumes (pt_spec template)) in
         if usedConfigMapNames \<noteq> []
         then gbind (gwrap ''failed to calculate configmap checksum''
                      (CalculateConfigMapChecksum md5hex K namespace usedConfigMapNames))
                (\<lambda>c. gret (if c \<noteq> [] then annotate ''checksum/configmaps'' c template else template))
         else gret template))"

section \<open>Properties\<close>



text \<open>The checksum is a function of what the maps hold.\<close>

lemma hash_input_map:
  assumes "gomap_ok m"
  shows "hash_input m = concat (map (\<lambda>(k, v). k @ v) (map_entries (map_of m)))"
proof -
  have eq: "map (\<lambda>key. key @ (case map_of m key of None \<Rightarrow> [] | Some v \<Rightarrow> v)) (sorted_list_of_set (dom (map_of m)))
      = map (\<lambda>k. k @ the (map_of m k)) (sorted_list_of_set (dom (map_of m)))"
    by (rule map_cong) (auto simp: finite_dom_map_of split: option.split)
  show ?thesis
    by (simp add: hash_input_def lo_keys_def sort_keys_dom [OF assms] eq map_entries_def comp_def)
qed

lemma hash_inputs_mset:
  assumes "list_all gomap_ok ms"
  shows "mset (map (\<lambda>m. h (hash_input m)) ms)
      = image_mset (\<lambda>f. h (concat (map (\<lambda>(k, v). k @ v) (map_entries f)))) (mset (map map_of ms))"
  using assms by (induction ms) (simp_all add: hash_input_map)

text \<open>
  C35: the checksum annotation is the same for the same contents: neither the order in which the volumes
  name the secrets and config maps nor the order in which a map is iterated changes it.
\<close>

theorem calculateChecksum_order_irrelevant:
  assumes "list_all gomap_ok ms" "list_all gomap_ok ms'"
    and "mset (map map_of ms) = mset (map map_of ms')"
  shows "calculateChecksum md5hex ms = calculateChecksum md5hex ms'"
proof -
  have "mset (map (\<lambda>m. md5hex (hash_input m)) ms) = mset (map (\<lambda>m. md5hex (hash_input m)) ms')"
    using assms by (simp only: hash_inputs_mset)
  then have "sort (map (\<lambda>m. md5hex (hash_input m)) ms) = sort (map (\<lambda>m. md5hex (hash_input m)) ms')"
    by (rule sort_mset_cong)
  moreover have "ms = [] \<longleftrightarrow> ms' = []"
    using assms(3) by (metis list.map_disc_iff mset_zero_iff mset_zero_iff_right)
  ultimately show ?thesis
    by (simp add: calculateChecksum_def)
qed

theorem calculateChecksum_order_irrelevant_witness:
  "calculateChecksum (\<lambda>s. s) [[(''a'', ''1''), (''b'', ''2'')], [(''c'', ''3'')]]
     = calculateChecksum (\<lambda>s. s) [[(''c'', ''3'')], [(''b'', ''2''), (''a'', ''1'')]]"
proof (rule calculateChecksum_order_irrelevant)
  show "mset (map map_of [[(''a'', ''1''), (''b'', ''2'')], [(''c'', ''3'')]])
      = mset (map map_of [[(''c'', ''3'')], [(''b'', ''2''), (''a'', ''1'')]])"
    by (simp add: fun_upd_twist [of "''a''" "''b''"])
qed (simp_all add: gomap_ok_def)

text \<open>
  Keys and values are hashed without a separator, so two different contents always get the same
  checksum, whatever the hash: renaming the key \<open>a\<close> with value \<open>bc\<close> to \<open>ab\<close> with value \<open>c\<close> does not
  change the annotation, and the pods are not restarted.
\<close>

theorem calculateChecksum_collides:
  "calculateChecksum md5hex [[(k, c @ v)]] = calculateChecksum md5hex [[(k @ c, v)]]"
  by (simp add: calculateChecksum_def hash_input_def lo_keys_def)

text \<open>
  \<open>ValidateMounts\<close> accepts a pod exactly if every mount of every container has a path and names a
  volume of the pod (init containers are not looked at); otherwise the error is \<open>ErrInvalidMount\<close>.
\<close>

theorem ValidateMounts_iff:
  "(ValidateMounts ps = None \<longleftrightarrow>
     list_all (list_all (\<lambda>m. vm_path m \<noteq> [] \<and> vm_name m \<in> vol_name ` set (ps_volumes ps)))
       (map c_volume_mounts (ps_containers ps)))
   \<and> (case ValidateMounts ps of None \<Rightarrow> True
      | Some e \<Rightarrow> err_is ''volume mount invalid or using non-existing volume'' e)"
  by (auto simp: list_all_iff ValidateMounts_def invalidMounts_def ErrInvalidMount_def filter_empty_conv list_ex_iff image_iff)

text \<open>Every secret a pod uses takes part in its checksum, provided the volume has one kind of source.\<close>

definition volume_secrets :: "volume \<Rightarrow> string set" where
  "volume_secrets v = {n. (\<exists>s. vol_secret v = Some s \<and> vsr_name s = n)
     \<or> (\<exists>ps items. vol_projected v = Some ps \<and> PSecret n items \<in> set ps)}"

definition volume_ok :: "volume \<Rightarrow> bool" where
  "volume_ok v \<longleftrightarrow> (vol_secret v = None \<or> vol_projected v = None) \<and> (vol_configmap v = None \<or> vol_projected v = None)"

lemma projected_secrets:
  "set (filter (\<lambda>v. v \<noteq> []) (map (\<lambda>source. case source of PSecret name _ \<Rightarrow> name | _ \<Rightarrow> []) ps))
    = {n. \<exists>items. PSecret n items \<in> set ps} - {[]}"
proof (induction ps)
  case Nil
  show ?case by simp
next
  case (Cons p ps)
  then show ?case by (cases p) auto
qed

lemma extractSecretNames_set:
  assumes "list_all volume_ok volumes"
  shows "set (extractSecretNames volumes) = \<Union> (volume_secrets ` set volumes) - {[]}"
  using assms
proof (induction volumes)
  case Nil
  show ?case by (simp add: extractSecretNames_def extractNames_def)
next
  case (Cons v vs)
  have "set (extractSecretNames [v]) = volume_secrets v - {[]}"
  proof (cases "vol_secret v")
    case None
    show ?thesis
    proof (cases "vol_projected v")
      case None
      with \<open>vol_secret v = None\<close> show ?thesis
        by (simp add: extractSecretNames_def extractNames_def volume_secrets_def)
    next
      case (Some ps)
      then have "volume_secrets v = {n. \<exists>items. PSecret n items \<in> set ps}"
        using \<open>vol_secret v = None\<close> by (simp add: volume_secrets_def)
      moreover have "extractSecretNames [v]
          = filter (\<lambda>v. v \<noteq> []) (map (\<lambda>source. case source of PSecret name _ \<Rightarrow> name | _ \<Rightarrow> []) ps)"
        using \<open>vol_secret v = None\<close> Some by (simp add: extractSecretNames_def extractNames_def)
      ultimately show ?thesis by (simp only: projected_secrets)
    qed
  next
    case (Some s)
    with Cons.prems have "vol_projected v = None" by (auto simp: volume_ok_def)
    with Some show ?thesis
      by (auto simp: extractSecretNames_def extractNames_def volume_secrets_def)
  qed
  moreover have "set (extractSecretNames (v # vs)) = set (extractSecretNames [v]) \<union> set (extractSecretNames vs)"
    by (simp add: extractSecretNames_def extractNames_def)
  ultimately show ?case using Cons by auto
qed

text \<open>
  The default konnectivity image follows the minor version of Kubernetes up to the last released one
  (36) and stays there; an explicit tag is never changed.
\<close>

theorem ResolveKonnectivityImage_tag:
  "ResolveKonnectivityImage None component minor =
     ''registry.k8s.io/kas-network-proxy/'' @ component @ '':v0.''
       @ nat_dec (if minor \<le> 36 then minor else 36) @ ''.0''
   \<and> ResolveKonnectivityImage (Some \<lparr>Registry = Some r, Repository = Some p, Tag = Some t\<rparr>) component minor =
       buildImageString r p t"
  by (simp add: ResolveKonnectivityImage_def resolveImageFromSpec_def buildImageString_def
      maxKonnectivityMinor_def min_def)

end
