(* ===== verification/NetworkPolicies.thy ===== *)
theory NetworkPolicies
  imports OperatorUtil
begin

text \<open>
  How a workload's network policy is reconciled (\<open>reconcilers/reconciler.go\<close>, \<open>reconcileNetworkPolicy\<close> to
  \<open>convertToRules\<close>): a Cilium policy where the cluster has Cilium, a Kubernetes policy otherwise. The two
  target maps may be nil (\<open>None\<close>), which is different from empty; a port is an \<open>int32\<close> that is only
  compared and printed. The Cilium client is \<open>None\<close> where it is nil.
\<close>

type_synonym 't targets = "(int, 't list) gomap option"

section \<open>Rules\<close>

definition sortByPort :: "(int, 't list) gomap \<Rightarrow> (int \<times> 't list) list" where
  "sortByPort portLabels = sort_entries portLabels"

text \<open>\<open>withPorts\<close> and \<open>addPeers\<close> take one port and one peer: the code never passes more.\<close>

definition convertToRules ::
  "'ac \<Rightarrow> (int \<Rightarrow> 'port) \<Rightarrow> ('t \<Rightarrow> 'peer) \<Rightarrow> ('ac \<Rightarrow> 'port \<Rightarrow> 'ac) \<Rightarrow> ('ac \<Rightarrow> 'peer \<Rightarrow> 'ac)
    \<Rightarrow> (int, 't list) gomap \<Rightarrow> 'ac list" where
  "convertToRules createResource createPort createPeer withPorts addPeers portNetworkPolicyTargets =
     concat (map (\<lambda>(port, networkPolicyTargets).
       map (\<lambda>networkPolicyTarget.
          let ac = createResource;
              ac = (if port \<noteq> 0 then withPorts ac (createPort port) else ac)
          in addPeers ac (createPeer networkPolicyTarget)) networkPolicyTargets)
       (sortByPort portNetworkPolicyTargets))"

definition np_rule0 :: np_rule where
  "np_rule0 = \<lparr>npr_ports = [], npr_peers = []\<rparr>"

definition networkPolicyPortApplyConfiguration :: "int \<Rightarrow> np_port" where
  "networkPolicyPortApplyConfiguration port = \<lparr>npo_port = port, npo_protocol = None\<rparr>"

definition networkPolicyIngressPeerApplyConfiguration :: "IngressNetworkPolicyTarget \<Rightarrow> np_peer" where
  "networkPolicyIngressPeerApplyConfiguration t = ApplyToKubernetesIngressNetworkPolicy t np_peer0"

definition networkPolicyEgressPeerApplyConfiguration :: "EgressNetworkPolicyTarget \<Rightarrow> np_peer" where
  "networkPolicyEgressPeerApplyConfiguration t = ApplyToKubernetesEgressNetworkPolicy t np_peer0"

definition rule_with_port :: "np_rule \<Rightarrow> np_port \<Rightarrow> np_rule" where
  "rule_with_port r p = r\<lparr>npr_ports := npr_ports r @ [p]\<rparr>"

definition rule_with_peer :: "np_rule \<Rightarrow> np_peer \<Rightarrow> np_rule" where
  "rule_with_peer r p = r\<lparr>npr_peers := npr_peers r @ [p]\<rparr>"

definition kubernetes_ingress_rules :: "(int, IngressNetworkPolicyTarget list) gomap \<Rightarrow> np_rule list" where
  "kubernetes_ingress_rules targets = convertToRules np_rule0 networkPolicyPortApplyConfiguration
     networkPolicyIngressPeerApplyConfiguration rule_with_port rule_with_peer targets"

definition kubernetes_egress_rules :: "(int, EgressNetworkPolicyTarget list) gomap \<Rightarrow> np_rule list" where
  "kubernetes_egress_rules targets = convertToRules np_rule0 networkPolicyPortApplyConfiguration
     networkPolicyEgressPeerApplyConfiguration rule_with_port rule_with_peer targets"

definition kubernetes_dns_rule :: np_rule where
  "kubernetes_dns_rule = \<lparr>npr_ports = [\<lparr>npo_port = 53, npo_protocol = Some ''UDP''\<rparr>],
     npr_peers = [\<lparr>npp_pod_selector = Some [(''k8s-app'', ''kube-dns'')],
        npp_namespace_selector = Some [(LabelMetadataName, ''kube-system'')], npp_ip_block = None\<rparr>]\<rparr>"

section \<open>Kubernetes\<close>

definition kubernetes_policy :: "string \<Rightarrow> string \<Rightarrow> owner_ref option \<Rightarrow> labels
    \<Rightarrow> IngressNetworkPolicyTarget targets \<Rightarrow> EgressNetworkPolicyTarget targets \<Rightarrow> netpol_ac" where
  "kubernetes_policy name namespace ownerReference labels ingress egress =
     \<lparr>np_name = name, np_namespace = namespace,
      np_owner_refs = (case ownerReference of None \<Rightarrow> [] | Some r \<Rightarrow> [r]),
      np_labels = labels, np_pod_selector = labels,
      np_policy_types = (if ingress \<noteq> None then [''Ingress''] else []) @ (if egress \<noteq> None then [''Egress''] else []),
      np_ingress = (case ingress of None \<Rightarrow> [] | Some t \<Rightarrow> kubernetes_ingress_rules t),
      np_egress = (case egress of None \<Rightarrow> [] | Some t \<Rightarrow> kubernetes_egress_rules t @ [kubernetes_dns_rule])\<rparr>"

definition reconcileKubernetesNetworkPolicy :: "'e core_api \<Rightarrow> string \<Rightarrow> string \<Rightarrow> owner_ref option \<Rightarrow> labels
    \<Rightarrow> IngressNetworkPolicyTarget targets \<Rightarrow> EgressNetworkPolicyTarget targets \<Rightarrow> ('e, unit) act" where
  "reconcileKubernetesNetworkPolicy K name namespace ownerReference labels ingress egress =
     (let ac = kubernetes_policy name namespace ownerReference labels ingress egress
      in gwrap (''failed to apply network policy '' @ namespace @ ''/'' @ name)
           (invoke (CNetpolApply ac) (k_netpol_apply K ac)))"

section \<open>Cilium\<close>

definition cilium_rule0 :: cilium_rule where
  "cilium_rule0 = \<lparr>cr_ports = [], cr_endpoints = [], cr_cidrs = [], cr_fqdns = [], cr_entities = []\<rparr>"

definition cilium_port :: "int \<Rightarrow> cilium_port" where
  "cilium_port port = \<lparr>cpo_port = int_dec port, cpo_protocol = None, cpo_dns = []\<rparr>"

definition cilium_with_port :: "cilium_rule \<Rightarrow> cilium_port \<Rightarrow> cilium_rule" where
  "cilium_with_port r p = r\<lparr>cr_ports := [p]\<rparr>"

definition cilium_from :: "cilium_rule \<Rightarrow> CiliumPolicyPeer \<Rightarrow> cilium_rule" where
  "cilium_from r p = r\<lparr>cr_endpoints := cr_endpoints r @ Endpoints p, cr_cidrs := cr_cidrs r @ CIDR p,
     cr_entities := cr_entities r @ Identities p\<rparr>"

definition cilium_to :: "cilium_rule \<Rightarrow> CiliumPolicyPeer \<Rightarrow> cilium_rule" where
  "cilium_to r p = r\<lparr>cr_endpoints := cr_endpoints r @ Endpoints p, cr_cidrs := cr_cidrs r @ CIDR p,
     cr_fqdns := cr_fqdns r @ FQDNs p, cr_entities := cr_entities r @ Identities p\<rparr>"

definition cilium_ingress_rules :: "(int, IngressNetworkPolicyTarget list) gomap \<Rightarrow> cilium_rule list" where
  "cilium_ingress_rules targets = convertToRules cilium_rule0 cilium_port
     (\<lambda>t. ApplyToCiliumIngressNetworkPolicy t CiliumPolicyPeer0) cilium_with_port cilium_from targets"

definition cilium_egress_rules :: "(int, EgressNetworkPolicyTarget list) gomap \<Rightarrow> cilium_rule list" where
  "cilium_egress_rules targets = convertToRules cilium_rule0 cilium_port
     (\<lambda>t. ApplyToCiliumEgressNetworkPolicy t CiliumPolicyPeer0) cilium_with_port cilium_to targets"

definition cilium_dns_rule :: cilium_rule where
  "cilium_dns_rule = cilium_rule0\<lparr>
     cr_ports := [\<lparr>cpo_port = ''53'', cpo_protocol = Some ''UDP'', cpo_dns = [''*'']\<rparr>],
     cr_endpoints := [[(''k8s-app'', ''kube-dns''), (PodNamespaceLabel, ''kube-system'')]]\<rparr>"

definition cilium_policy :: "string \<Rightarrow> string \<Rightarrow> owner_ref option \<Rightarrow> labels
    \<Rightarrow> IngressNetworkPolicyTarget targets \<Rightarrow> EgressNetworkPolicyTarget targets \<Rightarrow> cnp" where
  "cilium_policy name namespace ownerReference labels ingress egress =
     \<lparr>cnp_name = name, cnp_namespace = namespace, cnp_labels = labels,
      cnp_owner_refs = (case ownerReference of None \<Rightarrow> [] | Some r \<Rightarrow> [r]),
      cnp_resource_version = [], cnp_endpoint_selector = labels,
      cnp_ingress = map_option cilium_ingress_rules ingress,
      cnp_egress = map_option (\<lambda>t. cilium_egress_rules t @ [cilium_dns_rule]) egress\<rparr>"

definition invalid_conditions :: "live_cnp \<Rightarrow> live_condition list" where
  "invalid_conditions c = filter (\<lambda>condition. lc_type condition = ''Valid'' \<and> lc_status condition = ''False'')
     (lcnp_conditions c)"

definition reconcileCiliumNetworkPolicy :: "'e cilium_api \<Rightarrow> string \<Rightarrow> string \<Rightarrow> owner_ref option \<Rightarrow> labels
    \<Rightarrow> IngressNetworkPolicyTarget targets \<Rightarrow> EgressNetworkPolicyTarget targets \<Rightarrow> ('e, unit) act" where
  "reconcileCiliumNetworkPolicy C name namespace ownerReference labels ingress egress =
     (let ac = cilium_policy name namespace ownerReference labels ingress egress in
      gbind (gbind (gtry (invoke (CCnpGet namespace name) (k_cnp_get C namespace name))) (\<lambda>r.
        case r of
          Inl err \<Rightarrow>
            if is_not_found err
            then gret None
            else gfail (EWrap (''failed to get cilium network policy '' @ namespace @ ''/'' @ name) err)
        | Inr live \<Rightarrow> gret (Some live)))
      (\<lambda>found.
        gbind (gwrap (''failed to create or update cilium network policy '' @ namespace @ ''/'' @ name)
          (case found of
             None \<Rightarrow> invoke (CCnpCreate ac) (k_cnp_create C ac)
           | Some live \<Rightarrow>
               let ac' = ac\<lparr>cnp_resource_version := lcnp_resource_version live\<rparr>
               in invoke (CCnpUpdate ac') (k_cnp_update C ac')))
        (\<lambda>applied.
          if invalid_conditions applied \<noteq> []
          then gfail (EWrap (''cilium network policy '' @ namespace @ ''/'' @ name @ '' is invalid'')
                 (EJoin (map (\<lambda>c. ELib (lc_message c)) (invalid_conditions applied))))
          else gret ())))"

section \<open>Dispatch\<close>

definition reconcileNetworkPolicy :: "'e core_api \<Rightarrow> 'e cilium_api option \<Rightarrow> string \<Rightarrow> string \<Rightarrow> owner_ref option
    \<Rightarrow> labels \<Rightarrow> IngressNetworkPolicyTarget targets \<Rightarrow> EgressNetworkPolicyTarget targets \<Rightarrow> ('e, unit) act" where
  "reconcileNetworkPolicy K ciliumClient namespace name ownerReference labels ingress egress =
     (let deleteResource = (ingress = None \<and> egress = None) in
      gseq (if deleteResource \<or> ciliumClient \<noteq> None
            then gwrap (''failed to delete network policy '' @ namespace @ ''/'' @ name)
                   (ignore_not_found (invoke (CNetpolDelete namespace name) (k_netpol_delete K namespace name)))
            else gret ())
        (if deleteResource
         then (case ciliumClient of
                 None \<Rightarrow> gfail (EPanic ''nil ciliumNetworkPolicyInterface'')
               | Some C \<Rightarrow> gwrap (''failed to delete cilium network policy '' @ namespace @ ''/'' @ name)
                   (ignore_not_found (invoke (CCnpDelete namespace name) (k_cnp_delete C namespace name))))
         else (case ciliumClient of
                 Some C \<Rightarrow> reconcileCiliumNetworkPolicy C name namespace ownerReference labels ingress egress
               | None \<Rightarrow> reconcileKubernetesNetworkPolicy K name namespace ownerReference labels ingress egress)))"

section \<open>Properties\<close>

lemma convertToRules_map:
  assumes "gomap_ok targets"
  shows "convertToRules ac mkport mkpeer wp ap targets =
     concat (map (\<lambda>(port, ts). map (\<lambda>t. ap (if port \<noteq> 0 then wp ac (mkport port) else ac) (mkpeer t)) ts)
       (map_entries (map_of targets)))"
  using assms by (simp add: convertToRules_def sortByPort_def sort_entries_map_entries Let_def)



text \<open>
  Reconciling a workload whose two target maps are nil, which should delete its policies, never
  succeeds on a cluster without Cilium: once the Kubernetes policy is deleted (or is found to be missing)
  the nil Cilium interface is called.
\<close>

theorem reconcileNetworkPolicy_nil_targets_panic:
  "fst (reconcileNetworkPolicy K None namespace name ownerReference labels None None w) =
     (case fst (k_netpol_delete K namespace name (env w)) of
        Inl err \<Rightarrow> if is_not_found err then Inl (EPanic ''nil ciliumNetworkPolicyInterface'')
                   else Inl (EWrap (''failed to delete network policy '' @ namespace @ ''/'' @ name) err)
      | Inr _ \<Rightarrow> Inl (EPanic ''nil ciliumNetworkPolicyInterface''))"
  by (auto simp: reconcileNetworkPolicy_def ignore_not_found_def gom_simps invoke_def
      split: prod.split sum.split)

definition policy_calls :: "bool \<Rightarrow> string \<Rightarrow> string \<Rightarrow> call list \<Rightarrow> bool" where
  "policy_calls withCilium namespace name cs \<longleftrightarrow>
     (if withCilium
      then (\<exists>c. (cs = [CNetpolDelete namespace name, CCnpGet namespace name, CCnpCreate c]
                  \<or> cs = [CNetpolDelete namespace name, CCnpGet namespace name, CCnpUpdate c])
                 \<and> cnp_name c = name \<and> cnp_namespace c = namespace)
      else (\<exists>a. cs = [CNetpolApply a] \<and> np_name a = name \<and> np_namespace a = namespace))"

lemma reconcileCiliumNetworkPolicy_calls:
  assumes "reconcileCiliumNetworkPolicy C name namespace ownerReference labels ingress egress w = (Inr u, w')"
  shows "\<exists>c. (clog w' = clog w @ [CCnpGet namespace name, CCnpCreate c]
      \<or> clog w' = clog w @ [CCnpGet namespace name, CCnpUpdate c]) \<and> cnp_name c = name \<and> cnp_namespace c = namespace"
proof -
  let ?ac = "cilium_policy name namespace ownerReference labels ingress egress"
  have ac: "cnp_name ?ac = name" "cnp_namespace ?ac = namespace" by (simp_all add: cilium_policy_def)
  obtain g w1 where get: "invoke (CCnpGet namespace name) (k_cnp_get C namespace name) w = (g, w1)" by fastforce
  show ?thesis
  proof (cases g)
    case (Inl err)
    with get assms obtain a where "invoke (CCnpCreate ?ac) (k_cnp_create C ?ac) w1 = (Inr a, w')"
      by (auto simp: reconcileCiliumNetworkPolicy_def Let_def gbind_run gtry_run gret_run gret_eq gfail_eq
          elim!: gbind_InrE gwrap_InrE split: if_splits)
    with invoke_clog [OF get] invoke_clog [OF this] ac show ?thesis by fastforce
  next
    case (Inr live)
    let ?ac' = "?ac\<lparr>cnp_resource_version := lcnp_resource_version live\<rparr>"
    from Inr get assms obtain a where "invoke (CCnpUpdate ?ac') (k_cnp_update C ?ac') w1 = (Inr a, w')"
      by (auto simp: reconcileCiliumNetworkPolicy_def Let_def gbind_run gtry_run gret_run gret_eq gfail_eq
          elim!: gbind_InrE gwrap_InrE split: if_splits)
    with invoke_clog [OF get] invoke_clog [OF this] ac show ?thesis by fastforce
  qed
qed

text \<open>
  C29: a policy that is reconciled without an error exists in one form only: with Cilium the Kubernetes
  policy is deleted before the Cilium one is created or updated, without Cilium only the Kubernetes one is
  applied.
\<close>

theorem reconcileNetworkPolicy_one_form:
  assumes "reconcileNetworkPolicy K C namespace name ownerReference labels ingress egress w = (Inr u, w')"
    and "ingress \<noteq> None \<or> egress \<noteq> None"
  shows "\<exists>cs. clog w' = clog w @ cs \<and> policy_calls (C \<noteq> None) namespace name cs"
proof (cases C)
  case None
  with assms obtain a where "invoke (CNetpolApply a) (k_netpol_apply K a) w = (Inr u, w')"
    and "a = kubernetes_policy name namespace ownerReference labels ingress egress"
    by (auto simp: reconcileNetworkPolicy_def reconcileKubernetesNetworkPolicy_def Let_def gseq_run gret_run
        elim!: gwrap_InrE split: if_splits)
  with invoke_clog [OF this(1)] None show ?thesis
    by (auto simp: policy_calls_def kubernetes_policy_def)
next
  case (Some c)
  with assms obtain v w1 where
    del: "ignore_not_found (invoke (CNetpolDelete namespace name) (k_netpol_delete K namespace name)) w = (Inr v, w1)"
    and pol: "reconcileCiliumNetworkPolicy c name namespace ownerReference labels ingress egress w1 = (Inr u, w')"
    by (auto simp: reconcileNetworkPolicy_def Let_def elim!: gseq_InrE gwrap_InrE split: if_splits)
  from ignore_not_found_clog [OF del] reconcileCiliumNetworkPolicy_calls [OF pol] Some show ?thesis
    by (auto simp: policy_calls_def)
qed

theorem reconcileNetworkPolicy_one_form_witness:
  "\<exists>cs. clog (snd (reconcileNetworkPolicy wit_env_api None ''prod'' ''foo'' None [] (Some []) None wit_world)) = cs
     \<and> policy_calls False ''prod'' ''foo'' cs"
proof -
  let ?m = "reconcileNetworkPolicy wit_env_api None ''prod'' ''foo'' None [] (Some []) None"
  have "fst (?m wit_world) = Inr ()"
    by code_simp
  then have run: "?m wit_world = (Inr (), snd (?m wit_world))"
    by (metis prod.collapse)
  show ?thesis
    using reconcileNetworkPolicy_one_form [OF run] by (simp add: wit_world_def)
qed

end
