(* ===== verification/Resources.thy ===== *)
theory Resources
  imports NetworkPolicies
begin

text \<open>
  The generic resource reconcilers of \<open>reconcilers/reconciler.go\<close>: pod templates, services, secrets, config
  maps, disruption budgets and the workloads (deployments and stateful sets, which share \<open>reconcileWorkload\<close>).

  The parameters of type Go function that only select the kind of a workload (\<open>setSpec\<close>, \<open>labelFunc\<close>, ...)
  are gone, since both kinds are one record \<open>workload_ac\<close>. A reconciler returns the live object and
  whether it is ready; the object of a deleted or not yet ready resource is nil (\<open>None\<close>).
\<close>

section \<open>Errors and messages of the API server\<close>

definition errServiceHasBothClusterIPAndIsHeadless :: gerr where
  "errServiceHasBothClusterIPAndIsHeadless = ESentinel ''service cannot be headless and have a clusterIP set''"

definition errStatefulSetLabelChange :: gerr where
  "errStatefulSetLabelChange = ESentinel ''statefulset: cannot change pod template label values''"

definition errInvalidServiceAccountConfiguration :: gerr where
  "errInvalidServiceAccountConfiguration =
     ESentinel (''invalid service account configuration: if ServiceAccount is empty, then no container can use it ''
       @ ''and vice versa'')"

text \<open>The two regular expressions, as matchers. \<open>\S\<close> is not one of the five ASCII white spaces of RE2.\<close>

definition re_space :: "char \<Rightarrow> bool" where
  "re_space c \<longleftrightarrow> of_char c \<in> {9, 10, 12, 13, 32 :: nat}"

fun suffixes_of :: "'a list \<Rightarrow> 'a list list" where
  "suffixes_of [] = [[]]"
| "suffixes_of (x # xs) = (x # xs) # suffixes_of xs"

definition str_contains :: "string \<Rightarrow> string \<Rightarrow> bool" where
  "str_contains s p = list_ex (\<lambda>t. has_prefix t p) (suffixes_of s)"

definition workloadSpecUpdateForbidden_at :: "string \<Rightarrow> bool" where
  "workloadSpecUpdateForbidden_at t \<longleftrightarrow>
     has_prefix t ''Forbidden: updates to '' \<and>
     (let r = drop (length ''Forbidden: updates to '') t;
          kind = takeWhile (\<lambda>c. \<not> re_space c) r;
          r1 = dropWhile (\<lambda>c. \<not> re_space c) r
      in kind \<noteq> [] \<and> has_prefix r1 '' spec for fields other than ''
         \<and> str_contains (takeWhile (\<lambda>c. c \<noteq> CHR 0x0A) (drop (length '' spec for fields other than '') r1)) '' are forbidden'')"

definition workloadSpecUpdateForbiddenErrorMessageRegex :: "string \<Rightarrow> bool" where
  "workloadSpecUpdateForbiddenErrorMessageRegex s = list_ex workloadSpecUpdateForbidden_at (suffixes_of s)"

definition secretTypeImmutable_at :: "string \<Rightarrow> bool" where
  "secretTypeImmutable_at t \<longleftrightarrow>
     has_prefix t ''Invalid value: \"'' \<and>
     (let r = drop (length ''Invalid value: \"'') t
      in list_ex (\<lambda>k. list_all (\<lambda>c. \<not> re_space c) (take k r) \<and> has_prefix (drop k r) ''\": field is immutable'')
           [1..<length r])"

definition secretTypeImmutableErrorMessageRegex :: "string \<Rightarrow> bool" where
  "secretTypeImmutableErrorMessageRegex s = list_ex secretTypeImmutable_at (suffixes_of s)"

definition immutable_spec_error :: "gerr \<Rightarrow> bool" where
  "immutable_spec_error err \<longleftrightarrow> is_invalid err \<and>
     list_all (\<lambda>cause. cause_type cause = ''FieldValueForbidden'' \<and> cause_field cause = ''spec'' \<and>
        workloadSpecUpdateForbiddenErrorMessageRegex (cause_message cause)) (error_causes err)"

definition immutable_type_error :: "gerr \<Rightarrow> bool" where
  "immutable_type_error err \<longleftrightarrow> is_invalid err \<and>
     list_all (\<lambda>cause. cause_type cause = ''FieldValueInvalid'' \<and> cause_field cause = ''type'' \<and>
        secretTypeImmutableErrorMessageRegex (cause_message cause)) (error_causes err)"

section \<open>Pod templates\<close>

record PodOptions =
  po_service_account :: string
  po_dns_policy :: string
  po_host_network :: bool
  po_annotations :: labels
  po_priority_class :: string
  po_affinity :: "pod_affinity option"
  po_tolerations :: "toleration list"

definition PodOptions0 :: PodOptions where
  "PodOptions0 = \<lparr>po_service_account = [], po_dns_policy = [], po_host_network = False, po_annotations = [],
     po_priority_class = [], po_affinity = None, po_tolerations = []\<rparr>"

record ContainerOptions =
  co_root :: bool
  co_rw_root :: bool
  co_capabilities :: "string list"
  co_needs_service_account :: bool

definition ContainerOptions0 :: ContainerOptions where
  "ContainerOptions0 = \<lparr>co_root = False, co_rw_root = False, co_capabilities = [], co_needs_service_account = False\<rparr>"

definition token_mount :: volume_mount where
  "token_mount = \<lparr>vm_name = ServiceAccountVolumeName, vm_path = DefaultAPITokenMountPath, vm_read_only = Some True,
     vm_sub_path = None\<rparr>"

definition convertToContainerApplyConfiguration :: "(container \<times> ContainerOptions) list \<Rightarrow> container list" where
  "convertToContainerApplyConfiguration containers =
     map (\<lambda>(container, options).
        let user = (if co_root options then 0 else 1000);
            container = (if co_needs_service_account options
               then container\<lparr>c_volume_mounts := c_volume_mounts container @ [token_mount]\<rparr> else container)
        in container\<lparr>c_security_context := Some
             \<lparr>sc_privileged = co_root options, sc_allow_privilege_escalation = co_root options,
              sc_seccomp = ''RuntimeDefault'', sc_read_only_root = \<not> co_rw_root options,
              sc_user = user, sc_group = user, sc_non_root = \<not> co_root options,
              sc_cap_drop = [''ALL''], sc_cap_add = co_capabilities options\<rparr>\<rparr>) containers"

definition service_account_volume :: volume where
  "service_account_volume = (volume0 ServiceAccountVolumeName)\<lparr>vol_projected := Some
     [PServiceAccountToken None WarnOnlyBoundTokenExpirationSeconds ''token'',
      PDownwardAPI [(''namespace'', ''metadata.namespace'')],
      PConfigMap RootCACertConfigMapName [\<lparr>ktp_key = CACertName, ktp_path = CACertName\<rparr>]]\<rparr>"

definition createPodTemplateSpec ::
  "PodOptions \<Rightarrow> (container \<times> ContainerOptions) list \<Rightarrow> (container \<times> ContainerOptions) list \<Rightarrow> volume list
    \<Rightarrow> gerr + pod_template" where
  "createPodTemplateSpec options initContainers containers volumes =
     (let spec = \<lparr>ps_automount_token = False, ps_service_account = po_service_account options,
            ps_priority_class = po_priority_class options, ps_service_links = False,
            ps_tolerations = po_tolerations options, ps_affinity = po_affinity options,
            ps_dns_policy = (if po_dns_policy options = [] then ''ClusterFirst'' else po_dns_policy options),
            ps_host_network = po_host_network options,
            ps_init_containers = convertToContainerApplyConfiguration initContainers,
            ps_containers = convertToContainerApplyConfiguration containers,
            ps_run_as_user = 1000, ps_run_as_group = 1000, ps_run_as_non_root = True, ps_fs_group = 1000,
            ps_volumes = volumes, ps_topology_spread = []\<rparr>
      in if (po_service_account options \<noteq> []) \<noteq> list_ex (\<lambda>(_, o1). co_needs_service_account o1) containers
         then Inl (EWrap ''invalid pod configuration'' errInvalidServiceAccountConfiguration)
         else Inr \<lparr>pt_labels = [], pt_annotations = po_annotations options,
                pt_spec = (if po_service_account options \<noteq> []
                           then spec\<lparr>ps_volumes := ps_volumes spec @ [service_account_volume]\<rparr> else spec)\<rparr>)"

section \<open>Disruption budgets, services, config maps\<close>

datatype PodDisruptionBudgetType = MinAvailable | MaxUnavailable

definition reconcilePodDisruptionBudget :: "'e core_api \<Rightarrow> string \<Rightarrow> string \<Rightarrow> owner_ref option \<Rightarrow> labels
    \<Rightarrow> PodDisruptionBudgetType \<Rightarrow> int \<Rightarrow> ('e, unit) act" where
  "reconcilePodDisruptionBudget K namespace name ownerReference labels mode_type mode_value =
     (if mode_value = 0
      then gwrap (''failed to delete pod disruption budget '' @ namespace @ ''/'' @ name)
             (ignore_not_found (invoke (CPdbDelete namespace name) (k_pdb_delete K namespace name)))
      else
        (let ac = \<lparr>pdb_name = name, pdb_namespace = namespace,
               pdb_owner_refs = (case ownerReference of None \<Rightarrow> [] | Some r \<Rightarrow> [r]),
               pdb_labels = labels, pdb_selector = labels,
               pdb_bound = (case mode_type of MinAvailable \<Rightarrow> PdbMinAvailable mode_value
                            | MaxUnavailable \<Rightarrow> PdbMaxUnavailable mode_value)\<rparr>
         in gwrap (''failed to apply pod disruption budget '' @ namespace @ ''/'' @ name)
              (invoke (CPdbApply ac) (k_pdb_apply K ac))))"

definition service_ready :: "string \<Rightarrow> live_service \<Rightarrow> bool" where
  "service_ready serviceType service =
     (if serviceType = ''LoadBalancer'' then ls_lb_ingress service \<noteq> []
      else if serviceType = ''ClusterIP'' then ls_cluster_ip service \<noteq> []
      else serviceType = ''NodePort'' \<or> serviceType = ''ExternalName'')"

definition reconcileService :: "'e core_api \<Rightarrow> string \<Rightarrow> string \<Rightarrow> owner_ref option \<Rightarrow> labels \<Rightarrow> string
    \<Rightarrow> string option \<Rightarrow> bool \<Rightarrow> service_port list \<Rightarrow> ('e, live_service \<times> bool) act" where
  "reconcileService K namespace name ownerReference labels serviceType serviceIP headless ports =
     (if headless \<and> serviceIP \<noteq> None
      then gfail (EWrap (namespace @ ''/'' @ name) errServiceHasBothClusterIPAndIsHeadless)
      else
        (let ac = \<lparr>svc_name = name, svc_namespace = namespace,
               svc_owner_refs = (case ownerReference of None \<Rightarrow> [] | Some r \<Rightarrow> [r]),
               svc_labels = labels, svc_type = serviceType, svc_selector = labels, svc_ports = ports,
               svc_cluster_ip = (if headless then Some ClusterIPNone else serviceIP),
               svc_publish_not_ready = headless\<rparr>
         in gbind (gwrap (''failed to apply service '' @ namespace @ ''/'' @ name)
                (invoke (CServiceApply ac) (k_service_apply K ac)))
              (\<lambda>service. gret (service, service_ready serviceType service))))"

definition reconcileConfigmap :: "'e core_api \<Rightarrow> string \<Rightarrow> string \<Rightarrow> bool \<Rightarrow> owner_ref option \<Rightarrow> labels \<Rightarrow> labels
    \<Rightarrow> ('e, unit) act" where
  "reconcileConfigmap K namespace name deleteResource ownerReference labels data =
     (if deleteResource
      then gwrap (''failed to delete configmap '' @ namespace @ ''/'' @ name)
             (ignore_not_found (invoke (CConfigMapDelete namespace name) (k_configmap_delete K namespace name)))
      else
        (let ac = \<lparr>cma_name = name, cma_namespace = namespace,
               cma_owner_refs = (case ownerReference of None \<Rightarrow> [] | Some r \<Rightarrow> [r]),
               cma_labels = labels, cma_data = data\<rparr>
         in gwrap (''failed to apply configmap '' @ namespace @ ''/'' @ name)
              (invoke (CConfigMapApply ac) (k_configmap_apply K ac))))"

section \<open>Secrets\<close>

text \<open>
  \<open>reconcileSecret\<close> calls itself after it deleted a secret whose type cannot be changed. \<open>depth\<close> is the
  number of nested calls the stack of a goroutine has room for; running out of it ends the program.
\<close>

definition secret_configuration :: "string \<Rightarrow> string \<Rightarrow> owner_ref option \<Rightarrow> labels \<Rightarrow> labels \<Rightarrow> string \<Rightarrow> secret_ac" where
  "secret_configuration namespace name ownerReference labels data secretType =
     \<lparr>sec_name = name, sec_namespace = namespace,
      sec_owner_refs = (case ownerReference of None \<Rightarrow> [] | Some r \<Rightarrow> [r]),
      sec_labels = labels, sec_data = data, sec_type = secretType\<rparr>"

fun reconcileSecret :: "nat \<Rightarrow> 'e core_api \<Rightarrow> string \<Rightarrow> string \<Rightarrow> bool \<Rightarrow> owner_ref option \<Rightarrow> labels \<Rightarrow> labels
    \<Rightarrow> string \<Rightarrow> ('e, unit) act" where
  "reconcileSecret 0 K namespace name deleteResource ownerReference labels data secretType =
     gfail (EPanic ''stack overflow'')"
| "reconcileSecret (Suc depth) K namespace name deleteResource ownerReference labels data secretType =
     (let ac = secret_configuration namespace name ownerReference labels data secretType in
      if deleteResource
      then gwrap (''failed to delete secret '' @ namespace @ ''/'' @ name)
             (ignore_not_found (invoke (CSecretDelete namespace name) (k_secret_delete K namespace name)))
      else
        gbind (gtry (invoke (CSecretApply ac) (k_secret_apply K ac))) (\<lambda>r. case r of
          Inr _ \<Rightarrow> gret ()
        | Inl err \<Rightarrow>
            if immutable_type_error err
            then gseq (gwrap (''failed to delete existing secret '' @ name)
                         (invoke (CSecretDelete namespace name) (k_secret_delete K namespace name)))
                   (gseq (emit False ''ImmutableTypeField'' ''DeletedSecret'')
                     (reconcileSecret depth K namespace name deleteResource ownerReference labels data secretType))
            else gfail (EWrap (''failed to apply secret '' @ namespace @ ''/'' @ name) err)))"

section \<open>Workloads\<close>

definition workload_spec0 :: workload_spec where
  "workload_spec0 = \<lparr>ws_selector = [],
     ws_template = \<lparr>pt_labels = [], pt_annotations = [], pt_spec =
       \<lparr>ps_automount_token = True, ps_service_account = [], ps_priority_class = [], ps_service_links = True,
        ps_tolerations = [], ps_affinity = None, ps_dns_policy = [], ps_host_network = False,
        ps_init_containers = [], ps_containers = [], ps_run_as_user = 0, ps_run_as_group = 0,
        ps_run_as_non_root = False, ps_fs_group = 0, ps_volumes = [], ps_topology_spread = []\<rparr>\<rparr>,
     ws_replicas = None, ws_deployment = None, ws_statefulset = None\<rparr>"

definition template_with_labels :: "labels \<Rightarrow> pod_template \<Rightarrow> pod_template" where
  "template_with_labels l t = t\<lparr>pt_labels := lo_assign (pt_labels t) l\<rparr>"

definition workload_configuration :: "string \<Rightarrow> string \<Rightarrow> string \<Rightarrow> owner_ref option \<Rightarrow> labels \<Rightarrow> pod_template
    \<Rightarrow> (workload_ac \<Rightarrow> workload_ac) list \<Rightarrow> workload_ac" where
  "workload_configuration kind namespace name ownerReference labels template mutateFuncs =
     fold (\<lambda>f ac. f ac) mutateFuncs
       \<lparr>wl_kind = kind, wl_name = name, wl_namespace = namespace,
        wl_owner_refs = (case ownerReference of None \<Rightarrow> [] | Some r \<Rightarrow> [r]), wl_labels = labels,
        wl_spec = workload_spec0\<lparr>ws_selector := labels, ws_template := template\<rparr>\<rparr>"

definition workload_owner :: "string \<Rightarrow> string \<Rightarrow> string \<Rightarrow> owner_ref" where
  "workload_owner kind name uid = \<lparr>or_api_version = AppsV1, or_kind = kind, or_name = name, or_uid = uid,
     or_controller = Some True, or_block = Some True\<rparr>"

definition reconcileWorkload :: "(string \<Rightarrow> string) \<Rightarrow> 'e core_api \<Rightarrow> 'e cilium_api option \<Rightarrow> string
    \<Rightarrow> string \<Rightarrow> string \<Rightarrow> bool \<Rightarrow> owner_ref option \<Rightarrow> labels
    \<Rightarrow> IngressNetworkPolicyTarget targets \<Rightarrow> EgressNetworkPolicyTarget targets \<Rightarrow> string \<Rightarrow> pod_template
    \<Rightarrow> (live_workload \<Rightarrow> bool) \<Rightarrow> (workload_ac \<Rightarrow> workload_ac) list
    \<Rightarrow> ('e, live_workload option \<times> bool) act" where
  "reconcileWorkload md5hex K ciliumClient kind namespace name deleteResource ownerReference labels
      ingress egress propagationPolicy podTemplateSpec readinessCheck mutateFuncs =
     (let delete = invoke (CWorkloadDelete kind namespace name propagationPolicy)
                     (k_workload_delete K kind namespace name propagationPolicy) in
      if deleteResource
      then gseq (gwrap (''failed to delete '' @ kind @ '' '' @ name) (ignore_not_found delete)) (gret (None, True))
      else
        gbind (gwrap (''failed to set checksum annotations on '' @ kind @ '' '' @ name)
                 (SetChecksumAnnotations md5hex K namespace (template_with_labels labels podTemplateSpec)))
          (\<lambda>template.
           case ValidateMounts (pt_spec template) of
             Some err \<Rightarrow> gfail (EWrap (kind @ '' '' @ name @ '' has mounts without corresponding volume'') err)
           | None \<Rightarrow>
             (let ac = workload_configuration kind namespace name ownerReference labels template mutateFuncs in
              gbind (gtry (invoke (CWorkloadApply ac) (k_workload_apply K ac))) (\<lambda>r. case r of
                Inl err \<Rightarrow>
                  if immutable_spec_error err
                  then gseq (gwrap (''failed to delete existing '' @ kind @ '' '' @ name) delete)
                         (gseq (emit True ''ImmutableSpecField'' (''Deleted'' @ kind)) (gret (None, False)))
                  else gfail (EWrap (''failed to apply '' @ kind @ '' '' @ name) err)
              | Inr applied \<Rightarrow>
                  gseq (gwrap (''failed to reconcile network policy for '' @ kind @ '' '' @ namespace @ ''/'' @ name)
                          (reconcileNetworkPolicy K ciliumClient namespace name
                             (Some (workload_owner kind name (lw_uid applied))) labels ingress egress))
                    (gret (Some applied, readinessCheck applied))))))"

definition isDeploymentReady :: "live_workload \<Rightarrow> bool" where
  "isDeploymentReady deployment \<longleftrightarrow> 1 \<le> lw_available_replicas deployment"

definition createDeploymentMutator :: "int \<Rightarrow> workload_ac \<Rightarrow> workload_ac" where
  "createDeploymentMutator replicas ac =
     ac\<lparr>wl_spec := (wl_spec ac)\<lparr>ws_deployment := Some \<lparr>dp_strategy = ''RollingUpdate'', dp_max_surge = replicas\<rparr>,
       ws_replicas := Some replicas\<rparr>\<rparr>"

definition with_topology_spread :: "labels \<Rightarrow> pod_template \<Rightarrow> pod_template" where
  "with_topology_spread labels t =
     t\<lparr>pt_spec := (pt_spec t)\<lparr>ps_topology_spread :=
        ps_topology_spread (pt_spec t) @ [CreatePodTopologySpreadConstraints labels]\<rparr>\<rparr>"

text \<open>The disruption budget reads the name and the UID of the object, which may be nil.\<close>

definition workload_budget :: "'e core_api \<Rightarrow> string \<Rightarrow> string \<Rightarrow> string \<Rightarrow> live_workload option \<Rightarrow> labels
    \<Rightarrow> PodDisruptionBudgetType \<Rightarrow> int \<Rightarrow> ('e, unit) act" where
  "workload_budget K kind namespace name workload labels mode_type replicas =
     (case workload of
        None \<Rightarrow> gfail (EPanic ''nil dereference of the workload'')
      | Some w \<Rightarrow> reconcilePodDisruptionBudget K namespace name (Some (workload_owner kind (lw_name w) (lw_uid w)))
          labels mode_type (if 1 < replicas then 1 else 0))"

definition reconcileDeployment :: "(string \<Rightarrow> string) \<Rightarrow> 'e core_api \<Rightarrow> 'e cilium_api option
    \<Rightarrow> string \<Rightarrow> string \<Rightarrow> bool \<Rightarrow> owner_ref option \<Rightarrow> labels
    \<Rightarrow> IngressNetworkPolicyTarget targets \<Rightarrow> EgressNetworkPolicyTarget targets \<Rightarrow> int \<Rightarrow> pod_template
    \<Rightarrow> ('e, live_workload option \<times> bool) act" where
  "reconcileDeployment md5hex K ciliumClient namespace name deleteResource ownerReference labels
      ingress egress replicas podTemplateSpec =
     gbind (gwrap (''failed to reconcile deployment '' @ namespace @ ''/'' @ name)
         (reconcileWorkload md5hex K ciliumClient ''Deployment'' namespace name deleteResource ownerReference labels
            ingress egress ''Background'' (with_topology_spread labels podTemplateSpec)
            isDeploymentReady [createDeploymentMutator replicas]))
       (\<lambda>(deployment, ready).
          if \<not> ready then gret (None, False)
          else gseq (gwrap (''failed to reconcile pod disruption budget for deployment '' @ namespace @ ''/'' @ name)
                       (workload_budget K ''Deployment'' namespace name deployment labels MinAvailable replicas))
                 (gret (deployment, True)))"

section \<open>Stateful sets\<close>

definition isStatefulsetReady :: "live_workload \<Rightarrow> bool" where
  "isStatefulsetReady statefulset \<longleftrightarrow> 1 \<le> lw_available_replicas statefulset"

definition createStatefulsetMutator :: "int \<Rightarrow> statefulset_part \<Rightarrow> workload_ac \<Rightarrow> workload_ac" where
  "createStatefulsetMutator replicas part ac =
     ac\<lparr>wl_spec := (wl_spec ac)\<lparr>ws_statefulset := Some part, ws_replicas := Some replicas\<rparr>\<rparr>"

definition relabel_template :: "labels \<Rightarrow> workload_ac \<Rightarrow> workload_ac" where
  "relabel_template labels ac =
     ac\<lparr>wl_spec := (wl_spec ac)\<lparr>ws_template := template_with_labels labels (ws_template (wl_spec ac))\<rparr>\<rparr>"

text \<open>
  Which labels a stateful set gets, given the one that exists: the error, or the labels of the pods and of
  the selector. The last branch of the Go \<open>switch\<close> has no default: nothing changes.
\<close>

definition statefulset_labels :: "labels \<Rightarrow> live_workload \<Rightarrow> gerr + (labels \<times> labels)" where
  "statefulset_labels labels existing =
     (let existingPodLabels = lw_template_labels existing;
          existingSelector = lw_selector existing;
          mergedLabels = lo_assign labels existingPodLabels
      in if lo_every existingPodLabels labels then Inr (labels, labels)
         else if lo_every mergedLabels existingSelector then Inr (mergedLabels, existingSelector)
         else if length labels = length existingPodLabels then Inl errStatefulSetLabelChange
         else Inr (labels, labels))"

definition reconcileStatefulset :: "(string \<Rightarrow> string) \<Rightarrow> 'e core_api \<Rightarrow> 'e cilium_api option
    \<Rightarrow> string \<Rightarrow> string \<Rightarrow> bool \<Rightarrow> owner_ref option \<Rightarrow> statefulset_part \<Rightarrow> labels
    \<Rightarrow> IngressNetworkPolicyTarget targets \<Rightarrow> EgressNetworkPolicyTarget targets \<Rightarrow> int \<Rightarrow> pod_template
    \<Rightarrow> ('e, live_workload option \<times> bool) act" where
  "reconcileStatefulset md5hex K ciliumClient namespace name deleteResource ownerReference part labels
      ingress egress replicas podTemplateSpec =
     gbind (gtry (invoke (CWorkloadGet ''StatefulSet'' namespace name)
                    (k_workload_get K ''StatefulSet'' namespace name))) (\<lambda>r.
       gbind (case r of
           Inl err \<Rightarrow>
             if is_not_found err then gret (Some (labels, labels))
             else gfail (EWrap (''failed to get existing statefulset '' @ namespace @ ''/'' @ name) err)
         | Inr existing \<Rightarrow>
             (case statefulset_labels labels existing of
                Inl err \<Rightarrow> gfail (EWrap (''statefulset '' @ namespace @ ''/'' @ name) err)
              | Inr (podLabels, selectorLabels) \<Rightarrow>
                  if \<not> lo_elements_match (lw_selector existing) selectorLabels \<and> \<not> isStatefulsetReady existing
                  then gret None
                  else gret (Some (podLabels, selectorLabels))))
       (\<lambda>decision. case decision of
          None \<Rightarrow> gret (None, False)
        | Some (labels, selectorLabels) \<Rightarrow>
            gbind (gwrap (''failed to reconcile statefulset '' @ namespace @ ''/'' @ name)
               (reconcileWorkload md5hex K ciliumClient ''StatefulSet'' namespace name deleteResource ownerReference
                  selectorLabels ingress egress ''Orphan'' (with_topology_spread labels podTemplateSpec)
                  isStatefulsetReady [createStatefulsetMutator replicas part, relabel_template labels]))
             (\<lambda>(statefulSet, ready).
                if \<not> ready then gret (None, False)
                else gseq (gwrap (''failed to reconcile pod disruption budget for statefulset '' @ namespace @ ''/'' @ name)
                       (workload_budget K ''StatefulSet'' namespace name statefulSet labels MaxUnavailable replicas))
                     (gret (statefulSet, ready)))))"

section \<open>Selectors match their pods\<close>

text \<open>The API server rejects a workload whose selector does not match the labels of its pod template.\<close>

fun selector_ok :: "call \<Rightarrow> bool" where
  "selector_ok (CWorkloadApply ac) \<longleftrightarrow>
     map_of (ws_selector (wl_spec ac)) \<subseteq>\<^sub>m map_of (pt_labels (ws_template (wl_spec ac)))"
| "selector_ok _ = True"

lemma map_le_lo_assign: "map_of l \<subseteq>\<^sub>m map_of (lo_assign m l)"
  by (simp add: map_le_iff_map_add_commute map_add_assoc) 

lemma annotate_simps [simp]:
  "pt_labels (annotate k v t) = pt_labels t" "pt_spec (annotate k v t) = pt_spec t"
  by (simp_all add: annotate_def)

lemma SetChecksumAnnotations_keeps:
  assumes "SetChecksumAnnotations md5hex K namespace t w = (Inr t', w')"
  shows "pt_labels t' = pt_labels t" "pt_spec t' = pt_spec t"
  using assms
  by (auto simp: SetChecksumAnnotations_def Let_def gret_eq elim!: gbind_InrE gwrap_InrE split: if_splits)

lemma keeps_SetChecksumAnnotations [keeps_intros]:
  assumes "reflp R" "transp R" "\<And>n. keeps R (invoke (CSecretGet namespace n) (k_secret_get K namespace n))"
    and "\<And>n. keeps R (invoke (CConfigMapGet namespace n) (k_configmap_get K namespace n))"
  shows "keeps R (SetChecksumAnnotations md5hex K namespace t)"
  unfolding SetChecksumAnnotations_def Let_def CalculateSecretChecksum_def CalculateConfigMapChecksum_def
  using assms by (auto intro!: keeps_intros)

lemma keeps_ignore_invoke [keeps_intros]: "P c \<Longrightarrow> keeps (calls_ok P) (ignore_not_found (invoke c f))"
  by (intro keeps_intros) 

lemma keeps_gbind_result:
  assumes "transp R" "keeps R m" "\<And>x w w'. m w = (Inr x, w') \<Longrightarrow> keeps R (f x)"
  shows "keeps R (gbind m f)"
  unfolding keeps_def
proof
  fix s
  obtain r s1 where m: "m s = (r, s1)" by fastforce
  with assms(2) have s1: "R s s1" by (rule keepsD)
  show "R s (snd (gbind m f s))"
  proof (cases r)
    case (Inl e)
    with m s1 show ?thesis by (simp add: gbind_fail)
  next
    case (Inr x)
    with m assms(3) have "keeps R (f x)" by blast
    then have "R s1 (snd (f x s1))" by (simp add: keeps_def)
    with m Inr s1 assms(1) show ?thesis by (auto simp: gbind_run dest: transpD)
  qed
qed

lemma gwrap_Inr_eq: "gwrap msg m w = (Inr x, w') \<longleftrightarrow> m w = (Inr x, w')"
  by (auto simp: gwrap_def split: prod.splits sum.splits)

lemma keeps_reconcileCiliumNetworkPolicy:
  assumes "\<And>c. P (CCnpGet namespace name)" "\<And>c. P (CCnpCreate c)" "\<And>c. P (CCnpUpdate c)"
  shows "keeps (calls_ok P) (reconcileCiliumNetworkPolicy C name namespace ownerReference labels ingress egress)"
  unfolding reconcileCiliumNetworkPolicy_def Let_def
  using assms by (auto intro!: keeps_intros)

lemma keeps_reconcileNetworkPolicy:
  assumes "P (CNetpolDelete namespace name)" "\<And>c. P (CNetpolApply c)" "P (CCnpDelete namespace name)"
    and "P (CCnpGet namespace name)" "\<And>c. P (CCnpCreate c)" "\<And>c. P (CCnpUpdate c)"
  shows "keeps (calls_ok P) (reconcileNetworkPolicy K C namespace name ownerReference labels ingress egress)"
  unfolding reconcileNetworkPolicy_def reconcileKubernetesNetworkPolicy_def Let_def
  using assms by (auto intro!: keeps_intros keeps_reconcileCiliumNetworkPolicy)

lemma keeps_reconcileWorkload_calls:
  assumes "\<And>t'. pt_labels t' = lo_assign (pt_labels t) labels \<Longrightarrow>
      P (CWorkloadApply (workload_configuration kind namespace name ownerReference labels t' mutateFuncs))"
    and "P (CWorkloadDelete kind namespace name propagationPolicy)"
    and "\<And>n. P (CSecretGet namespace n)" "\<And>n. P (CConfigMapGet namespace n)"
    and "P (CNetpolDelete namespace name)" "\<And>c. P (CNetpolApply c)" "P (CCnpDelete namespace name)"
    and "P (CCnpGet namespace name)" "\<And>c. P (CCnpCreate c)" "\<And>c. P (CCnpUpdate c)"
  shows "keeps (calls_ok P) (reconcileWorkload md5hex K C kind namespace name deleteResource ownerReference labels
      ingress egress propagationPolicy t readinessCheck mutateFuncs)"
proof -
  have apply_ok: "P (CWorkloadApply (workload_configuration kind namespace name ownerReference labels t' mutateFuncs))"
    if "SetChecksumAnnotations md5hex K namespace (template_with_labels labels t) w = (Inr t', w')" for t' and w w' :: "'a world"
    using SetChecksumAnnotations_keeps(1) [OF that] by (intro assms(1)) (simp add: template_with_labels_def)
  show ?thesis
    unfolding reconcileWorkload_def Let_def
    by (rule keeps_if)
      (use assms(2-) apply_ok in \<open>auto intro!: keeps_intros keeps_reconcileNetworkPolicy keeps_gbind_result
          simp: gwrap_Inr_eq\<close>)
qed

lemma keeps_workload_budget:
  assumes "P (CPdbDelete namespace name)" "\<And>a. P (CPdbApply a)"
  shows "keeps (calls_ok P) (workload_budget K kind namespace name workload labels mode_type replicas)"
  unfolding workload_budget_def reconcilePodDisruptionBudget_def Let_def
  using assms by (auto intro!: keeps_intros)

lemma deployment_configuration_selector:
  assumes "pt_labels t = lo_assign l labels"
  shows "selector_ok (CWorkloadApply
     (workload_configuration kind namespace name ownerReference labels t [createDeploymentMutator replicas]))"
  using assms map_le_lo_assign by (simp add: workload_configuration_def createDeploymentMutator_def)

lemma statefulset_configuration_selector:
  assumes "map_of selectorLabels \<subseteq>\<^sub>m map_of labels"
  shows "selector_ok (CWorkloadApply
     (workload_configuration kind namespace name ownerReference selectorLabels t
        [createStatefulsetMutator replicas part, relabel_template labels]))"
  using assms map_le_trans [OF assms map_le_lo_assign]
  by (simp add: workload_configuration_def createStatefulsetMutator_def relabel_template_def template_with_labels_def)

lemma keeps_reconcileDeployment_selector:
  "keeps (calls_ok selector_ok) (reconcileDeployment md5hex K C namespace name deleteResource ownerReference labels
      ingress egress replicas t)"
  unfolding reconcileDeployment_def
  by (auto intro!: keeps_intros keeps_workload_budget keeps_reconcileWorkload_calls deployment_configuration_selector)

text \<open>The labels that are chosen for a stateful set are consistent by the very case in which they are chosen.\<close>

lemma statefulset_labels_consistent:
  assumes "gomap_ok labels" "statefulset_labels labels existing = Inr (podLabels, selectorLabels)"
  shows "map_of selectorLabels \<subseteq>\<^sub>m map_of podLabels"
proof -
  let ?m = "lo_assign labels (lw_template_labels existing)"
  have "map_of (lw_selector existing) \<subseteq>\<^sub>m map_of ?m" if "lo_every ?m (lw_selector existing)"
  proof -
    have "map_of ?m k = Some v" if "map_of (lw_selector existing) k = Some v" for k v
      using \<open>lo_every ?m (lw_selector existing)\<close> that assms(1)
      by (auto dest!: map_of_SomeD simp del: map_of_lo_assign simp: gomap_entry_iff [symmetric])
    then show ?thesis by (auto simp: map_le_def simp del: map_of_lo_assign)
  qed
  with assms(2) show ?thesis
    by (auto simp: statefulset_labels_def Let_def simp del: map_of_lo_assign split: if_splits)
qed

lemma keeps_reconcileStatefulset_selector:
  assumes "gomap_ok labels"
  shows "keeps (calls_ok selector_ok) (reconcileStatefulset md5hex K C namespace name deleteResource ownerReference
      part labels ingress egress replicas t)"
proof -
  define decide :: "gerr + live_workload \<Rightarrow> ('a, (labels \<times> labels) option) act" where
    "decide r = (case r of
           Inl err \<Rightarrow>
             if is_not_found err then gret (Some (labels, labels))
             else gfail (EWrap (''failed to get existing statefulset '' @ namespace @ ''/'' @ name) err)
         | Inr existing \<Rightarrow>
             (case statefulset_labels labels existing of
                Inl err \<Rightarrow> gfail (EWrap (''statefulset '' @ namespace @ ''/'' @ name) err)
              | Inr (podLabels, selectorLabels) \<Rightarrow>
                  if \<not> lo_elements_match (lw_selector existing) selectorLabels \<and> \<not> isStatefulsetReady existing
                  then gret None
                  else gret (Some (podLabels, selectorLabels))))" for r
  have decided: "map_of sel \<subseteq>\<^sub>m map_of pod" if "decide r w = (Inr (Some (pod, sel)), w')" for r w w' pod sel
    using that statefulset_labels_consistent [OF assms]
    by (auto simp: decide_def gret_eq gfail_eq split: sum.splits if_splits)
  have decide_keeps: "keeps (calls_ok selector_ok) (decide r)" for r
    unfolding decide_def by (auto intro!: keeps_intros)
  show ?thesis
    unfolding reconcileStatefulset_def decide_def [symmetric]
    by (auto intro!: keeps_intros keeps_gbind_result [OF transp_calls_ok decide_keeps] keeps_workload_budget
        keeps_reconcileWorkload_calls statefulset_configuration_selector dest: decided)
qed

section \<open>Properties\<close>

text \<open>
  C24: every deployment and every stateful set that is sent to the API server has a selector that its own
  pods satisfy, on every path, whatever stateful set exists already and whatever the server answers.
\<close>

theorem workload_selector_matches_template:
  assumes "gomap_ok labels"
  shows "calls_ok selector_ok w (snd (reconcileDeployment md5hex K C namespace name deleteResource ownerReference
        labels ingress egress replicas t w))
    \<and> calls_ok selector_ok w (snd (reconcileStatefulset md5hex K C namespace name deleteResource ownerReference
        part labels ingress egress replicas t w))"
  using keeps_reconcileDeployment_selector [of md5hex K C namespace name deleteResource ownerReference
      labels ingress egress replicas t]
    keeps_reconcileStatefulset_selector [OF assms, of md5hex K C namespace name deleteResource ownerReference
      part ingress egress replicas t]
  by (simp add: keeps_def)

definition wit_part :: statefulset_part where
  "wit_part = \<lparr>st_service_name = ''e-foo-etcd'', st_pod_management = ''Parallel'', st_max_unavailable = Some 1,
     st_claims = [], st_when_deleted = ''Delete'', st_when_scaled = ''Retain''\<rparr>"

definition wit_template :: pod_template where
  "wit_template = ws_template workload_spec0"

theorem workload_selector_matches_template_witness:
  "gomap_ok [(''app'', ''etcd'')] \<and>
   calls_ok selector_ok wit_world (snd (reconcileStatefulset (\<lambda>s. s) wit_env_api None ''prod'' ''foo-etcd'' False None
     wit_part [(''app'', ''etcd'')] (Some []) None 3 wit_template wit_world))"
proof -
  have ok: "gomap_ok [(''app'', ''etcd'')]" by (simp add: gomap_ok_def)
  show ?thesis
    using ok workload_selector_matches_template [OF ok, of wit_world "\<lambda>s. s" wit_env_api None "''prod''" "''foo-etcd''"
        False None "Some []" None 3 wit_template wit_part] by simp
qed

text \<open>
  For a stateful set the API server can hold (its selector matches its pods) the error
  \<open>errStatefulSetLabelChange\<close> is never raised: a label that the pods already have keeps its old value, and
  the new value is dropped without an error.
\<close>

theorem statefulset_label_change_dropped:
  assumes "gomap_ok labels" "gomap_ok (lw_template_labels existing)"
    and "set (lw_selector existing) \<subseteq> set (lw_template_labels existing)"
  shows "\<exists>podLabels selectorLabels. statefulset_labels labels existing = Inr (podLabels, selectorLabels)
     \<and> (\<forall>k \<in> dom (map_of labels) \<inter> dom (map_of (lw_template_labels existing)).
          map_of podLabels k = map_of (lw_template_labels existing) k)"
proof (cases "lo_every (lw_template_labels existing) labels")
  case True
  then have "map_of labels \<subseteq>\<^sub>m map_of (lw_template_labels existing)"
    using assms(1,2) by (simp only: lo_every_map_le)
  with True show ?thesis
    by (auto simp: statefulset_labels_def Let_def map_le_def)
next
  case False
  have sub: "set (lw_template_labels existing) \<subseteq> set (lo_assign labels (lw_template_labels existing))"
    using assms(1,2) by (auto simp: gomap_entry_iff)
  with assms(3) have "lo_every (lo_assign labels (lw_template_labels existing)) (lw_selector existing)"
    by auto
  with False have "statefulset_labels labels existing
      = Inr (lo_assign labels (lw_template_labels existing), lw_selector existing)"
    unfolding statefulset_labels_def Let_def by (simp only: if_False if_True)
  then show ?thesis by (auto simp: map_add_def)
qed

theorem statefulset_label_change_dropped_witness:
  "\<exists>podLabels selectorLabels. statefulset_labels [(''app'', ''new'')]
      \<lparr>lw_name = ''s'', lw_uid = ''u'', lw_selector = [(''app'', ''old'')], lw_template_labels = [(''app'', ''old'')],
       lw_available_replicas = 3, lw_ready_replicas = 3, lw_updated_replicas = 3, lw_desired = 3\<rparr> = Inr (podLabels, selectorLabels) \<and> map_of podLabels ''app'' = Some ''old''"
  using statefulset_label_change_dropped [of "[(''app'', ''new'')]"
      "\<lparr>lw_name = ''s'', lw_uid = ''u'', lw_selector = [(''app'', ''old'')], lw_template_labels = [(''app'', ''old'')],
       lw_available_replicas = 3, lw_ready_replicas = 3, lw_updated_replicas = 3, lw_desired = 3\<rparr>"]
  by (simp add: gomap_ok_def)

text \<open>
  C27: if the server rejects a workload because of an immutable field of its spec, the workload is deleted
  once, it is not applied again in the same run and it is reported as not ready; any other error is
  returned and nothing is deleted.
\<close>

theorem reconcileWorkload_rejected:
  assumes "SetChecksumAnnotations md5hex K namespace (template_with_labels labels t) w = (Inr t', w1)"
    and "ValidateMounts (pt_spec t') = None"
    and "invoke (CWorkloadApply (workload_configuration kind namespace name ownerReference labels t' fs))
           (k_workload_apply K (workload_configuration kind namespace name ownerReference labels t' fs)) w1 = (Inl err, w2)"
  shows "\<exists>r w3. reconcileWorkload md5hex K C kind namespace name False ownerReference labels ingress egress pol t rc fs w
        = (r, w3)
     \<and> (if immutable_spec_error err
        then clog w3 = clog w2 @ [CWorkloadDelete kind namespace name pol]
             \<and> (r = Inr (None, False)
                \<or> (\<exists>e. r = Inl (EWrap (''failed to delete existing '' @ kind @ '' '' @ name) e)))
        else w3 = w2 \<and> r = Inl (EWrap (''failed to apply '' @ kind @ '' '' @ name) err))"
proof (cases "immutable_spec_error err")
  case False
  with assms show ?thesis
    by (simp add: reconcileWorkload_def Let_def gbind_run gwrap_run gtry_run gfail_eq)
next
  case True
  let ?d = "invoke (CWorkloadDelete kind namespace name pol) (k_workload_delete K kind namespace name pol)"
  let ?m = "reconcileWorkload md5hex K C kind namespace name False ownerReference labels ingress egress pol t rc fs"
  obtain x w3 where d: "?d w2 = (x, w3)" by fastforce
  have run: "?m w = gseq (gwrap (''failed to delete existing '' @ kind @ '' '' @ name) ?d)
       (gseq (emit True ''ImmutableSpecField'' (''Deleted'' @ kind)) (gret (None, False))) w2"
    using True assms by (simp add: reconcileWorkload_def Let_def gbind_run gwrap_run gtry_run)
  show ?thesis
  proof (cases x)
    case (Inl e)
    with d have "?m w = (Inl (EWrap (''failed to delete existing '' @ kind @ '' '' @ name) e), w3)"
      unfolding run by (simp add: gseq_fail gwrap_fail)
    with True invoke_clog [OF d] show ?thesis by simp
  next
    case (Inr u)
    have "?m w = gseq (emit True ''ImmutableSpecField'' (''Deleted'' @ kind)) (gret (None, False)) w3"
      unfolding run using d Inr by (simp add: gseq_run gwrap_run)
    then have "\<exists>w4. ?m w = (Inr (None, False), w4) \<and> clog w4 = clog w3"
      by (simp add: emit_def gmod_def gseq_def gbind_def gret_eq)
    with True invoke_clog [OF d] show ?thesis by auto
  qed
qed

definition rejecting_api :: "unit core_api" where
  \<comment> \<open>a server that calls every workload and secret invalid and names no cause\<close>
  "rejecting_api = wit_env_api\<lparr>k_workload_apply := (\<lambda>a e. (Inl (EApi (Invalid [])), e)),
     k_secret_apply := (\<lambda>a e. (Inl (EApi (Invalid [])), e))\<rparr>"

lemma rejected_immutable: "immutable_spec_error (EApi (Invalid []))" "immutable_type_error (EApi (Invalid []))"
  by (simp_all add: immutable_spec_error_def immutable_type_error_def is_invalid_def error_causes_def)

theorem reconcileWorkload_rejected_witness:
  "\<exists>r w3. reconcileWorkload (\<lambda>s. s) rejecting_api None ''StatefulSet'' ''prod'' ''foo-etcd'' False None [] None None
      ''Orphan'' wit_template isStatefulsetReady [] wit_world = (r, w3)
    \<and> CWorkloadDelete ''StatefulSet'' ''prod'' ''foo-etcd'' ''Orphan'' \<in> set (clog w3)"
proof -
  let ?t = "template_with_labels [] wit_template"
  let ?ac = "workload_configuration ''StatefulSet'' ''prod'' ''foo-etcd'' None [] ?t []"
  have sums: "SetChecksumAnnotations (\<lambda>s. s) rejecting_api ''prod'' ?t wit_world = (Inr ?t, wit_world)"
    by (simp add: SetChecksumAnnotations_def Let_def extractSecretNames_def extractConfigMapNames_def extractNames_def
        template_with_labels_def wit_template_def workload_spec0_def gret_run)
  have mounts: "ValidateMounts (pt_spec ?t) = None"
    by (simp add: ValidateMounts_def invalidMounts_def template_with_labels_def wit_template_def workload_spec0_def)
  obtain w2 where rejected: "invoke (CWorkloadApply ?ac) (k_workload_apply rejecting_api ?ac) wit_world
      = (Inl (EApi (Invalid [])), w2)"
    by (simp add: invoke_def rejecting_api_def)
  from reconcileWorkload_rejected [OF sums mounts rejected, of None None None "''Orphan''" isStatefulsetReady]
  show ?thesis by (auto simp: rejected_immutable)
qed

section \<open>Termination of the secret reconciler\<close>

lemma reconcileSecret_delete:
  "reconcileSecret (Suc d) K namespace name True ownerReference labels data secretType =
     gwrap (''failed to delete secret '' @ namespace @ ''/'' @ name)
       (ignore_not_found (invoke (CSecretDelete namespace name) (k_secret_delete K namespace name)))"
  by (simp add: Let_def)

lemma reconcileSecret_apply:
  assumes "invoke (CSecretApply (secret_configuration namespace name ownerReference labels data secretType))
     (k_secret_apply K (secret_configuration namespace name ownerReference labels data secretType)) w = (r, w1)"
  shows "r = Inr u \<Longrightarrow>
      reconcileSecret (Suc d) K namespace name False ownerReference labels data secretType w = (Inr (), w1)"
    and "r = Inl err \<Longrightarrow> \<not> immutable_type_error err \<Longrightarrow>
      reconcileSecret (Suc d) K namespace name False ownerReference labels data secretType w
        = (Inl (EWrap (''failed to apply secret '' @ namespace @ ''/'' @ name) err), w1)"
    and "r = Inl err \<Longrightarrow> immutable_type_error err \<Longrightarrow>
      reconcileSecret (Suc d) K namespace name False ownerReference labels data secretType w
        = gseq (gwrap (''failed to delete existing secret '' @ name)
              (invoke (CSecretDelete namespace name) (k_secret_delete K namespace name)))
            (gseq (emit False ''ImmutableTypeField'' ''DeletedSecret'')
              (reconcileSecret d K namespace name False ownerReference labels data secretType)) w1"
  using assms by (simp_all add: Let_def gbind_run gtry_run gret_run gfail_run)

declare reconcileSecret.simps [simp del]

lemma reconcileSecret_no_overflow:
  assumes "invoke (CSecretApply (secret_configuration namespace name ownerReference labels data secretType))
     (k_secret_apply K (secret_configuration namespace name ownerReference labels data secretType)) w = (r, w1)"
    and "\<And>err. r = Inl err \<Longrightarrow> \<not> immutable_type_error err"
  obtains r' where "r' \<noteq> Inl (EPanic ''stack overflow'')"
    "\<And>d. reconcileSecret (Suc d) K namespace name False ownerReference labels data secretType w = (r', w1)"
proof (cases r)
  case (Inl err)
  with assms(2) reconcileSecret_apply(2) [OF assms(1)] show thesis
    by (intro that [of "Inl (EWrap (''failed to apply secret '' @ namespace @ ''/'' @ name) err)"]) auto
next
  case (Inr u)
  with reconcileSecret_apply(1) [OF assms(1)] show thesis
    by (intro that [of "Inr ()"]) auto
qed

text \<open>
  C25: if a secret that was just deleted can be created with the new type, two nested calls are enough:
  with any larger stack \<open>reconcileSecret\<close> does the same as with two, and it never overflows.
\<close>

theorem reconcileSecret_two_calls:
  assumes law: "\<And>e u e1 err e2. k_secret_delete K namespace name e = (Inr u, e1) \<Longrightarrow>
      k_secret_apply K (secret_configuration namespace name ownerReference labels data secretType) e1 = (Inl err, e2) \<Longrightarrow>
      \<not> immutable_type_error err"
  shows "reconcileSecret (Suc (Suc depth)) K namespace name del ownerReference labels data secretType w
      = reconcileSecret 2 K namespace name del ownerReference labels data secretType w
    \<and> fst (reconcileSecret 2 K namespace name del ownerReference labels data secretType w)
      \<noteq> Inl (EPanic ''stack overflow'')"
proof -
  let ?ac = "secret_configuration namespace name ownerReference labels data secretType"
  let ?ap = "invoke (CSecretApply ?ac) (k_secret_apply K ?ac)"
  have "\<exists>r w'. r \<noteq> Inl (EPanic ''stack overflow'')
      \<and> (\<forall>d. reconcileSecret (Suc (Suc d)) K namespace name del ownerReference labels data secretType w = (r, w'))"
  proof (cases del)
    case True
    then show ?thesis
      by (auto simp: reconcileSecret_delete gwrap_def split: prod.split sum.split)
  next
    case False
    obtain r w1 where ap: "?ap w = (r, w1)" by fastforce
    show ?thesis
    proof (cases "\<exists>err. r = Inl err \<and> immutable_type_error err")
      case no: False
      with reconcileSecret_no_overflow [OF ap] False show ?thesis by (metis (full_types))
    next
      case True
      then obtain err where err: "r = Inl err" "immutable_type_error err" by blast
      note step = reconcileSecret_apply(3) [OF ap err]
      obtain x w2 where dl: "invoke (CSecretDelete namespace name) (k_secret_delete K namespace name) w1 = (x, w2)"
        by fastforce
      show ?thesis
      proof (cases x)
        case (Inl e)
        with dl False step show ?thesis by (simp add: gseq_fail gwrap_fail)
      next
        case (Inr u)
        obtain w3 where em: "emit False ''ImmutableTypeField'' ''DeletedSecret'' w2 = (Inr (), w3)" "env w3 = env w2"
          by (simp add: emit_def gmod_def)
        from dl Inr em(2) have del: "k_secret_delete K namespace name (env w1) = (Inr u, env w3)"
          by (auto simp: invoke_def split: prod.splits)
        obtain r2 w4 where ap2: "?ap w3 = (r2, w4)" by fastforce
        then obtain e4 where "k_secret_apply K ?ac (env w3) = (r2, e4)"
          by (auto simp: invoke_def split: prod.splits)
        with law [OF del] have "\<And>err. r2 = Inl err \<Longrightarrow> \<not> immutable_type_error err" by blast
        from reconcileSecret_no_overflow [OF ap2 this] obtain r' where
          "r' \<noteq> Inl (EPanic ''stack overflow'')"
          "\<And>d. reconcileSecret (Suc d) K namespace name False ownerReference labels data secretType w3 = (r', w4)"
          by blast
        with dl Inr em(1) False step show ?thesis
          by (simp add: gseq_run gwrap_run)
      qed
    qed
  qed
  then show ?thesis by (auto simp: numeral_2_eq_2)
qed

theorem reconcileSecret_two_calls_witness:
  "reconcileSecret 5 wit_env_api ''prod'' ''s'' False None [] [] ''Opaque'' wit_world
     = reconcileSecret 2 wit_env_api ''prod'' ''s'' False None [] [] ''Opaque'' wit_world"
proof -
  have law: "\<not> immutable_type_error err"
    if "k_secret_delete wit_env_api ''prod'' ''s'' e = (Inr u, e1)"
      "k_secret_apply wit_env_api (secret_configuration ''prod'' ''s'' None [] [] ''Opaque'') e1 = (Inl err, e2)"
    for e u e1 err e2
    using that by (simp add: wit_env_api_def)
  have "(5 :: nat) = Suc (Suc 3)" by simp
  then show ?thesis
    using reconcileSecret_two_calls [of wit_env_api "''prod''" "''s''" None "[]" "[]" "''Opaque''" 3 False wit_world,
        OF law] by simp
qed

lemma rejecting_secret_step:
  "reconcileSecret (Suc d) rejecting_api namespace name False r l dt ty w
     = reconcileSecret d rejecting_api namespace name False r l dt ty
         (snd (emit False ''ImmutableTypeField'' ''DeletedSecret''
            (w\<lparr>clog := clog w @ [CSecretApply (secret_configuration namespace name r l dt ty),
                                CSecretDelete namespace name]\<rparr>)))"
proof -
  have ap: "invoke (CSecretApply (secret_configuration namespace name r l dt ty))
      (k_secret_apply rejecting_api (secret_configuration namespace name r l dt ty)) w
    = (Inl (EApi (Invalid [])), w\<lparr>clog := clog w @ [CSecretApply (secret_configuration namespace name r l dt ty)]\<rparr>)"
    by (simp add: invoke_def rejecting_api_def)
  let ?w1 = "w\<lparr>clog := clog w @ [CSecretApply (secret_configuration namespace name r l dt ty)]\<rparr>"
  let ?w2 = "w\<lparr>clog := clog w @ [CSecretApply (secret_configuration namespace name r l dt ty), CSecretDelete namespace name]\<rparr>"
  have dl: "invoke (CSecretDelete namespace name) (k_secret_delete rejecting_api namespace name) ?w1 = (Inr (), ?w2)"
    by (simp add: invoke_def rejecting_api_def wit_env_api_def)
  obtain w3 where em: "emit False ''ImmutableTypeField'' ''DeletedSecret'' ?w2 = (Inr (), w3)"
    by (simp add: emit_def gmod_def)
  have "gseq (gwrap (''failed to delete existing secret '' @ name)
        (invoke (CSecretDelete namespace name) (k_secret_delete rejecting_api namespace name)))
      (gseq (emit False ''ImmutableTypeField'' ''DeletedSecret'') m) ?w1 = m w3" for m :: "(unit, unit) act"
    using dl em by (simp add: gseq_run gwrap_run)
  with em show ?thesis
    by (simp only: reconcileSecret_apply(3) [OF ap refl rejected_immutable(2)] snd_conv)
qed

text \<open>
  An error status without causes counts as "the type is immutable": if the server rejects a secret that
  way, \<open>reconcileSecret\<close> deletes and retries until the stack overflows, however deep the stack is.
\<close>

theorem reconcileSecret_rejected_overflows:
  "fst (reconcileSecret depth rejecting_api namespace name False ownerReference labels data secretType w)
     = Inl (EPanic ''stack overflow'')"
proof (induction depth arbitrary: w)
  case 0
  show ?case by (simp add: reconcileSecret.simps gfail_run)
next
  case (Suc d)
  show ?case unfolding rejecting_secret_step by (rule Suc.IH)
qed

section \<open>Pods\<close>

definition locked_down :: "ContainerOptions \<Rightarrow> container \<Rightarrow> bool" where
  "locked_down o1 c \<longleftrightarrow> (\<exists>sc. c_security_context c = Some sc \<and> sc_cap_drop sc = [''ALL'']
     \<and> sc_cap_add sc = co_capabilities o1 \<and> sc_seccomp sc = ''RuntimeDefault''
     \<and> (sc_privileged sc \<longleftrightarrow> co_root o1) \<and> (sc_allow_privilege_escalation sc \<longleftrightarrow> co_root o1)
     \<and> (sc_non_root sc \<longleftrightarrow> \<not> co_root o1) \<and> (sc_user sc = 0 \<longleftrightarrow> co_root o1)
     \<and> (sc_read_only_root sc \<longleftrightarrow> \<not> co_rw_root o1))"

lemma convert_locked_down:
  "list_all2 (\<lambda>(c0, o1) c. locked_down o1 c) cs (convertToContainerApplyConfiguration cs)"
  by (auto simp: convertToContainerApplyConfiguration_def list_all2_map2 locked_down_def Let_def
      intro!: list.rel_refl_strong)

lemma convert_mounts:
  "map c_volume_mounts (convertToContainerApplyConfiguration cs)
     = map (\<lambda>(c, o1). c_volume_mounts c @ (if co_needs_service_account o1 then [token_mount] else [])) cs"
  by (auto simp: convertToContainerApplyConfiguration_def Let_def)


section \<open>Deployments\<close>

text \<open>
  Deleting a deployment panics: \<open>reconcileWorkload\<close> reports the deleted workload as ready with a nil
  object, and the disruption budget then reads its name.
\<close>

theorem reconcileDeployment_delete_panics:
  "fst (reconcileDeployment md5hex K C namespace name True ownerReference labels ingress egress replicas t w) =
     (case fst (ignore_not_found (invoke (CWorkloadDelete ''Deployment'' namespace name ''Background'')
               (k_workload_delete K ''Deployment'' namespace name ''Background'')) w) of
        Inl err \<Rightarrow> Inl (EWrap (''failed to reconcile deployment '' @ namespace @ ''/'' @ name)
                         (EWrap (''failed to delete Deployment '' @ name) err))
      | Inr _ \<Rightarrow> Inl (EWrap (''failed to reconcile pod disruption budget for deployment '' @ namespace @ ''/'' @ name)
                         (EPanic ''nil dereference of the workload'')))"
proof -
  obtain r w1 where del: "ignore_not_found (invoke (CWorkloadDelete ''Deployment'' namespace name ''Background'')
      (k_workload_delete K ''Deployment'' namespace name ''Background'')) w = (r, w1)" by fastforce
  then show ?thesis
    by (cases r) (simp_all add: reconcileDeployment_def reconcileWorkload_def Let_def workload_budget_def
        gbind_run gbind_fail gseq_run gseq_fail gwrap_run gwrap_fail gret_run gfail_run)
qed

lemma workload_budget_clog:
  assumes "workload_budget K kind namespace name (Some d) labels mode_type replicas w = (Inr u, w')"
  shows "\<exists>c. clog w' = clog w @ [c]
     \<and> (if 1 < replicas
        then (\<exists>b. c = CPdbApply b \<and> pdb_name b = name \<and> pdb_selector b = labels
               \<and> pdb_bound b = (case mode_type of MinAvailable \<Rightarrow> PdbMinAvailable 1 | MaxUnavailable \<Rightarrow> PdbMaxUnavailable 1))
        else c = CPdbDelete namespace name)"
proof (cases "1 < replicas")
  case True
  with assms show ?thesis
    by (auto simp: workload_budget_def reconcilePodDisruptionBudget_def Let_def dest!: invoke_clog elim!: gwrap_InrE)
next
  case False
  with assms show ?thesis
    by (auto simp: workload_budget_def reconcilePodDisruptionBudget_def Let_def dest!: ignore_not_found_clog
        elim!: gwrap_InrE)
qed

text \<open>
  C28: a deployment that is reported ready has a disruption budget that keeps one pod available if it has
  more than one replica, and none otherwise (one would block every drain): that is the last call made.
\<close>

theorem reconcileDeployment_budget:
  assumes "reconcileDeployment md5hex K C namespace name False ownerReference labels ingress egress replicas t w
      = (Inr (d, True), w')"
  shows "\<exists>cs c. clog w' = cs @ [c]
     \<and> (if 1 < replicas
        then (\<exists>b. c = CPdbApply b \<and> pdb_name b = name \<and> pdb_selector b = labels \<and> pdb_bound b = PdbMinAvailable 1)
        else c = CPdbDelete namespace name)"
proof -
  from assms obtain d' w1 u where
    "workload_budget K ''Deployment'' namespace name d' labels MinAvailable replicas w1 = (Inr u, w')"
    by (auto simp: reconcileDeployment_def gret_eq elim!: gbind_InrE gseq_InrE gwrap_InrE split: if_splits)
  moreover from this obtain d'' where "d' = Some d''"
    by (cases d') (auto simp: workload_budget_def gfail_eq)
  ultimately obtain c where "clog w' = clog w1 @ [c]"
    and "if 1 < replicas
        then (\<exists>b. c = CPdbApply b \<and> pdb_name b = name \<and> pdb_selector b = labels \<and> pdb_bound b = PdbMinAvailable 1)
        else c = CPdbDelete namespace name"
    using workload_budget_clog [of K "''Deployment''" namespace name d'' labels MinAvailable replicas w1 u w']
    by (simp only: PodDisruptionBudgetType.case) blast
  then show ?thesis by blast
qed

theorem reconcileDeployment_budget_witness:
  "\<exists>cs b. clog (snd (reconcileDeployment (\<lambda>s. s) wit_env_api None ''prod'' ''foo-api'' False None [] (Some []) None 3
      wit_template wit_world)) = cs @ [CPdbApply b] \<and> pdb_bound b = PdbMinAvailable 1"
proof -
  let ?m = "reconcileDeployment (\<lambda>s. s) wit_env_api None ''prod'' ''foo-api'' False None [] (Some []) None 3 wit_template"
  have "(case fst (?m wit_world) of Inr (d, ready) \<Rightarrow> ready | _ \<Rightarrow> False)"
    by code_simp
  then obtain d where run: "?m wit_world = (Inr (d, True), snd (?m wit_world))"
    by (cases "?m wit_world") (auto split: sum.splits)
  show ?thesis
    using reconcileDeployment_budget [OF run] by auto
qed

end
