(* ===== verification/Management.thy ===== *)
theory Management
  imports Resources
begin

text \<open>
  \<open>reconcilers/management_reconciler.go\<close>: the resource reconcilers, bound to the management cluster and to
  the owner and the labels of a control plane. \<open>mr_md5\<close> is the hash of the checksums and \<open>mr_depth\<close> the
  room of the stack for \<open>reconcileSecret\<close>.
\<close>

record 'e ManagementResourceReconciler =
  ManagementClusterClient :: "'e core_api"
  CiliumClient :: "'e cilium_api option"
  WorldComponent :: string
  ControllerNamespace :: string
  ControllerComponent :: string
  mr_md5 :: "string \<Rightarrow> string"
  mr_depth :: nat

definition ReconcileService :: "('e, 'x) ManagementResourceReconciler_scheme \<Rightarrow> HostedControlPlane \<Rightarrow> Cluster
    \<Rightarrow> string \<Rightarrow> string \<Rightarrow> string \<Rightarrow> bool \<Rightarrow> string \<Rightarrow> service_port list \<Rightarrow> ('e, live_service \<times> bool) act" where
  "ReconcileService mr hostedControlPlane cluster namespace name serviceType headless component ports =
     gwrap (''failed to reconcile service '' @ namespace @ ''/'' @ name @ '' into management cluster'')
       (reconcileService (ManagementClusterClient mr) namespace name
          (Some (GetOwnerReferenceApplyConfiguration hostedControlPlane))
          (GetControlPlaneLabels cluster component) serviceType None headless ports)"

definition ReconcileSecret :: "('e, 'x) ManagementResourceReconciler_scheme \<Rightarrow> owner_ref option \<Rightarrow> labels
    \<Rightarrow> string \<Rightarrow> string \<Rightarrow> bool \<Rightarrow> labels \<Rightarrow> string \<Rightarrow> ('e, unit) act" where
  "ReconcileSecret mr ownerReference labels namespace name deleteResource data secretType =
     gwrap (''failed to reconcile secret '' @ namespace @ ''/'' @ name @ '' into management cluster'')
       (reconcileSecret (mr_depth mr) (ManagementClusterClient mr) namespace name deleteResource ownerReference
          labels data secretType)"

definition ReconcileConfigmap :: "('e, 'x) ManagementResourceReconciler_scheme \<Rightarrow> HostedControlPlane \<Rightarrow> Cluster
    \<Rightarrow> string \<Rightarrow> string \<Rightarrow> string \<Rightarrow> labels \<Rightarrow> ('e, unit) act" where
  "ReconcileConfigmap mr hostedControlPlane cluster component namespace name data =
     gwrap (''failed to reconcile configmap '' @ namespace @ ''/'' @ name @ '' into management cluster'')
       (reconcileConfigmap (ManagementClusterClient mr) namespace name False
          (Some (GetOwnerReferenceApplyConfiguration hostedControlPlane))
          (GetControlPlaneLabels cluster component) data)"

text \<open>The pods of a component prefer the nodes of another one.\<close>

definition target_affinity :: "Cluster \<Rightarrow> string \<Rightarrow> pod_affinity option" where
  "target_affinity cluster targetComponent =
     (if targetComponent \<noteq> []
      then Some \<lparr>pa_weight = 100, pa_selector = GetControlPlaneSelector cluster targetComponent,
             pa_topology_key = LabelHostname\<rparr>
      else None)"

definition ReconcileDeployment :: "('e, 'x) ManagementResourceReconciler_scheme \<Rightarrow> HostedControlPlane \<Rightarrow> Cluster
    \<Rightarrow> int \<Rightarrow> string \<Rightarrow> string \<Rightarrow> IngressNetworkPolicyTarget targets \<Rightarrow> EgressNetworkPolicyTarget targets \<Rightarrow> string
    \<Rightarrow> (container \<times> ContainerOptions) list \<Rightarrow> (container \<times> ContainerOptions) list \<Rightarrow> volume list
    \<Rightarrow> ('e, live_workload option \<times> bool) act" where
  "ReconcileDeployment mr hostedControlPlane cluster replicas priorityClassName component ingress egress
      targetComponent initContainers containers volumes =
     (let podOptions = PodOptions0\<lparr>po_priority_class := priorityClassName,
            po_affinity := target_affinity cluster targetComponent\<rparr>;
          name = ClusterName cluster @ ''-'' @ component
      in case createPodTemplateSpec podOptions initContainers containers volumes of
           Inl err \<Rightarrow> gfail (EWrap (''failed to create pod template spec for deployment ''
                        @ ClusterNamespace cluster @ ''/'' @ name) err)
         | Inr podTemplateSpec \<Rightarrow>
             gwrap (''failed to reconcile deployment '' @ ClusterNamespace cluster @ ''/'' @ name
                 @ '' into management cluster'')
               (reconcileDeployment (mr_md5 mr) (ManagementClusterClient mr) (CiliumClient mr)
                  (ClusterNamespace cluster) name False (Some (GetOwnerReferenceApplyConfiguration hostedControlPlane))
                  (GetControlPlaneLabels cluster component) ingress egress replicas podTemplateSpec))"

definition ReconcileStatefulset :: "('e, 'x) ManagementResourceReconciler_scheme \<Rightarrow> HostedControlPlane \<Rightarrow> Cluster
    \<Rightarrow> string \<Rightarrow> string \<Rightarrow> PodOptions \<Rightarrow> statefulset_part \<Rightarrow> string
    \<Rightarrow> IngressNetworkPolicyTarget targets \<Rightarrow> EgressNetworkPolicyTarget targets \<Rightarrow> int
    \<Rightarrow> (container \<times> ContainerOptions) list \<Rightarrow> volume list \<Rightarrow> ('e, live_workload option \<times> bool) act" where
  "ReconcileStatefulset mr hostedControlPlane cluster name namespace podOptions part component ingress egress
      replicas containers volumes =
     (case createPodTemplateSpec podOptions [] containers volumes of
        Inl err \<Rightarrow> gfail (EWrap (''failed to create pod template spec for statefulset ''
                     @ namespace @ ''/'' @ name) err)
      | Inr podTemplateSpec \<Rightarrow>
          gwrap (''failed to reconcile statefulset '' @ namespace @ ''/'' @ name @ '' into management cluster'')
            (reconcileStatefulset (mr_md5 mr) (ManagementClusterClient mr) (CiliumClient mr) namespace name False
               (Some (GetOwnerReferenceApplyConfiguration hostedControlPlane)) part
               (GetControlPlaneLabels cluster component) ingress egress replicas podTemplateSpec))"

section \<open>What the resource reconcilers leave alone\<close>

text \<open>
  A relation between the world before and after that every call of a client, every event and every reading of
  the clock respects is respected by all resource reconcilers. The two instances are that the
  \<open>HostedControlPlane\<close> stays as it is and that the log only grows.
\<close>

locale env_relation =
  fixes R :: "'e world \<Rightarrow> 'e world \<Rightarrow> bool"
  assumes refl_R: "reflp R" and trans_R: "transp R"
    and call_R: "R w (w\<lparr>env := e, clog := clog w @ [c]\<rparr>)"
    and event_R: "R w (w\<lparr>events := events w @ [v]\<rparr>)"
    and time_R: "R w (w\<lparr>env := e\<rparr>)"
begin

lemma keeps_invoke: "keeps R (invoke c f)"
  by (simp add: keeps_def invoke_def call_R split: prod.split)

lemma keeps_emit: "keeps R (emit warning reason action)"
  by (simp add: keeps_def emit_def gmod_def event_R)

lemma keeps_now: "keeps R (now clk)"
  by (simp add: keeps_def now_def time_R split: prod.split)

lemmas keeps_basic = keeps_intros keeps_invoke keeps_emit keeps_now refl_R trans_R

lemma keeps_policy: "keeps R (reconcileNetworkPolicy K C namespace name ownerReference labels ingress egress)"
  unfolding reconcileNetworkPolicy_def reconcileKubernetesNetworkPolicy_def reconcileCiliumNetworkPolicy_def Let_def
  by (intro keeps_basic)

lemma keeps_checksums: "keeps R (SetChecksumAnnotations md5hex K namespace t)"
  by (intro keeps_basic)

lemma keeps_workload: "keeps R (reconcileWorkload md5hex K C kind namespace name deleteResource ownerReference labels
    ingress egress propagationPolicy t readinessCheck mutateFuncs)"
  unfolding reconcileWorkload_def Let_def by (intro keeps_basic keeps_policy keeps_checksums)

lemma keeps_budget: "keeps R (workload_budget K kind namespace name workload labels mode_type replicas)"
  unfolding workload_budget_def reconcilePodDisruptionBudget_def Let_def by (intro keeps_basic)

lemma keeps_deployment: "keeps R (reconcileDeployment md5hex K C namespace name deleteResource ownerReference labels
    ingress egress replicas t)"
  unfolding reconcileDeployment_def by (intro keeps_basic keeps_workload keeps_budget)

lemma keeps_statefulset: "keeps R (reconcileStatefulset md5hex K C namespace name deleteResource ownerReference part
    labels ingress egress replicas t)"
  unfolding reconcileStatefulset_def by (intro keeps_basic keeps_workload keeps_budget)

lemma keeps_service: "keeps R (reconcileService K namespace name ownerReference labels serviceType serviceIP headless ports)"
  unfolding reconcileService_def Let_def by (intro keeps_basic)

lemma keeps_configmap: "keeps R (reconcileConfigmap K namespace name deleteResource ownerReference labels data)"
  unfolding reconcileConfigmap_def Let_def by (intro keeps_basic)

lemma keeps_secret: "keeps R (reconcileSecret depth K namespace name deleteResource ownerReference labels data secretType)"
  by (induction depth) (unfold reconcileSecret.simps Let_def, (intro keeps_basic; assumption?)+)

lemma keeps_management:
  "keeps R (ReconcileService mr h cluster namespace name serviceType headless component ports)"
  "keeps R (ReconcileSecret mr ownerReference labels namespace name deleteResource data secretType)"
  "keeps R (ReconcileConfigmap mr h cluster component namespace name data)"
  "keeps R (ReconcileDeployment mr h cluster replicas priorityClassName component ingress egress targetComponent
      initContainers containers volumes)"
  "keeps R (ReconcileStatefulset mr h cluster name namespace podOptions part component ingress egress replicas
      containers volumes)"
  unfolding ReconcileService_def ReconcileSecret_def ReconcileConfigmap_def ReconcileDeployment_def
    ReconcileStatefulset_def Let_def
  by (intro keeps_basic keeps_service keeps_secret keeps_configmap keeps_deployment keeps_statefulset)+

lemma keeps_arguments: "keeps R (ArgsToSlice userArgs controllerArgs opts)"
  unfolding ArgsToSlice_def Let_def by (intro keeps_basic)

end

interpretation hcp_kept: env_relation same_hcp
  by unfold_locales (simp_all add: same_hcp_def)

lemma reflp_log_extends [keeps_intros, simp]: "reflp log_extends"
  by (simp add: reflp_def log_extends_def)

lemma transp_log_extends [keeps_intros, simp]: "transp log_extends"
  by (rule transpI) (auto simp: log_extends_def)

interpretation log_grows: env_relation log_extends
  by unfold_locales (simp_all add: log_extends_def)

end
