(* ===== verification/EtcdClient.thy ===== *)
theory EtcdClient
  imports OperatorUtil
begin

text \<open>
  The etcd client (\<open>etcd_cluster/etcd_client/etcd_client.go\<close>): the Go interface \<open>EtcdClient\<close> as a record of
  functions, its implementation over \<open>clientv3\<close> (the record \<open>etcd_api\<close>, an arbitrary environment), and the
  contract the etcd reconciler relies on, as a locale that the implementation interprets.

  \<open>x509.CertPool.AppendCertsFromPEM\<close> and \<open>tls.X509KeyPair\<close> are parameters. The call timeouts of the
  contexts are not modelled (a call that runs into one is a call that answers with an error); the calls of
  \<open>parallel.Map\<close> are made in the order of the list.
\<close>

record 'e etcd_api =
  e_dial :: "string \<Rightarrow> ('e, unit) op"
  e_close :: "string \<Rightarrow> ('e, unit) op"
  e_status :: "string \<Rightarrow> ('e, etcd_status) op"
  e_defragment :: "string \<Rightarrow> ('e, unit) op"
  e_snapshot :: "string \<Rightarrow> ('e, unit) op"
  e_alarm_list :: "string \<Rightarrow> ('e, alarm_member list) op"
  e_alarm_disarm :: "string \<Rightarrow> alarm_member \<Rightarrow> ('e, unit) op"

text \<open>\<open>OpenSnapshotStream\<close> returns the function that closes the client also when it fails.\<close>

record 'e EtcdClient =
  GetStatuses :: "string list \<Rightarrow> ('e, (string \<times> etcd_status) list) act"
  OpenSnapshotStream :: "('e, (gerr + unit) \<times> ('e, unit) act) act"
  ListAlarms :: "('e, alarm_member list) act"
  DisarmAlarm :: "alarm_member \<Rightarrow> ('e, unit) act"
  Defragment :: "('e, unit) act"

record etcdClient =
  ec_endpoints :: labels
  ec_any_endpoint :: string
  ec_server_port :: int

definition errETCDCAFailedToAppend :: gerr where
  "errETCDCAFailedToAppend = ESentinel ''failed to append etcd CA certificate''"

definition JoinHostPort :: "string \<Rightarrow> string \<Rightarrow> string" where
  "JoinHostPort host port =
     (if CHR '':'' \<in> set host then ''['' @ host @ '']:'' @ port else host @ '':'' @ port)"

text \<open>\<open>lo.AttemptWithDelay\<close>: up to \<open>n\<close> attempts, the last error; the pause between them is not modelled.\<close>

fun attempt :: "nat \<Rightarrow> ('s, 'a) gom \<Rightarrow> ('s, 'a) gom" where
  "attempt 0 m = m"
| "attempt (Suc 0) m = m"
| "attempt (Suc (Suc n)) m =
     gbind (gtry m) (\<lambda>r. case r of Inr x \<Rightarrow> gret x | Inl err \<Rightarrow> attempt (Suc n) m)"

definition callETCDFuncOnMember :: "string \<Rightarrow> (string \<Rightarrow> ('e, 'r) act) \<Rightarrow> ('e, 'r) act" where
  "callETCDFuncOnMember endpoint etcdFunc =
     gwrap (''failed to call etcd function on endpoint '' @ endpoint) (attempt 4 (etcdFunc endpoint))"

definition callETCDFuncOnAnyMember :: "string \<Rightarrow> ('e, 'r) act \<Rightarrow> ('e, 'r) act" where
  "callETCDFuncOnAnyMember endpoint etcdFunc = callETCDFuncOnMember endpoint (\<lambda>_. etcdFunc)"

definition createEtcdClient :: "'e etcd_api \<Rightarrow> string \<Rightarrow> ('e, unit) act" where
  "createEtcdClient E endpoint =
     gwrap (''failed to create etcd client for endpoint '' @ endpoint)
       (invoke (CEtcdNewClient endpoint) (e_dial E endpoint))"

text \<open>\<open>closeEtcdClient\<close> joins a failure to close to the error so far; \<open>r\<close> is the result so far.\<close>

definition closeEtcdClient :: "'e etcd_api \<Rightarrow> string \<Rightarrow> (gerr + 'a) \<Rightarrow> ('e, 'a) act" where
  "closeEtcdClient E endpoint r =
     gbind (gtry (invoke (CEtcdClose endpoint) (e_close E endpoint)))
       (\<lambda>c. case c of
          Inr _ \<Rightarrow> (case r of Inl err \<Rightarrow> gfail err | Inr x \<Rightarrow> gret x)
        | Inl err \<Rightarrow>
            let closeErr = EWrap (''failed to close etcd client for endpoint '' @ endpoint) err in
            (case r of Inl e0 \<Rightarrow> gfail (EJoin [e0, closeErr]) | Inr x \<Rightarrow> gfail (EJoin [closeErr])))"

text \<open>A client for one call: create, call, close (deferred).\<close>

definition with_any_client :: "'e etcd_api \<Rightarrow> etcdClient \<Rightarrow> (string \<Rightarrow> ('e, 'r) act) \<Rightarrow> ('e, 'r) act" where
  "with_any_client E e f =
     (let endpoint = ec_any_endpoint e in
      gseq (createEtcdClient E endpoint)
        (gbind (gtry (callETCDFuncOnAnyMember endpoint (f endpoint)))
          (closeEtcdClient E endpoint)))"

definition call_member ::
  "'e etcd_api \<Rightarrow> etcdClient \<Rightarrow> (string \<Rightarrow> ('e, 'r) act) \<Rightarrow> string \<Rightarrow> ('e, string \<times> (gerr + 'r)) act" where
  "call_member E e etcdFunc endpoint =
     (let endpointKey = ''https://'' @ JoinHostPort endpoint (int_dec (ec_server_port e)) in
      gbind (gtry (gseq (createEtcdClient E endpoint)
                (gbind (gtry (callETCDFuncOnMember endpointKey etcdFunc)) (closeEtcdClient E endpointKey))))
        (\<lambda>r. gret (endpointKey, r)))"

definition callETCDFuncOnAllMembers ::
  "'e etcd_api \<Rightarrow> etcdClient \<Rightarrow> labels \<Rightarrow> (string \<Rightarrow> ('e, 'r) act) \<Rightarrow> ('e, (string \<times> 'r) list) act" where
  "callETCDFuncOnAllMembers E e endpoints etcdFunc =
     gbind (gcollect (lo_values endpoints) (call_member E e etcdFunc))
       (\<lambda>results.
          case errors_join (map (\<lambda>(_, r). case r of Inl err \<Rightarrow> Some err | Inr _ \<Rightarrow> None) results) of
            Some err \<Rightarrow> gfail err
          | None \<Rightarrow> gret (List.map_filter
               (\<lambda>(k, r). case r of Inl _ \<Rightarrow> None | Inr x \<Rightarrow> Some (k, x)) results))"

section \<open>The methods\<close>

definition etcd_GetStatuses ::
  "'e etcd_api \<Rightarrow> etcdClient \<Rightarrow> string list \<Rightarrow> ('e, (string \<times> etcd_status) list) act" where
  "etcd_GetStatuses E e readyPodNames =
     callETCDFuncOnAllMembers E e (filter (\<lambda>(host, _). host \<in> set readyPodNames) (ec_endpoints e))
       (\<lambda>ep. invoke (CEtcdStatus ep) (e_status E ep))"

definition etcd_OpenSnapshotStream :: "'e etcd_api \<Rightarrow> etcdClient \<Rightarrow> ('e, (gerr + unit) \<times> ('e, unit) act) act" where
  "etcd_OpenSnapshotStream E e =
     (let endpoint = ec_any_endpoint e in
      gbind (gtry (createEtcdClient E endpoint)) (\<lambda>c. case c of
        Inl err \<Rightarrow> gret (Inl err, gret ())
      | Inr _ \<Rightarrow>
          gbind (gtry (callETCDFuncOnAnyMember endpoint (invoke (CEtcdSnapshot endpoint) (e_snapshot E endpoint))))
            (\<lambda>r. gret (r, closeEtcdClient E endpoint (Inr ())))))"

definition etcd_ListAlarms :: "'e etcd_api \<Rightarrow> etcdClient \<Rightarrow> ('e, alarm_member list) act" where
  "etcd_ListAlarms E e = with_any_client E e (\<lambda>ep. invoke (CEtcdAlarmList ep) (e_alarm_list E ep))"

definition etcd_Defragment :: "'e etcd_api \<Rightarrow> etcdClient \<Rightarrow> ('e, unit) act" where
  "etcd_Defragment E e =
     gseq (callETCDFuncOnAllMembers E e (ec_endpoints e) (\<lambda>ep. invoke (CEtcdDefragment ep) (e_defragment E ep)))
       (gret ())"

definition etcd_DisarmAlarm :: "'e etcd_api \<Rightarrow> etcdClient \<Rightarrow> alarm_member \<Rightarrow> ('e, unit) act" where
  "etcd_DisarmAlarm E e alarm =
     with_any_client E e (\<lambda>ep. gwrap ''failed to disarm etcd alarm''
        (invoke (CEtcdAlarmDisarm ep alarm) (e_alarm_disarm E ep alarm)))"

definition etcd_methods :: "'e etcd_api \<Rightarrow> etcdClient \<Rightarrow> 'e EtcdClient" where
  "etcd_methods E e = \<lparr>GetStatuses = etcd_GetStatuses E e, OpenSnapshotStream = etcd_OpenSnapshotStream E e,
     ListAlarms = etcd_ListAlarms E e, DisarmAlarm = etcd_DisarmAlarm E e, Defragment = etcd_Defragment E e\<rparr>"

definition secret_field :: "live_secret \<Rightarrow> string \<Rightarrow> string" where
  \<comment> \<open>\<open>secret.Data[key]\<close>: nil bytes where the key is missing\<close>
  "secret_field s k = (case map_of (lsec_data s) k of None \<Rightarrow> [] | Some v \<Rightarrow> v)"

definition getETCDConnectionTLS ::
  "(string \<Rightarrow> bool) \<Rightarrow> (string \<Rightarrow> string \<Rightarrow> gerr option) \<Rightarrow> 'e core_api
    \<Rightarrow> HostedControlPlane \<Rightarrow> Cluster \<Rightarrow> ('e, unit) act" where
  "getETCDConnectionTLS appendCerts keyPair K h cluster =
     gbind (gwrap ''failed to get etcd CA bundle secret''
         (invoke (CSecretGet (Namespace h) (GetEtcdCABundleSecretName cluster))
            (k_secret_get K (Namespace h) (GetEtcdCABundleSecretName cluster))))
       (\<lambda>etcdCABundleSecret.
         if \<not> appendCerts (secret_field etcdCABundleSecret CACertName) then gfail errETCDCAFailedToAppend
         else gbind (gwrap ''failed to get etcd API server client certificate secret''
             (invoke (CSecretGet (Namespace h) (GetEtcdControllerClientCertificateSecretName cluster))
                (k_secret_get K (Namespace h) (GetEtcdControllerClientCertificateSecretName cluster))))
           (\<lambda>clientCertificateSecret.
             case keyPair (secret_field clientCertificateSecret TLSCertKey)
                    (secret_field clientCertificateSecret TLSPrivateKeyKey) of
               Some err \<Rightarrow> gfail (EWrap ''failed to load etcd API server client certificate'' err)
             | None \<Rightarrow> gret ()))"

definition NewEtcdClient ::
  "(string \<Rightarrow> bool) \<Rightarrow> (string \<Rightarrow> string \<Rightarrow> gerr option) \<Rightarrow> 'e etcd_api \<Rightarrow> 'e core_api
    \<Rightarrow> HostedControlPlane \<Rightarrow> Cluster \<Rightarrow> int \<Rightarrow> ('e, 'e EtcdClient) act" where
  "NewEtcdClient appendCerts keyPair E K h cluster serverPort =
     gseq (getETCDConnectionTLS appendCerts keyPair K h cluster)
       (gret (etcd_methods E \<lparr>ec_endpoints = GetEtcdDNSNames cluster,
          ec_any_endpoint = ''https://'' @ JoinHostPort (GetEtcdClientServiceDNSName cluster) (int_dec serverPort),
          ec_server_port = serverPort\<rparr>))"

section \<open>The contract\<close>

locale etcd_client =
  fixes client :: "'e EtcdClient"
  assumes statuses_keep: "keeps same_hcp (GetStatuses client names)"
    and snapshot_keeps: "keeps same_hcp (OpenSnapshotStream client)"
    and snapshot_returns: "\<exists>r. fst (OpenSnapshotStream client w) = Inr r"
    and snapshot_close_keeps: "fst (OpenSnapshotStream client w) = Inr (r, close) \<Longrightarrow> keeps same_hcp close"
    and alarms_keep: "keeps same_hcp (ListAlarms client)"
    and disarm_keeps: "keeps same_hcp (DisarmAlarm client a)"
    and defragment_keeps: "keeps same_hcp (Defragment client)"
begin

lemmas client_keeps = statuses_keep snapshot_keeps alarms_keep disarm_keeps defragment_keeps

end

lemma keeps_attempt [keeps_intros]:
  "reflp R \<Longrightarrow> transp R \<Longrightarrow> keeps R m \<Longrightarrow> keeps R (attempt n m)"
  by (induction n m rule: attempt.induct) (auto intro!: keeps_intros)

lemma keeps_member_call:
  assumes "reflp R" "transp R" "\<And>ep. keeps R (f ep)"
    and "\<And>ep. keeps R (invoke (CEtcdNewClient ep) (e_dial E ep))"
    and "\<And>ep. keeps R (invoke (CEtcdClose ep) (e_close E ep))"
  shows "keeps R (with_any_client E e f)" "keeps R (callETCDFuncOnAllMembers E e eps f)"
    "keeps R (closeEtcdClient E ep r)" "keeps R (createEtcdClient E ep)"
  unfolding with_any_client_def callETCDFuncOnAllMembers_def call_member_def createEtcdClient_def
    closeEtcdClient_def callETCDFuncOnAnyMember_def callETCDFuncOnMember_def
  using assms by (auto intro!: keeps_intros)

lemmas keeps_member_call_hcp =
  keeps_member_call [OF reflp_same_hcp transp_same_hcp _ keeps_same_hcp_invoke keeps_same_hcp_invoke]

lemma keeps_closeEtcdClient: "keeps same_hcp (closeEtcdClient E ep r)"
  unfolding closeEtcdClient_def Let_def by (auto intro!: keeps_intros)

lemma keeps_etcd_OpenSnapshotStream: "keeps same_hcp (etcd_OpenSnapshotStream E e)"
  unfolding etcd_OpenSnapshotStream_def Let_def callETCDFuncOnAnyMember_def callETCDFuncOnMember_def
    createEtcdClient_def
  by (intro keeps_intros)

lemma etcd_OpenSnapshotStream_run:
  "\<exists>r close w'. etcd_OpenSnapshotStream E e w = (Inr (r, close), w')
     \<and> (close = gret () \<or> close = closeEtcdClient E (ec_any_endpoint e) (Inr ()))"
proof -
  let ?ep = "ec_any_endpoint e"
  obtain c w1 where c: "createEtcdClient E ?ep w = (c, w1)" by fastforce
  show ?thesis
  proof (cases c)
    case (Inl err)
    with c show ?thesis by (simp add: etcd_OpenSnapshotStream_def Let_def gbind_run gtry_run gret_eq)
  next
    case (Inr x)
    obtain r w2 where "callETCDFuncOnAnyMember ?ep (invoke (CEtcdSnapshot ?ep) (e_snapshot E ?ep)) w1 = (r, w2)"
      by fastforce
    with c Inr show ?thesis by (simp add: etcd_OpenSnapshotStream_def Let_def gbind_run gtry_run gret_eq)
  qed
qed

interpretation etcd: etcd_client "etcd_methods E e"
proof unfold_locales
  fix w :: "'a world" and r and close
  from etcd_OpenSnapshotStream_run [of E e w] obtain r' close' w' where run:
    "etcd_OpenSnapshotStream E e w = (Inr (r', close'), w')"
    and close': "close' = gret () \<or> close' = closeEtcdClient E (ec_any_endpoint e) (Inr ())" by blast
  from run show "\<exists>r. fst (OpenSnapshotStream (etcd_methods E e) w) = Inr r"
    by (simp add: etcd_methods_def)
  show "keeps same_hcp close" if "fst (OpenSnapshotStream (etcd_methods E e) w) = Inr (r, close)"
  proof -
    from that run have "close = close'" by (simp add: etcd_methods_def)
    with close' keeps_closeEtcdClient [of E] show ?thesis
      by (auto intro: keeps_gret)
  qed
qed (auto simp: etcd_methods_def etcd_GetStatuses_def etcd_ListAlarms_def etcd_DisarmAlarm_def etcd_Defragment_def
      intro!: keeps_intros keeps_member_call_hcp keeps_etcd_OpenSnapshotStream)

section \<open>Properties\<close>

lemma attempt_invoke:
  assumes "1 \<le> n"
  shows "\<exists>k r w'. attempt n (invoke c f) w = (r, w') \<and> 1 \<le> k \<and> k \<le> n
     \<and> clog w' = clog w @ replicate k c \<and> (k = n \<or> (\<exists>x. r = Inr x))"
  using assms
proof (induction n "invoke c f" arbitrary: w rule: attempt.induct)
  case 1
  then show ?case by simp
next
  case 2
  obtain r e where "f (env w) = (r, e)" by fastforce
  then show ?case by (intro exI [of _ 1]) (auto simp: invoke_def)
next
  case (3 n)
  obtain r e where f: "f (env w) = (r, e)" by fastforce
  then have run: "invoke c f w = (r, w\<lparr>env := e, clog := clog w @ [c]\<rparr>)"
    by (simp add: invoke_def)
  show ?case
  proof (cases r)
    case (Inr x)
    with run show ?thesis by (intro exI [of _ 1]) (auto simp: gbind_run gtry_run gret_eq)
  next
    case (Inl err)
    from 3(1) [of "w\<lparr>env := e, clog := clog w @ [c]\<rparr>"]
    obtain k r' w' where "attempt (Suc n) (invoke c f) (w\<lparr>env := e, clog := clog w @ [c]\<rparr>) = (r', w')"
      "1 \<le> k" "k \<le> Suc n" "clog w' = clog (w\<lparr>env := e, clog := clog w @ [c]\<rparr>) @ replicate k c"
      "k = Suc n \<or> (\<exists>x. r' = Inr x)"
      by (metis le_add1 plus_1_eq_Suc)
    with run Inl show ?thesis
      by (intro exI [of _ "Suc k"]) (auto simp: gbind_run gtry_run)
  qed
qed


end
