(* ===== verification/VolumeStats.thy ===== *)
theory VolumeStats
  imports OperatorUtil
begin

text \<open>
  How full the etcd volumes are (\<open>etcd_cluster/volume_stats/volume_stats.go\<close>), and the contract the etcd
  reconciler relies on (the Go interface \<open>EtcdVolumeStatsProvider\<close>), as a locale.

  The summary of a node is the text the kubelet answers, decoded by the parameter \<open>unmarshal\<close>
  (\<open>json.Unmarshal\<close>). \<open>parallel.Map\<close> asks the nodes concurrently and collects the answers in the order of
  the list: the model asks them in that order, which is one of the orders; the environment is arbitrary.
\<close>

definition errNoStatsForNode :: gerr where
  "errNoStatsForNode = ESentinel ''no stats available for node''"

definition MaxInt64 :: int where "MaxInt64 = 9223372036854775807"

definition etcdDataVolumeName :: string where "etcdDataVolumeName = ''etcd-data''"

definition isEtcdDataVolume :: "volume_stats \<Rightarrow> bool" where
  "isEtcdDataVolume volStats =
     (case vs_pvc_ref volStats of
        Some pvc \<Rightarrow> has_prefix pvc (etcdDataVolumeName @ ''-'')
      | None \<Rightarrow> vs_name volStats = etcdDataVolumeName)"

text \<open>The two nested loops; a pod without a usable volume does not end the outer one.\<close>

fun volume_loop :: "volume_stats list \<Rightarrow> int option" where
  "volume_loop [] = None"
| "volume_loop (volStats # rest) =
     (if \<not> isEtcdDataVolume volStats then volume_loop rest
      else (case vs_used_bytes volStats of
              None \<Rightarrow> volume_loop rest
            | Some used \<Rightarrow> Some (min (int used) MaxInt64)))"

fun extractPodVolumeUsage :: "pod_stats list \<Rightarrow> string \<Rightarrow> string \<Rightarrow> int" where
  "extractPodVolumeUsage [] namespace podName = 0"
| "extractPodVolumeUsage (podStats # rest) namespace podName =
     (if pst_namespace podStats \<noteq> namespace \<or> pst_name podStats \<noteq> podName
      then extractPodVolumeUsage rest namespace podName
      else (case volume_loop (pst_volumes podStats) of
              Some u \<Rightarrow> u
            | None \<Rightarrow> extractPodVolumeUsage rest namespace podName))"

definition getNodeStats ::
  "(string \<Rightarrow> gerr + pod_stats list) \<Rightarrow> 'e core_api \<Rightarrow> string \<Rightarrow> ('e, pod_stats list) act" where
  "getNodeStats unmarshal K nodeName =
     gbind (gwrap (''failed to query kubelet stats summary for node '' @ nodeName)
             (invoke (CNodeStats nodeName) (k_node_stats K nodeName)))
       (\<lambda>data. gwrap ''failed to unmarshal stats summary''
          (case unmarshal data of Inl err \<Rightarrow> gfail err | Inr summary \<Rightarrow> gret summary))"

definition lo_max :: "int list \<Rightarrow> int" where
  "lo_max xs = (case xs of [] \<Rightarrow> 0 | x # r \<Rightarrow> foldl max x r)"

definition pod_result :: "(string \<times> (gerr + pod_stats list)) list \<Rightarrow> live_pod \<Rightarrow> int \<times> gerr option" where
  "pod_result statsByNode pod =
     (case map_of statsByNode (pod_node pod) of
        None \<Rightarrow> (0, Some (EWrap (''missing stats for node '' @ pod_node pod) errNoStatsForNode))
      | Some (Inl err) \<Rightarrow> (0, Some err)
      | Some (Inr summary) \<Rightarrow> (extractPodVolumeUsage summary (pod_namespace pod) (pod_name pod), None))"

definition GetMaxEtcdVolumeUsage ::
  "(string \<Rightarrow> gerr + pod_stats list) \<Rightarrow> 'e core_api \<Rightarrow> live_pod list \<Rightarrow> ('e, int \<times> gerr option) act" where
  "GetMaxEtcdVolumeUsage unmarshal K pods =
     (if pods = [] then gret (0, None)
      else gbind (gcollect (lo_uniq (map pod_node pods))
                   (\<lambda>node. gbind (gtry (getNodeStats unmarshal K node)) (\<lambda>r. gret (node, r))))
             (\<lambda>statsByNode.
               let results = map (pod_result statsByNode) pods
               in gret (lo_max (map fst results), errors_join (map snd results))))"

section \<open>The contract\<close>

text \<open>
  What the etcd reconciler needs of a provider, for the environments \<open>'e\<close>: it always returns, with a usage
  an \<open>int64\<close> can hold, without pods the usage is 0 without an error, and it does not change the
  \<open>HostedControlPlane\<close>.
\<close>

locale volume_stats_provider =
  fixes usage :: "live_pod list \<Rightarrow> ('e, int \<times> gerr option) act"
  assumes usage_returns: "\<exists>u err. fst (usage pods w) = Inr (u, err) \<and> 0 \<le> u \<and> u \<le> MaxInt64"
    and usage_no_pods: "fst (usage [] w) = Inr (0, None)"
    and usage_keeps_hcp: "keeps same_hcp (usage pods)"

section \<open>The kubelet provider\<close>

lemma volume_loop_bounds: "volume_loop vs = Some u \<Longrightarrow> 0 \<le> u \<and> u \<le> MaxInt64"
  by (induction vs) (auto simp: MaxInt64_def split: if_splits option.splits)

lemma extractPodVolumeUsage_bounds:
  "0 \<le> extractPodVolumeUsage s n p \<and> extractPodVolumeUsage s n p \<le> MaxInt64"
  by (induction s n p rule: extractPodVolumeUsage.induct)
    (auto simp: MaxInt64_def split: option.split dest: volume_loop_bounds)

lemma pod_result_bounds: "0 \<le> fst (pod_result m pod) \<and> fst (pod_result m pod) \<le> MaxInt64"
  using extractPodVolumeUsage_bounds
  by (auto simp: pod_result_def MaxInt64_def split: option.split sum.split)

lemma foldl_max_ge: "(x :: int) \<le> foldl max x xs \<and> (\<forall>y \<in> set xs. y \<le> foldl max x xs)
    \<and> foldl max x xs \<in> insert x (set xs)"
proof (induction xs arbitrary: x)
  case Nil
  show ?case by simp
next
  case (Cons y ys)
  from Cons.IH [of "max x y"] show ?case by (auto simp: max_def split: if_splits)
qed

lemma lo_max_in: "xs \<noteq> [] \<Longrightarrow> lo_max xs \<in> set xs"
  using foldl_max_ge by (cases xs) (auto simp: lo_max_def)

lemma lo_max_ge: "x \<in> set xs \<Longrightarrow> x \<le> lo_max xs"
  using foldl_max_ge by (cases xs) (auto simp: lo_max_def)

lemma gcollect_try:
  "\<exists>rs w'. gcollect nodes (\<lambda>node. gbind (gtry (f node)) (\<lambda>r. gret (node, r))) w = (Inr rs, w')
     \<and> map fst rs = nodes"
proof (induction nodes arbitrary: w)
  case Nil
  show ?case by (simp add: gom_simps)
next
  case (Cons n ns)
  obtain r w1 where f: "f n w = (r, w1)" by fastforce
  from Cons [of w1] obtain rs w2 where
    "gcollect ns (\<lambda>node. gbind (gtry (f node)) (\<lambda>r. gret (node, r))) w1 = (Inr rs, w2)" "map fst rs = ns"
    by blast
  then have "gcollect (n # ns) (\<lambda>node. gbind (gtry (f node)) (\<lambda>r. gret (node, r))) w = (Inr ((n, r) # rs), w2)"
    using f by (simp add: gom_run)
  with \<open>map fst rs = ns\<close> show ?case by simp
qed

lemma GetMaxEtcdVolumeUsage_eq:
  assumes "pods \<noteq> []"
  obtains rs w' where "GetMaxEtcdVolumeUsage unmarshal K pods w =
      (Inr (lo_max (map (fst \<circ> pod_result rs) pods), errors_join (map (snd \<circ> pod_result rs) pods)), w')"
    and "map fst rs = lo_uniq (map pod_node pods)"
proof -
  from gcollect_try [of "lo_uniq (map pod_node pods)" "getNodeStats unmarshal K" w]
  obtain rs w' where rs: "gcollect (lo_uniq (map pod_node pods))
      (\<lambda>node. gbind (gtry (getNodeStats unmarshal K node)) (\<lambda>r. gret (node, r))) w = (Inr rs, w')"
    and fst: "map fst rs = lo_uniq (map pod_node pods)" by blast
  have "GetMaxEtcdVolumeUsage unmarshal K pods w =
      (Inr (lo_max (map (fst \<circ> pod_result rs) pods), errors_join (map (snd \<circ> pod_result rs) pods)), w')"
    using assms rs by (simp add: GetMaxEtcdVolumeUsage_def gbind_run gret_run Let_def comp_def)
  with fst show thesis by (rule that [rotated])
qed

lemma keeps_getNodeStats: "keeps same_hcp (getNodeStats unmarshal K node)"
  unfolding getNodeStats_def by (intro keeps_intros)

lemma keeps_GetMaxEtcdVolumeUsage: "keeps same_hcp (GetMaxEtcdVolumeUsage unmarshal K pods)"
  unfolding GetMaxEtcdVolumeUsage_def by (intro keeps_intros keeps_getNodeStats)

interpretation kubelet: volume_stats_provider "GetMaxEtcdVolumeUsage unmarshal K"
proof unfold_locales
  fix pods :: "live_pod list" and w
  show "\<exists>u err. fst (GetMaxEtcdVolumeUsage unmarshal K pods w) = Inr (u, err) \<and> 0 \<le> u \<and> u \<le> MaxInt64"
  proof (cases "pods = []")
    case True
    then show ?thesis by (simp add: GetMaxEtcdVolumeUsage_def gret_def MaxInt64_def)
  next
    case False
    obtain rs w' where rs: "GetMaxEtcdVolumeUsage unmarshal K pods w =
      (Inr (lo_max (map (fst \<circ> pod_result rs) pods), errors_join (map (snd \<circ> pod_result rs) pods)), w')"
      using GetMaxEtcdVolumeUsage_eq [OF False] by metis
    from False lo_max_in [of "map (fst \<circ> pod_result rs) pods"]
    obtain p where "lo_max (map (fst \<circ> pod_result rs) pods) = fst (pod_result rs p)" by auto
    with pod_result_bounds [of rs p] rs show ?thesis by simp
  qed
  show "fst (GetMaxEtcdVolumeUsage unmarshal K [] w) = Inr (0, None)"
    by (simp add: GetMaxEtcdVolumeUsage_def gret_def)
  show "keeps same_hcp (GetMaxEtcdVolumeUsage unmarshal K pods)"
    by (rule keeps_GetMaxEtcdVolumeUsage)
qed

section \<open>Properties\<close>

lemma getNodeStats_log: "clog (snd (getNodeStats unmarshal K node w)) = clog w @ [CNodeStats node]"
  by (auto simp: getNodeStats_def gom_simps invoke_def split: prod.splits sum.splits)

lemma gcollect_try_log:
  assumes "\<And>n w. clog (snd (f n w)) = clog w @ [c n]"
    and "gcollect nodes (\<lambda>node. gbind (gtry (f node)) (\<lambda>r. gret (node, r))) w = (Inr rs, w')"
  shows "clog w' = clog w @ map c nodes"
  using assms(2)
proof (induction nodes arbitrary: w rs)
  case Nil
  then show ?case by (simp add: gret_run)
next
  case (Cons n ns)
  obtain r w1 where f: "f n w = (r, w1)" by fastforce
  with Cons.prems obtain rs' where
    "gcollect ns (\<lambda>node. gbind (gtry (f node)) (\<lambda>r. gret (node, r))) w1 = (Inr rs', w')"
    by (auto simp: gbind_run gtry_run gret_eq elim!: gbind_InrE)
  from Cons.IH [OF this] f assms(1) [of n w] show ?case by simp
qed

lemma map_of_answer:
  assumes "map fst answers = lo_uniq (map pod_node pods)" "pod \<in> set pods"
  obtains r where "map_of answers (pod_node pod) = Some r" "(pod_node pod, r) \<in> set answers"
proof -
  have "pod_node pod \<in> fst ` set answers"
    using assms by (metis image_eqI image_set set_lo_uniq)
  then obtain r where "map_of answers (pod_node pod) = Some r"
    by (metis domD dom_map_of_conv_image_fst)
  then show thesis using that map_of_SomeD by metis
qed



end
