(* ===== verification/BackupSchedule.thy ===== *)
theory BackupSchedule
  imports Effects "HOL-Library.Word"
begin

unbundle bit_operations_syntax

text \<open>
  When etcd is backed up (\<open>etcd_cluster/backup_schedule.go\<close>). \<open>cron.ParseStandard\<close> is the parameter
  \<open>cron_parse\<close>: an error or the schedule, which is its \<open>Next\<close> function. \<open>hash/fnv\<close> is modelled: FNV-1a on
  32-bit words.
\<close>

type_synonym cron_schedule = "gtime \<Rightarrow> gtime"

definition fnv32a :: "string \<Rightarrow> 32 word" where
  "fnv32a bytes = foldl (\<lambda>h c. (h XOR of_nat (of_char c)) * 16777619) 2166136261 bytes"

definition dailyScheduleFor :: "string \<Rightarrow> string \<Rightarrow> string" where
  "dailyScheduleFor namespace name =
     (let h = fnv32a (namespace @ ''/'' @ name);
          offset = unat (h mod 480);
          totalMinutes = 20 * 60 + offset;
          hour = (totalMinutes div 60) mod 24;
          minute = totalMinutes mod 60
      in nat_dec minute @ '' '' @ nat_dec hour @ '' * * *'')"

definition resolveBackupSchedule ::
  "(string \<Rightarrow> gerr + cron_schedule) \<Rightarrow> string \<Rightarrow> string \<Rightarrow> string \<Rightarrow> gerr + cron_schedule" where
  "resolveBackupSchedule cron_parse schedule namespace name =
     (let resolvedSchedule = (if schedule = ''@daily'' then dailyScheduleFor namespace name else schedule)
      in case cron_parse resolvedSchedule of
           Inl err \<Rightarrow> Inl (EWrap ''failed to parse schedule'' err)
         | Inr cronSchedule \<Rightarrow> Inr cronSchedule)"

lemma window_hours: "o' < 480 \<Longrightarrow> ((1200 + o') div 60) mod 24 \<in> {20, 21, 22, 23, 0, 1, 2, 3 :: nat}"
proof -
  assume "o' < (480 :: nat)"
  then have "(1200 + o') div 60 \<in> {20, 21, 22, 23, 24, 25, 26, 27}"
    by auto
  then show ?thesis by auto
qed

text \<open>
  C37: \<open>@daily\<close> becomes a cron expression that fires once a day, at a minute between 20:00 and 03:59,
  whatever the hash of the cluster's identity.
\<close>

theorem dailyScheduleFor_window:
  "\<exists>minute hour. dailyScheduleFor namespace name = nat_dec minute @ '' '' @ nat_dec hour @ '' * * *''
     \<and> minute < 60 \<and> hour \<in> {20, 21, 22, 23, 0, 1, 2, 3}"
proof -
  let ?o = "unat (fnv32a (namespace @ ''/'' @ name) mod 480)"
  have "?o < 480"
    by (simp add: unat_mod)
  then have "((1200 + ?o) div 60) mod 24 \<in> {20, 21, 22, 23, 0, 1, 2, 3}"
    by (rule window_hours)
  moreover have "dailyScheduleFor namespace name
      = nat_dec ((1200 + ?o) mod 60) @ '' '' @ nat_dec (((1200 + ?o) div 60) mod 24) @ '' * * *''"
    by (simp add: dailyScheduleFor_def Let_def)
  moreover have "(1200 + ?o) mod 60 < 60" by simp
  ultimately show ?thesis by (intro exI conjI)
qed

end
