(* ===== verification/GoFloat.thy ===== *)
theory GoFloat
  imports Prelude "HOL-Library.Log_Nat"
begin

text \<open>
  What the program needs of Go's machine numbers beyond \<open>HOL-Library.Word\<close>: the wrap-around of \<open>int64\<close>, its
  division, and the rounding of \<open>float64\<close> (IEEE 754 binary64, to nearest, ties to even) as a function on the
  rationals. Neither overflow nor underflow is modelled: a quotient of two \<open>int64\<close> is far from both.
\<close>

section \<open>int64\<close>

definition int64 :: "int \<Rightarrow> int" where
  "int64 x = signed_take_bit 63 x"

definition int64_quot :: "int \<Rightarrow> int \<Rightarrow> int" where
  \<comment> \<open>division truncates towards zero\<close>
  "int64_quot a b = int64 (sgn a * sgn b * (\<bar>a\<bar> div \<bar>b\<bar>))"

lemma int64_id [simp]: "- (2 ^ 63) \<le> x \<Longrightarrow> x < 2 ^ 63 \<Longrightarrow> int64 x = x"
  unfolding int64_def by (rule signed_take_bit_int_eq_self) simp_all

section \<open>float64\<close>

definition round_even :: "rat \<Rightarrow> int" where
  "round_even x =
     (let f = \<lfloor>x\<rfloor>; d = x - of_int f
      in if d < 1 / 2 then f else if 1 / 2 < d then f + 1 else if even f then f else f + 1)"

text \<open>The exponent of the binade of a positive number.\<close>

definition binade :: "rat \<Rightarrow> int" where
  "binade x = (if 1 \<le> x then bitlen \<lfloor>x\<rfloor> - 1 else - bitlen (\<lceil>1 / x\<rceil> - 1))"

definition round53 :: "rat \<Rightarrow> rat" where
  "round53 x = (let e = binade x - 52 in of_int (round_even (x / 2 powi e)) * 2 powi e)"

definition float64 :: "rat \<Rightarrow> rat" where
  "float64 x = (if x = 0 then 0 else if x < 0 then - round53 (- x) else round53 x)"

definition float64_of_int :: "int \<Rightarrow> rat" where
  "float64_of_int n = float64 (of_int n)"

definition float64_div :: "rat \<Rightarrow> rat \<Rightarrow> rat" where
  "float64_div x y = float64 (x / y)"

section \<open>Rounding is monotone\<close>

lemma round_even_bounds: "\<lfloor>x\<rfloor> \<le> round_even x \<and> round_even x \<le> \<lceil>x\<rceil>"
proof -
  have "round_even x \<le> \<lceil>x\<rceil>"
  proof (cases "x = of_int \<lfloor>x\<rfloor>")
    case True
    then have "round_even x = \<lfloor>x\<rfloor>" unfolding round_even_def by (metis diff_self half_gt_zero zero_less_one)
    then show ?thesis by (simp add: floor_le_ceiling)
  next
    case False
    then have "\<lceil>x\<rceil> = \<lfloor>x\<rfloor> + 1" by (metis ceiling_altdef)
    then show ?thesis by (simp add: round_even_def Let_def)
  qed
  then show ?thesis by (simp add: round_even_def Let_def)
qed

lemma round_even_mono: "x \<le> y \<Longrightarrow> round_even x \<le> round_even y"
proof (cases "\<lfloor>x\<rfloor> = \<lfloor>y\<rfloor>")
  case True
  assume "x \<le> y"
  with True show ?thesis by (auto simp: round_even_def Let_def)
next
  case False
  assume "x \<le> y"
  with False have "\<lfloor>x\<rfloor> + 1 \<le> \<lfloor>y\<rfloor>" using floor_mono by fastforce
  moreover have "\<lceil>x\<rceil> \<le> \<lfloor>x\<rfloor> + 1" by (simp add: ceiling_altdef)
  ultimately show ?thesis using round_even_bounds [of x] round_even_bounds [of y] by linarith
qed

lemma bitlen_pos:
  assumes "0 < n"
  shows "1 \<le> bitlen n"
proof (rule ccontr)
  assume "\<not> 1 \<le> bitlen n"
  then have "nat (bitlen n) = 0" by simp
  with bitlen_bounds [OF assms] assms show False by simp
qed

lemma binade_bounds:
  assumes "0 < x"
  shows "2 powi binade x \<le> x" "x < 2 powi (binade x + 1)"
proof -
  have *: "2 powi binade x \<le> x \<and> x < 2 powi (binade x + 1)"
  proof (cases "1 \<le> x")
    case True
    then have f: "0 < \<lfloor>x\<rfloor>" by simp
    define n where "n = nat (bitlen \<lfloor>x\<rfloor> - 1)"
    have n: "binade x = int n" "nat (bitlen \<lfloor>x\<rfloor>) = Suc n"
      using True f bitlen_pos [OF f] by (simp_all add: binade_def n_def)
    have "2 ^ n \<le> \<lfloor>x\<rfloor>" "\<lfloor>x\<rfloor> < 2 ^ Suc n"
      using bitlen_bounds [OF f] n by (simp_all add: n_def)
    then have "(2 :: rat) ^ n \<le> x" "x < 2 ^ Suc n"
      by (simp_all add: le_floor_iff floor_less_iff)
    moreover have "(2 :: rat) powi (binade x + 1) = 2 ^ Suc n"
      using n by (metis int_Suc power_int_of_nat add.commute)
    ultimately show ?thesis using n by simp
  next
    case False
    with assms have m: "0 < \<lceil>1 / x\<rceil> - 1" by (simp add: less_ceiling_iff)
    define n where "n = nat (bitlen (\<lceil>1 / x\<rceil> - 1) - 1)"
    have n: "bitlen (\<lceil>1 / x\<rceil> - 1) = int n + 1"
      using m bitlen_pos [OF m] by (simp add: n_def)
    have "2 ^ n \<le> \<lceil>1 / x\<rceil> - 1" "\<lceil>1 / x\<rceil> - 1 < 2 ^ Suc n"
      using bitlen_bounds [OF m] n by (simp_all add: nat_add_distrib)
    then have "2 ^ n < \<lceil>1 / x\<rceil>" "\<lceil>1 / x\<rceil> \<le> 2 ^ Suc n" by simp_all
    then have "(2 :: rat) ^ n < 1 / x" "1 / x \<le> 2 ^ Suc n"
      by (simp_all add: less_ceiling_iff ceiling_le_iff)
    then have "x < 1 / 2 ^ n" "1 / 2 ^ Suc n \<le> x"
      using assms by (simp_all add: field_simps)
    moreover have "binade x = - int (Suc n)" "binade x + 1 = - int n" using False n by (simp_all add: binade_def)
    then have "(2 :: rat) powi binade x = 1 / 2 ^ Suc n" "(2 :: rat) powi (binade x + 1) = 1 / 2 ^ n"
      by (simp_all only: power_int_minus power_int_of_nat inverse_eq_divide)
    ultimately show ?thesis by simp
  qed
  then show "2 powi binade x \<le> x" "x < 2 powi (binade x + 1)" by simp_all
qed

lemma powi_plus_52: "(2 :: rat) powi (e + 52) = 2 ^ 52 * 2 powi e"
proof -
  have "(2 :: rat) powi 52 = 2 ^ 52" by (metis of_nat_numeral power_int_of_nat)
  then show ?thesis by (simp add: power_int_add mult.commute)
qed

text \<open>A rounded number stays in its binade, whose upper end it may reach.\<close>

lemma round53_binade:
  assumes "0 < x"
  shows "2 powi binade x \<le> round53 x" "round53 x \<le> 2 powi (binade x + 1)"
proof -
  define e where "e = binade x - 52"
  have b: "binade x = e + 52" by (simp add: e_def)
  have pos: "(0 :: rat) < 2 powi e" by simp
  have lo: "2 powi binade x = 2 ^ 52 * (2 :: rat) powi e" unfolding b by (rule powi_plus_52)
  have hi: "2 powi (binade x + 1) = 2 ^ 53 * (2 :: rat) powi e"
    using lo by (simp add: power_int_add)
  have "2 ^ 52 \<le> x / 2 powi e" "x / 2 powi e < 2 ^ 53"
    using binade_bounds [OF assms] pos unfolding lo hi by (simp_all add: pos_le_divide_eq pos_divide_less_eq)
  then have "2 ^ 52 \<le> \<lfloor>x / 2 powi e\<rfloor>" "\<lceil>x / 2 powi e\<rceil> \<le> 2 ^ 53"
    by (simp_all add: le_floor_iff ceiling_le_iff)
  then have "2 ^ 52 \<le> round_even (x / 2 powi e)" "round_even (x / 2 powi e) \<le> 2 ^ 53"
    using round_even_bounds [of "x / 2 powi e"] by linarith+
  then have "(2 :: rat) ^ 52 \<le> of_int (round_even (x / 2 powi e))" "of_int (round_even (x / 2 powi e)) \<le> (2 :: rat) ^ 53"
    unfolding of_int_le_iff [symmetric, where 'a = rat] by simp_all
  with pos show "2 powi binade x \<le> round53 x" "round53 x \<le> 2 powi (binade x + 1)"
    unfolding lo hi by (simp_all add: round53_def Let_def e_def)
qed

lemma binade_mono:
  assumes "0 < x" "x \<le> y"
  shows "binade x \<le> binade y"
proof (rule ccontr)
  assume "\<not> binade x \<le> binade y"
  then have "(2 :: rat) powi (binade y + 1) \<le> 2 powi binade x" by (intro power_int_increasing) simp_all
  with binade_bounds [of x] binade_bounds [of y] assms show False by linarith
qed

lemma round53_mono:
  assumes "0 < x" "x \<le> y"
  shows "round53 x \<le> round53 y"
proof (cases "binade x = binade y")
  case True
  have "x / 2 powi (binade y - 52) \<le> y / 2 powi (binade y - 52)"
    using assms by (intro divide_right_mono) simp_all
  then have "round_even (x / 2 powi (binade y - 52)) \<le> round_even (y / 2 powi (binade y - 52))"
    by (rule round_even_mono)
  with True show ?thesis by (simp add: round53_def Let_def)
next
  case False
  with binade_mono [OF assms] have "(2 :: rat) powi (binade x + 1) \<le> 2 powi binade y"
    by (intro power_int_increasing) simp_all
  with round53_binade [of x] round53_binade [of y] assms show ?thesis by linarith
qed

lemma float64_mono:
  assumes "0 \<le> x" "x \<le> y"
  shows "float64 x \<le> float64 y"
proof (cases "x = 0")
  case True
  show ?thesis
  proof (cases "y = 0")
    case False
    with True assms have "0 < y" by simp
    have "(0 :: rat) \<le> 2 powi binade y" by (rule zero_le_power_int) simp
    with \<open>0 < y\<close> have "0 \<le> round53 y" using round53_binade(1) [of y] by linarith
    with True \<open>0 < y\<close> show ?thesis by (simp add: float64_def)
  qed (use True in simp)
next
  case False
  with assms show ?thesis using round53_mono [of x y] by (simp add: float64_def)
qed

text \<open>Integers of up to 53 bits are exact.\<close>

lemma round_even_of_int [simp]: "round_even (of_int n) = n"
  by (simp add: round_even_def)

lemma float64_of_int_exact:
  assumes "0 \<le> n" "n < 2 ^ 53"
  shows "float64_of_int n = of_int n"
proof (cases "n = 0")
  case True
  then show ?thesis by (simp add: float64_of_int_def float64_def)
next
  case False
  with assms have pos: "(0 :: rat) < of_int n" by simp
  have "binade (of_int n) < 53"
  proof (rule ccontr)
    assume "\<not> binade (of_int n) < 53"
    then have "(2 :: rat) powi 53 \<le> 2 powi binade (of_int n)" by (intro power_int_increasing) simp_all
    also have "\<dots> \<le> of_int n" using binade_bounds(1) [OF pos] .
    finally have "(2 :: rat) ^ 53 \<le> of_int n" by (metis of_nat_numeral power_int_of_nat)
    then have "2 ^ 53 \<le> n" unfolding of_int_le_iff [symmetric, where 'a = rat] by simp
    with assms show False by simp
  qed
  define k where "k = nat (52 - binade (of_int n))"
  have "binade (of_int n) - 52 = - int k" using \<open>binade (of_int n) < 53\<close> by (simp add: k_def)
  then have e: "(2 :: rat) powi (binade (of_int n) - 52) = 1 / 2 ^ k"
    by (simp only: power_int_minus power_int_of_nat inverse_eq_divide)
  have "of_int n / (1 / 2 ^ k) = (of_int (n * 2 ^ k) :: rat)" by simp
  then have "round_even (of_int n / (1 / 2 ^ k)) = n * 2 ^ k" by (simp only: round_even_of_int)
  then have "round53 (of_int n) = of_int n"
    unfolding round53_def Let_def e by simp
  with pos False show ?thesis by (simp add: float64_of_int_def float64_def)
qed

end
