(* ===== verification/EtcdCluster.thy ===== *)
theory EtcdCluster
  imports Management EtcdClient VolumeStats BackupSchedule GoFloat
begin

text \<open>
  The etcd cluster of a control plane (\<open>reconcilers/etcd_cluster/reconciler.go\<close>): its services, the size of
  its volumes, the stateful set, defragmentation, alarms and backups. The reconciler changes the status of the
  \<open>HostedControlPlane\<close> it is given, which is the one of the world.

  Parameters: the factories of the etcd and the S3 client (an S3 client is its one method \<open>Upload\<close>), the
  statistics of the volumes, the clock, the cron parser, the text of a quantity, the two version tests of
  the semver library (\<open>None\<close> where parsing fails), kubeadm's health check timeout, and \<open>er_stalled\<close>, whether the
  watchdog of a backup has cancelled its context by now. \<open>for\<close> loops over a Go map run in the order of the
  list that stands for the map; no property depends on it.
\<close>

section \<open>State\<close>

record 'e etcdClusterReconciler = "'e ManagementResourceReconciler" +
  etcdServerPort :: int
  etcdPeerPort :: int
  etcdServerStorageBuffer :: quantity
  etcdServerStorageIncrement :: quantity
  etcdClientFactory :: "HostedControlPlane \<Rightarrow> Cluster \<Rightarrow> int \<Rightarrow> ('e, 'e EtcdClient) act"
  s3ClientFactory :: "HostedControlPlane \<Rightarrow> Cluster \<Rightarrow> ('e, ('e, unit) act) act"
  volumeStatsProvider :: "live_pod list \<Rightarrow> ('e, int \<times> gerr option) act"
  componentLabel :: string
  apiServerComponentLabel :: string
  er_clock :: "'e clock"
  er_cron :: "string \<Rightarrow> gerr + cron_schedule"
  er_quantity_string :: "quantity \<Rightarrow> string"
  er_must_lt37 :: "string \<Rightarrow> bool option"
  er_tolerant_lt37 :: "string \<Rightarrow> bool option"
  er_health_timeout :: nat
  er_stalled :: "'e \<Rightarrow> bool"

text \<open>The constructor; the peer port is fixed. The parameters of the model are the last arguments.\<close>

definition NewEtcdClusterReconciler :: "'e core_api \<Rightarrow> 'e cilium_api option \<Rightarrow> int \<Rightarrow> quantity \<Rightarrow> quantity
    \<Rightarrow> (HostedControlPlane \<Rightarrow> Cluster \<Rightarrow> int \<Rightarrow> ('e, 'e EtcdClient) act)
    \<Rightarrow> (HostedControlPlane \<Rightarrow> Cluster \<Rightarrow> ('e, ('e, unit) act) act)
    \<Rightarrow> (live_pod list \<Rightarrow> ('e, int \<times> gerr option) act) \<Rightarrow> string \<Rightarrow> string \<Rightarrow> string \<Rightarrow> string
    \<Rightarrow> (string \<Rightarrow> string) \<Rightarrow> nat \<Rightarrow> 'e clock \<Rightarrow> (string \<Rightarrow> gerr + cron_schedule) \<Rightarrow> (quantity \<Rightarrow> string)
    \<Rightarrow> (string \<Rightarrow> bool option) \<Rightarrow> (string \<Rightarrow> bool option) \<Rightarrow> nat \<Rightarrow> ('e \<Rightarrow> bool) \<Rightarrow> 'e etcdClusterReconciler" where
  "NewEtcdClusterReconciler managementClusterClient ciliumClient serverPort storageBuffer storageIncrement
      etcd_factory s3_factory volume_stats component apiServerComponent controllerNamespace systemControllerComponent
      md5hex depth clk cron quantity_string must_lt37 tolerant_lt37 health_timeout stalled =
     \<lparr>ManagementClusterClient = managementClusterClient, CiliumClient = ciliumClient, WorldComponent = [],
      ControllerNamespace = controllerNamespace, ControllerComponent = systemControllerComponent,
      mr_md5 = md5hex, mr_depth = depth,
      etcdServerPort = serverPort, etcdPeerPort = 2380, etcdServerStorageBuffer = storageBuffer,
      etcdServerStorageIncrement = storageIncrement, etcdClientFactory = etcd_factory, s3ClientFactory = s3_factory,
      volumeStatsProvider = volume_stats, componentLabel = component, apiServerComponentLabel = apiServerComponent,
      er_clock = clk, er_cron = cron, er_quantity_string = quantity_string, er_must_lt37 = must_lt37,
      er_tolerant_lt37 = tolerant_lt37, er_health_timeout = health_timeout, er_stalled = stalled\<rparr>"

definition errETCDBackupStalled :: gerr where
  "errETCDBackupStalled = ESentinel ''etcd backup timed out: no progress in time window''"

definition etcdDefragmentationFragmentationThreshold :: rat where
  "etcdDefragmentationFragmentationThreshold = float64 (1 / 5)"

definition etcdDefragmentationCooldown :: duration where
  "etcdDefragmentationCooldown = hour"

section \<open>Volumes\<close>

definition scheduled_pods :: "live_pod list \<Rightarrow> live_pod list" where
  "scheduled_pods pods = filter (\<lambda>pod. pod_node pod \<noteq> []) pods"

definition listEtcdPods :: "'e etcdClusterReconciler \<Rightarrow> Cluster \<Rightarrow> ('e, live_pod list) act" where
  "listEtcdPods er cluster =
     gbind get_hcp (\<lambda>h.
       let selector = GetControlPlaneSelector cluster (componentLabel er) in
       gwrap ''failed to list etcd pods''
         (invoke (CPodList (Namespace h) selector) (k_pod_list (ManagementClusterClient er) (Namespace h) selector)))"

definition reconcileETCDSpaceUsage :: "'e etcdClusterReconciler \<Rightarrow> live_pod list \<Rightarrow> ('e, unit) act" where
  "reconcileETCDSpaceUsage er pods =
     gbind (volumeStatsProvider er (scheduled_pods pods)) (\<lambda>(fsUsage, err).
       case err of
         None \<Rightarrow> mod_status (\<lambda>s. s\<lparr>ETCDVolumeUsage := quantity_of fsUsage\<rparr>)
       | Some err \<Rightarrow>
           if fsUsage = 0 then gfail (EWrap ''failed to get etcd volume usage for all pods'' err)
           else gbind get_hcp (\<lambda>h.
             let fsUsage = max fsUsage (quantity_value (ETCDVolumeUsage (Status h))) in
             gseq (emit True ''EtcdFilesystemUsageOnlyPartiallyAvailable'' ''EtcdSpaceUsageCheck'')
               (mod_status (\<lambda>s. s\<lparr>ETCDVolumeUsage := quantity_of fsUsage\<rparr>))))"

definition getETCDVolumeSize :: "'e etcdClusterReconciler \<Rightarrow> ('e, quantity) act" where
  "getETCDVolumeSize er =
     gbind get_hcp (\<lambda>h.
       if AutoGrowEnabled (Some (ETCD (Spec h)))
       then (if ETCDVolumeSize (Status h) - ETCDVolumeUsage (Status h) < etcdServerStorageBuffer er
             then gseq (emit False ''EtcdSpaceUsageCrossedThreshold'' ''EtcdVolumeSizeRecalculated'')
                    (gret (ETCDVolumeSize (Status h) + etcdServerStorageIncrement er))
             else gret (ETCDVolumeSize (Status h)))
       else (case VolumeSize (ETCD (Spec h)) of
               None \<Rightarrow> gfail (EPanic ''nil dereference of the volume size'')
             | Some volumeSize \<Rightarrow> gret volumeSize))"

definition resize_pvc :: "'e etcdClusterReconciler \<Rightarrow> live_pvc \<Rightarrow> ('e, unit) act" where
  "resize_pvc er pvc =
     gbind get_hcp (\<lambda>h.
       if lpvc_storage pvc < ETCDVolumeSize (Status h)
       then (let ac = \<lparr>pvc_name = lpvc_name pvc, pvc_namespace = lpvc_namespace pvc, pvc_access_modes = [],
                    pvc_storage = ETCDVolumeSize (Status h)\<rparr>
             in gseq (gwrap (''failed to apply size change to etcd PVC ''
                        @ path_join (lpvc_namespace pvc) (lpvc_name pvc))
                  (invoke (CPvcApply ac) (k_pvc_apply (ManagementClusterClient er) ac)))
                (emit False ''RequestedSizeChanged'' ''EtcdVolumeAutoResize''))
       else gret ())"

definition reconcilePVCSizes :: "'e etcdClusterReconciler \<Rightarrow> Cluster \<Rightarrow> ('e, unit) act" where
  "reconcilePVCSizes er cluster =
     gbind get_hcp (\<lambda>h.
       let selector = GetControlPlaneSelector cluster (componentLabel er) in
       gbind (gwrap ''failed to list etcd PVCs''
           (invoke (CPvcList (Namespace h) selector) (k_pvc_list (ManagementClusterClient er) (Namespace h) selector)))
         (\<lambda>pvcs. gfor pvcs (resize_pvc er)))"

section \<open>Backups\<close>

text \<open>\<open>errors.Join(err, context.Cause(ctx))\<close>\<close>

definition join_cause :: "'e etcdClusterReconciler \<Rightarrow> gerr \<Rightarrow> ('e, gerr) act" where
  "join_cause er err =
     gbind (gget (\<lambda>w. er_stalled er (env w))) (\<lambda>stalled.
       gret (EJoin (if stalled then [err, errETCDBackupStalled] else [err])))"

text \<open>The deferred call of the close function assigns its error to a variable no one reads.\<close>

definition runETCDBackup :: "'e etcdClusterReconciler \<Rightarrow> 'e EtcdClient \<Rightarrow> ('e, unit) act \<Rightarrow> cron_schedule
    \<Rightarrow> ('e, unit) act" where
  "runETCDBackup er etcdClient upload next_run =
     gseq (emit False ''CronScheduleTriggered'' ''EtcdBackup'')
       (gbind (OpenSnapshotStream etcdClient) (\<lambda>(snapshot, closeClientFunc).
         gbind (gtry (case snapshot of
             Inl err \<Rightarrow> gbind (join_cause er err) (\<lambda>e. gfail (EWrap ''failed to create etcd snapshot'' e))
           | Inr _ \<Rightarrow> gbind (gtry upload) (\<lambda>uploaded. case uploaded of
               Inl err \<Rightarrow> gbind (join_cause er err) (\<lambda>e. gfail (EWrap ''failed to upload etcd snapshot to S3'' e))
             | Inr _ \<Rightarrow>
                 gbind (now (er_clock er)) (\<lambda>t.
                   gseq (mod_status (\<lambda>s. s\<lparr>ETCDLastBackupTime := t, ETCDNextBackupTime := next_run t\<rparr>))
                     (emit False ''EtcdBackupFinished'' ''EtcdBackupFinished'')))))
         (\<lambda>result. gbind (gtry closeClientFunc) (\<lambda>closed.
            case result of Inl err \<Rightarrow> gfail err | Inr _ \<Rightarrow> gret ()))))"

definition backup_due :: "'e etcdClusterReconciler \<Rightarrow> cron_schedule \<Rightarrow> gtime \<Rightarrow> ('e, bool) act" where
  "backup_due er next_run lastBackupTime =
     (if lastBackupTime = 0 then gret True
      else gbind (now (er_clock er)) (\<lambda>t. gret (next_run lastBackupTime < t)))"

definition reconcileETCDBackup :: "'e etcdClusterReconciler \<Rightarrow> 'e EtcdClient \<Rightarrow> Cluster \<Rightarrow> ('e, unit) act" where
  "reconcileETCDBackup er etcdClient cluster =
     gbind get_hcp (\<lambda>h.
       gbind (gwrap ''failed to create S3 client'' (s3ClientFactory er h cluster)) (\<lambda>upload.
         case Backup (ETCD (Spec h)) of
           None \<Rightarrow> gfail (EPanic ''nil dereference of the backup'')
         | Some backup \<Rightarrow>
             (case resolveBackupSchedule (er_cron er) (Schedule backup) (Namespace h) (Name h) of
                Inl err \<Rightarrow> gfail err
              | Inr resolvedSchedule \<Rightarrow>
                  gbind get_hcp (\<lambda>h.
                    gbind (backup_due er resolvedSchedule (ETCDLastBackupTime (Status h))) (\<lambda>due.
                      if due then runETCDBackup er etcdClient upload resolvedSchedule else gret ())))))"

section \<open>Maintenance\<close>

definition fragmented :: "etcd_status \<Rightarrow> bool" where
  "fragmented status \<longleftrightarrow>
     \<not> (es_db_size status = 0 \<or> es_db_size status < es_db_size_in_use status \<or>
        float64_div (float64_of_int (int64 (es_db_size status - es_db_size_in_use status)))
          (float64_of_int (es_db_size status)) \<le> etcdDefragmentationFragmentationThreshold)"

fun defragment_first :: "'e etcdClusterReconciler \<Rightarrow> 'e EtcdClient \<Rightarrow> (string \<times> etcd_status) list \<Rightarrow> ('e, unit) act" where
  "defragment_first er etcdClient [] = gret ()"
| "defragment_first er etcdClient ((_, status) # rest) =
     (if \<not> fragmented status then defragment_first er etcdClient rest
      else gbind (now (er_clock er)) (\<lambda>t.
        gseq (mod_status (\<lambda>s. s\<lparr>ETCDLastAttemptedDefragTime := t\<rparr>))
        (gseq (gwrap ''failed to defragment etcd'' (Defragment etcdClient))
        (gbind (now (er_clock er)) (\<lambda>t'.
        gseq (mod_status (\<lambda>s. s\<lparr>ETCDLastDefragTime := t'\<rparr>))
          (emit False ''FragmentationThresholdExceeded'' ''EtcdDefragmentation''))))))"

definition reconcileETCDDefragmentation :: "'e etcdClusterReconciler \<Rightarrow> 'e EtcdClient \<Rightarrow> (string \<times> etcd_status) list
    \<Rightarrow> ('e, unit) act" where
  "reconcileETCDDefragmentation er etcdClient statuses =
     gbind get_hcp (\<lambda>h.
       let last = ETCDLastAttemptedDefragTime (Status h) in
       gbind (if last = 0 then gret False
              else gbind (now (er_clock er)) (\<lambda>t. gret (t - last < etcdDefragmentationCooldown)))
         (\<lambda>cooling. if cooling then gret () else defragment_first er etcdClient statuses))"

definition reconcileETCDMaintenance :: "'e etcdClusterReconciler \<Rightarrow> 'e EtcdClient \<Rightarrow> live_pod list \<Rightarrow> ('e, unit) act" where
  "reconcileETCDMaintenance er etcdClient pods =
     gbind (gwrap ''failed to get etcd statuses'' (GetStatuses etcdClient (map pod_name (scheduled_pods pods))))
       (\<lambda>statuses. gwrap ''failed to reconcile etcd defragmentation''
          (reconcileETCDDefragmentation er etcdClient statuses))"

text \<open>The enumeration is encoded in the order of its declaration.\<close>

definition alarm_error :: "alarm_member \<Rightarrow> gerr" where
  "alarm_error alarm = EWrap (''etcd member '' @ nat_dec (al_member alarm) @ '' has alarm'')
     (ELib (case al_alarm alarm of AlarmNone \<Rightarrow> ''NONE'' | AlarmNoSpace \<Rightarrow> ''NOSPACE'' | AlarmCorrupt \<Rightarrow> ''CORRUPT''))"

definition disarm :: "'e EtcdClient \<Rightarrow> alarm_member \<Rightarrow> ('e, unit) act" where
  "disarm etcdClient alarm =
     gseq (gwrap (''failed to disarm etcd alarm for member '' @ nat_dec (al_member alarm))
             (DisarmAlarm etcdClient alarm))
       (emit False ''EtcdAlarmDisarm'' ''EtcdAlarmDisarm'')"

definition etcdIsHealthy :: "'e etcdClusterReconciler \<Rightarrow> 'e EtcdClient \<Rightarrow> ('e, unit) act" where
  "etcdIsHealthy er etcdClient =
     gbind (gwrap ''failed to list etcd alarms'' (ListAlarms etcdClient)) (\<lambda>alarms.
       if alarms = [] then gret ()
       else
        (let nospaceAlarms = filter (\<lambda>alarm. al_alarm alarm = AlarmNoSpace) alarms in
         gbind get_hcp (\<lambda>h.
           let headroom = ETCDVolumeSize (Status h) - ETCDVolumeUsage (Status h) in
           gbind (if etcdServerStorageBuffer er \<le> headroom
                  then gseq (gfor nospaceAlarms (disarm etcdClient)) (gret nospaceAlarms)
                  else if AutoGrowEnabled (Some (ETCD (Spec h))) then gret nospaceAlarms
                  else gret [])
             (\<lambda>ignoredAlarms.
               let activeAlarms = filter (\<lambda>alarm. alarm \<notin> set ignoredAlarms) alarms in
               if activeAlarms \<noteq> []
               then gfail (EWrap ''etcd cluster has active alarms'' (EJoin (map alarm_error activeAlarms)))
               else gret ()))))"

section \<open>Service and stateful set\<close>

definition server_port :: "'e etcdClusterReconciler \<Rightarrow> container_port" where
  "server_port er = \<lparr>cp_name = ''server'', cp_port = etcdServerPort er, cp_protocol = ''TCP''\<rparr>"

definition peer_port :: container_port where
  "peer_port = \<lparr>cp_name = ''peer'', cp_port = 2380, cp_protocol = ''TCP''\<rparr>"

definition metrics_port :: container_port where
  "metrics_port = \<lparr>cp_name = ''metrics'', cp_port = 2381, cp_protocol = ''TCP''\<rparr>"

definition etcd_reconcileService :: "'e etcdClusterReconciler \<Rightarrow> Cluster \<Rightarrow> string \<Rightarrow> bool \<Rightarrow> ('e, bool) act" where
  "etcd_reconcileService er cluster name headless =
     gbind get_hcp (\<lambda>h.
       gbind (ReconcileService er h cluster (Namespace h) name ''ClusterIP'' headless (componentLabel er)
           [\<lparr>sp_name = ''etcd-server'', sp_port = etcdServerPort er, sp_target_port = cp_name (server_port er),
             sp_protocol = ''TCP''\<rparr>,
            \<lparr>sp_name = ''client-peer'', sp_port = etcdPeerPort er, sp_target_port = cp_name peer_port,
             sp_protocol = ''TCP''\<rparr>,
            \<lparr>sp_name = ''client-metrics'', sp_port = 2381, sp_target_port = cp_name metrics_port,
             sp_protocol = ''TCP''\<rparr>])
         (\<lambda>(_, ready). gret ready))"

definition createEtcdDataVolumeClaimTemplate :: "HostedControlPlane \<Rightarrow> pvc_ac" where
  "createEtcdDataVolumeClaimTemplate h =
     \<lparr>pvc_name = ''etcd-data'', pvc_namespace = [], pvc_access_modes = [''ReadWriteOnce''],
      pvc_storage = ETCDVolumeSize (Status h)\<rparr>"

definition createVolumeFromTemplate :: "pvc_ac \<Rightarrow> volume" where
  "createVolumeFromTemplate volumeClaimTemplate = volume0 (pvc_name volumeClaimTemplate)"

definition createEtcdCertificatesVolume :: "Cluster \<Rightarrow> volume" where
  "createEtcdCertificatesVolume cluster =
     (volume0 ''etcd-certificates'')\<lparr>vol_projected := Some
       [PSecret (GetEtcdCABundleSecretName cluster) [\<lparr>ktp_key = CACertName, ktp_path = CACertName\<rparr>],
        PSecret (GetEtcdServerSecretName cluster)
          [\<lparr>ktp_key = TLSCertKey, ktp_path = ''server.crt''\<rparr>, \<lparr>ktp_key = TLSPrivateKeyKey, ktp_path = ''server.key''\<rparr>],
        PSecret (GetEtcdPeerSecretName cluster)
          [\<lparr>ktp_key = TLSCertKey, ktp_path = ''peer.crt''\<rparr>, \<lparr>ktp_key = TLSPrivateKeyKey, ktp_path = ''peer.key''\<rparr>]]\<rparr>"

definition isEtcdVersionBefore37 :: "'e etcdClusterReconciler \<Rightarrow> ImageSpec option \<Rightarrow> ('e, bool) act" where
  "isEtcdVersionBefore37 er imageSpec =
     (let tag = (case imageSpec of None \<Rightarrow> [] | Some i \<Rightarrow> deref (Tag i) []) in
      if tag = []
      then (case er_must_lt37 er DefaultETCDVersion of
              None \<Rightarrow> gfail (EPanic ''semver.MustParse'')
            | Some lt \<Rightarrow> gret lt)
      else (case er_tolerant_lt37 er tag of
              None \<Rightarrow> gseq (emit True ''EtcdImageTagNotSemver'' ''EtcdVersionCheck'') (gret True)
            | Some lt \<Rightarrow> gret lt))"

definition buildInitialCluster :: "Cluster \<Rightarrow> container_port \<Rightarrow> string" where
  "buildInitialCluster cluster peerPort =
     str_join '','' (sort (map (\<lambda>(host, dnsName). host @ ''=https://'' @ dnsName @ '':'' @ int_dec (cp_port peerPort))
       (GetEtcdDNSNames cluster)))"

text \<open>90 per cent of the volume size, in \<open>int64\<close>.\<close>

definition storage_quota :: "quantity \<Rightarrow> int" where
  "storage_quota volumeSize = int64_quot (int64 (quantity_value volumeSize * 90)) 100"

definition etcd_controller_args :: "'e etcdClusterReconciler \<Rightarrow> HostedControlPlane \<Rightarrow> Cluster \<Rightarrow> bool
    \<Rightarrow> volume_mount \<Rightarrow> volume_mount \<Rightarrow> labels" where
  "etcd_controller_args er h cluster etcdVersionBefore37 etcdDataVolumeMount etcdCertificatesVolumeMount =
     (let certificatesDir = vm_path etcdCertificatesVolumeMount;
          podUrl = ''https://$(POD_NAME).'' @ GetEtcdServiceName cluster @ ''.'' @ Namespace h @ ''.svc'';
          args =
            [(''name'', ''$(POD_NAME)''),
             (''data-dir'', vm_path etcdDataVolumeMount),
             (''listen-peer-urls'', ''https://0.0.0.0:'' @ int_dec (cp_port peer_port)),
             (''listen-client-urls'', ''https://0.0.0.0:'' @ int_dec (cp_port (server_port er))),
             (''advertise-client-urls'', podUrl @ '':'' @ int_dec (cp_port (server_port er))),
             (''initial-cluster-state'', ''new''),
             (''initial-cluster-token'', ''etcd-cluster''),
             (''initial-cluster'', buildInitialCluster cluster peer_port),
             (''initial-advertise-peer-urls'', podUrl @ '':'' @ int_dec (cp_port peer_port)),
             (''listen-metrics-urls'', ''http://0.0.0.0:'' @ int_dec (cp_port metrics_port)),
             (''auto-compaction-mode'', ''periodic''),
             (''auto-compaction-retention'', ''72h''),
             (''client-cert-auth'', ''true''),
             (''trusted-ca-file'', path_join certificatesDir CACertName),
             (''cert-file'', path_join certificatesDir ''server.crt''),
             (''key-file'', path_join certificatesDir ''server.key''),
             (''peer-client-cert-auth'', ''true''),
             (''peer-trusted-ca-file'', path_join certificatesDir CACertName),
             (''peer-cert-file'', path_join certificatesDir ''peer.crt''),
             (''peer-key-file'', path_join certificatesDir ''peer.key''),
             (''quota-backend-bytes'', int_dec (storage_quota (ETCDVolumeSize (Status h))))]
      in if etcdVersionBefore37 then mput ''snapshot-count'' ''10000'' args else args)"

definition buildEtcdArgs :: "'e etcdClusterReconciler \<Rightarrow> HostedControlPlane \<Rightarrow> Cluster \<Rightarrow> bool
    \<Rightarrow> volume_mount \<Rightarrow> volume_mount \<Rightarrow> ('e, string list) act" where
  "buildEtcdArgs er h cluster etcdVersionBefore37 etcdDataVolumeMount etcdCertificatesVolumeMount =
     ArgsToSlice (Args (ETCD (Spec h)))
       (etcd_controller_args er h cluster etcdVersionBefore37 etcdDataVolumeMount etcdCertificatesVolumeMount) []"

definition createEtcdContainer :: "'e etcdClusterReconciler \<Rightarrow> HostedControlPlane \<Rightarrow> Cluster
    \<Rightarrow> volume_mount \<Rightarrow> volume_mount \<Rightarrow> ('e, container) act" where
  "createEtcdContainer er h cluster etcdDataVolumeMount etcdCertificatesVolumeMount =
     (let env_file = (\<lambda>name file. \<lparr>ev_name = name,
            ev_value = Some (path_join (vm_path etcdCertificatesVolumeMount) file), ev_field_path = None\<rparr>) in
      gbind (isEtcdVersionBefore37 er (Image (ETCD (Spec h)))) (\<lambda>before37.
      gbind (buildEtcdArgs er h cluster before37 etcdDataVolumeMount etcdCertificatesVolumeMount) (\<lambda>args.
        gret (container0\<lparr>c_name := ''etcd'',
          c_image := ResolveETCDImage (Image (ETCD (Spec h))),
          c_pull_policy := ImagePullPolicyOrDefault (Some (ETCD (Spec h))),
          c_command := [''etcd''],
          c_args := args,
          c_env := [\<lparr>ev_name = ''POD_NAME'', ev_value = None, ev_field_path = Some ''metadata.name''\<rparr>,
            env_file ''ETCDCTL_CACERT'' CACertName, env_file ''ETCDCTL_CERT'' ''server.crt'',
            env_file ''ETCDCTL_KEY'' ''server.key''],
          c_ports := [server_port er, peer_port, metrics_port],
          c_resources := ResourceRequirementsToResourcesApplyConfiguration (Resources (ETCD (Spec h))),
          c_startup_probe := Some (CreateStartupProbe (er_health_timeout er) metrics_port ''/readyz'' ''HTTP''),
          c_readiness_probe := Some (CreateReadinessProbe metrics_port ''/readyz'' ''HTTP''),
          c_liveness_probe := Some (CreateLivenessProbe metrics_port ''/livez'' ''HTTP''),
          c_volume_mounts := [etcdDataVolumeMount, etcdCertificatesVolumeMount]\<rparr>))))"

definition etcd_ingress :: "'e etcdClusterReconciler \<Rightarrow> Cluster \<Rightarrow> (int, IngressNetworkPolicyTarget list) gomap" where
  "etcd_ingress er cluster =
     mput (etcdPeerPort er) [InComponent (ComponentNetworkPolicyTarget cluster (componentLabel er))]
       [(etcdServerPort er,
          [InComponent (ComponentNetworkPolicyTarget cluster (apiServerComponentLabel er)),
           InHCPController (HCPControllerNetworkPolicyTarget (ControllerNamespace er))])]"

definition etcd_egress :: "'e etcdClusterReconciler \<Rightarrow> Cluster \<Rightarrow> (int, EgressNetworkPolicyTarget list) gomap" where
  "etcd_egress er cluster =
     [(etcdPeerPort er, [EgComponent (ComponentNetworkPolicyTarget cluster (componentLabel er))])]"

definition etcd_statefulset_part :: "Cluster \<Rightarrow> pvc_ac \<Rightarrow> statefulset_part" where
  "etcd_statefulset_part cluster claim =
     \<lparr>st_service_name = GetEtcdServiceName cluster, st_pod_management = ''Parallel'', st_max_unavailable = Some 1,
      st_claims = [claim], st_when_deleted = ''Delete'', st_when_scaled = ''Retain''\<rparr>"

definition etcd_reconcileStatefulSet :: "'e etcdClusterReconciler \<Rightarrow> Cluster \<Rightarrow> ('e, bool) act" where
  "etcd_reconcileStatefulSet er cluster =
     gbind get_hcp (\<lambda>h.
       let etcdCertificatesVolume = createEtcdCertificatesVolume cluster;
           etcdDataVolumeClaimTemplate = createEtcdDataVolumeClaimTemplate h;
           etcdDataVolume = createVolumeFromTemplate etcdDataVolumeClaimTemplate;
           etcdDataVolumeMount = \<lparr>vm_name = vol_name etcdDataVolume, vm_path = ''/var/lib/etcd'', vm_read_only = None,
             vm_sub_path = None\<rparr>;
           etcdCertificatesVolumeMount =
             \<lparr>vm_name = vol_name etcdCertificatesVolume, vm_path = ''/etc/etcd'', vm_read_only = Some True, vm_sub_path = None\<rparr>
       in gbind (createEtcdContainer er h cluster etcdDataVolumeMount etcdCertificatesVolumeMount) (\<lambda>container.
          gbind (ReconcileStatefulset er h cluster (GetEtcdStatefulSetName cluster) (Namespace h)
              (PodOptions0\<lparr>po_annotations := [(''storage-sizes'',
                  er_quantity_string er (pvc_storage etcdDataVolumeClaimTemplate))],
                po_priority_class := EtcdPriorityClassName (ETCD (Spec h))\<rparr>)
              (etcd_statefulset_part cluster etcdDataVolumeClaimTemplate) (componentLabel er)
              (Some (etcd_ingress er cluster)) (Some (etcd_egress er cluster)) 3
              [(container, ContainerOptions0)] [etcdDataVolume, etcdCertificatesVolume])
            (\<lambda>(_, ready). gret ready)))"

section \<open>The reconciler\<close>

text \<open>An empty text means that the cluster is ready, any other one why it is not.\<close>

definition reconcileEtcdMembers :: "'e etcdClusterReconciler \<Rightarrow> Cluster \<Rightarrow> live_pod list \<Rightarrow> ('e, string) act" where
  \<comment> \<open>the second half of \<open>ReconcileEtcdCluster\<close>, once the size of the volumes is known\<close>
  "reconcileEtcdMembers er cluster etcdPods =
     gseq (gwrap ''failed to reconcile size of etcd PVCs'' (reconcilePVCSizes er cluster))
     (gbind get_hcp (\<lambda>h.
     gbind (gwrap ''failed to create etcd client'' (etcdClientFactory er h cluster (etcdServerPort er))) (\<lambda>etcdClient.
     gbind (gwrap ''failed to reconcile etcd StatefulSet'' (etcd_reconcileStatefulSet er cluster)) (\<lambda>ready.
     if \<not> ready then gret ''etcd StatefulSet is not ready'' else
     gseq (reconcileETCDMaintenance er etcdClient etcdPods)
     (gseq (etcdIsHealthy er etcdClient)
     (gseq (case Backup (ETCD (Spec h)) of
              None \<Rightarrow> gret ()
            | Some _ \<Rightarrow> gwrap ''failed to reconcile etcd backup'' (reconcileETCDBackup er etcdClient cluster))
       (gret [])))))))"

definition ReconcileEtcdCluster :: "'e etcdClusterReconciler \<Rightarrow> Cluster \<Rightarrow> ('e, string) act" where
  "ReconcileEtcdCluster er cluster =
     gbind (gwrap ''failed to reconcile etcd service''
              (etcd_reconcileService er cluster (GetEtcdServiceName cluster) True)) (\<lambda>ready.
     if \<not> ready then gret ''etcd peer Service not ready'' else
     gbind (gwrap ''failed to reconcile etcd client service''
              (etcd_reconcileService er cluster (GetEtcdClientServiceName cluster) False)) (\<lambda>ready.
     if \<not> ready then gret ''etcd client Service not ready'' else
     gbind (listEtcdPods er cluster) (\<lambda>etcdPods.
     gseq (gwrap ''failed to reconcile etcd space usage'' (reconcileETCDSpaceUsage er etcdPods))
     (gbind (getETCDVolumeSize er) (\<lambda>volumeSize.
     gseq (mod_status (\<lambda>s. s\<lparr>ETCDVolumeSize := volumeSize\<rparr>))
       (reconcileEtcdMembers er cluster etcdPods))))))"

end
