(* ===== verification/S3Client.thy ===== *)
theory S3Client
  imports OperatorUtil
begin

text \<open>
  The backup target (\<open>etcd_cluster/s3_client/s3_client.go\<close>). The AWS SDK is outside: loading its
  configuration is the parameter \<open>load_config\<close>, an upload is a call. \<open>time.Format(RFC3339)\<close> is the
  parameter \<open>rfc3339\<close>.

  \<open>fmt.Sprintf\<close> with one string argument is modelled for the directives \<open>%s\<close>, \<open>%%\<close>, a \<open>%\<close> at the end and
  verbs that strings do not have; \<open>None\<close> stands for a directive outside of these (flags, widths, other
  verbs of strings). \<open>strings.TrimSpace\<close> is modelled for the ASCII white space.
\<close>

definition is_space :: "char \<Rightarrow> bool" where
  "is_space c \<longleftrightarrow> of_char c \<in> {9, 10, 11, 12, 13, 32 :: nat}"

definition TrimSpace :: "string \<Rightarrow> string" where
  "TrimSpace s = rev (dropWhile is_space (rev (dropWhile is_space s)))"

definition other_directive :: "char \<Rightarrow> bool" where
  "other_directive c \<longleftrightarrow> c \<in> set ''+-# 0123456789.*[vqxXTp''"

fun go_sprintf :: "string \<Rightarrow> string option \<Rightarrow> string option" where
  "go_sprintf [] (Some a) = Some (''%!(EXTRA string='' @ a @ '')'')"
| "go_sprintf [] None = Some []"
| "go_sprintf [c] a =
     (if c = CHR ''%'' then map_option (\<lambda>r. ''%!(NOVERB)'' @ r) (go_sprintf [] a)
      else map_option (\<lambda>r. c # r) (go_sprintf [] a))"
| "go_sprintf (c # d # s) a =
     (if c \<noteq> CHR ''%'' then map_option (\<lambda>r. c # r) (go_sprintf (d # s) a)
      else if d = CHR ''%'' then map_option (\<lambda>r. CHR ''%'' # r) (go_sprintf s a)
      else if other_directive d then None
      else (case a of
              None \<Rightarrow> map_option (\<lambda>r. ''%!'' @ [d] @ ''(MISSING)'' @ r) (go_sprintf s None)
            | Some x \<Rightarrow>
                if d = CHR ''s'' then map_option (\<lambda>r. x @ r) (go_sprintf s None)
                else map_option (\<lambda>r. ''%!'' @ [d] @ ''(string='' @ x @ '')'' @ r) (go_sprintf s None)))"

record s3Client =
  s3_bucket :: string
  s3_key_template :: string
  s3_region :: string
  s3_access_key :: string
  s3_secret_key :: string
  s3_base_endpoint :: "string option"
  s3_path_style :: bool
  s3_strip_checksums :: bool

record 'e s3_api =
  s3_upload :: "string \<Rightarrow> string \<Rightarrow> ('e, unit) op"
  s3_close_body :: "('e, unit) op"

definition errCredentialIsMissingKey :: gerr where
  "errCredentialIsMissingKey = ESentinel ''s3 credential is missing key''"

definition errBucketNameEmpty :: gerr where
  "errBucketNameEmpty = ESentinel ''s3 bucket name is empty''"

definition require_key :: "live_secret \<Rightarrow> string \<Rightarrow> ('e, string) act" where
  "require_key s key =
     (case map_of (lsec_data s) key of
        None \<Rightarrow> gfail (EWrap (''missing '' @ key) errCredentialIsMissingKey)
      | Some v \<Rightarrow> gret v)"

text \<open>Bucket and prefix of the bucket entry, and the client they give.\<close>

definition bucket_prefix :: "string \<Rightarrow> string \<times> string" where
  "bucket_prefix bucketString =
     (case split2 CHR ''/'' bucketString of
        (bucket, None) \<Rightarrow> (bucket, [])
      | (bucket, Some p) \<Rightarrow> (bucket, if p \<noteq> [] then p @ ''/'' else []))"

definition keyTemplate :: "string \<Rightarrow> Cluster \<Rightarrow> string" where
  "keyTemplate prefix cluster = prefix @ ClusterNamespace cluster @ ''/'' @ ClusterName cluster @ ''/%s.etcd''"

definition NewS3Client ::
  "(string \<Rightarrow> gerr option) \<Rightarrow> 'e core_api \<Rightarrow> HostedControlPlane \<Rightarrow> Cluster \<Rightarrow> ('e, s3Client) act" where
  "NewS3Client load_config K h cluster =
     (case Backup (ETCD (Spec h)) of
        None \<Rightarrow> gfail (EPanic ''nil dereference of Spec.ETCD.Backup'')
      | Some backup \<Rightarrow>
        (let config = BackupSecret backup;
             secretNamespace = deref (SecretNamespace config) (Namespace h)
         in gbind (gwrap ''failed to get S3 credentials secret''
                (invoke (CSecretGet secretNamespace (SecretName config))
                   (k_secret_get K secretNamespace (SecretName config))))
            (\<lambda>s3Secret.
             gbind (require_key s3Secret (AccessKeyIDKeyOrDefault (Some config))) (\<lambda>accessKeyID.
             gbind (require_key s3Secret (SecretAccessKeyKeyOrDefault (Some config))) (\<lambda>secretAccessKey.
             let endpoint = (case map_of (lsec_data s3Secret) (HostKeyOrDefault (Some config)) of
                               None \<Rightarrow> [] | Some v \<Rightarrow> TrimSpace v) in
             gbind (require_key s3Secret (RegionKeyOrDefault (Some config))) (\<lambda>regionBytes.
             gbind (require_key s3Secret (BucketKeyOrDefault (Some config))) (\<lambda>bucketBytes.
             case bucket_prefix (TrimSpace bucketBytes) of (bucket, prefix) \<Rightarrow>
               if bucket = [] then gfail (EWrap (''bucket secret key resolved to an empty bucket name'') errBucketNameEmpty)
               else (case load_config (TrimSpace regionBytes) of
                   Some err \<Rightarrow> gfail (EWrap ''failed to load AWS config'' err)
                 | None \<Rightarrow> gret \<lparr>
                     s3_bucket = bucket,
                     s3_key_template = keyTemplate prefix cluster,
                     s3_region = TrimSpace regionBytes,
                     s3_access_key = accessKeyID,
                     s3_secret_key = secretAccessKey,
                     s3_base_endpoint = (if endpoint \<noteq> [] then Some (''https://'' @ endpoint) else None),
                     s3_path_style = (endpoint \<noteq> []),
                     s3_strip_checksums = (endpoint \<noteq> [])\<rparr>))))))))"

text \<open>
  \<open>Upload\<close> closes the body in any case (deferred) and joins a failure of it. \<open>key\<close> is the \<open>Sprintf\<close> of the
  template; outside of the modelled directives it stays open (\<open>unmodelled\<close>, an argument).
\<close>

definition object_key :: "(string \<Rightarrow> string \<Rightarrow> string) \<Rightarrow> s3Client \<Rightarrow> string \<Rightarrow> string" where
  "object_key unmodelled s timestamp =
     (case go_sprintf (s3_key_template s) (Some timestamp) of
        Some k \<Rightarrow> k | None \<Rightarrow> unmodelled (s3_key_template s) timestamp)"

definition Upload ::
  "(string \<Rightarrow> string \<Rightarrow> string) \<Rightarrow> (gtime \<Rightarrow> string) \<Rightarrow> 'e clock \<Rightarrow> 'e s3_api \<Rightarrow> s3Client \<Rightarrow> ('e, unit) act" where
  "Upload unmodelled rfc3339 clk S s =
     gbind (now clk) (\<lambda>t.
     let key = object_key unmodelled s (rfc3339 t) in
     gbind (gtry (gwrap ''failed to upload content to S3''
              (invoke (CS3Upload (s3_bucket s) key) (s3_upload S (s3_bucket s) key)))) (\<lambda>r.
     gbind (gtry (\<lambda>w. case s3_close_body S (env w) of (c, e) \<Rightarrow> (c, w\<lparr>env := e\<rparr>))) (\<lambda>c.
       case c of
         Inr _ \<Rightarrow> (case r of Inl err \<Rightarrow> gfail err | Inr x \<Rightarrow> gret ())
       | Inl closeErr \<Rightarrow>
           let ce = EWrap ''failed to close body reader'' closeErr in
           (case r of Inl err \<Rightarrow> gfail (EJoin [err, ce]) | Inr x \<Rightarrow> gfail (EJoin [ce])))))"

section \<open>Properties\<close>

lemma go_sprintf_plain:
  "CHR ''%'' \<notin> set p \<Longrightarrow> go_sprintf (p @ s) a = map_option (\<lambda>r. p @ r) (go_sprintf s a)"
proof (induction p arbitrary: s)
  case Nil
  then show ?case by (simp add: option.map_ident)
next
  case (Cons c p)
  then have "go_sprintf ((c # p) @ s) a = map_option (\<lambda>r. c # r) (go_sprintf (p @ s) a)"
    by (cases "p @ s") auto
  with Cons show ?case by (simp add: option.map_comp comp_def)
qed

lemma other_directive_s [simp]: "\<not> other_directive CHR ''s''"
  by (simp add: other_directive_def)

lemma go_sprintf_suffix: "go_sprintf ''%s.etcd'' (Some t) = Some (t @ ''.etcd'')"
  by simp

text \<open>
  A backup of a cluster is stored under \<open><prefix><namespace>/<name>/<time>.etcd\<close>, as long as the
  prefix of the bucket entry has no percent sign (names and namespaces of Kubernetes have none).
\<close>

theorem object_key_of_cluster:
  assumes "s3_key_template s = keyTemplate prefix cluster"
    and "CHR ''%'' \<notin> set (prefix @ ClusterNamespace cluster @ ClusterName cluster)"
  shows "object_key unmodelled s t =
     prefix @ ClusterNamespace cluster @ ''/'' @ ClusterName cluster @ ''/'' @ t @ ''.etcd''"
proof -
  let ?p = "prefix @ ClusterNamespace cluster @ ''/'' @ ClusterName cluster @ ''/''"
  have "CHR ''%'' \<notin> set ?p" using assms(2) by auto
  from go_sprintf_plain [OF this, of "''%s.etcd''" "Some t"] go_sprintf_suffix [of t]
  have "go_sprintf (?p @ ''%s.etcd'') (Some t) = Some (?p @ t @ ''.etcd'')"
    by simp
  with assms(1) show ?thesis by (simp add: object_key_def keyTemplate_def)
qed

definition wit_s3 :: "string \<Rightarrow> s3Client" where
  "wit_s3 prefix = \<lparr>s3_bucket = ''b'', s3_key_template = keyTemplate prefix wit_cluster, s3_region = [],
     s3_access_key = [], s3_secret_key = [], s3_base_endpoint = None, s3_path_style = False,
     s3_strip_checksums = False\<rparr>"

theorem object_key_of_cluster_witness:
  "object_key (\<lambda>_ _. []) (wit_s3 ''etcd/'') ''2026-01-02T03:04:05Z'' = ''etcd/prod/foo/2026-01-02T03:04:05Z.etcd''"
  using object_key_of_cluster [of "wit_s3 ''etcd/''" "''etcd/''" wit_cluster "\<lambda>_ _. []" "''2026-01-02T03:04:05Z''"]
  by (simp add: wit_s3_def wit_cluster_def)

text \<open>
  A percent sign in the prefix is read as a formatting directive: with the prefix \<open>100%s/\<close> the time
  stamp lands in the prefix and the object has the same name \<open>%!s(MISSING).etcd\<close> in every directory.
\<close>

theorem object_key_percent_prefix:
  "object_key u (wit_s3 ''100%s/'') t = ''100'' @ t @ ''/prod/foo/%!s(MISSING).etcd''"
  by (simp add: object_key_def wit_s3_def keyTemplate_def wit_cluster_def)

text \<open>
  The bucket is what precedes the first slash, so it never contains one, and a prefix that is not
  empty ends with a slash.
\<close>

theorem bucket_prefix_shape:
  "(let (bucket, prefix) = bucket_prefix b in
     CHR ''/'' \<notin> set bucket \<and> (prefix = [] \<or> last prefix = CHR ''/'')
     \<and> (prefix = [] \<or> bucket @ ''/'' @ prefix = b @ ''/''))"
proof -
  obtain bucket rest where s: "split2 CHR ''/'' b = (bucket, rest)" by fastforce
  have b: "b = bucket @ (case rest of None \<Rightarrow> [] | Some r \<Rightarrow> CHR ''/'' # r)"
    using split2_join [of b "CHR ''/''"] s by simp
  have "CHR ''/'' \<notin> set bucket"
    using split2_fst [of "CHR ''/''" b] s by simp
  moreover have "bucket_prefix b = (case rest of None \<Rightarrow> (bucket, [])
      | Some p \<Rightarrow> (bucket, if p \<noteq> [] then p @ ''/'' else []))"
    by (simp add: bucket_prefix_def s)
  ultimately show ?thesis by (cases rest) (simp_all add: b)
qed

end
