(* ===== verification/EtcdStorage.thy ===== *)
theory EtcdStorage
  imports EtcdCluster S3Client
begin

text \<open>
  What the etcd reconciler promises about the storage of etcd: when the volumes grow, that nothing else in the
  specification or the size changes, which volume claims are resized, how usage is measured, when members are
  defragmented. The lemmas about all reconcilers stand in the locale \<open>etcd_reconciler\<close>, whose assumptions are
  the contracts of the factories and of the statistics; the kubelet provider and the real clients meet them.
\<close>

section \<open>The contract of the parts\<close>

locale etcd_reconciler = volume_stats_provider "volumeStatsProvider er"
  for er :: "'e etcdClusterReconciler" +
  assumes client_factory_keeps: "keeps same_hcp (etcdClientFactory er h cluster port)"
    and client_factory_gives: "etcdClientFactory er h cluster port w = (Inr client, w') \<Longrightarrow> etcd_client client"
    and s3_factory_keeps: "keeps same_hcp (s3ClientFactory er h cluster)"
    and s3_upload_keeps: "s3ClientFactory er h cluster w = (Inr upload, w') \<Longrightarrow> keeps same_hcp upload"

text \<open>
  What is kept while other fields of the status change: everything outside the status and the conditions in it,
  the size and the usage.
\<close>

definition conditions_kept :: "'e world \<Rightarrow> 'e world \<Rightarrow> bool" where
  "conditions_kept w w' \<longleftrightarrow> hcp w' = (hcp w)\<lparr>Status := Status (hcp w')\<rparr> \<and>
     Conditions (Status (hcp w')) = Conditions (Status (hcp w))"

lemma conditions_kept_refl [simp]: "conditions_kept w w"
  by (simp add: conditions_kept_def)

lemma conditions_kept_trans: "conditions_kept u v \<Longrightarrow> conditions_kept v w \<Longrightarrow> conditions_kept u w"
  by (cases "hcp u"; cases "hcp v"; cases "hcp w") (simp add: conditions_kept_def)

lemma conditions_kept_same: "hcp w' = hcp w \<Longrightarrow> conditions_kept w w'"
  by (simp add: conditions_kept_def)

lemma conditions_kept_Spec: "conditions_kept w w' \<Longrightarrow> Spec (hcp w') = Spec (hcp w)"
  by (cases "hcp w"; cases "hcp w'") (simp add: conditions_kept_def)

interpretation conditions_env: env_relation conditions_kept
  by unfold_locales (auto intro: reflpI transpI conditions_kept_trans conditions_kept_same)

lemma keeps_conditions_mod_status:
  "(\<And>s. Conditions (f s) = Conditions s) \<Longrightarrow> keeps conditions_kept (mod_status f)"
  by (simp add: keeps_def mod_status_def gmod_def conditions_kept_def)

definition size_kept :: "'e world \<Rightarrow> 'e world \<Rightarrow> bool" where
  "size_kept w w' \<longleftrightarrow> conditions_kept w w' \<and>
     ETCDVolumeSize (Status (hcp w')) = ETCDVolumeSize (Status (hcp w))"

definition volume_kept :: "'e world \<Rightarrow> 'e world \<Rightarrow> bool" where
  "volume_kept w w' \<longleftrightarrow> size_kept w w' \<and>
     ETCDVolumeUsage (Status (hcp w')) = ETCDVolumeUsage (Status (hcp w))"

interpretation size_env: env_relation size_kept
  by unfold_locales
    (auto simp: size_kept_def intro!: reflpI transpI intro: conditions_kept_same elim: conditions_kept_trans)

interpretation volume_env: env_relation volume_kept
  by unfold_locales (auto simp: volume_kept_def size_kept_def intro!: reflpI transpI intro: conditions_kept_same
      elim: conditions_kept_trans)

lemma keeps_mono: "keeps R m \<Longrightarrow> (\<And>w w'. R w w' \<Longrightarrow> R' w w') \<Longrightarrow> keeps R' m"
  by (simp add: keeps_def)

lemma same_hcp_volume_kept: "keeps same_hcp m \<Longrightarrow> keeps volume_kept m"
  by (erule keeps_mono) (simp add: same_hcp_def volume_kept_def size_kept_def conditions_kept_same)

lemma keeps_volume_mod_status:
  "(\<And>s. Conditions (f s) = Conditions s) \<Longrightarrow> (\<And>s. ETCDVolumeSize (f s) = ETCDVolumeSize s) \<Longrightarrow> (\<And>s. ETCDVolumeUsage (f s) = ETCDVolumeUsage s)
    \<Longrightarrow> keeps volume_kept (mod_status f)"
  by (simp add: keeps_def mod_status_def gmod_def volume_kept_def size_kept_def conditions_kept_def)

lemma keeps_size_mod_status:
  "(\<And>s. Conditions (f s) = Conditions s) \<Longrightarrow> (\<And>s. ETCDVolumeSize (f s) = ETCDVolumeSize s)
    \<Longrightarrow> keeps size_kept (mod_status f)"
  by (simp add: keeps_def mod_status_def gmod_def size_kept_def conditions_kept_def)

lemmas volume_intros = volume_env.keeps_basic volume_env.keeps_management volume_env.keeps_arguments keeps_get_hcp
  keeps_volume_mod_status

lemma keeps_same_hcp_gget: "keeps same_hcp (gget f)"
  by (rule keeps_gget) simp

text \<open>
  What one reconciliation does to the size of the volumes: it is left alone, or it grows by one increment, with
  automatic growth and too little headroom, or it becomes the size of the specification.
\<close>

definition volume_step :: "'e etcdClusterReconciler \<Rightarrow> 'e world \<Rightarrow> 'e world \<Rightarrow> bool" where
  "volume_step er w w' \<longleftrightarrow> conditions_kept w w' \<and>
     (let old = ETCDVolumeSize (Status (hcp w)); new = ETCDVolumeSize (Status (hcp w')) in
      new = old \<or>
      (if AutoGrowEnabled (Some (ETCD (Spec (hcp w))))
       then new = old + etcdServerStorageIncrement er \<and>
         old - ETCDVolumeUsage (Status (hcp w')) < etcdServerStorageBuffer er
       else VolumeSize (ETCD (Spec (hcp w))) = Some new))"

lemma keeps_gbind_step:
  assumes "keeps size_kept m" "\<And>x. keeps (volume_step er) (f x)"
  shows "keeps (volume_step er) (gbind m f)"
  unfolding keeps_def
proof
  fix w
  obtain r w1 where m: "m w = (r, w1)" by fastforce
  with assms(1) have k: "size_kept w w1" by (rule keepsD)
  show "volume_step er w (snd (gbind m f w))"
  proof (cases r)
    case (Inl e)
    with m k show ?thesis by (simp add: gbind_fail volume_step_def size_kept_def)
  next
    case (Inr x)
    have "volume_step er w1 (snd (f x w1))" using assms(2) by (simp add: keeps_def)
    moreover from k have "conditions_kept w w1" "Spec (hcp w1) = Spec (hcp w)"
      "ETCDVolumeSize (Status (hcp w1)) = ETCDVolumeSize (Status (hcp w))"
      by (simp_all add: size_kept_def conditions_kept_Spec)
    ultimately show ?thesis
      using m Inr
      by (auto simp: gbind_run volume_step_def Let_def conditions_kept_trans [of w w1] split: if_splits)
  qed
qed

lemma keeps_gseq_step:
  "keeps size_kept m \<Longrightarrow> keeps (volume_step er) k \<Longrightarrow> keeps (volume_step er) (gseq m k)"
  unfolding gseq_def by (rule keeps_gbind_step)

lemma volume_kept_size_kept: "keeps volume_kept m \<Longrightarrow> keeps size_kept m"
  by (erule keeps_mono) (simp add: volume_kept_def)

lemma keeps_step_gret: "keeps (volume_step er) (gret x)"
  by (simp add: keeps_def gret_def volume_step_def)

context etcd_reconciler
begin

lemma space_usage_keeps_size: "keeps size_kept (reconcileETCDSpaceUsage er pods)"
  unfolding reconcileETCDSpaceUsage_def Let_def
  by (intro size_env.keeps_basic keeps_get_hcp keeps_size_mod_status keeps_mono [OF usage_keeps_hcp])
    (simp_all add: same_hcp_def size_kept_def conditions_kept_same)

lemma size_keeps_hcp: "keeps same_hcp (getETCDVolumeSize er)"
  unfolding getETCDVolumeSize_def by (intro keeps_intros; simp)

lemma services_keep_volume: "keeps volume_kept (etcd_reconcileService er cluster name headless)"
  unfolding etcd_reconcileService_def Let_def by (intro volume_intros)

lemma pods_keep_volume: "keeps volume_kept (listEtcdPods er cluster)"
  unfolding listEtcdPods_def Let_def by (intro volume_intros)

lemma pvcs_keep_volume: "keeps volume_kept (reconcilePVCSizes er cluster)"
  unfolding reconcilePVCSizes_def resize_pvc_def Let_def by (intro volume_intros)

lemma statefulset_keeps_volume: "keeps volume_kept (etcd_reconcileStatefulSet er cluster)"
  unfolding etcd_reconcileStatefulSet_def createEtcdContainer_def isEtcdVersionBefore37_def buildEtcdArgs_def Let_def
  by (intro volume_intros)

lemma defragment_first_keeps_volume:
  "etcd_client client \<Longrightarrow> keeps volume_kept (defragment_first er client statuses)"
proof (induction er client statuses rule: defragment_first.induct)
  case (2 er client key status rest)
  from 2(2) have "keeps volume_kept (Defragment client)"
    by (intro same_hcp_volume_kept etcd_client.defragment_keeps)
  then have "keeps volume_kept (defragment_first er client ((key, status) # rest))" if "fragmented status"
    using that by (simp, intro volume_intros) simp_all
  with 2 show ?case by (cases "fragmented status") simp_all
qed (unfold defragment_first.simps, intro volume_intros)

lemma maintenance_keeps_volume:
  assumes "etcd_client client"
  shows "keeps volume_kept (reconcileETCDMaintenance er client pods)"
  unfolding reconcileETCDMaintenance_def reconcileETCDDefragmentation_def Let_def
  by (intro volume_intros defragment_first_keeps_volume same_hcp_volume_kept etcd_client.statuses_keep assms)

lemma healthy_keeps_volume:
  assumes "etcd_client client"
  shows "keeps volume_kept (etcdIsHealthy er client)"
  unfolding etcdIsHealthy_def disarm_def Let_def
  by (intro volume_intros same_hcp_volume_kept etcd_client.alarms_keep etcd_client.disarm_keeps assms)

lemma backup_keeps_volume:
  assumes "etcd_client client"
  shows "keeps volume_kept (reconcileETCDBackup er client cluster)"
proof -
  have run: "keeps volume_kept (runETCDBackup er client upload next_run)" if "keeps same_hcp upload" for upload next_run
  proof -
    have close: "keeps volume_kept close"
      if "OpenSnapshotStream client w = (Inr (snapshot, close), w')" for snapshot close and w w' :: "'e world"
      using that by (intro same_hcp_volume_kept etcd_client.snapshot_close_keeps [OF assms, of w snapshot]) simp
    have tail: "keeps volume_kept (case x of (snapshot, close) \<Rightarrow> F snapshot close)"
      if "OpenSnapshotStream client w = (Inr x, w')"
        "\<And>snapshot close. keeps volume_kept close \<Longrightarrow> keeps volume_kept (F snapshot close)"
      for x F and w w' :: "'e world"
      using that close by (cases x) auto
    show ?thesis
      unfolding runETCDBackup_def join_cause_def
      by (rule keeps_gseq [OF volume_env.trans_R volume_env.keeps_emit],
          rule keeps_gbind_result [OF volume_env.trans_R same_hcp_volume_kept [OF etcd_client.snapshot_keeps [OF assms]]],
          erule tail)
        (intro volume_intros same_hcp_volume_kept [OF that]; simp)
  qed
  have upload: "keeps same_hcp upload"
    if "gwrap msg (s3ClientFactory er h cluster) w = (Inr upload, w')" for msg h upload and w w' :: "'e world"
    using that s3_upload_keeps by (auto simp: gwrap_Inr_eq)
  have schedule: "keeps volume_kept (case Backup (ETCD (Spec h)) of None \<Rightarrow> gfail e | Some b \<Rightarrow> F b)"
    if "\<And>b. keeps volume_kept (F b)" for h e and F :: "ETCDBackup \<Rightarrow> ('e, unit) act"
    using that by (intro volume_intros)
  show ?thesis
    unfolding reconcileETCDBackup_def backup_due_def
    by (rule keeps_gbind [OF volume_env.trans_R keeps_get_hcp [OF volume_env.refl_R]],
        rule keeps_gbind_result [OF volume_env.trans_R keeps_gwrap [OF same_hcp_volume_kept [OF s3_factory_keeps]]])
      (intro volume_intros run, erule upload)
qed

lemma members_keep_volume: "keeps volume_kept (reconcileEtcdMembers er cluster pods)"
proof -
  have client: "etcd_client client"
    if "gwrap msg (etcdClientFactory er h cluster port) w = (Inr client, w')"
    for msg h port client and w w' :: "'e world"
    using that client_factory_gives by (auto simp: gwrap_Inr_eq)
  have rest: "keeps volume_kept (gbind (gwrap msg (etcdClientFactory er h cluster port)) F)"
    if "\<And>client. etcd_client client \<Longrightarrow> keeps volume_kept (F client)"
    for msg h port and F :: "'e EtcdClient \<Rightarrow> ('e, string) act"
    by (rule keeps_gbind_result [OF volume_env.trans_R keeps_gwrap [OF same_hcp_volume_kept [OF client_factory_keeps]]])
      (rule that, erule client)
  show ?thesis
    unfolding reconcileEtcdMembers_def
    by (intro volume_intros pvcs_keep_volume rest statefulset_keeps_volume maintenance_keeps_volume
          healthy_keeps_volume backup_keeps_volume; assumption)
qed

lemma resize_step:
  assumes k: "keeps volume_kept (k :: ('e, string) act)"
  shows "keeps (volume_step er) (gbind (getETCDVolumeSize er) (\<lambda>volumeSize.
     gseq (mod_status (\<lambda>s. s\<lparr>ETCDVolumeSize := volumeSize\<rparr>)) k))"
  unfolding keeps_def
proof
  fix w
  let ?m = "gbind (getETCDVolumeSize er) (\<lambda>volumeSize. gseq (mod_status (\<lambda>s. s\<lparr>ETCDVolumeSize := volumeSize\<rparr>)) k)"
  obtain r w1 where m: "getETCDVolumeSize er w = (r, w1)" by fastforce
  with size_keeps_hcp have w1: "hcp w1 = hcp w" by (auto dest: keepsD simp: same_hcp_def)
  show "volume_step er w (snd (?m w))"
  proof (cases r)
    case (Inl e)
    with m w1 show ?thesis by (simp add: gbind_fail volume_step_def conditions_kept_same)
  next
    case (Inr v)
    define w2 where "w2 = w1\<lparr>hcp := (hcp w1)\<lparr>Status := (Status (hcp w1))\<lparr>ETCDVolumeSize := v\<rparr>\<rparr>\<rparr>"
    have run: "?m w = k w2"
      using m Inr by (simp add: gbind_run gseq_def mod_status_def gmod_def w2_def gbind_def)
    have "volume_kept w2 (snd (k w2))" using k by (simp add: keeps_def)
    moreover have "conditions_kept w w2" using w1 by (simp add: w2_def conditions_kept_def)
    ultimately have w3: "conditions_kept w (snd (k w2))" "ETCDVolumeSize (Status (hcp (snd (k w2)))) = v"
      "ETCDVolumeUsage (Status (hcp (snd (k w2)))) = ETCDVolumeUsage (Status (hcp w))"
      using w1 by (simp_all add: volume_kept_def size_kept_def w2_def conditions_kept_trans [of w w2])
    from m Inr have "v = ETCDVolumeSize (Status (hcp w)) \<or>
        (if AutoGrowEnabled (Some (ETCD (Spec (hcp w))))
         then v = ETCDVolumeSize (Status (hcp w)) + etcdServerStorageIncrement er \<and>
           ETCDVolumeSize (Status (hcp w)) - ETCDVolumeUsage (Status (hcp w)) < etcdServerStorageBuffer er
         else VolumeSize (ETCD (Spec (hcp w))) = Some v)"
      by (auto simp: getETCDVolumeSize_def get_hcp_def gom_simps emit_def split: if_splits option.splits)
    with run w3 show ?thesis by (auto simp: volume_step_def Let_def split: if_splits)
  qed
qed

lemma keeps_etcd_step: "keeps (volume_step er) (ReconcileEtcdCluster er cluster)"
  unfolding ReconcileEtcdCluster_def
  by (intro keeps_gbind_step keeps_gseq_step keeps_if keeps_step_gret resize_step members_keep_volume
      volume_kept_size_kept [OF keeps_gwrap [OF services_keep_volume]] volume_kept_size_kept [OF pods_keep_volume]
      keeps_gwrap [OF space_usage_keeps_size])

end

section \<open>The reconciler the operator runs\<close>

text \<open>
  What the operator's set-up hands to the controller, and the controller to the etcd reconciler: the clients and
  the parameters of the model (see \<open>EtcdClient\<close>, \<open>S3Client\<close>, \<open>VolumeStats\<close> and \<open>EtcdCluster\<close> for each).
\<close>

record 'e etcd_runtime =
  rt_core :: "'e core_api"
  rt_etcd :: "'e etcd_api"
  rt_s3 :: "'e s3_api"
  rt_clock :: "'e clock"
  rt_md5 :: "string \<Rightarrow> string"
  rt_depth :: nat
  rt_append_certs :: "string \<Rightarrow> bool"
  rt_key_pair :: "string \<Rightarrow> string \<Rightarrow> gerr option"
  rt_unmarshal_stats :: "string \<Rightarrow> gerr + pod_stats list"
  rt_load_config :: "string \<Rightarrow> gerr option"
  rt_sprintf :: "string \<Rightarrow> string \<Rightarrow> string"
  rt_rfc3339 :: "gtime \<Rightarrow> string"
  rt_cron :: "string \<Rightarrow> gerr + cron_schedule"
  rt_quantity_string :: "quantity \<Rightarrow> string"
  rt_must_lt37 :: "string \<Rightarrow> bool option"
  rt_tolerant_lt37 :: "string \<Rightarrow> bool option"
  rt_health_timeout :: nat
  rt_stalled :: "'e \<Rightarrow> bool"

definition operator_etcd_client :: "('e, 'x) etcd_runtime_scheme \<Rightarrow> HostedControlPlane \<Rightarrow> Cluster \<Rightarrow> int
    \<Rightarrow> ('e, 'e EtcdClient) act" where
  "operator_etcd_client rt h cluster serverPort =
     NewEtcdClient (rt_append_certs rt) (rt_key_pair rt) (rt_etcd rt) (rt_core rt) h cluster serverPort"

definition operator_s3_client :: "('e, 'x) etcd_runtime_scheme \<Rightarrow> HostedControlPlane \<Rightarrow> Cluster
    \<Rightarrow> ('e, ('e, unit) act) act" where
  "operator_s3_client rt h cluster =
     gbind (NewS3Client (rt_load_config rt) (rt_core rt) h cluster)
       (\<lambda>s. gret (Upload (rt_sprintf rt) (rt_rfc3339 rt) (rt_clock rt) (rt_s3 rt) s))"

definition etcdServerPort_default :: int where "etcdServerPort_default = 2379"

definition etcdServerStorageBuffer_default :: quantity where
  "etcdServerStorageBuffer_default = quantity_of (500 * 2 ^ 20)"

definition etcdServerStorageIncrement_default :: quantity where
  "etcdServerStorageIncrement_default = quantity_of (2 ^ 30)"

definition operator_etcd :: "('e, 'x) etcd_runtime_scheme \<Rightarrow> 'e cilium_api option \<Rightarrow> string
    \<Rightarrow> 'e etcdClusterReconciler" where
  "operator_etcd rt ciliumClient controllerNamespace =
     NewEtcdClusterReconciler (rt_core rt) ciliumClient etcdServerPort_default
       etcdServerStorageBuffer_default etcdServerStorageIncrement_default
       (operator_etcd_client rt) (operator_s3_client rt)
       (GetMaxEtcdVolumeUsage (rt_unmarshal_stats rt) (rt_core rt))
       ''etcd'' ''api-server'' controllerNamespace ''hosted-control-plane-controller''
       (rt_md5 rt) (rt_depth rt) (rt_clock rt) (rt_cron rt) (rt_quantity_string rt) (rt_must_lt37 rt)
       (rt_tolerant_lt37 rt) (rt_health_timeout rt) (rt_stalled rt)"

lemma operator_etcd_simps [simp]:
  "etcdClientFactory (operator_etcd rt C ns) = operator_etcd_client rt"
  "s3ClientFactory (operator_etcd rt C ns) = operator_s3_client rt"
  "volumeStatsProvider (operator_etcd rt C ns) = GetMaxEtcdVolumeUsage (rt_unmarshal_stats rt) (rt_core rt)"
  "etcdServerStorageBuffer (operator_etcd rt C ns) = etcdServerStorageBuffer_default"
  "etcdServerStorageIncrement (operator_etcd rt C ns) = etcdServerStorageIncrement_default"
  "er_clock (operator_etcd rt C ns) = rt_clock rt" "er_cron (operator_etcd rt C ns) = rt_cron rt"
  "ManagementClusterClient (operator_etcd rt C ns) = rt_core rt" "componentLabel (operator_etcd rt C ns) = ''etcd''"
  by (simp_all add: operator_etcd_def NewEtcdClusterReconciler_def)

lemma keeps_same_hcp_env: "keeps same_hcp (\<lambda>w. case f (env w) of (c, e) \<Rightarrow> (c, w\<lparr>env := e\<rparr>))"
  by (simp add: keeps_def same_hcp_def split: prod.split)

lemma keeps_Upload: "keeps same_hcp (Upload u rfc3339 clk S s)"
  unfolding Upload_def Let_def by (intro hcp_kept.keeps_basic keeps_same_hcp_env)

interpretation operator_etcd: etcd_reconciler "operator_etcd rt C ns"
proof (intro etcd_reconciler.intro etcd_reconciler_axioms.intro)
  fix h cluster port client upload and w w' :: "'a world" and pods :: "live_pod list"
  show "keeps same_hcp (etcdClientFactory (operator_etcd rt C ns) h cluster port)"
    unfolding operator_etcd_simps operator_etcd_client_def NewEtcdClient_def getETCDConnectionTLS_def
    by (intro hcp_kept.keeps_basic)
  show "etcd_client client" if "etcdClientFactory (operator_etcd rt C ns) h cluster port w = (Inr client, w')"
    using that etcd.etcd_client_axioms
    by (auto simp: operator_etcd_client_def NewEtcdClient_def gret_eq elim!: gseq_InrE)
  show "keeps same_hcp (s3ClientFactory (operator_etcd rt C ns) h cluster)"
    unfolding operator_etcd_simps operator_s3_client_def NewS3Client_def require_key_def Let_def
    by (intro hcp_kept.keeps_basic)
  show "keeps same_hcp upload" if "s3ClientFactory (operator_etcd rt C ns) h cluster w = (Inr upload, w')"
    using that keeps_Upload by (auto simp: operator_s3_client_def gret_eq elim!: gbind_InrE)
qed (simp add: kubelet.volume_stats_provider_axioms)

text \<open>
  C3: whatever the clusters answer, one reconciliation of etcd leaves the specification alone and changes the
  size of the volumes in one way only: with automatic growth it adds 1Gi, and only if fewer than 500Mi were
  free, without it the size becomes the one of the specification. So with automatic growth volumes never shrink.
\<close>

theorem ReconcileEtcdCluster_volume_size:
  assumes "ReconcileEtcdCluster (operator_etcd rt C ns) cluster w = (r, w')"
  shows "Spec (hcp w') = Spec (hcp w) \<and>
    (let old = ETCDVolumeSize (Status (hcp w)); new = ETCDVolumeSize (Status (hcp w')) in
      new = old \<or>
      (if AutoGrowEnabled (Some (ETCD (Spec (hcp w))))
       then new = old + quantity_of (2 ^ 30) \<and> old - ETCDVolumeUsage (Status (hcp w')) < quantity_of (500 * 2 ^ 20)
       else VolumeSize (ETCD (Spec (hcp w))) = Some new))"
  using keepsD [OF operator_etcd.keeps_etcd_step assms] conditions_kept_Spec [of w w']
  by (simp only: volume_step_def operator_etcd_simps etcdServerStorageBuffer_default_def
      etcdServerStorageIncrement_default_def)

definition wit_etcd_api :: "unit etcd_api" where
  "wit_etcd_api = \<lparr>e_dial = (\<lambda>ep e. (Inr (), e)), e_close = (\<lambda>ep e. (Inr (), e)),
     e_status = (\<lambda>ep e. (Inr \<lparr>es_db_size = 100, es_db_size_in_use = 50\<rparr>, e)),
     e_defragment = (\<lambda>ep e. (Inr (), e)), e_snapshot = (\<lambda>ep e. (Inr (), e)),
     e_alarm_list = (\<lambda>ep e. (Inr [], e)), e_alarm_disarm = (\<lambda>ep a e. (Inr (), e))\<rparr>"

definition wit_runtime :: "unit etcd_runtime" where
  "wit_runtime = \<lparr>rt_core = wit_env_api, rt_etcd = wit_etcd_api,
     rt_s3 = \<lparr>s3_upload = (\<lambda>b k e. (Inr (), e)), s3_close_body = (\<lambda>e. (Inr (), e))\<rparr>,
     rt_clock = (\<lambda>e. (7 * hour, e)), rt_md5 = (\<lambda>s. s), rt_depth = 9, rt_append_certs = (\<lambda>s. s \<noteq> []),
     rt_key_pair = (\<lambda>c k. None), rt_unmarshal_stats = (\<lambda>s. Inr []), rt_load_config = (\<lambda>r. None),
     rt_sprintf = (\<lambda>f a. f), rt_rfc3339 = (\<lambda>t. int_dec t), rt_cron = (\<lambda>s. Inr (\<lambda>t. t + 24 * hour)),
     rt_quantity_string = int_dec, rt_must_lt37 = (\<lambda>s. Some False), rt_tolerant_lt37 = (\<lambda>s. Some False),
     rt_health_timeout = 240, rt_stalled = (\<lambda>e. False)\<rparr>"

theorem ReconcileEtcdCluster_volume_size_witness:
  "\<exists>r w'. ReconcileEtcdCluster (operator_etcd wit_runtime None ''system'') wit_cluster wit_world = (r, w')
     \<and> Spec (hcp w') = Spec (hcp wit_world)"
  using ReconcileEtcdCluster_volume_size [of wit_runtime None "''system''" wit_cluster wit_world]
  by (cases "ReconcileEtcdCluster (operator_etcd wit_runtime None ''system'') wit_cluster wit_world") blast

end
