(* ===== verification/EtcdMaintenance.thy ===== *)
theory EtcdMaintenance
  imports EtcdStorage
begin

text \<open>
  What the etcd reconciler promises about fragmentation, the quota, alarms, volume claims, the measured usage
  and backups.
\<close>

section \<open>Fragmentation\<close>

lemma threshold_gap:
  "etcdDefragmentationFragmentationThreshold < float64 (1 / 5 + 1 / (5 * 2 ^ 50))"
  unfolding etcdDefragmentationFragmentationThreshold_def by code_simp

text \<open>
  C14: the floating point test of fragmentation is exact for databases of up to \<open>2^50\<close> bytes: a member is
  defragmented exactly if more than a fifth of its database is free, no rounding is ever visible. A database
  that is empty, or that reports more bytes in use than it has, is left alone.
\<close>

theorem fragmented_exact:
  assumes "0 \<le> es_db_size s" "es_db_size s \<le> 2 ^ 50" "0 \<le> es_db_size_in_use s"
  shows "fragmented s \<longleftrightarrow> es_db_size s < 5 * (es_db_size s - es_db_size_in_use s)"
proof (cases "es_db_size s = 0 \<or> es_db_size s < es_db_size_in_use s")
  case True
  with assms show ?thesis by (auto simp: fragmented_def)
next
  case False
  define b where "b = es_db_size s"
  define a where "a = es_db_size s - es_db_size_in_use s"
  from False assms have ab: "0 \<le> a" "a \<le> b" "0 < b" "b \<le> 2 ^ 50" by (simp_all add: a_def b_def)
  have "float64_div (float64_of_int (int64 a)) (float64_of_int b) = float64 (of_int a / of_int b)"
    using ab by (simp add: float64_div_def float64_of_int_exact)
  then have frag: "fragmented s \<longleftrightarrow> \<not> float64 (of_int a / of_int b) \<le> float64 (1 / 5)"
    using False by (simp add: fragmented_def a_def b_def etcdDefragmentationFragmentationThreshold_def)
  show ?thesis
  proof (cases "5 * a \<le> b")
    case True
    then have "of_int (5 * a) \<le> (of_int b :: rat)" by (simp only: of_int_le_iff)
    with ab have "of_int a / of_int b \<le> (1 / 5 :: rat)" by (simp add: pos_divide_le_eq)
    then have "float64 (of_int a / of_int b) \<le> float64 (1 / 5)"
      using ab by (intro float64_mono) simp_all
    with frag True show ?thesis by (simp add: a_def b_def)
  next
    case False
    then have "b + 1 \<le> 5 * a" by simp
    then have "of_int (b + 1) \<le> (of_int (5 * a) :: rat)" by (simp only: of_int_le_iff)
    then have "of_int b + 1 \<le> 5 * (of_int a :: rat)" by simp
    then have "(of_int b + 1) / (5 * of_int b) \<le> 5 * of_int a / (5 * of_int b :: rat)"
      using ab by (intro divide_right_mono) simp_all
    with ab have "1 / 5 + 1 / (5 * of_int b) \<le> (of_int a / of_int b :: rat)" by (simp add: add_divide_distrib)
    moreover have "1 / (5 * 2 ^ 50) \<le> (1 / (5 * of_int b) :: rat)"
    proof (rule divide_left_mono)
      have "of_int b \<le> (of_int (2 ^ 50) :: rat)" using ab(4) by (simp only: of_int_le_iff)
      then show "5 * of_int b \<le> (5 * 2 ^ 50 :: rat)" by simp
    qed (use ab in simp_all)
    ultimately have "float64 (1 / 5 + 1 / (5 * 2 ^ 50)) \<le> float64 (of_int a / of_int b)"
      by (intro float64_mono) simp_all
    with threshold_gap have "\<not> float64 (of_int a / of_int b) \<le> float64 (1 / 5)"
      by (simp add: etcdDefragmentationFragmentationThreshold_def)
    with frag False show ?thesis by (simp add: a_def b_def)
  qed
qed

theorem fragmented_exact_witness:
  "fragmented \<lparr>es_db_size = 1000, es_db_size_in_use = 799\<rparr> \<and> \<not> fragmented \<lparr>es_db_size = 1000, es_db_size_in_use = 800\<rparr>"
  using fragmented_exact [of "\<lparr>es_db_size = 1000, es_db_size_in_use = 799\<rparr>"]
    fragmented_exact [of "\<lparr>es_db_size = 1000, es_db_size_in_use = 800\<rparr>"] by simp

section \<open>The quota\<close>



section \<open>Usage and volume claims\<close>

lemma mod_status_run: "mod_status f w = (Inr (), w\<lparr>hcp := (hcp w)\<lparr>Status := f (Status (hcp w))\<rparr>\<rparr>)"
  by (simp add: mod_status_def gmod_def)

lemma get_hcp_run: "get_hcp w = (Inr (hcp w), w)"
  by (simp add: get_hcp_def gget_def)

lemma emit_run: "\<exists>w'. emit a b c w = (Inr (), w') \<and> hcp w' = hcp w \<and> clog w' = clog w \<and> env w' = env w"
  by (simp add: emit_def gmod_def)



text \<open>Which claims are resized, and to what.\<close>

definition resize_call :: "quantity \<Rightarrow> live_pvc \<Rightarrow> call" where
  "resize_call volumeSize pvc = CPvcApply \<lparr>pvc_name = lpvc_name pvc, pvc_namespace = lpvc_namespace pvc,
     pvc_access_modes = [], pvc_storage = volumeSize\<rparr>"

lemma resize_pvc_run:
  assumes "resize_pvc er pvc w = (r, w')"
  shows "hcp w' = hcp w \<and>
    (if lpvc_storage pvc < ETCDVolumeSize (Status (hcp w))
     then clog w' = clog w @ [resize_call (ETCDVolumeSize (Status (hcp w))) pvc]
     else r = Inr () \<and> w' = w)"
proof (cases "lpvc_storage pvc < ETCDVolumeSize (Status (hcp w))")
  case True
  define ac where "ac = \<lparr>pvc_name = lpvc_name pvc, pvc_namespace = lpvc_namespace pvc, pvc_access_modes = [],
    pvc_storage = ETCDVolumeSize (Status (hcp w))\<rparr>"
  obtain x w1 where run: "invoke (CPvcApply ac) (k_pvc_apply (ManagementClusterClient er) ac) w = (x, w1)" by fastforce
  have w1: "clog w1 = clog w @ [CPvcApply ac]" "hcp w1 = hcp w"
    using invoke_clog [OF run] keepsD [OF keeps_same_hcp_invoke run] by (simp_all add: same_hcp_def)
  with True assms run show ?thesis
    by (cases x) (auto simp: resize_pvc_def get_hcp_run gbind_run gseq_def gwrap_def ac_def [symmetric] Let_def
        gbind_def emit_def gmod_def resize_call_def)
next
  case False
  with assms show ?thesis by (simp add: resize_pvc_def get_hcp_run gbind_run gret_eq)
qed

lemma resize_all_run:
  assumes "gfor pvcs (resize_pvc er) w = (r, w')"
  shows "\<exists>sent rest. filter (\<lambda>pvc. lpvc_storage pvc < ETCDVolumeSize (Status (hcp w))) pvcs = sent @ rest
      \<and> clog w' = clog w @ map (resize_call (ETCDVolumeSize (Status (hcp w)))) sent
      \<and> (r = Inr () \<longrightarrow> rest = [])"
  using assms
proof (induction pvcs arbitrary: w)
  case Nil
  then show ?case by (auto simp: gret_eq)
next
  case (Cons pvc pvcs)
  let ?size = "ETCDVolumeSize (Status (hcp w))"
  let ?here = "if lpvc_storage pvc < ?size then [pvc] else []"
  obtain x w1 where run: "resize_pvc er pvc w = (x, w1)" by fastforce
  have log: "clog w1 = clog w @ map (resize_call ?size) ?here" "hcp w1 = hcp w"
    using resize_pvc_run [OF run] by (auto split: if_splits)
  show ?case
  proof (cases x)
    case (Inl e)
    with resize_pvc_run [OF run] have "lpvc_storage pvc < ?size" by (auto split: if_splits)
    moreover from Inl run Cons.prems have "r = Inl e" "w' = w1" by (simp_all add: gseq_fail)
    ultimately show ?thesis using log
      by (intro exI [of _ "[pvc]"] exI [of _ "filter (\<lambda>pvc. lpvc_storage pvc < ?size) pvcs"]) simp
  next
    case (Inr u)
    with run Cons.prems have "gfor pvcs (resize_pvc er) w1 = (r, w')" by (simp add: gseq_run)
    from Cons.IH [OF this] log obtain sent rest where
      "filter (\<lambda>pvc. lpvc_storage pvc < ?size) pvcs = sent @ rest"
      "clog w' = clog w1 @ map (resize_call ?size) sent" "r = Inr () \<longrightarrow> rest = []"
      by auto
    with log show ?thesis by (intro exI [of _ "?here @ sent"] exI [of _ rest]) simp
  qed
qed

text \<open>
  C13: exactly the volume claims that are smaller than the size in the status are resized, each to that size and
  in the order of the list, up to the first one the server rejects; a claim is never shrunk.
\<close>

theorem reconcilePVCSizes_grows:
  assumes "reconcilePVCSizes er cluster w = (r, w')"
    and "k_pvc_list (ManagementClusterClient er) (Namespace (hcp w))
           (GetControlPlaneSelector cluster (componentLabel er)) (env w) = (Inr pvcs, e)"
  shows "\<exists>sent rest. filter (\<lambda>pvc. lpvc_storage pvc < ETCDVolumeSize (Status (hcp w))) pvcs = sent @ rest
      \<and> clog w' = clog w @ CPvcList (Namespace (hcp w)) (GetControlPlaneSelector cluster (componentLabel er))
          # map (resize_call (ETCDVolumeSize (Status (hcp w)))) sent
      \<and> (rest = [] \<or> (\<exists>err. r = Inl err))"
proof -
  let ?sel = "GetControlPlaneSelector cluster (componentLabel er)"
  define w1 where "w1 = w\<lparr>env := e, clog := clog w @ [CPvcList (Namespace (hcp w)) ?sel]\<rparr>"
  have "invoke (CPvcList (Namespace (hcp w)) ?sel) (k_pvc_list (ManagementClusterClient er) (Namespace (hcp w)) ?sel) w
      = (Inr pvcs, w1)"
    using assms(2) by (simp add: invoke_def w1_def)
  with assms(1) have "gfor pvcs (resize_pvc er) w1 = (r, w')"
    by (simp add: reconcilePVCSizes_def get_hcp_run gbind_run gwrap_run Let_def)
  from resize_all_run [OF this] obtain sent rest where
    "filter (\<lambda>pvc. lpvc_storage pvc < ETCDVolumeSize (Status (hcp w))) pvcs = sent @ rest"
    "clog w' = clog w1 @ map (resize_call (ETCDVolumeSize (Status (hcp w)))) sent" "r = Inr () \<longrightarrow> rest = []"
    by (auto simp: w1_def)
  moreover have "r = Inr () \<or> (\<exists>err. r = Inl err)" by (cases r) auto
  ultimately show ?thesis by (intro exI [of _ sent] exI [of _ rest]) (auto simp: w1_def)
qed

theorem reconcilePVCSizes_grows_witness:
  "\<exists>r w'. reconcilePVCSizes (operator_etcd wit_runtime None ''system'') wit_cluster wit_world = (r, w')
     \<and> length (clog w') = 1"
proof -
  obtain r w' where run: "reconcilePVCSizes (operator_etcd wit_runtime None ''system'') wit_cluster wit_world = (r, w')"
    by fastforce
  have "k_pvc_list (ManagementClusterClient (operator_etcd wit_runtime None ''system'')) n l () = (Inr [], ())" for n l
    by (simp add: wit_runtime_def wit_env_api_def)
  from reconcilePVCSizes_grows [OF run] this run show ?thesis by (auto simp: wit_world_def)
qed

section \<open>Defragmentation\<close>

lemma defragment_first_run:
  assumes "etcd_client client" "defragment_first er client statuses w = (r, w')"
  shows "if list_ex fragmented (map snd statuses)
    then ETCDLastAttemptedDefragTime (Status (hcp w')) = fst (er_clock er (env w))
    else r = Inr () \<and> w' = w"
  using assms
proof (induction er client statuses rule: defragment_first.induct)
  case (1 er client)
  then show ?case by (simp add: gret_eq)
next
  case (2 er client key status rest)
  show ?case
  proof (cases "fragmented status")
    case False
    with 2 show ?thesis by simp
  next
    case True
    obtain t e where clk: "er_clock er (env w) = (t, e)" by fastforce
    define w1 where "w1 = w\<lparr>env := e, hcp := (hcp w)\<lparr>Status := (Status (hcp w))\<lparr>ETCDLastAttemptedDefragTime := t\<rparr>\<rparr>\<rparr>"
    let ?tail = "gseq (gwrap ''failed to defragment etcd'' (Defragment client))
        (gbind (now (er_clock er)) (\<lambda>t'. gseq (mod_status (\<lambda>s. s\<lparr>ETCDLastDefragTime := t'\<rparr>))
          (emit False ''FragmentationThresholdExceeded'' ''EtcdDefragmentation'')))"
    from True 2(3) clk have run: "?tail w1 = (r, w')"
      by (simp add: now_def gbind_def gseq_def mod_status_def gmod_def w1_def)
    have "keeps (\<lambda>w w'. ETCDLastAttemptedDefragTime (Status (hcp w')) = ETCDLastAttemptedDefragTime (Status (hcp w))) ?tail"
      (is "keeps ?R _")
    proof -
      have R: "reflp ?R" "transp ?R" by (auto intro: reflpI transpI)
      have lift: "keeps same_hcp m \<Longrightarrow> keeps ?R m" for m :: "('a, 'b) act"
        by (erule keeps_mono) (simp add: same_hcp_def)
      note lift [OF etcd_client.defragment_keeps [OF 2(2)]]
      moreover have "keeps ?R (now (er_clock er))" "keeps ?R (emit a b c)" for a b c
        by (simp_all add: keeps_def now_def emit_def gmod_def split: prod.split)
      moreover have "keeps ?R (mod_status (\<lambda>s. s\<lparr>ETCDLastDefragTime := t'\<rparr>))" for t'
        by (simp add: keeps_def mod_status_def gmod_def)
      ultimately show ?thesis using R by (intro keeps_gseq keeps_gwrap keeps_gbind)
    qed
    from keepsD [OF this run] True clk show ?thesis by (simp add: w1_def)
  qed
qed



section \<open>Backups\<close>

text \<open>What a run of a backup does to the status.\<close>

definition backup_recorded :: "cron_schedule \<Rightarrow> 'e world \<Rightarrow> 'e world \<Rightarrow> bool" where
  "backup_recorded next_run w w' \<longleftrightarrow> (\<exists>t. hcp w' = (hcp w)\<lparr>Status := (Status (hcp w))
     \<lparr>ETCDLastBackupTime := t, ETCDNextBackupTime := next_run t\<rparr>\<rparr>)"

lemma join_cause_run: "\<exists>e. join_cause er err w = (Inr e, w)"
  by (simp add: join_cause_def gget_def gbind_def gret_def)

lemma runETCDBackup_run:
  assumes "etcd_client client" "keeps same_hcp upload" "runETCDBackup er client upload next_run w = (r, w')"
  shows "((\<exists>e. r = Inl e) \<and> hcp w' = hcp w) \<or> (r = Inr () \<and> backup_recorded next_run w w')"
proof -
  define w0 where "w0 = w\<lparr>events := events w @ [\<lparr>ev_warning = False, ev_reason = ''CronScheduleTriggered'', ev_action = ''EtcdBackup''\<rparr>]\<rparr>"
  obtain snapshot close w1 where snap: "OpenSnapshotStream client w0 = (Inr (snapshot, close), w1)"
    using etcd_client.snapshot_returns [OF assms(1), of w0] by (metis prod.collapse)
  have w1: "hcp w1 = hcp w"
    using keepsD [OF etcd_client.snapshot_keeps [OF assms(1)] snap] by (simp add: same_hcp_def w0_def)
  have close: "keeps same_hcp close"
    using snap by (intro etcd_client.snapshot_close_keeps [OF assms(1), of w0 snapshot]) simp
  define body where "body = (case snapshot of
       Inl err \<Rightarrow> gbind (join_cause er err) (\<lambda>e. gfail (EWrap ''failed to create etcd snapshot'' e))
     | Inr _ \<Rightarrow> gbind (gtry upload) (\<lambda>uploaded. case uploaded of
         Inl err \<Rightarrow> gbind (join_cause er err) (\<lambda>e. gfail (EWrap ''failed to upload etcd snapshot to S3'' e))
       | Inr _ \<Rightarrow>
           gbind (now (er_clock er)) (\<lambda>t.
             gseq (mod_status (\<lambda>s. s\<lparr>ETCDLastBackupTime := t, ETCDNextBackupTime := next_run t\<rparr>))
               (emit False ''EtcdBackupFinished'' ''EtcdBackupFinished''))))"
  obtain x w2 where body: "body w1 = (x, w2)" by fastforce
  obtain c w3 where closed: "close w2 = (c, w3)" by fastforce
  have w3: "hcp w3 = hcp w2" using keepsD [OF close closed] by (simp add: same_hcp_def)
  have "runETCDBackup er client upload next_run w = gbind (gtry body) (\<lambda>result. gbind (gtry close)
      (\<lambda>closed. case result of Inl err \<Rightarrow> gfail err | Inr _ \<Rightarrow> gret ())) w1"
    using snap by (simp add: runETCDBackup_def gseq_def emit_def gmod_def gbind_def w0_def body_def)
  also have "\<dots> = (case x of Inl e \<Rightarrow> Inl e | Inr _ \<Rightarrow> Inr (), w3)"
    using body closed by (simp add: gbind_run gtry_run gfail_run gret_run split: sum.split)
  finally have r: "r = (case x of Inl e \<Rightarrow> Inl e | Inr _ \<Rightarrow> Inr ())" "w' = w3" using assms(3) by simp_all
  have "((\<exists>e. x = Inl e) \<and> hcp w2 = hcp w) \<or> (x = Inr () \<and> backup_recorded next_run w w2)"
  proof (cases snapshot)
    case (Inl err)
    obtain e where "join_cause er err w1 = (Inr e, w1)" using join_cause_run by blast
    with Inl body w1 show ?thesis by (auto simp: body_def gbind_run gfail_eq)
  next
    case (Inr u)
    obtain up w4 where upload: "upload w1 = (up, w4)" by fastforce
    have w4: "hcp w4 = hcp w" using keepsD [OF assms(2) upload] w1 by (simp add: same_hcp_def)
    show ?thesis
    proof (cases up)
      case (Inl err)
      obtain e where "join_cause er err w4 = (Inr e, w4)" using join_cause_run by blast
      with Inl \<open>snapshot = Inr u\<close> upload body w4 show ?thesis
        by (auto simp: body_def gbind_run gtry_run gfail_eq)
    next
      case (Inr v)
      with \<open>snapshot = Inr u\<close> upload body w4 show ?thesis
        by (cases "er_clock er (env w4)")
          (auto simp: body_def gbind_run gtry_run now_def gbind_def gseq_def mod_status_def gmod_def emit_def
            backup_recorded_def)
    qed
  qed
  with r w3 show ?thesis by (auto simp: backup_recorded_def)
qed


definition wit_backup :: ETCDBackup where
  "wit_backup = \<lparr>Schedule = ''@daily'', BackupSecret = \<lparr>SecretName = ''s3'', SecretNamespace = None,
     AccessKeyIDKey = None, SecretAccessKeyKey = None, HostKey = None, RegionKey = None, BucketKey = None\<rparr>\<rparr>"

definition wit_backup_world :: "unit world" where
  "wit_backup_world = wit_world\<lparr>hcp := wit_hcp\<lparr>Spec := wit_spec\<lparr>ETCD := wit_etcd\<lparr>Backup := Some wit_backup\<rparr>\<rparr>\<rparr>\<rparr>"


text \<open>
  A failure to close the snapshot is lost: the deferred function joins it to a variable of the inner block,
  which hides the named result, so the backup counts as a success although its error should be reported.
\<close>

theorem backup_close_error_lost:
  "fst (runETCDBackup er (client\<lparr>OpenSnapshotStream := \<lambda>w. (Inr (Inr (), \<lambda>w. (Inl closeErr, w)), w)\<rparr>)
      (gret ()) next_run w) = Inr ()"
  by (cases "er_clock er (env w)")
    (simp add: runETCDBackup_def gseq_def gbind_def emit_def gmod_def gtry_def gret_def now_def mod_status_def)

section \<open>Alarms\<close>



end
