(* ===== verification/Phases.thy ===== *)
theory Phases
  imports Management
begin

text \<open>
  The loops over phases. The controller (\<open>reconcileNormal\<close>) and the reconciler of the workload cluster
  (\<open>ReconcileWorkloadClusterResources\<close>) run their phases in order, record the outcome of each as a condition
  and stop at the first that fails or is not ready; the reconcilers of CoreDNS, konnectivity and kube-proxy
  do the same without conditions.

  \<open>conditions.Set\<close> of Cluster API is the parameter \<open>set_c\<close>. \<open>lawful_set\<close> is its documented behaviour: afterwards
  the condition of that type is the given one and the others are as before. The text of an API error is the
  parameter \<open>api\<close>. A panic runs through the loops without a condition.
\<close>

section \<open>Conditions\<close>

definition condition_of :: "condition list \<Rightarrow> string \<Rightarrow> condition option" where
  "condition_of cs t = List.find (\<lambda>c. cond_type c = t) cs"

definition lawful_set :: "(condition list \<Rightarrow> condition \<Rightarrow> condition list) \<Rightarrow> bool" where
  "lawful_set set_c \<longleftrightarrow> (\<forall>cs c. condition_of (set_c cs c) = (condition_of cs)(cond_type c \<mapsto> c))"

definition set_condition :: "(condition list \<Rightarrow> condition \<Rightarrow> condition list) \<Rightarrow> condition \<Rightarrow> ('e, unit) act" where
  "set_condition set_c c = mod_hcp (\<lambda>h. SetConditions h (set_c (GetConditions h) c))"

section \<open>The loop\<close>

record 'e Phase =
  ph_name :: string
  ph_reconcile :: "Cluster \<Rightarrow> ('e, string) act"
  ph_condition :: string
  ph_failed_reason :: string

text \<open>The messages of the two loops.\<close>

record phase_messages =
  pm_failed :: "string \<Rightarrow> string \<Rightarrow> string"
    \<comment> \<open>name of the phase and text of the error\<close>
  pm_not_ready :: "string \<Rightarrow> string \<Rightarrow> string"
  pm_ready :: "string \<Rightarrow> string"

definition failed_condition :: "phase_messages \<Rightarrow> (api_reason \<Rightarrow> string) \<Rightarrow> 'e Phase \<Rightarrow> gerr \<Rightarrow> condition" where
  "failed_condition m api p err = \<lparr>cond_type = ph_condition p, cond_status = ConditionFalse,
     cond_reason = ph_failed_reason p, cond_message = pm_failed m (ph_name p) (err_text api err)\<rparr>"

definition not_ready_condition :: "phase_messages \<Rightarrow> 'e Phase \<Rightarrow> string \<Rightarrow> condition" where
  "not_ready_condition m p reason = \<lparr>cond_type = ph_condition p, cond_status = ConditionFalse,
     cond_reason = reason, cond_message = pm_not_ready m (ph_name p) reason\<rparr>"

definition ready_condition :: "phase_messages \<Rightarrow> 'e Phase \<Rightarrow> condition" where
  "ready_condition m p = \<lparr>cond_type = ph_condition p, cond_status = ConditionTrue,
     cond_reason = ''ReconcileSucceeded'', cond_message = pm_ready m (ph_name p)\<rparr>"

fun run_phases :: "(condition list \<Rightarrow> condition \<Rightarrow> condition list) \<Rightarrow> (api_reason \<Rightarrow> string) \<Rightarrow> phase_messages
    \<Rightarrow> Cluster \<Rightarrow> 'e Phase list \<Rightarrow> ('e, string) act" where
  "run_phases set_c api m cluster [] = gret []"
| "run_phases set_c api m cluster (p # ps) =
     gbind (gtry (ph_reconcile p cluster)) (\<lambda>r. case r of
       Inl err \<Rightarrow>
         if panics err then gfail err
         else gseq (set_condition set_c (failed_condition m api p err)) (gfail err)
     | Inr notReadyReason \<Rightarrow>
         if notReadyReason \<noteq> []
         then gseq (set_condition set_c (not_ready_condition m p notReadyReason)) (gret notReadyReason)
         else gseq (set_condition set_c (ready_condition m p)) (run_phases set_c api m cluster ps))"

text \<open>The loops without conditions: an error is wrapped with the name of its phase.\<close>

fun run_steps :: "string \<Rightarrow> (string \<times> ('e, string) act) list \<Rightarrow> ('e, string) act" where
  "run_steps msg [] = gret []"
| "run_steps msg ((name, step) # steps) =
     gbind (gwrap (msg @ name) step) (\<lambda>notReadyReason.
       if notReadyReason \<noteq> [] then gret notReadyReason else run_steps msg steps)"

end
