(* ===== verification/GoNet.thy ===== *)
theory GoNet
  imports ApiTypes
begin

text \<open>
  What the source uses of Go's \<open>net\<close> and \<open>net/netip\<close>: \<open>ParseCIDR\<close>, \<open>IPNet.String\<close>, \<open>ParseAddr\<close> and
  \<open>JoinHostPort\<close>. Addresses are their bytes, 4 or 16. IPv4 is written out; the parser and the text form of an
  IPv6 address are the parameters \<open>parse6\<close> and \<open>string6\<close>. The text of the errors of \<open>ParseAddr\<close> is abbreviated.
\<close>

section \<open>Addresses\<close>

type_synonym ip = "nat list"

record ip_net =
  net_ip :: ip
  net_ones :: nat

definition is_digit :: "char \<Rightarrow> bool" where
  "is_digit c \<longleftrightarrow> 48 \<le> (of_char c :: nat) \<and> (of_char c :: nat) \<le> 57"

fun dec_value :: "string \<Rightarrow> nat \<Rightarrow> nat" where
  "dec_value [] acc = acc"
| "dec_value (c # cs) acc = dec_value cs (10 * acc + (of_char c - 48))"

text \<open>One field of a dotted address: digits only, no leading zero, at most 255.\<close>

definition ipv4_field :: "string \<Rightarrow> nat option" where
  "ipv4_field s =
     (if s = [] \<or> \<not> list_all is_digit s \<or> (1 < length s \<and> hd s = CHR ''0'') \<or> 255 < dec_value s 0 then None
      else Some (dec_value s 0))"

definition parse_ipv4 :: "string \<Rightarrow> ip option" where
  "parse_ipv4 s =
     (let fields = map ipv4_field (str_split (CHR ''.'') s) in
      if length fields = 4 \<and> list_all (\<lambda>f. f \<noteq> None) fields then Some (map the fields) else None)"

text \<open>\<open>netip.ParseAddr\<close>: the first of the three separators decides.\<close>

definition ParseAddr :: "(string \<Rightarrow> ip option) \<Rightarrow> string \<Rightarrow> gerr + ip" where
  "ParseAddr parse6 s =
     (case dropWhile (\<lambda>c. c \<noteq> CHR ''.'' \<and> c \<noteq> CHR '':'' \<and> c \<noteq> CHR ''%'') s of
        [] \<Rightarrow> Inl (ELib ''unable to parse IP'')
      | c # _ \<Rightarrow>
          (case (if c = CHR ''.'' then parse_ipv4 s else if c = CHR '':'' then parse6 s else None) of
             None \<Rightarrow> Inl (ELib ''unable to parse IP'')
           | Some a \<Rightarrow> Inr a))"

definition is4 :: "ip \<Rightarrow> bool" where
  "is4 a \<longleftrightarrow> length a = 4"

definition ip_string :: "(ip \<Rightarrow> string) \<Rightarrow> ip \<Rightarrow> string" where
  "ip_string string6 a = (if is4 a then str_join ''.'' (map nat_dec a) else string6 a)"

section \<open>Networks\<close>

text \<open>The byte with its first \<open>ones\<close> bits kept.\<close>

definition mask_byte :: "nat \<Rightarrow> nat \<Rightarrow> nat" where
  "mask_byte ones b = (let k = 2 ^ (8 - min 8 ones) in b div k * k)"

fun mask_ip :: "nat \<Rightarrow> ip \<Rightarrow> ip" where
  "mask_ip ones [] = []"
| "mask_ip ones (b # bs) = mask_byte ones b # mask_ip (ones - 8) bs"

definition ParseCIDR :: "(string \<Rightarrow> ip option) \<Rightarrow> string \<Rightarrow> gerr + ip_net" where
  "ParseCIDR parse6 s =
     (case split2 (CHR ''/'') s of
        (_, None) \<Rightarrow> Inl (ELib (''invalid CIDR address: '' @ s))
      | (addr, Some bits) \<Rightarrow>
          (case ParseAddr parse6 addr of
             Inl _ \<Rightarrow> Inl (ELib (''invalid CIDR address: '' @ s))
           | Inr a \<Rightarrow>
               if bits = [] \<or> \<not> list_all is_digit bits \<or> 8 * length a < dec_value bits 0
               then Inl (ELib (''invalid CIDR address: '' @ s))
               else Inr \<lparr>net_ip = mask_ip (dec_value bits 0) a, net_ones = dec_value bits 0\<rparr>))"

definition net_string :: "(ip \<Rightarrow> string) \<Rightarrow> ip_net \<Rightarrow> string" where
  "net_string string6 n = ip_string string6 (net_ip n) @ ''/'' @ nat_dec (net_ones n)"

section \<open>Lemmas\<close>

lemma mask_ip_length [simp]: "length (mask_ip ones a) = length a"
  by (induction ones a rule: mask_ip.induct) simp_all

lemma mask_byte_le: "mask_byte ones b \<le> b"
  by (simp add: mask_byte_def Let_def)

lemma mask_byte_idem [simp]: "mask_byte ones (mask_byte ones b) = mask_byte ones b"
  by (simp add: mask_byte_def Let_def)

lemma mask_ip_idem [simp]: "mask_ip ones (mask_ip ones a) = mask_ip ones a"
  by (induction ones a rule: mask_ip.induct) simp_all

lemma of_char_digit: "n < 10 \<Longrightarrow> of_char (char_of (48 + n) :: char) = 48 + (n :: nat)"
  by (simp add: of_char_of)

lemma digit_char:
  fixes n :: nat
  assumes "n < 10"
  shows "is_digit (char_of (48 + n))" "of_char (char_of (48 + n) :: char) - 48 = n"
  using assms by (simp_all add: is_digit_def of_char_digit)

lemma dec_value_append: "dec_value (xs @ ys) acc = dec_value ys (dec_value xs acc)"
  by (induction xs arbitrary: acc) simp_all

lemma dec_value_nat_dec: "dec_value (nat_dec n) 0 = n"
proof (induction n rule: nat_dec.induct)
  case (1 n)
  show ?case
  proof (cases "n < 10")
    case True
    then show ?thesis by (simp add: nat_dec.simps [of n] digit_char)
  next
    case False
    with 1 have "dec_value (nat_dec (n div 10)) 0 = n div 10" by simp
    with False show ?thesis
      using digit_char [of "n mod 10"] by (simp add: nat_dec.simps [of n] dec_value_append)
  qed
qed

lemma digits_nat_dec: "list_all is_digit (nat_dec n)"
proof (induction n rule: nat_dec.induct)
  case (1 n)
  then show ?case
    using digit_char [of n] digit_char [of "n mod 10"]
    by (cases "n < 10") (simp_all add: nat_dec.simps [of n])
qed

section \<open>Round trip\<close>

lemma hd_nat_dec: "0 < n \<Longrightarrow> hd (nat_dec n) \<noteq> CHR ''0''"
proof (induction n rule: nat_dec.induct)
  case (1 n)
  show ?case
  proof (cases "n < 10")
    case True
    have "(of_char (char_of (48 + n) :: char) :: nat) \<noteq> of_char (CHR ''0'')"
      using True 1(2) by (simp add: of_char_digit)
    then have "char_of (48 + n) \<noteq> CHR ''0''" by metis
    then show ?thesis using True by (simp add: nat_dec.simps [of n])
  next
    case False
    then show ?thesis using 1(1) by (simp add: nat_dec.simps [of n])
  qed
qed

lemma length_nat_dec_1: "length (nat_dec 0) = 1"
  by (simp add: nat_dec.simps)

lemma ipv4_field_nat_dec: "n \<le> 255 \<Longrightarrow> ipv4_field (nat_dec n) = Some n"
  using hd_nat_dec [of n] length_nat_dec_1
  by (cases "n = 0") (simp_all add: ipv4_field_def digits_nat_dec dec_value_nat_dec)

lemma ipv4_field_le: "ipv4_field s = Some n \<Longrightarrow> n \<le> 255"
  by (auto simp: ipv4_field_def split: if_splits)

lemma digit_not_special: "list_all is_digit xs \<Longrightarrow> c \<in> {CHR ''.'', CHR '':'', CHR ''%'', CHR ''/''} \<Longrightarrow> c \<notin> set xs"
  by (auto simp: list_all_iff is_digit_def)

lemma str_split_no: "c \<notin> set xs \<Longrightarrow> str_split c xs = [xs]"
  by (induction xs) auto

lemma str_split_field: "c \<notin> set xs \<Longrightarrow> str_split c (xs @ c # ys) = xs # str_split c ys"
  by (induction xs) auto

lemma str_split_str_join:
  "xs \<noteq> [] \<Longrightarrow> \<forall>x\<in>set xs. c \<notin> set x \<Longrightarrow> str_split c (str_join [c] xs) = xs"
  by (induction "[c]" xs rule: str_join.induct) (simp_all add: str_split_no str_split_field)

lemma parse_ipv4_string:
  assumes "length a = 4" "list_all (\<lambda>b. b \<le> 255) a"
  shows "parse_ipv4 (str_join ''.'' (map nat_dec a)) = Some a"
proof -
  have "map (ipv4_field \<circ> nat_dec) a = map Some a"
    using assms(2) by (auto simp: list_all_iff ipv4_field_nat_dec)
  moreover have "str_split (CHR ''.'') (str_join ''.'' (map nat_dec a)) = map nat_dec a"
    using assms(1) digits_nat_dec digit_not_special by (intro str_split_str_join) auto
  ultimately show ?thesis
    using assms(1) by (auto simp: parse_ipv4_def list.pred_map comp_def list_all_iff intro: map_idI)
qed

lemma dropWhile_field:
  "list_all is_digit xs \<Longrightarrow>
    dropWhile (\<lambda>c. c \<noteq> CHR ''.'' \<and> c \<noteq> CHR '':'' \<and> c \<noteq> CHR ''%'') (xs @ CHR ''.'' # ys) = CHR ''.'' # ys"
  by (induction xs) (auto simp: is_digit_def)

lemma ParseAddr_string:
  assumes "length a = 4" "list_all (\<lambda>b. b \<le> 255) a"
  shows "ParseAddr parse6 (ip_string string6 a) = Inr a"
proof -
  obtain b c bs where a: "a = b # c # bs" using assms(1) by (cases a; cases "tl a") auto
  then have "ip_string string6 a = nat_dec b @ CHR ''.'' # str_join ''.'' (map nat_dec (c # bs))"
    using assms(1) by (simp add: ip_string_def is4_def)
  moreover have "parse_ipv4 (ip_string string6 a) = Some a"
    using parse_ipv4_string [OF assms] assms(1) by (simp add: ip_string_def is4_def)
  ultimately show ?thesis by (simp add: ParseAddr_def dropWhile_field digits_nat_dec)
qed

definition wf_net4 :: "ip_net \<Rightarrow> bool" where
  "wf_net4 n \<longleftrightarrow> length (net_ip n) = 4 \<and> list_all (\<lambda>b. b \<le> 255) (net_ip n) \<and> net_ones n \<le> 32 \<and>
     mask_ip (net_ones n) (net_ip n) = net_ip n"

lemma no_slash_fields: "CHR ''/'' \<notin> set (str_join ''.'' (map nat_dec a))"
proof (induction a rule: induct_list012)
  case (2 b)
  then show ?case using digit_not_special [OF digits_nat_dec, of "CHR ''/''" b] by simp
next
  case (3 b c bs)
  then show ?case using digit_not_special [OF digits_nat_dec, of "CHR ''/''" b] by simp
qed simp

lemma ParseCIDR_net_string:
  assumes "wf_net4 n"
  shows "ParseCIDR parse6 (net_string string6 n) = Inr n"
proof -
  let ?a = "ip_string string6 (net_ip n)"
  have "CHR ''/'' \<notin> set ?a" using assms no_slash_fields by (simp add: ip_string_def is4_def wf_net4_def)
  then have "split2 (CHR ''/'') (net_string string6 n) = (?a, Some (nat_dec (net_ones n)))"
    by (simp add: split2_def net_string_def takeWhile_append dropWhile_append)
  then show ?thesis
    using assms ParseAddr_string [of "net_ip n" parse6 string6]
    by (simp add: ParseCIDR_def wf_net4_def dec_value_nat_dec digits_nat_dec)
qed

lemma parse_ipv4_wf:
  assumes "parse_ipv4 s = Some a"
  shows "length a = 4 \<and> list_all (\<lambda>b. b \<le> 255) a"
  using assms by (fastforce simp: parse_ipv4_def Let_def list_all_iff dest: ipv4_field_le split: if_splits)

lemma mask_ip_le: "list_all (\<lambda>b. b \<le> 255) a \<Longrightarrow> list_all (\<lambda>b. b \<le> 255) (mask_ip ones a)"
  by (induction ones a rule: mask_ip.induct) (auto intro: order_trans [OF mask_byte_le])

lemma ParseAddr_wf:
  assumes "\<And>s a. parse6 s = Some a \<Longrightarrow> length a = 16" "ParseAddr parse6 s = Inr a" "length a = 4"
  shows "list_all (\<lambda>b. b \<le> 255) a"
  using assms by (auto simp: ParseAddr_def dest: parse_ipv4_wf split: list.splits option.splits if_splits)

text \<open>A range that was read, in any accepted form, is printed as a text that reads as the same range.\<close>

lemma ParseCIDR_roundtrip:
  assumes "\<And>s a. parse6 s = Some a \<Longrightarrow> length a = 16"
    and "ParseCIDR parse6 s = Inr n" "is4 (net_ip n)"
  shows "ParseCIDR parse6 (net_string string6 n) = Inr n"
proof (rule ParseCIDR_net_string)
  from assms(2,3) obtain addr a where a: "ParseAddr parse6 addr = Inr a" "length a = 4"
    "net_ip n = mask_ip (net_ones n) a" "net_ones n \<le> 32"
    by (auto simp: ParseCIDR_def is4_def split: prod.splits option.splits sum.splits if_splits)
  with ParseAddr_wf [OF assms(1) a(1,2)] show "wf_net4 n"
    by (simp add: wf_net4_def mask_ip_le)
qed

end
