(* ===== verification/WorkloadResources.thy ===== *)
theory WorkloadResources
  imports Phases GoNet
begin

text \<open>
  \<open>reconcilers/workload_reconciler.go\<close>: the resource reconcilers bound to the workload cluster, without an owner;
  and the helpers the reconcilers of the workload cluster share.
\<close>

record 'e WorkloadResourceReconciler =
  WorkloadClusterClient :: "'e workload_api"
  WorkloadCiliumClient :: "'e cilium_api option"
  wr_md5 :: "string \<Rightarrow> string"

definition wr_core :: "('e, 'x) WorkloadResourceReconciler_scheme \<Rightarrow> 'e core_api" where
  "wr_core wr = k_core (WorkloadClusterClient wr)"

definition Workload_ReconcileService :: "('e, 'x) WorkloadResourceReconciler_scheme \<Rightarrow> string \<Rightarrow> string \<Rightarrow> labels
    \<Rightarrow> string \<Rightarrow> string option \<Rightarrow> bool \<Rightarrow> service_port list \<Rightarrow> ('e, live_service \<times> bool) act" where
  "Workload_ReconcileService wr namespace name labels serviceType serviceIP headless ports =
     gwrap (''failed to reconcile service '' @ namespace @ ''/'' @ name @ '' into workloadcluster'')
       (reconcileService (wr_core wr) namespace name None labels serviceType serviceIP headless ports)"

definition Workload_ReconcileConfigmap :: "('e, 'x) WorkloadResourceReconciler_scheme \<Rightarrow> string \<Rightarrow> string \<Rightarrow> bool
    \<Rightarrow> labels \<Rightarrow> labels \<Rightarrow> ('e, unit) act" where
  "Workload_ReconcileConfigmap wr namespace name deleteResource labels data =
     gwrap (''failed to reconcile configmap '' @ namespace @ ''/'' @ name @ '' into workloadcluster'')
       (reconcileConfigmap (wr_core wr) namespace name deleteResource None labels data)"

definition Workload_ReconcileDeployment :: "('e, 'x) WorkloadResourceReconciler_scheme \<Rightarrow> string \<Rightarrow> string \<Rightarrow> bool
    \<Rightarrow> int \<Rightarrow> PodOptions \<Rightarrow> labels \<Rightarrow> IngressNetworkPolicyTarget targets \<Rightarrow> EgressNetworkPolicyTarget targets
    \<Rightarrow> (container \<times> ContainerOptions) list \<Rightarrow> volume list \<Rightarrow> ('e, live_workload option \<times> bool) act" where
  "Workload_ReconcileDeployment wr namespace name deleteResource replicas podOptions labels ingress egress
      containers volumes =
     (case createPodTemplateSpec podOptions [] containers volumes of
        Inl err \<Rightarrow> gfail (EWrap (''failed to create pod template spec for deployment '' @ namespace @ ''/'' @ name) err)
      | Inr podTemplateSpec \<Rightarrow>
          gwrap (''failed to reconcile deployment '' @ namespace @ ''/'' @ name @ '' into workloadcluster'')
            (reconcileDeployment (wr_md5 wr) (wr_core wr) (WorkloadCiliumClient wr) namespace name deleteResource None
               labels ingress egress replicas podTemplateSpec))"

definition isDaemonSetReady :: "live_workload \<Rightarrow> bool" where
  "isDaemonSetReady daemonSet \<longleftrightarrow> lw_available_replicas daemonSet = lw_desired daemonSet"

definition Workload_ReconcileDaemonSet :: "('e, 'x) WorkloadResourceReconciler_scheme \<Rightarrow> string \<Rightarrow> string \<Rightarrow> bool
    \<Rightarrow> PodOptions \<Rightarrow> labels \<Rightarrow> IngressNetworkPolicyTarget targets \<Rightarrow> EgressNetworkPolicyTarget targets
    \<Rightarrow> (container \<times> ContainerOptions) list \<Rightarrow> volume list \<Rightarrow> ('e, live_workload option \<times> bool) act" where
  "Workload_ReconcileDaemonSet wr namespace name deleteResource podOptions labels ingress egress containers volumes =
     (case createPodTemplateSpec podOptions [] containers volumes of
        Inl err \<Rightarrow> gfail (EWrap (''failed to create pod template spec for daemonset '' @ namespace @ ''/'' @ name) err)
      | Inr podTemplateSpec \<Rightarrow>
          gwrap (''failed to reconcile daemonset '' @ namespace @ ''/'' @ name @ '' into workloadcluster'')
            (reconcileWorkload (wr_md5 wr) (wr_core wr) (WorkloadCiliumClient wr) ''DaemonSet'' namespace name
               deleteResource None labels ingress egress ''Background'' podTemplateSpec isDaemonSetReady []))"

section \<open>Shared helpers\<close>

definition NamespaceSystem :: string where "NamespaceSystem = ''kube-system''"
definition NodesGroup :: string where "NodesGroup = ''system:nodes''"
definition NodeBootstrapTokenAuthGroup :: string where
  "NodeBootstrapTokenAuthGroup = ''system:bootstrappers:kubeadm:default-node-token''"

definition apply_service_account :: "'e workload_api \<Rightarrow> service_account_ac \<Rightarrow> ('e, unit) act" where
  "apply_service_account W sa = invoke (CServiceAccountApply sa) (k_service_account_apply W sa)"

definition apply_role :: "'e workload_api \<Rightarrow> role_ac \<Rightarrow> ('e, unit) act" where
  "apply_role W role = invoke (CRoleApply role) (k_role_apply W role)"

definition apply_role_binding :: "'e workload_api \<Rightarrow> role_binding_ac \<Rightarrow> ('e, unit) act" where
  "apply_role_binding W rb = invoke (CRoleBindingApply rb) (k_role_binding_apply W rb)"

definition delete_role_binding :: "'e workload_api \<Rightarrow> role_binding_ac \<Rightarrow> ('e, unit) act" where
  "delete_role_binding W rb =
     invoke (CRoleBindingDelete (rb_namespace rb) (rb_name rb)) (k_role_binding_delete W (rb_namespace rb) (rb_name rb))"

definition account_subject :: "service_account_ac \<Rightarrow> subject" where
  "account_subject sa = \<lparr>sub_kind = ''ServiceAccount'', sub_name = sa_name sa, sub_namespace = Some (sa_namespace sa)\<rparr>"

definition group_subject :: "string \<Rightarrow> subject" where
  "group_subject name = \<lparr>sub_kind = ''Group'', sub_name = name, sub_namespace = None\<rparr>"

definition cluster_role_binding :: "string \<Rightarrow> string \<Rightarrow> subject \<Rightarrow> role_binding_ac" where
  "cluster_role_binding name role sub = \<lparr>rb_name = name, rb_namespace = None, rb_ref_kind = ''ClusterRole'',
     rb_ref_name = role, rb_subjects = [sub]\<rparr>"

definition role_binding_to :: "role_ac \<Rightarrow> subject list \<Rightarrow> role_binding_ac" where
  \<comment> \<open>a binding with the name, the namespace and the kind of the role\<close>
  "role_binding_to role subs = \<lparr>rb_name = role_name role, rb_namespace = role_namespace role,
     rb_ref_kind = (if role_namespace role = None then ''ClusterRole'' else ''Role''), rb_ref_name = role_name role,
     rb_subjects = subs\<rparr>"

text \<open>\<open>int32(math.Min(math.Max(1, float64(nodes)), float64(replicas)))\<close>: both numbers are exact as floats.\<close>

definition replicas_for_nodes :: "nat \<Rightarrow> int \<Rightarrow> int" where
  "replicas_for_nodes nodes replicas = min (max 1 (int nodes)) replicas"

definition list_nodes :: "'e workload_api \<Rightarrow> ('e, nat) act" where
  "list_nodes W = gwrap ''failed to list nodes'' (invoke CNodeList (k_node_list W))"

end
