(* ===== verification/WorkloadRbac.thy ===== *)
theory WorkloadRbac
  imports WorkloadResources
begin

text \<open>
  The access rules a workload cluster needs for kubeadm to join nodes (\<open>reconcilers/workload/rbac/reconciler.go\<close>).
  A resource the server rejects as invalid is deleted, to be created by the next reconciliation.
\<close>

record 'e rbacReconciler =
  rbacClient :: "'e workload_api"
  kubeadmKubeletConfigMapNamespace :: string
  kubeadmConfigConfigMapName :: string
  kubeletConfigMapName :: string
  clusterInfoConfigMapNamespace :: string
  clusterInfoConfigMapName :: string

definition NewRBACReconciler :: "'e workload_api \<Rightarrow> string \<Rightarrow> string \<Rightarrow> string \<Rightarrow> string \<Rightarrow> string
    \<Rightarrow> 'e rbacReconciler" where
  "NewRBACReconciler W kubeadmNamespace kubeadmName kubeletName infoNamespace infoName =
     \<lparr>rbacClient = W, kubeadmKubeletConfigMapNamespace = kubeadmNamespace, kubeadmConfigConfigMapName = kubeadmName,
      kubeletConfigMapName = kubeletName, clusterInfoConfigMapNamespace = infoNamespace,
      clusterInfoConfigMapName = infoName\<rparr>"

record RBACResources =
  ClusterRoles :: "role_ac list"
  ClusterRoleBindings :: "role_binding_ac list"
  Roles :: "role_ac list"
  RoleBindings :: "role_binding_ac list"

section \<open>The resources\<close>

definition CSRAutoApprovalClusterRoleName :: string where
  "CSRAutoApprovalClusterRoleName = ''system:certificates.k8s.io:certificatesigningrequests:nodeclient''"

definition only_binding :: "role_binding_ac \<Rightarrow> RBACResources" where
  "only_binding rb = \<lparr>ClusterRoles = [], ClusterRoleBindings = [rb], Roles = [], RoleBindings = []\<rparr>"

definition generateAutoApproveNodeCertificateRotationRBAC :: RBACResources where
  "generateAutoApproveNodeCertificateRotationRBAC =
     only_binding (cluster_role_binding ''kubeadm:node-autoapprove-certificate-rotation''
       CSRAutoApprovalClusterRoleName (group_subject NodesGroup))"

definition generateAutoApproveNodeBootstrapTokenRBAC :: RBACResources where
  "generateAutoApproveNodeBootstrapTokenRBAC =
     only_binding (cluster_role_binding ''kubeadm:node-autoapprove-bootstrap''
       CSRAutoApprovalClusterRoleName (group_subject NodeBootstrapTokenAuthGroup))"

definition generateClusterAdminBindingRBAC :: RBACResources where
  "generateClusterAdminBindingRBAC =
     only_binding (cluster_role_binding ''kubeadm:cluster-admins'' ''cluster-admin''
       (group_subject ''kubeadm:cluster-admins''))"

definition read_configmap :: "string \<Rightarrow> policy_rule" where
  "read_configmap name =
     \<lparr>pru_api_groups = [[]], pru_resources = [''configmaps''], pru_resource_names = [name], pru_verbs = [''get'']\<rparr>"

definition generateClusterInfoRBAC :: "'e rbacReconciler \<Rightarrow> RBACResources" where
  "generateClusterInfoRBAC rr =
     (let role = \<lparr>role_name = ''kubeadm:bootstrap-signer-clusterinfo'',
            role_namespace = Some (clusterInfoConfigMapNamespace rr),
            role_rules = [read_configmap (clusterInfoConfigMapName rr)]\<rparr>
      in \<lparr>ClusterRoles = [], ClusterRoleBindings = [], Roles = [role],
          RoleBindings = [role_binding_to role
            [\<lparr>sub_kind = ''User'', sub_name = ''system:anonymous'', sub_namespace = None\<rparr>]]\<rparr>)"

definition generateConfigMapRBAC :: "string \<Rightarrow> string \<Rightarrow> RBACResources" where
  "generateConfigMapRBAC configMapName roleName =
     (let role = \<lparr>role_name = roleName, role_namespace = Some NamespaceSystem,
            role_rules = [read_configmap configMapName]\<rparr>
      in \<lparr>ClusterRoles = [], ClusterRoleBindings = [], Roles = [role],
          RoleBindings = [role_binding_to role [group_subject NodesGroup, group_subject NodeBootstrapTokenAuthGroup]]\<rparr>)"

definition generateKubeletConfigRBAC :: "'e rbacReconciler \<Rightarrow> RBACResources" where
  "generateKubeletConfigRBAC rr = generateConfigMapRBAC (kubeletConfigMapName rr) ''kubeadm:kubelet-config''"

definition generateKubeletKubeadmConfigRBAC :: "'e rbacReconciler \<Rightarrow> RBACResources" where
  "generateKubeletKubeadmConfigRBAC rr =
     generateConfigMapRBAC (kubeadmConfigConfigMapName rr) ''kubeadm:nodes-kubeadm-config''"

definition generateNodeBootstrapGetNodesRBAC :: RBACResources where
  "generateNodeBootstrapGetNodesRBAC =
     (let role = \<lparr>role_name = ''kubeadm:get-nodes'', role_namespace = None,
            role_rules = [\<lparr>pru_api_groups = [[]], pru_resources = [''nodes''], pru_resource_names = [],
              pru_verbs = [''get'']\<rparr>]\<rparr>
      in \<lparr>ClusterRoles = [role],
          ClusterRoleBindings = [role_binding_to role [group_subject NodeBootstrapTokenAuthGroup]],
          Roles = [], RoleBindings = []\<rparr>)"

definition generateNodeBootstrapTokenPostCSRsRBAC :: RBACResources where
  "generateNodeBootstrapTokenPostCSRsRBAC =
     only_binding (cluster_role_binding ''kubeadm:kubelet-bootstrap'' ''system:node-bootstrapper''
       (group_subject NodeBootstrapTokenAuthGroup))"

section \<open>Reconciliation\<close>

definition recreate_invalid :: "string \<Rightarrow> ('e, unit) act \<Rightarrow> ('e, unit) act \<Rightarrow> ('e, string list) act" where
  "recreate_invalid what put delete =
     gbind (gtry put) (\<lambda>r. case r of
       Inr _ \<Rightarrow> gret []
     | Inl err \<Rightarrow>
         if \<not> is_invalid err then gfail (EWrap (''failed to apply '' @ what) err)
         else gseq (gwrap (''failed to delete invalid '' @ what) delete) (gret [what @ '' needs to be recreated'']))"

definition in_namespace :: "string \<Rightarrow> string \<Rightarrow> string option \<Rightarrow> string" where
  "in_namespace kind name namespace =
     (case namespace of None \<Rightarrow> ''cluster '' @ kind @ '' '' @ name
      | Some ns \<Rightarrow> kind @ '' '' @ name @ '' in namespace '' @ ns)"

definition reconcile_role :: "'e workload_api \<Rightarrow> role_ac \<Rightarrow> ('e, string list) act" where
  "reconcile_role W role =
     recreate_invalid (in_namespace ''role'' (role_name role) (role_namespace role)) (apply_role W role)
       (invoke (CRoleDelete (role_namespace role) (role_name role)) (k_role_delete W (role_namespace role) (role_name role)))"

definition reconcile_role_binding :: "'e workload_api \<Rightarrow> role_binding_ac \<Rightarrow> ('e, string list) act" where
  "reconcile_role_binding W rb =
     recreate_invalid (in_namespace ''role binding'' (rb_name rb) (rb_namespace rb)) (apply_role_binding W rb)
       (delete_role_binding W rb)"

definition reconcile_rbac_phase :: "'e workload_api \<Rightarrow> RBACResources \<Rightarrow> ('e, string list) act" where
  "reconcile_rbac_phase W resources =
     gbind (gcollect (ClusterRoles resources) (reconcile_role W)) (\<lambda>r1.
     gbind (gcollect (ClusterRoleBindings resources) (reconcile_role_binding W)) (\<lambda>r2.
     gbind (gcollect (Roles resources) (reconcile_role W)) (\<lambda>r3.
     gbind (gcollect (RoleBindings resources) (reconcile_role_binding W)) (\<lambda>r4.
       gret (concat (r1 @ r2 @ r3 @ r4))))))"

fun run_rbac_phases :: "'e workload_api \<Rightarrow> RBACResources list \<Rightarrow> ('e, string) act" where
  "run_rbac_phases W [] = gret []"
| "run_rbac_phases W (phase # phases) =
     gbind (reconcile_rbac_phase W phase) (\<lambda>notReadyReasons.
       if notReadyReasons \<noteq> [] then gret (str_join '','' notReadyReasons) else run_rbac_phases W phases)"

definition rbac_phases :: "'e rbacReconciler \<Rightarrow> RBACResources list" where
  "rbac_phases rr =
     [generateNodeBootstrapGetNodesRBAC, generateNodeBootstrapTokenPostCSRsRBAC,
      generateAutoApproveNodeBootstrapTokenRBAC, generateAutoApproveNodeCertificateRotationRBAC,
      generateClusterInfoRBAC rr, generateKubeletConfigRBAC rr, generateKubeletKubeadmConfigRBAC rr,
      generateClusterAdminBindingRBAC]"

definition ReconcileRBAC :: "'e rbacReconciler \<Rightarrow> ('e, string) act" where
  "ReconcileRBAC rr = run_rbac_phases (rbacClient rr) (rbac_phases rr)"

end
