(* ===== verification/WorkloadConfig.thy ===== *)
theory WorkloadConfig
  imports WorkloadResources
begin

text \<open>
  The config maps kubeadm and the kubelets read in the workload cluster (\<open>reconcilers/workload/config/reconciler.go\<close>)
  and the endpoints of its \<open>kubernetes\<close> service (\<open>reconcilers/workload/kubernetesservice/reconciler.go\<close>).
  Parameters: kubeadm's defaults (\<open>wc_defaults\<close>, an error or none), the serialisers of the three configurations, the
  text of an endpoint and the IPv6 part of the addresses.
\<close>

section \<open>Config maps\<close>

record kubeadm_settings =
  \<comment> \<open>what is set on kubeadm's default cluster configuration\<close>
  kas_dns_domain :: string
  kas_pod_subnet :: string
  kas_service_subnet :: string
  kas_ca_validity :: duration
  kas_validity :: duration
  kas_version :: string
  kas_endpoint :: string
  kas_cluster_name :: string

record kubelet_settings =
  kus_api_version :: string
  kus_kind :: string
  kus_client_ca_file :: string
  kus_cgroup_driver :: string
  kus_cluster_dns :: "string list"
  kus_cluster_domain :: string
  kus_rotate_certificates :: bool
  kus_static_pod_path :: string

record 'e configReconciler = "'e WorkloadResourceReconciler" +
  wcCaCertificateDuration :: duration
  wcCertificateDuration :: duration
  wcServiceDomain :: string
  wcServiceCIDR :: ip_net
  wcPodCIDR :: ip_net
  wcDnsIP :: ip
  wcKubeadmConfigConfigMapName :: string
  wcKubeadmConfigConfigMapNamespace :: string
  wcClusterInfoConfigMapName :: string
  wcClusterInfoConfigMapNamespace :: string
  wcKubeletConfigMapName :: string
  wcKubeletConfigMapNamespace :: string
  wc_defaults :: "gerr option"
  wc_marshal_kubeadm :: "kubeadm_settings \<Rightarrow> gerr + string"
  wc_yaml_kubelet :: "kubelet_settings \<Rightarrow> gerr + string"
  wc_write :: "api_config \<Rightarrow> gerr + string"
  wc_endpoint_string :: "APIEndpoint \<Rightarrow> string"
  wc_string6 :: "ip \<Rightarrow> string"

text \<open>The constructor; the parameters of the model are the last arguments.\<close>

definition NewConfigReconciler :: "'e workload_api \<Rightarrow> duration \<Rightarrow> duration \<Rightarrow> string \<Rightarrow> ip_net \<Rightarrow> ip_net \<Rightarrow> ip
    \<Rightarrow> string \<Rightarrow> string \<Rightarrow> string \<Rightarrow> string \<Rightarrow> string \<Rightarrow> string \<Rightarrow> (string \<Rightarrow> string) \<Rightarrow> gerr option
    \<Rightarrow> (kubeadm_settings \<Rightarrow> gerr + string) \<Rightarrow> (kubelet_settings \<Rightarrow> gerr + string) \<Rightarrow> (api_config \<Rightarrow> gerr + string)
    \<Rightarrow> (APIEndpoint \<Rightarrow> string) \<Rightarrow> (ip \<Rightarrow> string) \<Rightarrow> 'e configReconciler" where
  "NewConfigReconciler W caDuration duration domain service_cidr pod_cidr dns kubeadmName kubeadmNamespace infoName
      infoNamespace kubeletName kubeletNamespace md5hex defaults marshal_kubeadm yaml_kubelet write endpoint_string
      string6 =
     \<lparr>WorkloadClusterClient = W, WorkloadCiliumClient = None, wr_md5 = md5hex,
      wcCaCertificateDuration = caDuration, wcCertificateDuration = duration, wcServiceDomain = domain,
      wcServiceCIDR = service_cidr, wcPodCIDR = pod_cidr, wcDnsIP = dns, wcKubeadmConfigConfigMapName = kubeadmName,
      wcKubeadmConfigConfigMapNamespace = kubeadmNamespace, wcClusterInfoConfigMapName = infoName,
      wcClusterInfoConfigMapNamespace = infoNamespace, wcKubeletConfigMapName = kubeletName,
      wcKubeletConfigMapNamespace = kubeletNamespace, wc_defaults = defaults, wc_marshal_kubeadm = marshal_kubeadm,
      wc_yaml_kubelet = yaml_kubelet, wc_write = write, wc_endpoint_string = endpoint_string, wc_string6 = string6\<rparr>"

definition cluster_info_kubeconfig :: "string \<Rightarrow> string \<Rightarrow> api_config" where
  "cluster_info_kubeconfig server ca =
     \<lparr>kc_clusters = [([], \<lparr>kcl_server = server, kcl_ca_data = ca, kcl_ca_file = []\<rparr>)], kc_contexts = [],
      kc_current = [], kc_users = []\<rparr>"

definition ReconcileClusterInfoConfigMap :: "'e configReconciler \<Rightarrow> 'e core_api \<Rightarrow> Cluster \<Rightarrow> ('e, unit) act" where
  "ReconcileClusterInfoConfigMap cr managementClient cluster =
     (let namespace = ClusterNamespace cluster; name = GetCABundleSecretName cluster in
      gbind (gwrap ''failed to get CA bundle secret''
          (invoke (CSecretGet namespace name) (k_secret_get managementClient namespace name))) (\<lambda>caSecret.
      case wc_write cr (cluster_info_kubeconfig
             (''https://'' @ wc_endpoint_string cr (ControlPlaneEndpoint cluster))
             (deref (map_of (lsec_data caSecret) CACertName) [])) of
        Inl err \<Rightarrow> gfail (EWrap ''failed to marshal kubeconfig'' err)
      | Inr kubeconfig \<Rightarrow>
          Workload_ReconcileConfigmap cr (wcClusterInfoConfigMapNamespace cr) (wcClusterInfoConfigMapName cr) False []
            [(''kubeconfig'', kubeconfig)]))"

definition kubeadm_settings_of :: "'e configReconciler \<Rightarrow> HostedControlPlane \<Rightarrow> Cluster \<Rightarrow> kubeadm_settings" where
  "kubeadm_settings_of cr h cluster =
     \<lparr>kas_dns_domain = wcServiceDomain cr, kas_pod_subnet = net_string (wc_string6 cr) (wcPodCIDR cr),
      kas_service_subnet = net_string (wc_string6 cr) (wcServiceCIDR cr),
      kas_ca_validity = wcCaCertificateDuration cr, kas_validity = wcCertificateDuration cr,
      kas_version = Version (Spec h), kas_endpoint = wc_endpoint_string cr (ControlPlaneEndpoint cluster),
      kas_cluster_name = ClusterName cluster\<rparr>"

definition ReconcileKubeadmConfig :: "'e configReconciler \<Rightarrow> HostedControlPlane \<Rightarrow> Cluster \<Rightarrow> ('e, unit) act" where
  "ReconcileKubeadmConfig cr h cluster =
     (case wc_defaults cr of
        Some err \<Rightarrow> gfail (EWrap ''failed to get defaulted static init configuration'' err)
      | None \<Rightarrow>
          (case wc_marshal_kubeadm cr (kubeadm_settings_of cr h cluster) of
             Inl err \<Rightarrow> gfail (EWrap ''failed to marshal cluster configuration'' err)
           | Inr clusterConfiguration \<Rightarrow>
               Workload_ReconcileConfigmap cr (wcKubeadmConfigConfigMapNamespace cr) (wcKubeadmConfigConfigMapName cr)
                 False [] [(''ClusterConfiguration'', clusterConfiguration)]))"

definition kubelet_settings_of :: "'e configReconciler \<Rightarrow> kubelet_settings" where
  "kubelet_settings_of cr =
     \<lparr>kus_api_version = ''kubelet.config.k8s.io/v1beta1'', kus_kind = ''KubeletConfiguration'',
      kus_client_ca_file = ''/etc/kubernetes/pki/ca.crt'', kus_cgroup_driver = ''systemd'',
      kus_cluster_dns = [ip_string (wc_string6 cr) (wcDnsIP cr)], kus_cluster_domain = wcServiceDomain cr,
      kus_rotate_certificates = True, kus_static_pod_path = ''/etc/kubernetes/manifests''\<rparr>"

definition ReconcileKubeletConfig :: "'e configReconciler \<Rightarrow> ('e, unit) act" where
  "ReconcileKubeletConfig cr =
     (case wc_yaml_kubelet cr (kubelet_settings_of cr) of
        Inl err \<Rightarrow> gfail (EWrap ''failed to marshal kubelet configuration'' err)
      | Inr configYaml \<Rightarrow>
          Workload_ReconcileConfigmap cr (wcKubeletConfigMapNamespace cr) (wcKubeletConfigMapName cr) False []
            [(''kubelet'', configYaml)])"

section \<open>The kubernetes service\<close>

record 'e kubernetesServiceReconciler = "'e WorkloadResourceReconciler" +
  ks_parse6 :: "string \<Rightarrow> ip option"
  ks_string6 :: "ip \<Rightarrow> string"

definition NewKubernetesServiceReconciler :: "'e workload_api \<Rightarrow> (string \<Rightarrow> string) \<Rightarrow> (string \<Rightarrow> ip option)
    \<Rightarrow> (ip \<Rightarrow> string) \<Rightarrow> 'e kubernetesServiceReconciler" where
  "NewKubernetesServiceReconciler W md5hex parse6 string6 =
     \<lparr>WorkloadClusterClient = W, WorkloadCiliumClient = None, wr_md5 = md5hex, ks_parse6 = parse6,
      ks_string6 = string6\<rparr>"

definition ks_service_name :: string where "ks_service_name = ''kubernetes''"
definition ks_namespace :: string where "ks_namespace = ''default''"

definition endpoint_slice :: "'e kubernetesServiceReconciler \<Rightarrow> ip \<Rightarrow> endpoints_ac" where
  "endpoint_slice kr address =
     \<lparr>epa_name = ks_service_name, epa_namespace = ks_namespace,
      epa_labels = [(''kubernetes.io/service-name'', ks_service_name)],
      epa_address_type = Some (if is4 address then ''IPv4'' else ''IPv6''),
      epa_addresses = [ip_string (ks_string6 kr) address], epa_ready = Some True,
      epa_port_name = ''https'', epa_protocol = ''TCP'', epa_port = 6443\<rparr>"

definition legacy_endpoints :: "'e kubernetesServiceReconciler \<Rightarrow> ip \<Rightarrow> endpoints_ac" where
  "legacy_endpoints kr address =
     \<lparr>epa_name = ks_service_name, epa_namespace = ks_namespace,
      epa_labels = [(''endpointslice.kubernetes.io/skip-mirror'', ''true'')],
      epa_address_type = None, epa_addresses = [ip_string (ks_string6 kr) address], epa_ready = None,
      epa_port_name = ''https'', epa_protocol = ''TCP'', epa_port = 6443\<rparr>"

definition applyEndpointSlice :: "'e kubernetesServiceReconciler \<Rightarrow> ip \<Rightarrow> ('e, unit) act" where
  "applyEndpointSlice kr address =
     gwrap (''failed to apply endpointslice '' @ ks_namespace @ ''/'' @ ks_service_name)
       (invoke (CEndpointSliceApply (endpoint_slice kr address))
          (k_endpoint_slice_apply (WorkloadClusterClient kr) (endpoint_slice kr address)))"

definition applyEndpoints :: "'e kubernetesServiceReconciler \<Rightarrow> ip \<Rightarrow> ('e, unit) act" where
  "applyEndpoints kr address =
     gwrap (''failed to apply endpoints '' @ ks_namespace @ ''/'' @ ks_service_name)
       (invoke (CEndpointsApply (legacy_endpoints kr address))
          (k_endpoints_apply (WorkloadClusterClient kr) (legacy_endpoints kr address)))"

definition ReconcileKubernetesEndpoints :: "'e kubernetesServiceReconciler \<Rightarrow> HostedControlPlane \<Rightarrow> ('e, string) act" where
  "ReconcileKubernetesEndpoints kr h =
     (if LegacyIP (Status h) = [] then gret ''LoadBalancerIPNotReady''
      else (case ParseAddr (ks_parse6 kr) (LegacyIP (Status h)) of
              Inl err \<Rightarrow> gfail (EWrap (''invalid load balancer IP '' @ LegacyIP (Status h)) err)
            | Inr address \<Rightarrow>
                gseq (applyEndpointSlice kr address) (gseq (applyEndpoints kr address) (gret []))))"

end
