(* ===== verification/WorkloadAddons.thy ===== *)
theory WorkloadAddons
  imports WorkloadResources
begin

text \<open>
  What runs on the nodes of the workload cluster: kube-proxy (\<open>reconcilers/workload/kubeproxy/reconciler.go\<close>),
  CoreDNS (\<open>reconcilers/workload/coredns/reconciler.go\<close>) and the konnectivity agent
  (\<open>reconcilers/workload/konnectivity/reconciler.go\<close>). Parameters: the serialisers of the kubeconfig, of the
  kube-proxy configuration and of the Corefile, the text of an endpoint and of a network, the parser of versions and
  kubeadm's health check timeout.
\<close>

definition addon_port :: "string \<Rightarrow> int \<Rightarrow> string \<Rightarrow> container_port" where
  "addon_port name port protocol = \<lparr>cp_name = name, cp_port = port, cp_protocol = protocol\<rparr>"

definition addon_mount :: "string \<Rightarrow> string \<Rightarrow> bool option \<Rightarrow> volume_mount" where
  "addon_mount name path read_only = \<lparr>vm_name = name, vm_path = path, vm_read_only = read_only, vm_sub_path = None\<rparr>"

definition toleration_of :: "string \<Rightarrow> string \<Rightarrow> string \<Rightarrow> string \<Rightarrow> toleration" where
  "toleration_of key operator effect val =
     \<lparr>tol_key = key, tol_operator = operator, tol_effect = effect, tol_value = val\<rparr>"

definition node_name_env :: env_var where
  "node_name_env = \<lparr>ev_name = ''NODE_NAME'', ev_value = None, ev_field_path = Some ''spec.nodeName''\<rparr>"

section \<open>kube-proxy\<close>

record kube_proxy_settings =
  kps_kubeconfig :: string
  kps_cluster_cidr :: string
  kps_metrics_bind_address :: string
  kps_node_port_addresses :: "string list"

record 'e kubeProxyReconciler = "'e WorkloadResourceReconciler" +
  kpPodCIDR :: ip_net
  kp_write :: "api_config \<Rightarrow> gerr + string"
  kp_marshal :: "kube_proxy_settings \<Rightarrow> gerr + string"
  kp_endpoint_string :: "APIEndpoint \<Rightarrow> string"
  kp_string6 :: "ip \<Rightarrow> string"

definition NewKubeProxyReconciler :: "'e workload_api \<Rightarrow> 'e cilium_api option \<Rightarrow> ip_net \<Rightarrow> (string \<Rightarrow> string)
    \<Rightarrow> (api_config \<Rightarrow> gerr + string) \<Rightarrow> (kube_proxy_settings \<Rightarrow> gerr + string) \<Rightarrow> (APIEndpoint \<Rightarrow> string)
    \<Rightarrow> (ip \<Rightarrow> string) \<Rightarrow> 'e kubeProxyReconciler" where
  "NewKubeProxyReconciler W C pod_cidr md5hex write marshal endpoint_string string6 =
     \<lparr>WorkloadClusterClient = W, WorkloadCiliumClient = C, wr_md5 = md5hex, kpPodCIDR = pod_cidr, kp_write = write,
      kp_marshal = marshal, kp_endpoint_string = endpoint_string, kp_string6 = string6\<rparr>"

definition kubeProxyLabels :: labels where
  "kubeProxyLabels = [(''k8s-app'', ''kube-proxy''), (''kubernetes.io/cluster-service'', ''true'')]"

definition kubeProxyConfigMountPath :: string where "kubeProxyConfigMountPath = ''/var/lib/kube-proxy''"
definition kubeProxyConfigMapKey :: string where "kubeProxyConfigMapKey = ''config.conf''"

definition kube_proxy_account :: service_account_ac where
  "kube_proxy_account = \<lparr>sa_name = ''kube-proxy'', sa_namespace = NamespaceSystem\<rparr>"

definition kube_proxy_cluster_role_binding :: role_binding_ac where
  "kube_proxy_cluster_role_binding =
     cluster_role_binding ''kubeadm:node-proxier'' ''system:node-proxier'' (account_subject kube_proxy_account)"

definition kube_proxy_role :: role_ac where
  "kube_proxy_role = \<lparr>role_name = ''kube-proxy'', role_namespace = Some NamespaceSystem,
     role_rules = [\<lparr>pru_api_groups = [[]], pru_resources = [''configmaps''], pru_resource_names = [''kube-proxy''],
       pru_verbs = [''get'']\<rparr>]\<rparr>"

definition kube_proxy_role_binding :: role_binding_ac where
  "kube_proxy_role_binding = role_binding_to kube_proxy_role [group_subject NodeBootstrapTokenAuthGroup]"

definition apply_or_delete :: "bool \<Rightarrow> string \<Rightarrow> ('e, unit) act \<Rightarrow> ('e, unit) act \<Rightarrow> ('e, unit) act" where
  "apply_or_delete deleteResource what put delete =
     (if deleteResource then gwrap (''failed to delete kube-proxy '' @ what) (ignore_not_found delete)
      else gwrap (''failed to apply kube-proxy '' @ what) put)"

definition reconcileKubeProxyRBAC :: "'e kubeProxyReconciler \<Rightarrow> bool \<Rightarrow> ('e, unit) act" where
  "reconcileKubeProxyRBAC kr deleteResource =
     (let W = WorkloadClusterClient kr; sa = kube_proxy_account; role = kube_proxy_role in
      gseq (apply_or_delete deleteResource ''service account'' (apply_service_account W sa)
              (invoke (CServiceAccountDelete (sa_namespace sa) (sa_name sa))
                 (k_service_account_delete W (sa_namespace sa) (sa_name sa))))
      (gseq (apply_or_delete deleteResource ''cluster role binding''
              (apply_role_binding W kube_proxy_cluster_role_binding)
              (delete_role_binding W kube_proxy_cluster_role_binding))
      (gseq (apply_or_delete deleteResource ''role'' (apply_role W role)
              (invoke (CRoleDelete (role_namespace role) (role_name role))
                 (k_role_delete W (role_namespace role) (role_name role))))
        (apply_or_delete deleteResource ''role binding'' (apply_role_binding W kube_proxy_role_binding)
              (delete_role_binding W kube_proxy_role_binding)))))"

definition kube_proxy_kubeconfig :: "'e kubeProxyReconciler \<Rightarrow> Cluster \<Rightarrow> api_config" where
  "kube_proxy_kubeconfig kr cluster =
     \<lparr>kc_clusters = [(''default'', \<lparr>kcl_server = ''https://'' @ kp_endpoint_string kr (ControlPlaneEndpoint cluster),
        kcl_ca_data = [], kcl_ca_file = path_join DefaultAPITokenMountPath CACertName\<rparr>)],
      kc_contexts = [(''default'', \<lparr>kcx_cluster = ''default'', kcx_user = ''default''\<rparr>)],
      kc_current = ''default'',
      kc_users = [(''default'', \<lparr>kcu_client_certificate = [], kcu_client_key = [], kcu_token = [],
        kcu_token_file = path_join DefaultAPITokenMountPath ''token''\<rparr>)]\<rparr>"

definition kube_proxy_settings_of :: "'e kubeProxyReconciler \<Rightarrow> kube_proxy_settings" where
  "kube_proxy_settings_of kr =
     \<lparr>kps_kubeconfig = path_join kubeProxyConfigMountPath ''kubeconfig.conf'',
      kps_cluster_cidr = net_string (kp_string6 kr) (kpPodCIDR kr),
      kps_metrics_bind_address = ''0.0.0.0:10249'', kps_node_port_addresses = [''primary'']\<rparr>"

definition reconcileKubeProxyConfigMap :: "'e kubeProxyReconciler \<Rightarrow> Cluster \<Rightarrow> bool \<Rightarrow> ('e, unit) act" where
  "reconcileKubeProxyConfigMap kr cluster deleteResource =
     (case kp_write kr (kube_proxy_kubeconfig kr cluster) of
        Inl err \<Rightarrow> gfail (EWrap ''failed to marshal kubeconfig'' err)
      | Inr kubeconfig \<Rightarrow>
          (case kp_marshal kr (kube_proxy_settings_of kr) of
             Inl err \<Rightarrow> gfail (EWrap ''failed to marshal kube-proxy config'' err)
           | Inr config \<Rightarrow>
               Workload_ReconcileConfigmap kr NamespaceSystem ''kube-proxy'' deleteResource []
                 [(''kubeconfig.conf'', kubeconfig), (kubeProxyConfigMapKey, config)]))"

definition kubeproxy_buildArgs :: "HostedControlPlane \<Rightarrow> volume_mount \<Rightarrow> ('e, string list) act" where
  "kubeproxy_buildArgs h configMount =
     ArgsToSlice (Args (KubeProxy (Spec h)))
       [(''config'', path_join (vm_path configMount) kubeProxyConfigMapKey), (''hostname-override'', ''$(NODE_NAME)'')] []"

definition kube_proxy_egress :: "HostedControlPlane \<Rightarrow> (int, EgressNetworkPolicyTarget list) gomap" where
  "kube_proxy_egress h = [(0, [EgCluster]), (6443, [EgAPIServer (APIServerNetworkPolicyTarget h)])]"

definition reconcileKubeProxyDaemonSet :: "'e kubeProxyReconciler \<Rightarrow> HostedControlPlane \<Rightarrow> bool \<Rightarrow> ('e, string) act" where
  "reconcileKubeProxyDaemonSet kr h deleteResource =
     (let configVolume = (volume0 ''kube-proxy-config'')\<lparr>vol_configmap :=
            Some \<lparr>vsr_name = ''kube-proxy'', vsr_items = []\<rparr>\<rparr>;
          xtablesLockVolume = (volume0 ''xtables-lock'')\<lparr>vol_host_path := Some (''/run/xtables.lock'', ''FileOrCreate'')\<rparr>;
          modulesVolume = (volume0 ''lib-modules'')\<lparr>vol_host_path := Some (''/lib/modules'', [])\<rparr>;
          configMount = addon_mount (vol_name configVolume) kubeProxyConfigMountPath None;
          xtablesLockMount = addon_mount (vol_name xtablesLockVolume) ''/run/xtables.lock'' (Some False);
          modulesMount = addon_mount (vol_name modulesVolume) ''/lib/modules'' (Some True);
          kubeProxy = KubeProxy (Spec h)
      in gbind (kubeproxy_buildArgs h configMount) (\<lambda>args.
         let container = container0\<lparr>c_name := ''kube-proxy'',
               c_image := ResolveKubeProxyImage (Image kubeProxy) (Version (Spec h)),
               c_pull_policy := ImagePullPolicyOrDefault (Some kubeProxy),
               c_command := [''/usr/local/bin/kube-proxy''],
               c_args := args,
               c_resources := ResourceRequirementsToResourcesApplyConfiguration (Resources kubeProxy),
               c_env := [node_name_env],
               c_volume_mounts := [configMount, xtablesLockMount, modulesMount]\<rparr>
         in gbind (gwrap ''failed to reconcile kube-proxy daemonset''
              (Workload_ReconcileDaemonSet kr NamespaceSystem ''kube-proxy'' deleteResource
                (PodOptions0\<lparr>po_service_account := sa_name kube_proxy_account,
                  po_priority_class := ''system-node-critical'', po_host_network := True, po_dns_policy := ''Default'',
                  po_tolerations := [toleration_of [] ''Exists'' [] []]\<rparr>)
                kubeProxyLabels (Some []) (Some (kube_proxy_egress h))
                [(container, ContainerOptions0\<lparr>co_root := True, co_rw_root := True, co_needs_service_account := True\<rparr>)]
                [configVolume, xtablesLockVolume, modulesVolume])) (\<lambda>(_, ready).
            if \<not> ready then gret ''kube-proxy daemonset not ready'' else gret [])))"

definition ReconcileKubeProxy :: "'e kubeProxyReconciler \<Rightarrow> HostedControlPlane \<Rightarrow> Cluster \<Rightarrow> bool \<Rightarrow> ('e, string) act" where
  "ReconcileKubeProxy kr h cluster deleteResource =
     run_steps ''failed to reconcile kube-proxy phase ''
       [(''ConfigMap'', gseq (reconcileKubeProxyConfigMap kr cluster deleteResource) (gret [])),
        (''RBAC'', gseq (reconcileKubeProxyRBAC kr deleteResource) (gret [])),
        (''DaemonSet'', reconcileKubeProxyDaemonSet kr h deleteResource)]"

section \<open>CoreDNS\<close>

record corefile_option =
  cfo_name :: string
  cfo_args :: "string list"

record corefile_plugin =
  cfp_name :: string
  cfp_args :: "string list"
  cfp_options :: "corefile_option list"

record corefile_server =
  cfs_dom_ports :: "string list"
  cfs_plugins :: "corefile_plugin list"

record 'e coreDNSReconciler = "'e WorkloadResourceReconciler" +
  cdServiceDomain :: string
  cdDnsIP :: string
  cd_corefile_string :: "corefile_server list \<Rightarrow> string"
  cd_health_timeout :: nat

definition NewCoreDNSReconciler :: "'e workload_api \<Rightarrow> 'e cilium_api option \<Rightarrow> string \<Rightarrow> string \<Rightarrow> (string \<Rightarrow> string)
    \<Rightarrow> (corefile_server list \<Rightarrow> string) \<Rightarrow> nat \<Rightarrow> 'e coreDNSReconciler" where
  "NewCoreDNSReconciler W C domain dns md5hex corefile_string health_timeout =
     \<lparr>WorkloadClusterClient = W, WorkloadCiliumClient = C, wr_md5 = md5hex, cdServiceDomain = domain, cdDnsIP = dns,
      cd_corefile_string = corefile_string, cd_health_timeout = health_timeout\<rparr>"

definition coreDNSLabels :: labels where
  "coreDNSLabels = [(''k8s-app'', ''kube-dns''), (''kubernetes.io/cluster-service'', ''true''),
     (''kubernetes.io/name'', ''CoreDNS'')]"

definition coreDNSPort :: int where "coreDNSPort = 53"
definition prometheusPort :: int where "prometheusPort = 9153"
definition coreDNSCorefileFileName :: string where "coreDNSCorefileFileName = ''Corefile''"

definition core_dns_account :: service_account_ac where
  "core_dns_account = \<lparr>sa_name = ''coredns'', sa_namespace = NamespaceSystem\<rparr>"

definition core_dns_cluster_role :: role_ac where
  "core_dns_cluster_role =
     (let rule = (\<lambda>verbs groups resources. \<lparr>pru_api_groups = groups, pru_resources = resources,
            pru_resource_names = [], pru_verbs = verbs\<rparr>) in
      \<lparr>role_name = ''system:coredns'', role_namespace = None,
       role_rules = [rule [''list'', ''watch''] [[]] [''endpoints'', ''services'', ''pods'', ''namespaces''],
         rule [''get''] [[]] [''nodes''],
         rule [''list'', ''watch''] [''discovery.k8s.io''] [''endpointslices'']]\<rparr>)"

definition reconcileCoreDNSRBAC :: "'e coreDNSReconciler \<Rightarrow> ('e, unit) act" where
  "reconcileCoreDNSRBAC cr =
     (let W = WorkloadClusterClient cr in
      gseq (gwrap ''failed to apply CoreDNS service account'' (apply_service_account W core_dns_account))
      (gseq (gwrap ''failed to apply CoreDNS cluster role'' (apply_role W core_dns_cluster_role))
        (gwrap ''failed to apply CoreDNS cluster role binding''
          (apply_role_binding W (role_binding_to core_dns_cluster_role [account_subject core_dns_account])))))"

definition default_corefile :: "string \<Rightarrow> corefile_server list" where
  "default_corefile serviceDomain =
     (let plugin = (\<lambda>name args options. \<lparr>cfp_name = name, cfp_args = args, cfp_options = options\<rparr>);
          opt = (\<lambda>name args. \<lparr>cfo_name = name, cfo_args = args\<rparr>)
      in [\<lparr>cfs_dom_ports = [''.:'' @ int_dec coreDNSPort],
           cfs_plugins =
            [plugin ''errors'' [] [],
             plugin ''health'' [] [opt ''lameduck'' [''5s'']],
             plugin ''ready'' [] [],
             plugin ''kubernetes'' [serviceDomain, ''in-addr.arpa'', ''ip6.arpa'']
               [opt ''fallthrough'' [''in-addr.arpa'', ''ip6.arpa''], opt ''ttl'' [''30'']],
             plugin ''prometheus'' ['':'' @ int_dec prometheusPort] [],
             plugin ''forward'' [''.'', ''/etc/resolv.conf''] [opt ''max_concurrent'' [''1000'']],
             plugin ''cache'' [''30''] [opt ''disable'' [''success'', serviceDomain], opt ''disable'' [''denial'', serviceDomain]],
             plugin ''loop'' [] [],
             plugin ''loadbalance'' [] []]\<rparr>])"

definition reconcileCoreDNSConfigMap :: "'e coreDNSReconciler \<Rightarrow> ('e, unit) act" where
  "reconcileCoreDNSConfigMap cr =
     Workload_ReconcileConfigmap cr NamespaceSystem ''coredns'' False coreDNSLabels
       [(coreDNSCorefileFileName, cd_corefile_string cr (default_corefile (cdServiceDomain cr)))]"

definition core_dns_container :: "'e coreDNSReconciler \<Rightarrow> HostedControlPlane \<Rightarrow> volume_mount \<Rightarrow> ('e, container) act" where
  "core_dns_container cr h configMount =
     (let healthPort = addon_port ''health'' 8080 ''TCP''; readyPort = addon_port ''ready'' 8181 ''TCP'';
          coreDNS = CoreDNS (Spec h)
      in gbind (ArgsToSlice (Args coreDNS)
             [(''conf'', path_join (vm_path configMount) coreDNSCorefileFileName)]
             [\<lparr>Prefix = Some ''-'', Delimiter = None\<rparr>]) (\<lambda>args.
         gret (container0\<lparr>c_name := ''coredns'',
           c_image := ResolveCoreDNSImage (Image coreDNS),
           c_pull_policy := ImagePullPolicyOrDefault (Some coreDNS),
           c_args := args,
           c_resources := ResourceRequirementsToResourcesApplyConfiguration (Resources coreDNS),
           c_ports := [addon_port ''dns'' coreDNSPort ''UDP'', addon_port ''dns-tcp'' coreDNSPort ''TCP'',
             addon_port ''metrics'' 9153 ''TCP'', healthPort, readyPort],
           c_volume_mounts := [configMount],
           c_liveness_probe := Some (CreateLivenessProbe healthPort ''/health'' ''HTTP''),
           c_readiness_probe := Some (CreateReadinessProbe readyPort ''/ready'' ''HTTP''),
           c_startup_probe := Some (CreateStartupProbe (cd_health_timeout cr) readyPort ''/ready'' ''HTTP'')\<rparr>)))"

definition core_dns_pod_options :: PodOptions where
  "core_dns_pod_options =
     PodOptions0\<lparr>po_service_account := sa_name core_dns_account, po_priority_class := ''system-cluster-critical'',
       po_dns_policy := ''Default'',
       po_tolerations := [toleration_of ''CriticalAddonsOnly'' ''Exists'' [] [],
         toleration_of ''node.cluster.x-k8s.io/uninitialized'' [] ''NoSchedule'' [],
         toleration_of ''node.cloudprovider.kubernetes.io/uninitialized'' [] ''NoSchedule'' ''true'']\<rparr>"

definition core_dns_egress :: "HostedControlPlane \<Rightarrow> (int, EgressNetworkPolicyTarget list) gomap" where
  "core_dns_egress h = [(53, [EgWorld]), (6443, [EgAPIServer (APIServerNetworkPolicyTarget h)])]"

definition reconcileCoreDNSDeployment :: "'e coreDNSReconciler \<Rightarrow> HostedControlPlane \<Rightarrow> ('e, string) act" where
  "reconcileCoreDNSDeployment cr h =
     (let configVolume = (volume0 ''config-volume'')\<lparr>vol_configmap := Some \<lparr>vsr_name = ''coredns'',
            vsr_items = [\<lparr>ktp_key = coreDNSCorefileFileName, ktp_path = coreDNSCorefileFileName\<rparr>]\<rparr>\<rparr>;
          configMount = addon_mount (vol_name configVolume) ''/etc/coredns'' (Some True)
      in gbind (core_dns_container cr h configMount) (\<lambda>container.
         gbind (list_nodes (WorkloadClusterClient cr)) (\<lambda>nodes.
         gbind (gwrap ''failed to reconcile CoreDNS deployment''
            (Workload_ReconcileDeployment cr NamespaceSystem ''coredns'' False
              (replicas_for_nodes nodes (ReplicaCount (Some (CoreDNS (Spec h))) 2)) core_dns_pod_options coreDNSLabels
              (Some [(coreDNSPort, [InLabel (NewNamespaceLabelNetworkPolicyTarget (Some []))])])
              (Some (core_dns_egress h))
              [(container, ContainerOptions0\<lparr>co_capabilities := [''NET_BIND_SERVICE''], co_needs_service_account := True\<rparr>)]
              [configVolume])) (\<lambda>(_, ready).
         if \<not> ready then gret ''CoreDNS deployment not ready'' else gret []))))"

definition reconcileCoreDNSService :: "'e coreDNSReconciler \<Rightarrow> ('e, string) act" where
  "reconcileCoreDNSService cr =
     (let port = (\<lambda>name number protocol. \<lparr>sp_name = name, sp_port = number, sp_target_port = name,
            sp_protocol = protocol\<rparr>) in
      gbind (gwrap ''failed to reconcile CoreDNS service''
         (Workload_ReconcileService cr NamespaceSystem ''kube-dns'' coreDNSLabels ''ClusterIP'' (Some (cdDnsIP cr)) False
            [port ''dns'' 53 ''UDP'', port ''dns-tcp'' 53 ''TCP'', port ''metrics'' 9153 ''TCP''])) (\<lambda>(_, ready).
      if \<not> ready then gret ''CoreDNS service not ready'' else gret []))"

definition ReconcileCoreDNS :: "'e coreDNSReconciler \<Rightarrow> HostedControlPlane \<Rightarrow> ('e, string) act" where
  "ReconcileCoreDNS cr h =
     run_steps ''failed to reconcile CoreDNS phase ''
       [(''RBAC'', gseq (reconcileCoreDNSRBAC cr) (gret [])),
        (''ConfigMap'', gseq (reconcileCoreDNSConfigMap cr) (gret [])),
        (''Deployment'', reconcileCoreDNSDeployment cr h),
        (''Service'', reconcileCoreDNSService cr)]"

section \<open>The konnectivity agent\<close>

record 'e konnectivityReconciler = "'e WorkloadResourceReconciler" +
  kaNamespace :: string
  kaServerAudience :: string
  kaServicePort :: int
  kaServiceAccountName :: string
  kaServiceAccountTokenName :: string
  ka_parse_tolerant :: "string \<Rightarrow> gerr + nat"
  ka_health_timeout :: nat

definition NewKonnectivityReconciler :: "'e workload_api \<Rightarrow> 'e cilium_api option \<Rightarrow> string \<Rightarrow> string \<Rightarrow> string \<Rightarrow> int
    \<Rightarrow> (string \<Rightarrow> string) \<Rightarrow> (string \<Rightarrow> gerr + nat) \<Rightarrow> nat \<Rightarrow> 'e konnectivityReconciler" where
  "NewKonnectivityReconciler W C namespace serviceAccount audience port md5hex parse_tolerant health_timeout =
     \<lparr>WorkloadClusterClient = W, WorkloadCiliumClient = C, wr_md5 = md5hex, kaNamespace = namespace,
      kaServerAudience = audience, kaServicePort = port, kaServiceAccountName = serviceAccount,
      kaServiceAccountTokenName = ''konnectivity-agent-token'', ka_parse_tolerant = parse_tolerant,
      ka_health_timeout = health_timeout\<rparr>"

definition konnectivity_account :: "'e konnectivityReconciler \<Rightarrow> service_account_ac" where
  "konnectivity_account kr = \<lparr>sa_name = kaServiceAccountName kr, sa_namespace = kaNamespace kr\<rparr>"

definition konnectivity_role :: "'e konnectivityReconciler \<Rightarrow> role_ac" where
  "konnectivity_role kr = \<lparr>role_name = kaServiceAccountName kr, role_namespace = Some (kaNamespace kr),
     role_rules = [\<lparr>pru_api_groups = [''coordination.k8s.io''], pru_resources = [''leases''], pru_resource_names = [],
       pru_verbs = [''watch'', ''list'']\<rparr>]\<rparr>"

definition bind_or_recreate :: "'e konnectivityReconciler \<Rightarrow> role_binding_ac \<Rightarrow> string \<Rightarrow> string \<Rightarrow> string
    \<Rightarrow> ('e, string) act" where
  "bind_or_recreate kr rb what deleted_name failed_name =
     gbind (gtry (apply_role_binding (WorkloadClusterClient kr) rb)) (\<lambda>r. case r of
       Inr _ \<Rightarrow> gret []
     | Inl err \<Rightarrow>
         if is_invalid err
         then gseq (gwrap (''failed to delete invalid '' @ what @ '' '' @ deleted_name)
                      (delete_role_binding (WorkloadClusterClient kr) rb))
                (gret (what @ '' needs to be recreated''))
         else gfail (EWrap (''failed to apply '' @ what @ failed_name) err))"

definition reconcileKonnectivityRBAC :: "'e konnectivityReconciler \<Rightarrow> ('e, string) act" where
  "reconcileKonnectivityRBAC kr =
     (let W = WorkloadClusterClient kr; sa = konnectivity_account kr; role = konnectivity_role kr;
          rb = role_binding_to role [account_subject sa];
          crb = cluster_role_binding (kaServerAudience kr) ''system:auth-delegator'' (account_subject sa)
      in gseq (gwrap ''failed to apply konnectivity agent service account'' (apply_service_account W sa))
        (gseq (gwrap ''failed to apply konnectivity agent role'' (apply_role W role))
        (gbind (bind_or_recreate kr rb ''konnectivity agent role binding''
            (kaNamespace kr @ ''/'' @ rb_name rb) []) (\<lambda>reason.
        if reason \<noteq> [] then gret reason
        else bind_or_recreate kr crb ''konnectivity agent cluster role binding'' (rb_name crb)
          ('' '' @ rb_name crb)))))"

definition buildKonnectivityClientArgs :: "'e konnectivityReconciler \<Rightarrow> HostedControlPlane \<Rightarrow> Cluster \<Rightarrow> volume_mount
    \<Rightarrow> container_port \<Rightarrow> ('e, string list) act" where
  "buildKonnectivityClientArgs kr h cluster tokenMount healthPort =
     ArgsToSlice (Args (KonnectivityClient (Spec h)))
       [(''admin-server-port'', ''8133''),
        (''ca-cert'', path_join DefaultAPITokenMountPath CACertName),
        (''health-server-port'', int_dec (cp_port healthPort)),
        (''logtostderr'', ''true''),
        (''proxy-server-host'', GetKonnectivityServerHost cluster),
        (''proxy-server-port'', int_dec (kaServicePort kr)),
        (''agent-id'', ''$(NODE_NAME)''),
        (''count-server-leases'', ''true''),
        (''sync-interval'', ''250ms''),
        (''sync-interval-cap'', ''2s''),
        (''server-count-source'', ''max''),
        (''service-account-token-path'', path_join (vm_path tokenMount) (kaServiceAccountTokenName kr))] []"

definition konnectivity_container :: "'e konnectivityReconciler \<Rightarrow> HostedControlPlane \<Rightarrow> Cluster \<Rightarrow> nat \<Rightarrow> volume_mount
    \<Rightarrow> ('e, container) act" where
  "konnectivity_container kr h cluster minorVersion tokenMount =
     (let healthPort = addon_port ''health'' 8134 ''TCP''; agent = KonnectivityClient (Spec h) in
      gbind (buildKonnectivityClientArgs kr h cluster tokenMount healthPort) (\<lambda>args.
        gret (container0\<lparr>c_name := ''konnectivity-agent'',
          c_image := ResolveKonnectivityImage (Image agent) ''proxy-agent'' minorVersion,
          c_pull_policy := ImagePullPolicyOrDefault (Some agent),
          c_args := args,
          c_env := [node_name_env],
          c_resources := ResourceRequirementsToResourcesApplyConfiguration (Resources agent),
          c_startup_probe := Some (CreateStartupProbe (ka_health_timeout kr) healthPort ''/readyz'' ''HTTP''),
          c_readiness_probe := Some (CreateReadinessProbe healthPort ''/readyz'' ''HTTP''),
          c_liveness_probe := Some (CreateLivenessProbe healthPort ''/healthz'' ''HTTP''),
          c_ports := [healthPort],
          c_volume_mounts := [tokenMount]\<rparr>)))"

definition konnectivity_egress :: "'e konnectivityReconciler \<Rightarrow> Cluster
    \<Rightarrow> (int, EgressNetworkPolicyTarget list) gomap" where
  "konnectivity_egress kr cluster =
     mput (kaServicePort kr) [EgDNS (DNSNetworkPolicyTarget (GetKonnectivityServerHost cluster))] [(0, [EgCluster])]"

definition reconcileKonnectivityDeployment :: "'e konnectivityReconciler \<Rightarrow> HostedControlPlane \<Rightarrow> Cluster
    \<Rightarrow> ('e, string) act" where
  "reconcileKonnectivityDeployment kr h cluster =
     (let tokenVolume = (volume0 (kaServiceAccountName kr))\<lparr>
            vol_projected := Some [PServiceAccountToken (Some (kaServerAudience kr)) 3600 (kaServiceAccountTokenName kr)],
            vol_projected_mode := Some 420\<rparr>;
          tokenMount = addon_mount (vol_name tokenVolume) ''/var/run/secrets/tokens'' (Some True)
      in case GetMinorVersion (ka_parse_tolerant kr) h of
           Inl err \<Rightarrow> gfail (EWrap ''failed to get minor version of hosted control plane'' err)
         | Inr minorVersion \<Rightarrow>
             gbind (konnectivity_container kr h cluster minorVersion tokenMount) (\<lambda>container.
             gbind (list_nodes (WorkloadClusterClient kr)) (\<lambda>nodes.
             gbind (gwrap ''failed to reconcile konnectivity agent deployment''
                (Workload_ReconcileDeployment kr (kaNamespace kr) ''konnectivity-agent'' False
                  (replicas_for_nodes nodes (ReplicaCount (Some (KonnectivityClient (Spec h))) 2))
                  (PodOptions0\<lparr>po_service_account := kaServiceAccountName kr,
                    po_priority_class := ''system-cluster-critical'',
                    po_tolerations := [toleration_of ''CriticalAddonsOnly'' ''Exists'' [] []]\<rparr>)
                  (GetControlPlaneLabels cluster ''konnectivity'') (Some []) (Some (konnectivity_egress kr cluster))
                  [(container, ContainerOptions0\<lparr>co_needs_service_account := True\<rparr>)] [tokenVolume])) (\<lambda>(_, ready).
             if \<not> ready then gret ''konnectivity agent deployment not ready'' else gret []))))"

definition ReconcileKonnectivity :: "'e konnectivityReconciler \<Rightarrow> HostedControlPlane \<Rightarrow> Cluster \<Rightarrow> ('e, string) act" where
  "ReconcileKonnectivity kr h cluster =
     run_steps ''failed to reconcile konnectivity phase ''
       [(''RBAC'', reconcileKonnectivityRBAC kr), (''Deployment'', reconcileKonnectivityDeployment kr h cluster)]"

end
