(* ===== verification/Workload.thy ===== *)
theory Workload
  imports WorkloadRbac WorkloadConfig WorkloadAddons
begin

text \<open>
  The reconciler of the workload cluster (\<open>reconcilers/workload/reconciler.go\<close>), which runs the reconcilers of
  \<open>WorkloadRbac\<close>, \<open>WorkloadConfig\<close> and \<open>WorkloadAddons\<close> as phases, and the clients it gets from the management
  cluster (\<open>reconcilers/workload/management_cluster.go\<close>). Parameters: the constructors of the clients and the
  parameters of the reconcilers it runs.
\<close>

section \<open>The clients\<close>

record 'e connection =
  cn_rest_config :: "string \<Rightarrow> gerr + string"
    \<comment> \<open>\<open>clientcmd.RESTConfigFromKubeConfig\<close>; a configuration is its text\<close>
  cn_clientset :: "string \<Rightarrow> gerr + 'e workload_api"
  cn_server_groups :: "string \<Rightarrow> ('e, string list) op"
    \<comment> \<open>asked through a client of this configuration\<close>
  cn_cilium :: "string \<Rightarrow> gerr + 'e cilium_api"

definition ErrCiliumNotInstalled :: gerr where
  "ErrCiliumNotInstalled = ESentinel ''cilium not installed''"

definition CiliumGroup :: string where "CiliumGroup = ''cilium.io''"

definition GetCiliumClient :: "'e connection \<Rightarrow> string \<Rightarrow> ('e, 'e cilium_api) act" where
  "GetCiliumClient cn restConfig =
     gbind (gwrap ''failed to discover API groups for workload cluster'' (invoke CServerGroups (cn_server_groups cn restConfig)))
       (\<lambda>groups.
         if CiliumGroup \<notin> set groups then gfail ErrCiliumNotInstalled
         else (case cn_cilium cn restConfig of
                 Inl err \<Rightarrow> gfail (EWrap ''failed to create Cilium client for workload cluster'' err)
               | Inr ciliumClient \<Rightarrow> gret ciliumClient))"

text \<open>A cluster without Cilium gives no Cilium client, and no error.\<close>

definition tolerate_missing_cilium :: "('e, 'e cilium_api) act \<Rightarrow> ('e, 'e cilium_api option) act" where
  "tolerate_missing_cilium m =
     gbind (gtry m) (\<lambda>r. case r of
       Inr ciliumClient \<Rightarrow> gret (Some ciliumClient)
     | Inl err \<Rightarrow> if err_is ''cilium not installed'' err then gret None else gfail err)"

definition GetWorkloadClusterClient :: "'e connection \<Rightarrow> 'e core_api \<Rightarrow> Cluster \<Rightarrow> string
    \<Rightarrow> ('e, 'e workload_api \<times> 'e cilium_api option) act" where
  "GetWorkloadClusterClient cn managementClusterClient cluster controllerUser =
     (let namespace = ClusterNamespace cluster; name = GetKubeconfigSecretName cluster controllerUser in
      gbind (gwrap ''failed to get kubeconfig for workload cluster''
          (invoke (CSecretGet namespace name) (k_secret_get managementClusterClient namespace name))) (\<lambda>secret.
      case cn_rest_config cn (deref (map_of (lsec_data secret) KubeconfigDataName) []) of
        Inl err \<Rightarrow> gfail (EWrap ''failed to get REST config for workload cluster'' err)
      | Inr restConfig \<Rightarrow>
          (case cn_clientset cn restConfig of
             Inl err \<Rightarrow> gfail (EWrap ''failed to create Kubernetes clientSet for workload cluster'' err)
           | Inr workloadClusterClient \<Rightarrow>
               gbind (tolerate_missing_cilium (GetCiliumClient cn restConfig)) (\<lambda>ciliumClient.
                 gret (workloadClusterClient, ciliumClient)))))"

section \<open>State\<close>

type_synonym 'e client_factory = "'e core_api \<Rightarrow> Cluster \<Rightarrow> ('e, 'e workload_api \<times> 'e cilium_api option) act"

text \<open>The parameters of the reconcilers, and those of the loop over the phases.\<close>

record 'e workload_params =
  wp_md5 :: "string \<Rightarrow> string"
  wp_defaults :: "gerr option"
  wp_marshal_kubeadm :: "kubeadm_settings \<Rightarrow> gerr + string"
  wp_yaml_kubelet :: "kubelet_settings \<Rightarrow> gerr + string"
  wp_write :: "api_config \<Rightarrow> gerr + string"
  wp_marshal_proxy :: "kube_proxy_settings \<Rightarrow> gerr + string"
  wp_corefile_string :: "corefile_server list \<Rightarrow> string"
  wp_endpoint_string :: "APIEndpoint \<Rightarrow> string"
  wp_parse6 :: "string \<Rightarrow> ip option"
  wp_string6 :: "ip \<Rightarrow> string"
  wp_parse_tolerant :: "string \<Rightarrow> gerr + nat"
  wp_health_timeout :: nat
  wp_set_c :: "condition list \<Rightarrow> condition \<Rightarrow> condition list"
  wp_api_text :: "api_reason \<Rightarrow> string"

record 'e workloadClusterReconciler =
  wcrManagementClusterClient :: "'e core_api"
  workloadClusterClientFactory :: "'e client_factory"
  wcrCaCertificateDuration :: duration
  wcrCertificateDuration :: duration
  wcrServiceDomain :: string
  wcrServiceCIDR :: ip_net
  wcrPodCIDR :: ip_net
  wcrDnsIP :: ip
  wcrKonnectivityNamespace :: string
  wcrKonnectivityServiceAccount :: string
  wcrKonnectivityServerAudience :: string
  wcrKonnectivityServicePort :: int
  wcrKonnectivityServiceAccountName :: string
  wcrKonnectivityServiceAccountTokenName :: string
  wcrKubeadmKubeletConfigMapNamespace :: string
  wcrKubeadmConfigConfigMapName :: string
  wcrKubeletConfigMapName :: string
  wcrClusterInfoConfigMapNamespace :: string
  wcrClusterInfoConfigMapName :: string
  wcr_params :: "'e workload_params"

definition NewWorkloadClusterReconciler :: "'e core_api \<Rightarrow> 'e client_factory \<Rightarrow> duration \<Rightarrow> duration \<Rightarrow> string
    \<Rightarrow> ip_net \<Rightarrow> ip_net \<Rightarrow> ip \<Rightarrow> string \<Rightarrow> string \<Rightarrow> string \<Rightarrow> int \<Rightarrow> 'e workload_params \<Rightarrow> 'e workloadClusterReconciler" where
  "NewWorkloadClusterReconciler managementClusterClient factory caDuration duration domain service_cidr pod_cidr dns
      namespace serviceAccount audience port params =
     \<lparr>wcrManagementClusterClient = managementClusterClient, workloadClusterClientFactory = factory,
      wcrCaCertificateDuration = caDuration, wcrCertificateDuration = duration, wcrServiceDomain = domain,
      wcrServiceCIDR = service_cidr, wcrPodCIDR = pod_cidr, wcrDnsIP = dns, wcrKonnectivityNamespace = namespace,
      wcrKonnectivityServiceAccount = serviceAccount, wcrKonnectivityServerAudience = audience,
      wcrKonnectivityServicePort = port, wcrKonnectivityServiceAccountName = ''konnectivity-agent'',
      wcrKonnectivityServiceAccountTokenName = ''konnectivity-agent-token'',
      wcrKubeadmKubeletConfigMapNamespace = NamespaceSystem, wcrKubeadmConfigConfigMapName = ''kubeadm-config'',
      wcrKubeletConfigMapName = ''kubelet-config'', wcrClusterInfoConfigMapNamespace = ''kube-public'',
      wcrClusterInfoConfigMapName = ''cluster-info'', wcr_params = params\<rparr>"

section \<open>The reconcilers it runs\<close>

definition workload_rbac :: "'e workloadClusterReconciler \<Rightarrow> 'e workload_api \<Rightarrow> 'e rbacReconciler" where
  "workload_rbac wr W =
     NewRBACReconciler W (wcrKubeadmKubeletConfigMapNamespace wr) (wcrKubeadmConfigConfigMapName wr)
       (wcrKubeletConfigMapName wr) (wcrClusterInfoConfigMapNamespace wr) (wcrClusterInfoConfigMapName wr)"

definition workload_config :: "'e workloadClusterReconciler \<Rightarrow> 'e workload_api \<Rightarrow> 'e configReconciler" where
  "workload_config wr W =
     (let p = wcr_params wr in
      NewConfigReconciler W (wcrCaCertificateDuration wr) (wcrCertificateDuration wr) (wcrServiceDomain wr)
        (wcrServiceCIDR wr) (wcrPodCIDR wr) (wcrDnsIP wr) (wcrKubeadmConfigConfigMapName wr)
        (wcrKubeadmKubeletConfigMapNamespace wr) (wcrClusterInfoConfigMapName wr) (wcrClusterInfoConfigMapNamespace wr)
        (wcrKubeletConfigMapName wr) (wcrKubeadmKubeletConfigMapNamespace wr)
        (wp_md5 p) (wp_defaults p) (wp_marshal_kubeadm p) (wp_yaml_kubelet p) (wp_write p) (wp_endpoint_string p)
        (wp_string6 p))"

definition workload_kube_proxy :: "'e workloadClusterReconciler \<Rightarrow> 'e workload_api \<Rightarrow> 'e cilium_api option
    \<Rightarrow> 'e kubeProxyReconciler" where
  "workload_kube_proxy wr W C =
     (let p = wcr_params wr in
      NewKubeProxyReconciler W C (wcrPodCIDR wr) (wp_md5 p) (wp_write p) (wp_marshal_proxy p) (wp_endpoint_string p)
        (wp_string6 p))"

definition workload_core_dns :: "'e workloadClusterReconciler \<Rightarrow> 'e workload_api \<Rightarrow> 'e cilium_api option
    \<Rightarrow> 'e coreDNSReconciler" where
  "workload_core_dns wr W C =
     (let p = wcr_params wr in
      NewCoreDNSReconciler W C (wcrServiceDomain wr) (ip_string (wp_string6 p) (wcrDnsIP wr)) (wp_md5 p)
        (wp_corefile_string p) (wp_health_timeout p))"

definition workload_konnectivity :: "'e workloadClusterReconciler \<Rightarrow> 'e workload_api \<Rightarrow> 'e cilium_api option
    \<Rightarrow> 'e konnectivityReconciler" where
  "workload_konnectivity wr W C =
     (let p = wcr_params wr in
      NewKonnectivityReconciler W C (wcrKonnectivityNamespace wr) (wcrKonnectivityServiceAccount wr)
        (wcrKonnectivityServerAudience wr) (wcrKonnectivityServicePort wr) (wp_md5 p) (wp_parse_tolerant p)
        (wp_health_timeout p))"

definition workload_kubernetes_service :: "'e workloadClusterReconciler \<Rightarrow> 'e workload_api
    \<Rightarrow> 'e kubernetesServiceReconciler" where
  "workload_kubernetes_service wr W =
     (let p = wcr_params wr in NewKubernetesServiceReconciler W (wp_md5 p) (wp_parse6 p) (wp_string6 p))"

section \<open>The reconciler\<close>

definition workload_client :: "'e workloadClusterReconciler \<Rightarrow> Cluster
    \<Rightarrow> ('e, 'e workload_api \<times> 'e cilium_api option) act" where
  "workload_client wr cluster =
     gwrap ''failed to get workload cluster client''
       (workloadClusterClientFactory wr (wcrManagementClusterClient wr) cluster)"

definition ReconcileKubernetesService :: "'e workloadClusterReconciler \<Rightarrow> Cluster \<Rightarrow> ('e, string) act" where
  "ReconcileKubernetesService wr cluster =
     gbind (workload_client wr cluster) (\<lambda>(W, _). gbind get_hcp (\<lambda>h.
       gwrap ''failed to reconcile kubernetes service endpoints''
         (ReconcileKubernetesEndpoints (workload_kubernetes_service wr W) h)))"

definition workload_messages :: phase_messages where
  "workload_messages =
     \<lparr>pm_failed = (\<lambda>name err. ''Reconciling workload phase '' @ name @ '' failed: '' @ err),
      pm_not_ready = (\<lambda>name reason. ''Reconciling workload phase '' @ name @ '' not ready: '' @ reason),
      pm_ready = (\<lambda>name. ''Workload phase '' @ name @ '' reconciled successfully'')\<rparr>"

definition phase :: "string \<Rightarrow> (Cluster \<Rightarrow> ('e, string) act) \<Rightarrow> string \<Rightarrow> string \<Rightarrow> 'e Phase" where
  "phase name reconcile condition failedReason =
     \<lparr>ph_name = name, ph_reconcile = reconcile, ph_condition = condition, ph_failed_reason = failedReason\<rparr>"

definition workloadPhases :: "'e workloadClusterReconciler \<Rightarrow> 'e workload_api \<Rightarrow> 'e cilium_api option \<Rightarrow> 'e Phase list" where
  "workloadPhases wr W C =
     (let config = workload_config wr W in
      [phase ''RBAC'' (\<lambda>_. ReconcileRBAC (workload_rbac wr W))
         WorkloadRBACReadyCondition WorkloadRBACFailedReason,
       phase ''cluster-info'' (\<lambda>cluster. gseq
           (ReconcileClusterInfoConfigMap config (wcrManagementClusterClient wr) cluster) (gret []))
         WorkloadClusterInfoReadyCondition WorkloadClusterInfoFailedReason,
       phase ''kubeadm-config'' (\<lambda>cluster. gbind get_hcp (\<lambda>h. gseq (ReconcileKubeadmConfig config h cluster) (gret [])))
         WorkloadKubeadmConfigReadyCondition WorkloadKubeadmConfigFailedReason,
       phase ''kubelet-config'' (\<lambda>_. gseq (ReconcileKubeletConfig config) (gret []))
         WorkloadKubeletConfigReadyCondition WorkloadKubeletConfigFailedReason,
       phase ''kube-proxy'' (\<lambda>cluster. gbind get_hcp (\<lambda>h.
           ReconcileKubeProxy (workload_kube_proxy wr W C) h cluster (\<not> KubeProxyEnabled (Some (KubeProxy (Spec h))))))
         WorkloadKubeProxyReadyCondition WorkloadKubeProxyFailedReason,
       phase ''coredns'' (\<lambda>_. gbind get_hcp (\<lambda>h. ReconcileCoreDNS (workload_core_dns wr W C) h))
         WorkloadCoreDNSReadyCondition WorkloadCoreDNSFailedReason,
       phase ''konnectivity'' (\<lambda>cluster. gbind get_hcp (\<lambda>h.
           ReconcileKonnectivity (workload_konnectivity wr W C) h cluster))
         WorkloadKonnectivityReadyCondition WorkloadKonnectivityFailedReason])"

definition ReconcileWorkloadClusterResources :: "'e workloadClusterReconciler \<Rightarrow> Cluster \<Rightarrow> ('e, string) act" where
  "ReconcileWorkloadClusterResources wr cluster =
     gbind (workload_client wr cluster) (\<lambda>(W, C).
       run_phases (wp_set_c (wcr_params wr)) (wp_api_text (wcr_params wr)) workload_messages cluster
         (workloadPhases wr W C))"

end
