(* ===== verification/ApiServerConfig.thy ===== *)
theory ApiServerConfig
  imports Management EtcdClient GoNet
begin

text \<open>
  The configuration of the API server pods (first half of
  \<open>reconcilers/apiserverresources/apiserverresources.go\<close>): the egress selector, the audit policy with the
  webhook's kubeconfig and the nginx configuration that mirrors to several targets, and the structured
  authentication configuration.

  Parameters: the serialisers (\<open>ToYaml\<close>, \<open>PolicyToYaml\<close>, \<open>clientcmd.Write\<close>), the parser of URLs, which gives host
  and port of a URL, and what the other parts of the library need.
\<close>

section \<open>State\<close>

record jwt_authenticator =
  jwt_url :: string
  jwt_certificate_authority :: string
  jwt_audiences :: "string list"
  jwt_match_any :: bool
  jwt_rules :: "OIDCClaimValidationRule list"
  jwt_username :: string
  jwt_groups :: string

record authentication_configuration =
  auth_api_version :: string
  auth_jwt :: "jwt_authenticator list"

record 'e apiServerResourcesReconciler = "'e ManagementResourceReconciler" +
  arWorldComponent :: string
  serviceCIDR :: ip_net
  podCIDR :: ip_net
  arApiServerServicePort :: int
  apiServerServiceLegacyPortName :: string
  arEtcdComponentLabel :: string
  arEtcdServerPort :: int
  konnectivityNamespace :: string
  konnectivityServiceAccount :: string
  konnectivityServicePort :: int
  konnectivityClientKubeconfigName :: string
  arKonnectivityServerAudience :: string
  componentAPIServer :: string
  ar_yaml_egress :: "string \<Rightarrow> gerr + string"
    \<comment> \<open>\<open>ToYaml\<close> of the egress selector configuration with this socket\<close>
  ar_yaml_auth :: "authentication_configuration \<Rightarrow> gerr + string"
  ar_yaml_policy :: "string \<Rightarrow> gerr + string"
  ar_write :: "api_config \<Rightarrow> gerr + string"
  ar_parse_url :: "string \<Rightarrow> gerr + (string \<times> string)"
  ar_parse_tolerant :: "string \<Rightarrow> gerr + nat"
  ar_endpoint_string :: "APIEndpoint \<Rightarrow> string"
  ar_string6 :: "ip \<Rightarrow> string"
  ar_selector_string :: "labels \<Rightarrow> gerr + string"
  ar_health_timeout :: nat

definition egressSelectorConfigMountPath :: string where
  "egressSelectorConfigMountPath = ''/etc/kubernetes/egress/configurations''"
definition konnectivityUDSMountPath :: string where "konnectivityUDSMountPath = ''/run/konnectivity''"
definition konnectivityUDSSocketName :: string where "konnectivityUDSSocketName = ''konnectivity-agent.sock''"
definition egressSelectorConfigurationFileName :: string where
  "egressSelectorConfigurationFileName = ''egress-selector-configuration.yaml''"
definition nginxConfigFileName :: string where "nginxConfigFileName = ''nginx.conf''"
definition nginxPort :: int where "nginxPort = 8090"
definition auditPolicyFileName :: string where "auditPolicyFileName = ''audit-policy.yaml''"
definition auditWebhookConfigFileName :: string where "auditWebhookConfigFileName = ''webhook-target.conf''"
definition authenticationConfigMountPath :: string where
  "authenticationConfigMountPath = ''/etc/kubernetes/authentication''"
definition authenticationConfigFileName :: string where "authenticationConfigFileName = ''config.yaml''"
definition componentControllerManager :: string where "componentControllerManager = ''controller-manager''"
definition componentScheduler :: string where "componentScheduler = ''scheduler''"
definition apiContainerPortName :: string where "apiContainerPortName = ''api''"
definition apiContainerPort :: int where "apiContainerPort = 6443"
definition konnectivityContainerPortName :: string where "konnectivityContainerPortName = ''konnectivity''"
definition konnectivityKubeconfigFileName :: string where
  "konnectivityKubeconfigFileName = ''konnectivity-server.conf''"

definition errWebhookSecretIsMissingKey :: gerr where
  "errWebhookSecretIsMissingKey = ESentinel ''webhook authentication secret is missing key''"

definition errRootCAConfigMapMissingCertKey :: gerr where
  "errRootCAConfigMapMissingCertKey = ESentinel ''management cluster root CA ConfigMap is missing ca.crt key''"

section \<open>Konnectivity\<close>

definition reconcileKonnectivityConfig :: "'e apiServerResourcesReconciler \<Rightarrow> Cluster \<Rightarrow> ('e, unit) act" where
  "reconcileKonnectivityConfig arr cluster =
     gbind get_hcp (\<lambda>h.
       case ar_yaml_egress arr (path_join konnectivityUDSMountPath konnectivityUDSSocketName) of
         Inl err \<Rightarrow> gfail (EWrap ''failed to marshal egress selector configuration'' err)
       | Inr egressYaml \<Rightarrow>
           ReconcileConfigmap arr h cluster ''konnectivity'' (Namespace h) (GetKonnectivityConfigMapName cluster)
             [(egressSelectorConfigurationFileName, egressYaml)])"

section \<open>The nginx configuration\<close>

text \<open>
  The template is a template of \<open>html/template\<close>: every action stands in HTML text, so its value is escaped for
  HTML. The replacement of the zero byte is the UTF-8 form of U+FFFD.
\<close>

definition html_escape_char :: "char \<Rightarrow> string" where
  "html_escape_char c =
     (if c = CHR 0x00 then [CHR 0xEF, CHR 0xBF, CHR 0xBD]
      else if c = CHR 0x22 then ''&#34;''
      else if c = CHR ''&'' then ''&amp;''
      else if c = CHR 0x27 then ''&#39;''
      else if c = CHR ''+'' then ''&#43;''
      else if c = CHR ''<'' then ''&lt;''
      else if c = CHR ''>'' then ''&gt;''
      else [c])"

definition html_escape :: "string \<Rightarrow> string" where
  "html_escape s = concat (map html_escape_char s)"

definition nl :: string where "nl = [CHR 0x0A]"

record webhookTarget =
  Url :: string
  Token :: string

definition nginx_header :: "string \<Rightarrow> string" where
  "nginx_header token =
     (if token = [] then []
      else nl @ ''      proxy_set_header Authorization '' @ [CHR 0x22] @ html_escape (''Bearer '' @ token)
        @ [CHR 0x22] @ '';'')"

definition nginx_mirror :: "nat \<Rightarrow> string" where
  "nginx_mirror index = nl @ ''      mirror /target_'' @ nat_dec index @ '';''"

definition nginx_location :: "nat \<times> webhookTarget \<Rightarrow> string" where
  "nginx_location = (\<lambda>(index, target).
     nl @ ''    location /target_'' @ nat_dec index @ '' {'' @ nl @ ''      internal;'' @ nl
     @ ''      proxy_pass '' @ html_escape (Url target) @ '';'' @ nginx_header (Token target) @ nl @ ''    }'')"

definition nginx_preamble :: string where
  "nginx_preamble =
     ''events {}'' @ nl @ nl @ ''pid /tmp/pid;'' @ nl @ nl @ ''http {'' @ nl @ ''  access_log off;'' @ nl
     @ ''  error_log /dev/stderr warn;'' @ nl @ ''  client_body_buffer_size 1000m;'' @ nl
     @ ''  client_max_body_size 0;'' @ nl @ ''  client_body_temp_path /tmp;'' @ nl @ ''  proxy_temp_path /tmp;'' @ nl
     @ ''  fastcgi_temp_path /tmp;'' @ nl @ ''  uwsgi_temp_path /tmp;'' @ nl @ ''  scgi_temp_path /tmp;'' @ nl
     @ ''  proxy_request_buffering off;'' @ nl @ ''  proxy_http_version 1.1;'' @ nl @ nl"

text \<open>The template applied to the port and the targets; without a target the execution fails.\<close>

definition nginx_config :: "int \<Rightarrow> webhookTarget list \<Rightarrow> gerr + string" where
  "nginx_config port targets =
     (case targets of
        [] \<Rightarrow> Inl (EWrap ''failed to template nginx config'' (ELib ''error calling index''))
      | first # others \<Rightarrow>
          (let indexed = zip [1..<length targets] others in
           Inr (nginx_preamble
             @ ''  server {'' @ nl @ ''    listen '' @ int_dec port @ '';'' @ nl @ nl
             @ ''    location / {'' @ nl
             @ ''      proxy_pass '' @ html_escape (Url first) @ '';'' @ nginx_header (Token first)
             @ concat (map (\<lambda>(index, _). nginx_mirror index) indexed) @ nl @ ''    }''
             @ concat (map nginx_location indexed) @ nl @ ''  }'' @ nl @ ''}'' @ nl)))"

section \<open>The audit configuration\<close>

definition getAuditWebhookAuthenticationToken :: "'e apiServerResourcesReconciler \<Rightarrow> AuditWebhookAuthentication
    \<Rightarrow> HostedControlPlane \<Rightarrow> ('e, string) act" where
  "getAuditWebhookAuthenticationToken arr authentication h =
     (let secretNamespace = deref (AuthSecretNamespace authentication) (Namespace h);
          secretName = AuthSecretName authentication;
          tokenKey = TokenKeyOrDefault (Some authentication)
      in gbind (gwrap (''failed to get audit webhook target authentication secret '' @ secretNamespace @ ''/'' @ secretName)
             (invoke (CSecretGet secretNamespace secretName)
                (k_secret_get (ManagementClusterClient arr) secretNamespace secretName)))
           (\<lambda>secret. case map_of (lsec_data secret) tokenKey of
              None \<Rightarrow> gfail (EWrap (''failed to get audit webhook target authentication token key '' @ tokenKey
                        @ '' in secret '' @ secretNamespace @ ''/'' @ secretName) errWebhookSecretIsMissingKey)
            | Some token \<Rightarrow> gret token))"

text \<open>
  The targets are the keys of a Go map from target to error: equal ones collapse, and so do all that failed, of
  which the last error stays.
\<close>

definition webhook_target :: "'e apiServerResourcesReconciler \<Rightarrow> HostedControlPlane \<Rightarrow> AuditWebhookTarget
    \<Rightarrow> ('e, webhookTarget \<times> gerr option) act" where
  "webhook_target arr h target =
     (case Authentication target of
        None \<Rightarrow> gret (\<lparr>Url = Server target, Token = []\<rparr>, None)
      | Some authentication \<Rightarrow>
          gbind (gtry (getAuditWebhookAuthenticationToken arr authentication h)) (\<lambda>token. case token of
             Inl err \<Rightarrow> gret (\<lparr>Url = [], Token = []\<rparr>, Some err)
           | Inr token \<Rightarrow> gret (\<lparr>Url = Server target, Token = token\<rparr>, None)))"

definition associate :: "('k \<times> 'v) list \<Rightarrow> ('k, 'v) gomap" where
  \<comment> \<open>\<open>lo.Associate\<close>\<close>
  "associate kvs = fold (\<lambda>(k, v). mput k v) kvs []"

definition nginx_target :: string where
  "nginx_target = ''http://'' @ JoinHostPort ''localhost'' (int_dec nginxPort)"

definition generateNginxConfig :: "'e apiServerResourcesReconciler \<Rightarrow> HostedControlPlane \<Rightarrow> AuditWebhook
    \<Rightarrow> ('e, string \<times> string) act" where
  "generateNginxConfig arr h webhook =
     gbind (gcollect (Targets webhook) (webhook_target arr h)) (\<lambda>kvs.
       let targets = associate kvs; errs = filter (\<lambda>e. e \<noteq> None) (lo_values targets) in
       if errs \<noteq> [] then gfail (EWrap ''failed to parse audit webhook target servers'' (EJoin (map the errs)))
       else (case nginx_config nginxPort (sort_key Url (lo_keys targets)) of
               Inl err \<Rightarrow> gfail err
             | Inr config \<Rightarrow> gret (config, nginx_target)))"

definition webhook_kubeconfig :: "string \<Rightarrow> string option \<Rightarrow> api_config" where
  "webhook_kubeconfig server token =
     \<lparr>kc_clusters = [(''webhook'', \<lparr>kcl_server = server, kcl_ca_data = [], kcl_ca_file = []\<rparr>)],
      kc_contexts = [(''webhook'', \<lparr>kcx_cluster = ''webhook'', kcx_user = ''kube-apiserver''\<rparr>)],
      kc_current = ''webhook'',
      kc_users = (case token of None \<Rightarrow> [] | Some t \<Rightarrow> [(''kube-apiserver'',
        \<lparr>kcu_client_certificate = [], kcu_client_key = [], kcu_token = t, kcu_token_file = []\<rparr>)])\<rparr>"

definition generateWebhookConfigs :: "'e apiServerResourcesReconciler \<Rightarrow> HostedControlPlane \<Rightarrow> AuditWebhook
    \<Rightarrow> ('e, string \<times> string) act" where
  "generateWebhookConfigs arr h webhook =
     (case Targets webhook of
        [] \<Rightarrow> gfail (EPanic ''index out of range'')
      | first # others \<Rightarrow>
          gbind (if others \<noteq> [] then generateNginxConfig arr h webhook else gret ([], Server first))
            (\<lambda>(nginxConfig, targetServer).
          gbind (case (others, Authentication first) of
                   ([], Some authentication) \<Rightarrow>
                     gbind (gwrap ''failed to get audit webhook authentication token''
                         (getAuditWebhookAuthenticationToken arr authentication h)) (\<lambda>token. gret (Some token))
                 | _ \<Rightarrow> gret None)
            (\<lambda>token. case ar_write arr (webhook_kubeconfig targetServer token) of
               Inl err \<Rightarrow> gfail (EWrap ''failed to marshal audit webhook kubeconfig'' err)
             | Inr kubeconfig \<Rightarrow> gret (kubeconfig, nginxConfig))))"

definition audit_data :: "'e apiServerResourcesReconciler \<Rightarrow> HostedControlPlane \<Rightarrow> Audit \<Rightarrow> ('e, labels) act" where
  "audit_data arr h auditConfig =
     gbind (case Webhook auditConfig of
              None \<Rightarrow> gret []
            | Some webhook \<Rightarrow>
                gbind (generateWebhookConfigs arr h webhook) (\<lambda>(kubeconfig, nginxConfig).
                  gret ((auditWebhookConfigFileName, kubeconfig)
                    # (if nginxConfig \<noteq> [] then [(nginxConfigFileName, nginxConfig)] else []))))
       (\<lambda>data. case ar_yaml_policy arr (Policy auditConfig) of
          Inl err \<Rightarrow> gfail (EWrap ''failed to marshal audit policy'' err)
        | Inr policyYaml \<Rightarrow> gret (mput auditPolicyFileName policyYaml data))"

definition reconcileAuditConfig :: "'e apiServerResourcesReconciler \<Rightarrow> Cluster \<Rightarrow> ('e, unit) act" where
  "reconcileAuditConfig arr cluster =
     gbind get_hcp (\<lambda>h.
     gbind (case APIServerAudit (APIServer (Deployment (Spec h))) of
              None \<Rightarrow> gret (True, [])
            | Some auditConfig \<Rightarrow> gbind (audit_data arr h auditConfig) (\<lambda>data. gret (False, data)))
       (\<lambda>(deleteConfig, data).
         ReconcileSecret arr (Some (GetOwnerReferenceApplyConfiguration h)) (GetControlPlaneLabels cluster ''audit'')
           (Namespace h) (GetAuditWebhookSecretName cluster) deleteConfig data ''Opaque''))"

section \<open>Authentication\<close>

definition management_provider :: "Cluster \<Rightarrow> string \<Rightarrow> OIDCProvider" where
  "management_provider cluster rootCA =
     \<lparr>CertificateAuthority = rootCA,
      Audiences = [LocalClusterOIDCEndpoint,
        ''workload-cluster:'' @ ClusterNamespace cluster @ ''/'' @ ClusterName cluster],
      ClaimValidationRules = [],
      ClaimMappings = \<lparr>Username = [CHR 0x22] @ ''management-cluster:'' @ [CHR 0x22] @ '' + claims.sub'', Groups = []\<rparr>\<rparr>"

definition jwt_of :: "string \<times> OIDCProvider \<Rightarrow> jwt_authenticator" where
  "jwt_of = (\<lambda>(issuerURL, provider).
     \<lparr>jwt_url = issuerURL, jwt_certificate_authority = CertificateAuthority provider,
      jwt_audiences = Audiences provider, jwt_match_any = (1 < length (Audiences provider)),
      jwt_rules = ClaimValidationRules provider, jwt_username = Username (ClaimMappings provider),
      jwt_groups = Groups (ClaimMappings provider)\<rparr>)"

definition authentication_config :: "nat \<Rightarrow> (string, OIDCProvider) gomap \<Rightarrow> authentication_configuration" where
  "authentication_config minorVersion providers =
     \<lparr>auth_api_version = ''apiserver.config.k8s.io/'' @ (if minorVersion < 35 then ''v1beta1'' else ''v1''),
      auth_jwt = sort_key jwt_url (map jwt_of providers)\<rparr>"

definition reconcileAuthenticationConfig :: "'e apiServerResourcesReconciler \<Rightarrow> Cluster \<Rightarrow> ('e, unit) act" where
  "reconcileAuthenticationConfig arr cluster =
     gbind get_hcp (\<lambda>h.
     gbind (gwrap ''failed to get management cluster root CA configMap''
         (invoke (CConfigMapGet (Namespace h) RootCACertConfigMapName)
            (k_configmap_get (ManagementClusterClient arr) (Namespace h) RootCACertConfigMapName))) (\<lambda>rootCAConfigMap.
     case map_of (lcm_data rootCAConfigMap) CACertName of
       None \<Rightarrow> gfail errRootCAConfigMapMissingCertKey
     | Some rootCA \<Rightarrow>
         (let providers = mput LocalClusterOIDCEndpoint (management_provider cluster rootCA) (OIDCProviders (Spec h)) in
          case GetMinorVersion (ar_parse_tolerant arr) h of
            Inl err \<Rightarrow> gfail (EWrap ''failed to get minor version'' err)
          | Inr minorVersion \<Rightarrow>
              (case ar_yaml_auth arr (authentication_config minorVersion providers) of
                 Inl err \<Rightarrow> gfail (EWrap ''failed to marshal authentication configuration'' err)
               | Inr configYAML \<Rightarrow>
                   ReconcileConfigmap arr h cluster ''authentication'' (Namespace h)
                     (GetAuthenticationConfigMapName cluster) [(authenticationConfigFileName, configYAML)]))))"

end
