(* ===== verification/ApiServerPods.thy ===== *)
theory ApiServerPods
  imports ApiServerConfig
begin

text \<open>
  The pods of the API server, the controller manager and the scheduler (second half of
  \<open>reconcilers/apiserverresources/apiserverresources.go\<close>): their volumes, arguments and containers.
\<close>

section \<open>Constants of kubeadm\<close>

definition DefaultCertificatesDir :: string where "DefaultCertificatesDir = ''/etc/kubernetes/pki''"
definition KubernetesDir :: string where "KubernetesDir = ''/etc/kubernetes''"
definition CAKeyName :: string where "CAKeyName = ''ca.key''"
definition FrontProxyCACertName :: string where "FrontProxyCACertName = ''front-proxy-ca.crt''"
definition FrontProxyClientCertName :: string where "FrontProxyClientCertName = ''front-proxy-client.crt''"
definition FrontProxyClientKeyName :: string where "FrontProxyClientKeyName = ''front-proxy-client.key''"
definition ServiceAccountPublicKeyName :: string where "ServiceAccountPublicKeyName = ''sa.pub''"
definition ServiceAccountPrivateKeyName :: string where "ServiceAccountPrivateKeyName = ''sa.key''"
definition APIServerCertName :: string where "APIServerCertName = ''apiserver.crt''"
definition APIServerKeyName :: string where "APIServerKeyName = ''apiserver.key''"
definition APIServerKubeletClientCertName :: string where
  "APIServerKubeletClientCertName = ''apiserver-kubelet-client.crt''"
definition APIServerKubeletClientKeyName :: string where
  "APIServerKubeletClientKeyName = ''apiserver-kubelet-client.key''"
definition EtcdCACertName :: string where "EtcdCACertName = ''etcd/ca.crt''"
definition APIServerEtcdClientCertName :: string where "APIServerEtcdClientCertName = ''apiserver-etcd-client.crt''"
definition APIServerEtcdClientKeyName :: string where "APIServerEtcdClientKeyName = ''apiserver-etcd-client.key''"
definition SchedulerKubeConfigFileName :: string where "SchedulerKubeConfigFileName = ''scheduler.conf''"
definition ControllerManagerKubeConfigFileName :: string where
  "ControllerManagerKubeConfigFileName = ''controller-manager.conf''"
definition caBundleCertName :: string where "caBundleCertName = ''bundle.crt''"
definition kubeconfigFlag :: string where "kubeconfigFlag = ''kubeconfig''"
definition shutdownDelayDurationFlag :: string where "shutdownDelayDurationFlag = ''shutdown-delay-duration''"
definition defaultShutdownDelayDuration :: string where "defaultShutdownDelayDuration = ''10s''"

definition key_path :: "string \<Rightarrow> string \<Rightarrow> key_to_path" where
  "key_path key path = \<lparr>ktp_key = key, ktp_path = path\<rparr>"

definition tls_items :: "string \<Rightarrow> string \<Rightarrow> key_to_path list" where
  "tls_items cert_path key_path' = [key_path TLSCertKey cert_path, key_path TLSPrivateKeyKey key_path']"

definition mount_at :: "string \<Rightarrow> string \<Rightarrow> bool option \<Rightarrow> volume_mount" where
  "mount_at name path read_only = \<lparr>vm_name = name, vm_path = path, vm_read_only = read_only, vm_sub_path = None\<rparr>"

definition tcp_port :: "string \<Rightarrow> int \<Rightarrow> container_port" where
  "tcp_port name port = \<lparr>cp_name = name, cp_port = port, cp_protocol = ''TCP''\<rparr>"

section \<open>Volumes\<close>

definition secret_volume :: "string \<Rightarrow> string \<Rightarrow> key_to_path list \<Rightarrow> volume" where
  "secret_volume name secret items = (volume0 name)\<lparr>vol_secret := Some \<lparr>vsr_name = secret, vsr_items = items\<rparr>\<rparr>"

definition configmap_volume :: "string \<Rightarrow> string \<Rightarrow> key_to_path list \<Rightarrow> volume" where
  "configmap_volume name configmap items =
     (volume0 name)\<lparr>vol_configmap := Some \<lparr>vsr_name = configmap, vsr_items = items\<rparr>\<rparr>"

definition memory_volume :: "string \<Rightarrow> volume" where
  "memory_volume name = (volume0 name)\<lparr>vol_empty_dir := Some ''Memory''\<rparr>"

definition createAuthenticationConfigVolume :: "Cluster \<Rightarrow> volume" where
  "createAuthenticationConfigVolume cluster =
     configmap_volume ''authentication-config'' (GetAuthenticationConfigMapName cluster) []"

definition createSchedulerKubeconfigVolume :: "Cluster \<Rightarrow> volume" where
  "createSchedulerKubeconfigVolume cluster =
     secret_volume ''kube-scheduler-kubeconfig'' (GetKubeconfigSecretName cluster ''kube-scheduler'')
       [key_path KubeconfigDataName SchedulerKubeConfigFileName]"

definition createControllerManagerKubeconfigVolume :: "Cluster \<Rightarrow> volume" where
  "createControllerManagerKubeconfigVolume cluster =
     secret_volume ''kube-controller-manager-kubeconfig'' (GetKubeconfigSecretName cluster ''kube-controller-manager'')
       [key_path KubeconfigDataName ControllerManagerKubeConfigFileName]"

definition createKonnectivityKubeconfigVolume :: "'e apiServerResourcesReconciler \<Rightarrow> Cluster \<Rightarrow> volume" where
  "createKonnectivityKubeconfigVolume arr cluster =
     secret_volume ''konnectivity-kubeconfig'' (GetKubeconfigSecretName cluster (konnectivityClientKubeconfigName arr))
       [key_path KubeconfigDataName konnectivityKubeconfigFileName]"

definition createKonnectivityUDSVolume :: volume where
  "createKonnectivityUDSVolume = memory_volume ''konnectivity-uds''"

definition createAuditWebhookConfigVolume :: "Cluster \<Rightarrow> volume" where
  "createAuditWebhookConfigVolume cluster =
     secret_volume ''audit-webhook-config'' (GetAuditWebhookSecretName cluster)
       [key_path nginxConfigFileName nginxConfigFileName]"

definition createAuditConfigVolume :: "Cluster \<Rightarrow> volume" where
  "createAuditConfigVolume cluster =
     secret_volume ''audit-config'' (GetAuditWebhookSecretName cluster)
       [key_path auditPolicyFileName auditPolicyFileName,
        key_path auditWebhookConfigFileName auditWebhookConfigFileName]"

definition createEgressSelectorConfigVolume :: "Cluster \<Rightarrow> volume" where
  "createEgressSelectorConfigVolume cluster =
     configmap_volume ''konnectivity-config'' (GetKonnectivityConfigMapName cluster) []"

definition createAPIServerCertificatesVolume :: "Cluster \<Rightarrow> volume" where
  "createAPIServerCertificatesVolume cluster =
     (volume0 ''api-server-certificates'')\<lparr>vol_projected := Some
       [PSecret (GetCABundleSecretName cluster) [key_path CACertName CACertName],
        PSecret (GetFrontProxyCABundleSecretName cluster) [key_path CACertName FrontProxyCACertName],
        PSecret (GetFrontProxySecretName cluster) (tls_items FrontProxyClientCertName FrontProxyClientKeyName),
        PSecret (GetServiceAccountSecretName cluster)
          (tls_items ServiceAccountPublicKeyName ServiceAccountPrivateKeyName),
        PSecret (GetAPIServerSecretName cluster) (tls_items APIServerCertName APIServerKeyName),
        PSecret (GetAPIServerKubeletClientSecretName cluster)
          (tls_items APIServerKubeletClientCertName APIServerKubeletClientKeyName),
        PSecret (GetEtcdCABundleSecretName cluster) [key_path CACertName EtcdCACertName],
        PSecret (GetEtcdAPIServerClientCertificateSecretName cluster)
          (tls_items APIServerEtcdClientCertName APIServerEtcdClientKeyName)]\<rparr>"

definition createKonnectivityCertificatesVolume :: "Cluster \<Rightarrow> volume" where
  "createKonnectivityCertificatesVolume cluster =
     secret_volume ''konnectivity-certificates'' (GetAPIServerSecretName cluster) []"

definition createControllerManagerCertificatesVolume :: "Cluster \<Rightarrow> volume" where
  "createControllerManagerCertificatesVolume cluster =
     (volume0 ''controller-manager-certificates'')\<lparr>vol_projected := Some
       [PSecret (GetCABundleSecretName cluster) [key_path CACertName caBundleCertName],
        PSecret (GetCASecretName cluster) (tls_items CACertName CAKeyName),
        PSecret (GetFrontProxyCABundleSecretName cluster) [key_path CACertName FrontProxyCACertName],
        PSecret (GetServiceAccountSecretName cluster) [key_path TLSPrivateKeyKey ServiceAccountPrivateKeyName]]\<rparr>"

text \<open>The mounts of the specification, in the order of the list that stands for the map.\<close>

definition additional_volume :: "string \<Rightarrow> Mount \<Rightarrow> volume" where
  "additional_volume name mount =
     (let volume = (volume0 name)\<lparr>vol_secret := Secret mount, vol_configmap := ConfigMap mount\<rparr> in
      if Secret mount = None \<and> ConfigMap mount = None then volume else volume\<lparr>vol_optional := Some False\<rparr>)"

definition extractAdditionalVolumesAndMounts :: "(string, Mount) gomap \<Rightarrow> volume list \<times> volume_mount list" where
  "extractAdditionalVolumesAndMounts mounts =
     (map (\<lambda>(name, mount). additional_volume name mount) mounts,
      map (\<lambda>(name, mount). mount_at name (Path mount) (Some True)) mounts)"

section \<open>Arguments\<close>

definition api_server_controller_args :: "'e apiServerResourcesReconciler \<Rightarrow> HostedControlPlane \<Rightarrow> Cluster \<Rightarrow> string
    \<Rightarrow> string \<Rightarrow> string \<Rightarrow> container_port \<Rightarrow> labels" where
  "api_server_controller_args arr h cluster certificatesDir egressSelectorConfigDir authenticationConfigDir apiPort =
     [(''authentication-config'', path_join authenticationConfigDir authenticationConfigFileName),
      (''external-hostname'', Host (ControlPlaneEndpoint cluster)),
      (''advertise-address'', LegacyIP (Status h)),
      (''allow-privileged'', bool_str True),
      (''authorization-mode'', ''Node,RBAC''),
      (''client-ca-file'', path_join certificatesDir CACertName),
      (''enable-bootstrap-token-auth'', bool_str True),
      (''endpoint-reconciler-type'', ''none''),
      (''egress-selector-config-file'', path_join egressSelectorConfigDir egressSelectorConfigurationFileName),
      (''kubelet-client-certificate'', path_join certificatesDir APIServerKubeletClientCertName),
      (''kubelet-client-key'', path_join certificatesDir APIServerKubeletClientKeyName),
      (''kubelet-preferred-address-types'', str_join '','' [''InternalIP'', ''InternalDNS'', ''Hostname'']),
      (''proxy-client-cert-file'', path_join certificatesDir FrontProxyClientCertName),
      (''proxy-client-key-file'', path_join certificatesDir FrontProxyClientKeyName),
      (''requestheader-allowed-names'', ''front-proxy-client''),
      (''requestheader-client-ca-file'', path_join certificatesDir FrontProxyCACertName),
      (''requestheader-extra-headers-prefix'', ''X-Remote-Extra-''),
      (''requestheader-group-headers'', ''X-Remote-Group''),
      (''requestheader-username-headers'', ''X-Remote-User''),
      (''secure-port'', int_dec (cp_port apiPort)),
      (''service-account-issuer'', ''https://kubernetes.default.svc''),
      (''service-account-jwks-uri'',
        ''https://'' @ ar_endpoint_string arr (ControlPlaneEndpoint cluster) @ ''/openid/v1/jwks''),
      (''service-account-key-file'', path_join certificatesDir ServiceAccountPublicKeyName),
      (''service-account-signing-key-file'', path_join certificatesDir ServiceAccountPrivateKeyName),
      (''service-cluster-ip-range'', net_string (ar_string6 arr) (serviceCIDR arr)),
      (''tls-cert-file'', path_join certificatesDir APIServerCertName),
      (''tls-private-key-file'', path_join certificatesDir APIServerKeyName),
      (''etcd-servers'',
        ''https://'' @ JoinHostPort (GetEtcdClientServiceDNSName cluster) (int_dec (arEtcdServerPort arr))),
      (''etcd-cafile'', path_join certificatesDir EtcdCACertName),
      (''etcd-certfile'', path_join certificatesDir APIServerEtcdClientCertName),
      (''etcd-keyfile'', path_join certificatesDir APIServerEtcdClientKeyName)]"

definition audit_args :: "Audit option \<Rightarrow> string option \<Rightarrow> labels" where
  "audit_args auditConfig auditConfigDir =
     (case (auditConfig, auditConfigDir) of
        (Some audit, Some dir) \<Rightarrow>
          (''audit-policy-file'', path_join dir auditPolicyFileName) #
          (if Webhook audit \<noteq> None
           then [(''audit-webhook-mode'', ModeOrDefault (Some audit)),
                 (''audit-webhook-config-file'', path_join dir auditWebhookConfigFileName)]
           else [(''audit-log-mode'', ModeOrDefault (Some audit)), (''audit-log-path'', ''-'')])
      | _ \<Rightarrow> [])"

definition buildAPIServerArgs :: "'e apiServerResourcesReconciler \<Rightarrow> HostedControlPlane \<Rightarrow> Cluster \<Rightarrow> volume_mount
    \<Rightarrow> volume_mount \<Rightarrow> volume_mount option \<Rightarrow> volume_mount \<Rightarrow> container_port \<Rightarrow> ('e, string list) act" where
  "buildAPIServerArgs arr h cluster certificatesMount egressMount auditMount authenticationMount apiPort =
     (let apiServer = APIServer (Deployment (Spec h));
          args = api_server_controller_args arr h cluster (vm_path certificatesMount) (vm_path egressMount)
              (vm_path authenticationMount) apiPort
            @ audit_args (APIServerAudit apiServer) (map_option vm_path auditMount);
          args = (if lo_has_key (Args apiServer) shutdownDelayDurationFlag then args
                  else mput shutdownDelayDurationFlag defaultShutdownDelayDuration args)
      in ArgsToSlice (Args apiServer) args [])"

definition buildKonnectivityServerArgs :: "'e apiServerResourcesReconciler \<Rightarrow> HostedControlPlane \<Rightarrow> volume_mount
    \<Rightarrow> volume_mount \<Rightarrow> volume_mount \<Rightarrow> container_port \<Rightarrow> container_port \<Rightarrow> container_port
    \<Rightarrow> ('e, string list) act" where
  "buildKonnectivityServerArgs arr h certificatesMount kubeconfigMount udsMount konnectivityPort adminPort healthPort =
     ArgsToSlice (Args (Konnectivity (APIServer (Deployment (Spec h)))))
       [(''agent-namespace'', konnectivityNamespace arr),
        (''agent-service-account'', konnectivityServiceAccount arr),
        (''authentication-audience'', arKonnectivityServerAudience arr),
        (''cluster-cert'', path_join (vm_path certificatesMount) TLSCertKey),
        (''cluster-key'', path_join (vm_path certificatesMount) TLSPrivateKeyKey),
        (kubeconfigFlag, path_join (vm_path kubeconfigMount) konnectivityKubeconfigFileName),
        (''enable-lease-controller'', bool_str True),
        (''admin-port'', int_dec (cp_port adminPort)),
        (''agent-port'', int_dec (cp_port konnectivityPort)),
        (''health-port'', int_dec (cp_port healthPort)),
        (''server-port'', ''0''),
        (''uds-name'', path_join (vm_path udsMount) konnectivityUDSSocketName),
        (''mode'', ''grpc''),
        (''server-count'', int_dec (ReplicasOrDefault (Some (Spec h))))] []"

definition buildSchedulerArgs :: "HostedControlPlane \<Rightarrow> volume_mount \<Rightarrow> ('e, string list) act" where
  "buildSchedulerArgs h kubeconfigMount =
     (let kubeconfigPath = path_join (vm_path kubeconfigMount) SchedulerKubeConfigFileName;
          scheduler = Scheduler (Deployment (Spec h));
          leaderElect = (1 < ReplicaCount (Some scheduler) 1)
      in ArgsToSlice (Args scheduler)
        [(''authentication-kubeconfig'', kubeconfigPath), (''authorization-kubeconfig'', kubeconfigPath),
         (kubeconfigFlag, kubeconfigPath), (''bind-address'', ''0.0.0.0''), (''leader-elect'', bool_str leaderElect)] [])"

definition buildControllerManagerArgs :: "'e apiServerResourcesReconciler \<Rightarrow> HostedControlPlane \<Rightarrow> Cluster
    \<Rightarrow> volume_mount \<Rightarrow> volume_mount \<Rightarrow> ('e, string list) act" where
  "buildControllerManagerArgs arr h cluster certificatesMount kubeconfigMount =
     (let kubeconfigPath = path_join (vm_path kubeconfigMount) ControllerManagerKubeConfigFileName;
          certificatesDir = vm_path certificatesMount;
          manager = ControllerManager (Deployment (Spec h));
          leaderElect = (1 < ReplicaCount (Some manager) 1)
      in ArgsToSlice (Args manager)
        [(''cluster-cidr'', net_string (ar_string6 arr) (podCIDR arr)),
         (''authentication-kubeconfig'', kubeconfigPath),
         (''authorization-kubeconfig'', kubeconfigPath),
         (kubeconfigFlag, kubeconfigPath),
         (''bind-address'', ''0.0.0.0''),
         (''leader-elect'', bool_str leaderElect),
         (''cluster-name'', ClusterName cluster),
         (''client-ca-file'', path_join certificatesDir CACertName),
         (''cluster-signing-cert-file'', path_join certificatesDir CACertName),
         (''cluster-signing-key-file'', path_join certificatesDir CAKeyName),
         (''controllers'', str_join '','' [''*'', ''bootstrap-signer-controller'', ''token-cleaner-controller'']),
         (''requestheader-client-ca-file'', path_join certificatesDir FrontProxyCACertName),
         (''root-ca-file'', path_join certificatesDir caBundleCertName),
         (''service-account-private-key-file'', path_join certificatesDir ServiceAccountPrivateKeyName),
         (''use-service-account-credentials'', bool_str True)] [])"

section \<open>Containers\<close>

definition with_probes :: "nat \<Rightarrow> container_port \<Rightarrow> string \<Rightarrow> string \<Rightarrow> string \<Rightarrow> container \<Rightarrow> container" where
  "with_probes health_timeout port ready live scheme c =
     c\<lparr>c_startup_probe := Some (CreateStartupProbe health_timeout port ready scheme),
       c_readiness_probe := Some (CreateReadinessProbe port ready scheme),
       c_liveness_probe := Some (CreateLivenessProbe port live scheme)\<rparr>"

definition createKonnectivityContainer :: "'e apiServerResourcesReconciler \<Rightarrow> HostedControlPlane \<Rightarrow> volume \<Rightarrow> volume
    \<Rightarrow> volume_mount \<Rightarrow> ('e, container) act" where
  "createKonnectivityContainer arr h certificatesVolume kubeconfigVolume udsMount =
     (let konnectivityPort = tcp_port konnectivityContainerPortName 8132;
          adminPort = tcp_port ''k-admin'' 8133;
          healthPort = tcp_port ''k-health'' 8134;
          certificatesMount = mount_at (vol_name certificatesVolume) DefaultCertificatesDir (Some True);
          kubeconfigMount = mount_at (vol_name kubeconfigVolume) KubernetesDir (Some True);
          konnectivity = Konnectivity (APIServer (Deployment (Spec h)))
      in case GetMinorVersion (ar_parse_tolerant arr) h of
           Inl err \<Rightarrow> gfail (EWrap ''failed to get minor version of hosted control plane'' err)
         | Inr minorVersion \<Rightarrow>
             gbind (buildKonnectivityServerArgs arr h certificatesMount kubeconfigMount udsMount konnectivityPort
                 adminPort healthPort) (\<lambda>args.
               gret (with_probes (ar_health_timeout arr) healthPort ''/healthz'' ''/healthz'' ''HTTP''
                 (container0\<lparr>c_name := ''konnectivity-server'',
                   c_image := ResolveKonnectivityImage (Image konnectivity) ''proxy-server'' minorVersion,
                   c_pull_policy := ImagePullPolicyOrDefault (Some konnectivity),
                   c_args := args,
                   c_resources := ResourceRequirementsToResourcesApplyConfiguration (Resources konnectivity),
                   c_ports := [konnectivityPort, adminPort, healthPort],
                   c_volume_mounts := [certificatesMount, kubeconfigMount, udsMount]\<rparr>))))"

definition createAuditWebhookSidecarContainer :: "AuditWebhook \<Rightarrow> volume \<Rightarrow> volume \<Rightarrow> ('e, container) act" where
  "createAuditWebhookSidecarContainer webhook webhookConfigVolume tmpVolume =
     (let configMount = \<lparr>vm_name = vol_name webhookConfigVolume,
            vm_path = path_join ''/etc/nginx'' nginxConfigFileName, vm_read_only = None,
            vm_sub_path = Some nginxConfigFileName\<rparr>
      in gbind (ArgsToSlice (Args webhook) [(''g'', ''daemon off;''), (''c'', vm_path configMount)]
             [\<lparr>Prefix = Some ''-'', Delimiter = Some '' ''\<rparr>]) (\<lambda>args.
           gret (container0\<lparr>c_name := ''audit-webhook'',
             c_image := ResolveNginxImage (Image webhook),
             c_pull_policy := ImagePullPolicyOrDefault (Some webhook),
             c_command := [''nginx''],
             c_args := args,
             c_resources := ResourceRequirementsToResourcesApplyConfiguration (Resources webhook),
             c_restart_policy := Some ''Always'',
             c_volume_mounts := [configMount, mount_at (vol_name tmpVolume) ''/tmp'' None]\<rparr>)))"

definition createAPIServerContainer :: "'e apiServerResourcesReconciler \<Rightarrow> HostedControlPlane \<Rightarrow> Cluster \<Rightarrow> volume
    \<Rightarrow> volume \<Rightarrow> volume option \<Rightarrow> volume \<Rightarrow> volume_mount \<Rightarrow> volume_mount list \<Rightarrow> ('e, container) act" where
  "createAPIServerContainer arr h cluster certificatesVolume egressVolume auditVolume authenticationVolume udsMount
      additionalMounts =
     (let apiPort = tcp_port apiContainerPortName apiContainerPort;
          certificatesMount = mount_at (vol_name certificatesVolume) DefaultCertificatesDir (Some True);
          egressMount = mount_at (vol_name egressVolume) egressSelectorConfigMountPath (Some True);
          authenticationMount = mount_at (vol_name authenticationVolume) authenticationConfigMountPath (Some True);
          auditMount = map_option (\<lambda>v. mount_at (vol_name v) ''/etc/kubernetes/audit'' (Some True)) auditVolume;
          apiServer = APIServer (Deployment (Spec h))
      in gbind (buildAPIServerArgs arr h cluster certificatesMount egressMount auditMount authenticationMount apiPort)
           (\<lambda>args. gret (with_probes (ar_health_timeout arr) apiPort ''/readyz'' ''/livez'' ''HTTPS''
             (container0\<lparr>c_name := ''kube-apiserver'',
               c_image := ResolveKubernetesComponentImage (Image apiServer) ''kube-apiserver'' (Version (Spec h)),
               c_pull_policy := ImagePullPolicyOrDefault (Some apiServer),
               c_command := [''kube-apiserver''],
               c_args := args,
               c_resources := ResourceRequirementsToResourcesApplyConfiguration (Resources apiServer),
               c_ports := [apiPort],
               c_volume_mounts := [certificatesMount, egressMount, udsMount, authenticationMount]
                 @ (case auditMount of None \<Rightarrow> [] | Some m \<Rightarrow> [m]) @ additionalMounts\<rparr>))))"

definition createProbePort :: "int \<Rightarrow> container_port" where
  "createProbePort port = tcp_port ''probe-port'' port"

definition createSchedulerContainer :: "'e apiServerResourcesReconciler \<Rightarrow> HostedControlPlane \<Rightarrow> volume
    \<Rightarrow> ('e, container) act" where
  "createSchedulerContainer arr h kubeconfigVolume =
     (let kubeconfigMount = mount_at (vol_name kubeconfigVolume) KubernetesDir None;
          probePort = createProbePort 10259;
          scheduler = Scheduler (Deployment (Spec h))
      in gbind (buildSchedulerArgs h kubeconfigMount) (\<lambda>args.
           gret (with_probes (ar_health_timeout arr) probePort ''/readyz'' ''/livez'' ''HTTPS''
             (container0\<lparr>c_name := ''kube-scheduler'',
               c_image := ResolveKubernetesComponentImage (Image scheduler) ''kube-scheduler'' (Version (Spec h)),
               c_pull_policy := ImagePullPolicyOrDefault (Some scheduler),
               c_command := [''kube-scheduler''],
               c_args := args,
               c_ports := [probePort],
               c_resources := ResourceRequirementsToResourcesApplyConfiguration (Resources scheduler),
               c_volume_mounts := [kubeconfigMount]\<rparr>))))"

definition createControllerManagerContainer :: "'e apiServerResourcesReconciler \<Rightarrow> HostedControlPlane \<Rightarrow> Cluster
    \<Rightarrow> volume_mount \<Rightarrow> volume \<Rightarrow> ('e, container) act" where
  "createControllerManagerContainer arr h cluster certificatesMount kubeconfigVolume =
     (let kubeconfigMount = mount_at (vol_name kubeconfigVolume) KubernetesDir None;
          probePort = createProbePort 10257;
          manager = ControllerManager (Deployment (Spec h))
      in gbind (buildControllerManagerArgs arr h cluster certificatesMount kubeconfigMount) (\<lambda>args.
           gret (with_probes (ar_health_timeout arr) probePort ''/healthz'' ''/healthz'' ''HTTPS''
             (container0\<lparr>c_name := ''kube-controller-manager'',
               c_image := ResolveKubernetesComponentImage (Image manager) ''kube-controller-manager'' (Version (Spec h)),
               c_pull_policy := ImagePullPolicyOrDefault (Some manager),
               c_command := [''kube-controller-manager''],
               c_args := args,
               c_resources := ResourceRequirementsToResourcesApplyConfiguration (Resources manager),
               c_ports := [probePort],
               c_volume_mounts := [certificatesMount, kubeconfigMount]\<rparr>))))"

end
