(* ===== verification/ApiServer.thy ===== *)
theory ApiServer
  imports ApiServerPods
begin

text \<open>
  The API server reconciler (\<open>reconcilers/apiserverresources/apiserverresources.go\<close>): its services, the three
  deployments, the network policy of the API server with the ports of the audit webhooks, and the status it
  writes.
\<close>

section \<open>Construction\<close>

definition NewApiServerResourcesReconciler :: "'e core_api \<Rightarrow> 'e cilium_api option \<Rightarrow> string \<Rightarrow> ip_net \<Rightarrow> ip_net
    \<Rightarrow> string \<Rightarrow> int \<Rightarrow> string \<Rightarrow> string \<Rightarrow> int \<Rightarrow> string \<Rightarrow> string \<Rightarrow> int \<Rightarrow> string \<Rightarrow> string
    \<Rightarrow> 'e apiServerResourcesReconciler \<Rightarrow> 'e apiServerResourcesReconciler" where
  \<comment> \<open>the last argument holds the parameters of the model\<close>
  "NewApiServerResourcesReconciler managementClusterClient ciliumClient worldComponent service_cidr pod_cidr
      apiServerComponentLabel apiServerPort legacyPortName etcdComponentLabel etcdPort namespace serviceAccount
      konnectivityPort kubeconfigName audience params =
     params\<lparr>ManagementClusterClient := managementClusterClient, CiliumClient := ciliumClient,
       WorldComponent := worldComponent, ControllerNamespace := [], ControllerComponent := [],
       arWorldComponent := worldComponent, serviceCIDR := service_cidr, podCIDR := pod_cidr,
       arApiServerServicePort := apiServerPort, apiServerServiceLegacyPortName := legacyPortName,
       arEtcdComponentLabel := etcdComponentLabel, arEtcdServerPort := etcdPort, konnectivityNamespace := namespace,
       konnectivityServiceAccount := serviceAccount, konnectivityServicePort := konnectivityPort,
       konnectivityClientKubeconfigName := kubeconfigName, arKonnectivityServerAudience := audience,
       componentAPIServer := apiServerComponentLabel\<rparr>"

section \<open>Services\<close>

definition konnectivity_service_port :: "'e apiServerResourcesReconciler \<Rightarrow> service_port" where
  "konnectivity_service_port arr =
     \<lparr>sp_name = ''konnectivity'', sp_port = konnectivityServicePort arr,
      sp_target_port = konnectivityContainerPortName, sp_protocol = ''TCP''\<rparr>"

definition ReconcileApiServerService :: "'e apiServerResourcesReconciler \<Rightarrow> Cluster \<Rightarrow> ('e, string) act" where
  "ReconcileApiServerService arr cluster =
     (let apiPort = \<lparr>sp_name = ''api'', sp_port = arApiServerServicePort arr, sp_target_port = apiContainerPortName,
            sp_protocol = ''TCP''\<rparr>;
          legacyAPIPort = \<lparr>sp_name = apiServerServiceLegacyPortName arr, sp_port = 6443,
            sp_target_port = sp_target_port apiPort, sp_protocol = sp_protocol apiPort\<rparr>
      in
      gbind get_hcp (\<lambda>h.
      gbind (ReconcileService arr h cluster (Namespace h) (GetKonnectivityServiceName cluster) ''ClusterIP'' True
          (componentAPIServer arr) [konnectivity_service_port arr]) (\<lambda>(_, ready).
      if \<not> ready then gret ''Konnectivity Service is not ready'' else
      gbind (ReconcileService arr h cluster (Namespace h) (GetServiceName cluster) ''LoadBalancer'' False
          (componentAPIServer arr) [apiPort, legacyAPIPort, konnectivity_service_port arr]) (\<lambda>(service, ready).
      if \<not> ready then gret ''Api Server Service is waiting on its IP'' else
      (case ls_lb_ingress service of
         [] \<Rightarrow> gfail (EPanic ''index out of range'')
       | ip # _ \<Rightarrow> gseq (mod_status (\<lambda>s. s\<lparr>LegacyIP := ip\<rparr>)) (gret []))))))"

section \<open>The ports of the audit webhooks\<close>

definition parse_port :: "string \<Rightarrow> int option" where
  \<comment> \<open>\<open>strconv.ParseInt(s, 10, 32)\<close> for the port of a URL, which has digits only\<close>
  "parse_port s =
     (if s = [] \<or> \<not> list_all is_digit s \<or> 2 ^ 31 \<le> dec_value s 0 then None else Some (int (dec_value s 0)))"

definition convertAuditWebhookTarget :: "'e apiServerResourcesReconciler \<Rightarrow> AuditWebhookTarget
    \<Rightarrow> gerr + (string \<times> int)" where
  \<comment> \<open>the host and the port of the URL\<close>
  "convertAuditWebhookTarget arr target =
     (case ar_parse_url arr (Server target) of
        Inl err \<Rightarrow> Inl (EWrap (''failed to parse audit webhook target server '' @ Server target) err)
      | Inr (host, portString) \<Rightarrow>
          if portString = [] then Inr (host, 443)
          else (case parse_port portString of
                  None \<Rightarrow> Inl (EWrap (''failed to parse audit webhook target server port '' @ portString)
                            (ELib ''strconv.ParseInt''))
                | Some port \<Rightarrow> Inr (host, port)))"

definition is_dns_target :: "string \<Rightarrow> EgressNetworkPolicyTarget \<Rightarrow> bool" where
  "is_dns_target host target =
     (case target of EgDNS (DNSNetworkPolicyTarget hostname) \<Rightarrow> hostname = host | _ \<Rightarrow> False)"

definition add_webhook_port :: "(string \<times> int) \<Rightarrow> (int, EgressNetworkPolicyTarget list) gomap
    \<Rightarrow> (int, EgressNetworkPolicyTarget list) gomap" where
  "add_webhook_port = (\<lambda>(host, port) egressPolicyTargets.
     (case map_of egressPolicyTargets port of
        None \<Rightarrow> mput port [EgDNS (DNSNetworkPolicyTarget host)] egressPolicyTargets
      | Some targets \<Rightarrow>
          if \<not> list_ex (is_dns_target host) targets
          then mput port (targets @ [EgDNS (DNSNetworkPolicyTarget host)]) egressPolicyTargets
          else egressPolicyTargets))"

text \<open>
  The host and port pairs are keys of a Go map by their address, so none collapse; the failed ones share the nil
  key, under which the last error stays.
\<close>

definition setAuditWebhookPorts :: "'e apiServerResourcesReconciler \<Rightarrow> AuditWebhook
    \<Rightarrow> (int, EgressNetworkPolicyTarget list) gomap \<Rightarrow> gerr + (int, EgressNetworkPolicyTarget list) gomap" where
  "setAuditWebhookPorts arr webhook egressPolicyTargets =
     (let results = map (convertAuditWebhookTarget arr) (Targets webhook);
          errs = List.map_filter (\<lambda>r. case r of Inl err \<Rightarrow> Some err | Inr _ \<Rightarrow> None) results;
          hostPorts = List.map_filter (\<lambda>r. case r of Inl _ \<Rightarrow> None | Inr hp \<Rightarrow> Some hp) results
      in if errs \<noteq> [] then Inl (EWrap ''failed to parse audit webhook target servers'' (EJoin [last errs]))
         else Inr (fold add_webhook_port hostPorts egressPolicyTargets))"

section \<open>The deployments\<close>

definition api_server_egress :: "'e apiServerResourcesReconciler \<Rightarrow> Cluster
    \<Rightarrow> (int, EgressNetworkPolicyTarget list) gomap" where
  "api_server_egress arr cluster =
     mput 6443 [EgInCluster]
     (mput 443 [EgWorld]
       [(arEtcdServerPort arr, [EgComponent (ComponentNetworkPolicyTarget cluster (arEtcdComponentLabel arr))])])"

definition tmp_volume :: volume where
  "tmp_volume = memory_volume ''tmp''"

definition audit_volumes :: "Cluster \<Rightarrow> Audit option \<Rightarrow> volume list" where
  "audit_volumes cluster auditConfig =
     (case auditConfig of
        None \<Rightarrow> []
      | Some _ \<Rightarrow> [createAuditWebhookConfigVolume cluster, createAuditConfigVolume cluster, tmp_volume])"

definition api_server_volumes :: "'e apiServerResourcesReconciler \<Rightarrow> HostedControlPlane \<Rightarrow> Cluster \<Rightarrow> volume list" where
  "api_server_volumes arr h cluster =
     (let apiServer = APIServer (Deployment (Spec h)) in
      [createAPIServerCertificatesVolume cluster, createEgressSelectorConfigVolume cluster,
       createKonnectivityUDSVolume, createKonnectivityCertificatesVolume cluster,
       createKonnectivityKubeconfigVolume arr cluster, createAuthenticationConfigVolume cluster]
      @ audit_volumes cluster (APIServerAudit apiServer)
      @ fst (extractAdditionalVolumesAndMounts (Mounts apiServer)))"

definition audit_init_containers :: "Cluster \<Rightarrow> Audit option \<Rightarrow> ('e, (container \<times> ContainerOptions) list) act" where
  "audit_init_containers cluster auditConfig =
     (case auditConfig of
        None \<Rightarrow> gret []
      | Some audit \<Rightarrow>
          (case Webhook audit of
             None \<Rightarrow> gret []
           | Some webhook \<Rightarrow>
               if 1 < length (Targets webhook)
               then gbind (createAuditWebhookSidecarContainer webhook (createAuditWebhookConfigVolume cluster) tmp_volume)
                      (\<lambda>c. gret [(c, ContainerOptions0)])
               else gret []))"

definition audit_egress :: "'e apiServerResourcesReconciler \<Rightarrow> Audit option
    \<Rightarrow> (int, EgressNetworkPolicyTarget list) gomap \<Rightarrow> gerr + (int, EgressNetworkPolicyTarget list) gomap" where
  "audit_egress arr auditConfig egressPolicyTargets =
     (case auditConfig of
        None \<Rightarrow> Inr egressPolicyTargets
      | Some audit \<Rightarrow>
          (case Webhook audit of
             None \<Rightarrow> Inr egressPolicyTargets
           | Some webhook \<Rightarrow> setAuditWebhookPorts arr webhook egressPolicyTargets))"

text \<open>The status that is written once the deployment is ready.\<close>

definition record_api_server :: "'e apiServerResourcesReconciler \<Rightarrow> HostedControlPlane \<Rightarrow> live_workload option
    \<Rightarrow> ('e, unit) act" where
  "record_api_server arr h deployment =
     (case deployment of
        None \<Rightarrow> gfail (EPanic ''nil dereference of the deployment'')
      | Some deployment \<Rightarrow>
          (case ar_selector_string arr (lw_selector deployment) of
             Inl err \<Rightarrow> gfail (EWrap ''failed to convert label selector'' err)
           | Inr selector \<Rightarrow>
               mod_status (\<lambda>s. s\<lparr>StatusSelector := selector, StatusReplicas := ReplicasOrDefault (Some (Spec h)),
                 ReadyReplicas := lw_ready_replicas deployment,
                 AvailableReplicas := lw_available_replicas deployment,
                 UpToDateReplicas := lw_updated_replicas deployment\<rparr>)))"

definition reconcileAPIServerDeployment :: "'e apiServerResourcesReconciler \<Rightarrow> Cluster \<Rightarrow> ('e, bool) act" where
  "reconcileAPIServerDeployment arr cluster =
     gbind get_hcp (\<lambda>h.
       let apiServer = APIServer (Deployment (Spec h));
           auditConfig = APIServerAudit apiServer;
           udsMount = mount_at (vol_name createKonnectivityUDSVolume) konnectivityUDSMountPath None
       in
       gbind (createAPIServerContainer arr h cluster (createAPIServerCertificatesVolume cluster)
           (createEgressSelectorConfigVolume cluster)
           (map_option (\<lambda>_. createAuditConfigVolume cluster) auditConfig)
           (createAuthenticationConfigVolume cluster) udsMount
           (snd (extractAdditionalVolumesAndMounts (Mounts apiServer)))) (\<lambda>apiServerContainer.
       gbind (gwrap ''failed to create konnectivity container''
           (createKonnectivityContainer arr h (createKonnectivityCertificatesVolume cluster)
              (createKonnectivityKubeconfigVolume arr cluster) udsMount)) (\<lambda>konnectivityContainer.
       gbind (audit_init_containers cluster auditConfig) (\<lambda>initContainers.
       case audit_egress arr auditConfig (api_server_egress arr cluster) of
         Inl err \<Rightarrow> gfail err
       | Inr egressPolicyTargets \<Rightarrow>
           gbind (ReconcileDeployment arr h cluster (ReplicasOrDefault (Some (Spec h)))
               (PriorityClassName apiServer) (componentAPIServer arr) None (Some egressPolicyTargets)
               (arEtcdComponentLabel arr) initContainers
               [(apiServerContainer, ContainerOptions0\<lparr>co_capabilities := [''NET_BIND_SERVICE'']\<rparr>),
                (konnectivityContainer, ContainerOptions0)]
               (api_server_volumes arr h cluster)) (\<lambda>(deployment, ready).
           if \<not> ready then gret False
           else gseq (record_api_server arr h deployment) (gret True))))))"

definition to_api_server :: "'e apiServerResourcesReconciler \<Rightarrow> Cluster \<Rightarrow> (int, EgressNetworkPolicyTarget list) gomap" where
  "to_api_server arr cluster =
     [(apiContainerPort, [EgComponent (ComponentNetworkPolicyTarget cluster (componentAPIServer arr))])]"

definition reconcileControllerManagerDeployment :: "'e apiServerResourcesReconciler \<Rightarrow> Cluster \<Rightarrow> ('e, bool) act" where
  "reconcileControllerManagerDeployment arr cluster =
     gbind get_hcp (\<lambda>h.
       let certificatesVolume = createControllerManagerCertificatesVolume cluster;
           kubeconfigVolume = createControllerManagerKubeconfigVolume cluster;
           certificatesMount = mount_at (vol_name certificatesVolume) DefaultCertificatesDir (Some True);
           manager = ControllerManager (Deployment (Spec h))
       in gbind (createControllerManagerContainer arr h cluster certificatesMount kubeconfigVolume) (\<lambda>container.
          gbind (ReconcileDeployment arr h cluster (ReplicaCount (Some manager) 1) (PriorityClassName manager)
              componentControllerManager (Some []) (Some (to_api_server arr cluster)) (componentAPIServer arr) []
              [(container, ContainerOptions0)] [certificatesVolume, kubeconfigVolume])
            (\<lambda>(_, ready). gret ready)))"

definition reconcileSchedulerDeployment :: "'e apiServerResourcesReconciler \<Rightarrow> Cluster \<Rightarrow> ('e, bool) act" where
  "reconcileSchedulerDeployment arr cluster =
     gbind get_hcp (\<lambda>h.
       let kubeconfigVolume = createSchedulerKubeconfigVolume cluster;
           scheduler = Scheduler (Deployment (Spec h))
       in gbind (createSchedulerContainer arr h kubeconfigVolume) (\<lambda>container.
          gbind (ReconcileDeployment arr h cluster (ReplicaCount (Some scheduler) 1) (PriorityClassName scheduler)
              componentScheduler (Some []) (Some (to_api_server arr cluster)) (componentAPIServer arr) []
              [(container, ContainerOptions0)] [kubeconfigVolume])
            (\<lambda>(_, ready). gret ready)))"

section \<open>The reconciler\<close>

definition ReconcileApiServerDeployments :: "'e apiServerResourcesReconciler \<Rightarrow> Cluster \<Rightarrow> ('e, string) act" where
  "ReconcileApiServerDeployments arr cluster =
     gseq (gwrap ''failed to reconcile konnectivity config'' (reconcileKonnectivityConfig arr cluster))
     (gseq (gwrap ''failed to reconcile audit config'' (reconcileAuditConfig arr cluster))
     (gseq (gwrap ''failed to reconcile authentication config'' (reconcileAuthenticationConfig arr cluster))
     (gbind (gwrap ''failed to reconcile API server deployment'' (reconcileAPIServerDeployment arr cluster)) (\<lambda>ready.
     if \<not> ready then gret ''Api Server Deployment not ready'' else
     gbind (gwrap ''failed to reconcile controller manager deployment''
         (reconcileControllerManagerDeployment arr cluster)) (\<lambda>managerReady.
     gbind (gwrap ''failed to reconcile scheduler deployment'' (reconcileSchedulerDeployment arr cluster))
       (\<lambda>schedulerReady.
     let notReadyReasons = (if managerReady then [] else [''Controller Manager Deployment not ready''])
           @ (if schedulerReady then [] else [''Scheduler Deployment not ready''])
     in if notReadyReasons \<noteq> [] then gret (str_join '','' notReadyReasons)
        else gbind get_hcp (\<lambda>h. gseq (mod_status (\<lambda>s. s\<lparr>StatusVersion := Version (Spec h)\<rparr>)) (gret []))))))))"

end
