(* ===== verification/Certificates.thy ===== *)
theory Certificates
  imports Management
begin

text \<open>
  The certificates of a control plane (\<open>reconcilers/certificates/reconciler.go\<close>): the self-signed root issuer,
  the three certificate authorities with their issuers, the bundles that keep a rotated authority trusted, and the
  client and server certificates, with the removal of those that are no longer wanted. cert-manager and the
  management cluster are reached through their clients; the IP of the kubernetes service is its text.
\<close>

section \<open>State\<close>

record 'e certificateReconciler =
  certManagerClient :: "'e cert_api"
  kubernetesClient :: "'e core_api"
  kubernetesServiceIP :: string
  rootCACertificateDuration :: duration
  caCertificateDuration :: duration
  certificateDuration :: duration
  certificateRenewBefore :: int
  certKonnectivityServerAudience :: string

definition NewCertificateReconciler :: "'e cert_api \<Rightarrow> 'e core_api \<Rightarrow> string \<Rightarrow> duration \<Rightarrow> duration \<Rightarrow> duration
    \<Rightarrow> string \<Rightarrow> 'e certificateReconciler" where
  "NewCertificateReconciler cert_client core_client serviceIP rootDuration caDuration duration audience =
     \<lparr>certManagerClient = cert_client, kubernetesClient = core_client, kubernetesServiceIP = serviceIP,
      rootCACertificateDuration = rootDuration, caCertificateDuration = caDuration, certificateDuration = duration,
      certificateRenewBefore = 50, certKonnectivityServerAudience = audience\<rparr>"

record certificateSpec =
  csp_kind :: string
  csp_spec :: cert_spec
  csp_labels :: labels

record 'e caDefinition =
  cd_kind :: string
  cd_common_name :: string
  cd_certificate_name :: "Cluster \<Rightarrow> string"
  cd_secret_name :: "Cluster \<Rightarrow> string"
  cd_bundle_secret_name :: "Cluster \<Rightarrow> string"
  cd_issuer_name :: "Cluster \<Rightarrow> string"
  cd_parent_issuer_name :: "Cluster \<Rightarrow> string"
  cd_duration :: "'e certificateReconciler \<Rightarrow> duration"

definition caDefinitions :: "'e caDefinition list" where
  "caDefinitions =
     [\<lparr>cd_kind = ''kubernetes CA'', cd_common_name = ''kubernetes'',
       cd_certificate_name = GetCACertificateName, cd_secret_name = GetCASecretName,
       cd_bundle_secret_name = GetCABundleSecretName, cd_issuer_name = GetCAIssuerName,
       cd_parent_issuer_name = GetRootIssuerName, cd_duration = rootCACertificateDuration\<rparr>,
      \<lparr>cd_kind = ''etcd CA'', cd_common_name = ''etcd-ca'',
       cd_certificate_name = GetEtcdCAName, cd_secret_name = GetEtcdCASecretName,
       cd_bundle_secret_name = GetEtcdCABundleSecretName, cd_issuer_name = GetEtcdCAName,
       cd_parent_issuer_name = GetCAIssuerName, cd_duration = caCertificateDuration\<rparr>,
      \<lparr>cd_kind = ''front-proxy CA'', cd_common_name = ''front-proxy-ca'',
       cd_certificate_name = GetFrontProxyCAName, cd_secret_name = GetFrontProxyCASecretName,
       cd_bundle_secret_name = GetFrontProxyCABundleSecretName, cd_issuer_name = GetFrontProxyCAName,
       cd_parent_issuer_name = GetCAIssuerName, cd_duration = caCertificateDuration\<rparr>]"

section \<open>Issuers and specifications\<close>

definition createIssuer :: "HostedControlPlane \<Rightarrow> Cluster \<Rightarrow> string \<Rightarrow> string \<Rightarrow> issuer_ac" where
  "createIssuer h cluster name issuerSecretName =
     \<lparr>iss_name = name, iss_namespace = Namespace h, iss_labels = GetControlPlaneLabels cluster [],
      iss_owner_refs = [GetOwnerReferenceApplyConfiguration h],
      iss_ca_secret = (if issuerSecretName = [] then None else Some issuerSecretName)\<rparr>"

definition stablePrivateKey :: "string option" where
  "stablePrivateKey = Some ''Never''"

definition createCertificateSpec :: "'e certificateReconciler \<Rightarrow> string \<Rightarrow> string \<Rightarrow> string \<Rightarrow> bool \<Rightarrow> string list
    \<Rightarrow> cert_spec" where
  "createCertificateSpec cr caIssuerName commonName secretName isCA additionalUsages =
     (let usages = [''key encipherment'', ''digital signature''] @ additionalUsages in
      \<lparr>cs_issuer = caIssuerName, cs_common_name = commonName, cs_secret_name = secretName, cs_is_ca = isCA,
       cs_usages = (if isCA then usages @ [''cert sign''] else usages),
       cs_rotation_policy = (if isCA then stablePrivateKey else None),
       cs_duration = (if isCA then caCertificateDuration cr else certificateDuration cr),
       cs_renew_before = certificateRenewBefore cr, cs_dns_names = [], cs_ips = [], cs_organizations = [],
       cs_revision_limit = None, cs_secret_labels = None\<rparr>)"

definition etcd_certificate_dns_names :: "Cluster \<Rightarrow> string list" where
  "etcd_certificate_dns_names cluster =
     (let dnsNames = GetEtcdDNSNames cluster in
      sort ([''localhost''] @ lo_keys dnsNames @ lo_values dnsNames
        @ [GetEtcdServiceName cluster] @ [GetEtcdClientServiceDNSName cluster]))"

text \<open>The thirteen certificates, before the label of their kind is added.\<close>

definition plain_certificate_specs :: "'e certificateReconciler \<Rightarrow> HostedControlPlane \<Rightarrow> Cluster
    \<Rightarrow> (string, certificateSpec) gomap" where
  "plain_certificate_specs cr h cluster =
     (let create = (\<lambda>caIssuerName commonName secretName additionalUsages.
            createCertificateSpec cr caIssuerName commonName secretName False additionalUsages);
          etcdDNSNames = etcd_certificate_dns_names cluster
      in
      [(GetAPIServerCertificateName cluster,
         \<lparr>csp_kind = ''APIServer'',
          csp_spec = (create (GetCAIssuerName cluster) ''kube-apiserver'' (GetAPIServerSecretName cluster) [''server auth''])
            \<lparr>cs_dns_names := [''localhost'', ''kubernetes'', ''kubernetes.default'', ''kubernetes.default.svc'',
                 Host (ControlPlaneEndpoint cluster), GetKonnectivityServerHost cluster, GetServiceName cluster,
                 GetInternalServiceHost cluster],
             cs_ips := [LegacyIP (Status h), kubernetesServiceIP cr, ''127.0.0.1'']\<rparr>,
          csp_labels = []\<rparr>),
       (GetAPIServerKubeletClientCertificateName cluster,
         \<lparr>csp_kind = ''APIServerKubeletClient'',
          csp_spec = (create (GetCAIssuerName cluster) ''kube-apiserver-kubelet-client''
              (GetAPIServerKubeletClientSecretName cluster) [''client auth''])
            \<lparr>cs_organizations := [''kubeadm:cluster-admins'']\<rparr>,
          csp_labels = []\<rparr>),
       (GetFrontProxyCertificateName cluster,
         \<lparr>csp_kind = ''FrontProxy'',
          csp_spec = create (GetFrontProxyCAName cluster) ''front-proxy-client''
              (GetFrontProxySecretName cluster) [''client auth''],
          csp_labels = []\<rparr>),
       (GetServiceAccountCertificateName cluster,
         \<lparr>csp_kind = ''ServiceAccount'',
          csp_spec = (create (GetCAIssuerName cluster) ''service-account'' (GetServiceAccountSecretName cluster) [])
            \<lparr>cs_rotation_policy := stablePrivateKey\<rparr>,
          csp_labels = []\<rparr>),
       (GetAdminCertificateName cluster,
         \<lparr>csp_kind = ''Admin'',
          csp_spec = (create (GetCAIssuerName cluster) ''kubernetes-admin''
              (GetAdminKubeconfigCertificateSecretName cluster) [''client auth''])
            \<lparr>cs_organizations := [''system:masters'']\<rparr>,
          csp_labels = GetKubeconfigLabels ''kubernetes-admin''\<rparr>),
       (GetControllerManagerKubeconfigCertificateName cluster,
         \<lparr>csp_kind = ''ControllerManager'',
          csp_spec = create (GetCAIssuerName cluster) ''system:kube-controller-manager''
              (GetControllerManagerKubeconfigCertificateSecretName cluster) [''client auth''],
          csp_labels = []\<rparr>),
       (GetSchedulerKubeconfigCertificateName cluster,
         \<lparr>csp_kind = ''Scheduler'',
          csp_spec = create (GetCAIssuerName cluster) ''system:kube-scheduler''
              (GetSchedulerKubeconfigCertificateSecretName cluster) [''client auth''],
          csp_labels = []\<rparr>),
       (GetKonnectivityClientKubeconfigCertificateName cluster,
         \<lparr>csp_kind = ''KonnectivityClient'',
          csp_spec = (create (GetCAIssuerName cluster) (certKonnectivityServerAudience cr)
              (GetKonnectivityClientKubeconfigCertificateSecretName cluster)
              [''client auth'', ''server auth'', ''code signing''])
            \<lparr>cs_organizations := [''system:masters'']\<rparr>,
          csp_labels = []\<rparr>),
       (GetControlPlaneControllerKubeconfigCertificateName cluster,
         \<lparr>csp_kind = ''ControlPlaneController'',
          csp_spec = (create (GetCAIssuerName cluster) ''system:control-plane-controller''
              (GetControlPlaneControllerKubeconfigCertificateSecretName cluster) [''client auth''])
            \<lparr>cs_organizations := [''system:masters'']\<rparr>,
          csp_labels = GetKubeconfigLabel\<rparr>),
       (GetEtcdServerCertificateName cluster,
         \<lparr>csp_kind = ''EtcdServer'',
          csp_spec = (create (GetEtcdCAName cluster) ''etcd-server'' (GetEtcdServerSecretName cluster)
              [''server auth'', ''client auth''])\<lparr>cs_dns_names := etcdDNSNames, cs_ips := [''127.0.0.1'']\<rparr>,
          csp_labels = []\<rparr>),
       (GetEtcdPeerCertificateName cluster,
         \<lparr>csp_kind = ''EtcdPeer'',
          csp_spec = (create (GetEtcdCAName cluster) ''etcd-peer'' (GetEtcdPeerSecretName cluster)
              [''server auth'', ''client auth''])\<lparr>cs_dns_names := etcdDNSNames, cs_ips := [''127.0.0.1'']\<rparr>,
          csp_labels = []\<rparr>),
       (GetEtcdAPIServerClientCertificateName cluster,
         \<lparr>csp_kind = ''EtcdAPIServerClient'',
          csp_spec = create (GetEtcdCAName cluster) ''apiserver-etcd-client''
              (GetEtcdAPIServerClientCertificateSecretName cluster) [''client auth''],
          csp_labels = []\<rparr>),
       (GetEtcdControllerClientCertificateName cluster,
         \<lparr>csp_kind = ''EtcdControllerClient'',
          csp_spec = create (GetEtcdCAName cluster) ''controller-etcd-client''
              (GetEtcdControllerClientCertificateSecretName cluster) [''client auth''],
          csp_labels = []\<rparr>)])"

definition createCertificateSpecs :: "'e certificateReconciler \<Rightarrow> HostedControlPlane \<Rightarrow> Cluster
    \<Rightarrow> (string, certificateSpec) gomap" where
  "createCertificateSpecs cr h cluster =
     map (\<lambda>(name, spec). (name, spec\<lparr>csp_labels :=
         lo_assign (csp_labels spec) [(CertificateKindLabel, ClientCertificateKind)]\<rparr>))
       (plain_certificate_specs cr h cluster)"

section \<open>Reconciliation\<close>

definition live_ready :: "live_condition list \<Rightarrow> bool" where
  "live_ready conditions = list_ex (\<lambda>c. lc_type c = ''Ready'' \<and> lc_status c = ''True'') conditions"

definition isCertificateReady :: "live_certificate \<Rightarrow> bool" where
  "isCertificateReady certificate = live_ready (lcert_conditions certificate)"

definition isIssuerReady :: "live_issuer \<Rightarrow> bool" where
  "isIssuerReady issuer = live_ready (liss_conditions issuer)"

definition certificate_ac_of :: "HostedControlPlane \<Rightarrow> Cluster \<Rightarrow> string \<Rightarrow> certificateSpec \<Rightarrow> certificate_ac" where
  "certificate_ac_of h cluster name certificate =
     (let certificateLabels = lo_assign (csp_labels certificate) (GetControlPlaneLabels cluster []) in
      \<lparr>cert_name = name, cert_namespace = Namespace h, cert_labels = certificateLabels,
       cert_owner_refs = [GetOwnerReferenceApplyConfiguration h],
       cert_spec_of = (csp_spec certificate)\<lparr>cs_revision_limit := Some 1, cs_secret_labels := Some certificateLabels\<rparr>\<rparr>)"

definition reconcileCertificate :: "'e certificateReconciler \<Rightarrow> HostedControlPlane \<Rightarrow> Cluster \<Rightarrow> string
    \<Rightarrow> certificateSpec \<Rightarrow> ('e, live_certificate \<times> bool) act" where
  "reconcileCertificate cr h cluster name certificate =
     (let ac = certificate_ac_of h cluster name certificate in
      gbind (gwrap (''failed to patch certificate '' @ name)
          (invoke (CCertificateApply ac) (k_certificate_apply (certManagerClient cr) ac)))
        (\<lambda>certificate. gret (certificate, isCertificateReady certificate)))"

definition ca_certificate_spec :: "'e certificateReconciler \<Rightarrow> Cluster \<Rightarrow> 'e caDefinition \<Rightarrow> certificateSpec" where
  "ca_certificate_spec cr cluster def =
     \<lparr>csp_kind = cd_kind def,
      csp_spec = (createCertificateSpec cr (cd_parent_issuer_name def cluster) (cd_common_name def)
          (cd_secret_name def cluster) True [])\<lparr>cs_duration := cd_duration def cr\<rparr>,
      csp_labels = [(CertificateKindLabel, CACertificateKind)]\<rparr>"

definition reconcileCA :: "'e certificateReconciler \<Rightarrow> HostedControlPlane \<Rightarrow> Cluster \<Rightarrow> 'e caDefinition
    \<Rightarrow> ('e, string) act" where
  "reconcileCA cr h cluster def =
     gbind (gwrap (''failed to reconcile '' @ cd_kind def @ '' certificate'')
         (reconcileCertificate cr h cluster (cd_certificate_name def cluster) (ca_certificate_spec cr cluster def)))
       (\<lambda>(certificate, ready).
         if \<not> ready then gret (cd_kind def @ '' certificate not ready'')
         else
          (let ac = createIssuer h cluster (cd_issuer_name def cluster) (lcert_secret_name certificate) in
           gbind (gwrap (''failed to patch '' @ cd_kind def @ '' issuer'')
               (invoke (CIssuerApply ac) (k_issuer_apply (certManagerClient cr) ac)))
             (\<lambda>issuer. if \<not> isIssuerReady issuer then gret (cd_kind def @ '' issuer not ready'') else gret [])))"

text \<open>The reasons that are not empty, joined by commas.\<close>

definition join_reasons :: "string list \<Rightarrow> string" where
  "join_reasons notReadyReasons = str_join '','' (filter (\<lambda>r. r \<noteq> []) notReadyReasons)"

definition ReconcileCACertificates :: "'e certificateReconciler \<Rightarrow> HostedControlPlane \<Rightarrow> Cluster \<Rightarrow> ('e, string) act" where
  "ReconcileCACertificates cr h cluster =
     (let rootIssuerAC = createIssuer h cluster (GetRootIssuerName cluster) [] in
      gbind (gwrap ''failed to patch self-signed issuer''
          (invoke (CIssuerApply rootIssuerAC) (k_issuer_apply (certManagerClient cr) rootIssuerAC)))
        (\<lambda>rootIssuer.
          if \<not> isIssuerReady rootIssuer then gret ''root issuer not ready''
          else gbind (gcollect caDefinitions (reconcileCA cr h cluster)) (\<lambda>reasons. gret (join_reasons reasons))))"

definition caBundleCurrentCertKey :: string where "caBundleCurrentCertKey = ''current.crt''"
definition caBundleOldCertKey :: string where "caBundleOldCertKey = ''old.crt''"

text \<open>A missing key of the data reads as the empty byte string.\<close>

definition data_at :: "labels \<Rightarrow> string \<Rightarrow> string" where
  "data_at data key = deref (map_of data key) []"

definition bundle_data :: "string \<Rightarrow> string \<Rightarrow> labels" where
  "bundle_data oldCACert currentCACert =
     [(caBundleCurrentCertKey, currentCACert), (caBundleOldCertKey, oldCACert),
      (CACertName, oldCACert @ currentCACert)]"

definition bundle_secret :: "HostedControlPlane \<Rightarrow> Cluster \<Rightarrow> string \<Rightarrow> string \<Rightarrow> string \<Rightarrow> secret_ac" where
  "bundle_secret h cluster name oldCACert currentCACert =
     \<lparr>sec_name = name, sec_namespace = Namespace h, sec_owner_refs = [GetOwnerReferenceApplyConfiguration h],
      sec_labels = GetControlPlaneLabels cluster [], sec_data = bundle_data oldCACert currentCACert, sec_type = []\<rparr>"

definition get_secret :: "'e core_api \<Rightarrow> string \<Rightarrow> string \<Rightarrow> ('e, live_secret) act" where
  "get_secret K namespace name = invoke (CSecretGet namespace name) (k_secret_get K namespace name)"

definition reconcileCABundle :: "'e certificateReconciler \<Rightarrow> HostedControlPlane \<Rightarrow> Cluster \<Rightarrow> string \<Rightarrow> string
    \<Rightarrow> ('e, string) act" where
  "reconcileCABundle cr h cluster caSecretName caBundleSecretName =
     (let put = (\<lambda>oldCACert currentCACert.
            let ac = bundle_secret h cluster caBundleSecretName oldCACert currentCACert in
            gseq (gwrap ''failed to apply CA bundle secret''
                    (invoke (CSecretApply ac) (k_secret_apply (kubernetesClient cr) ac)))
              (gret []))
      in
      gbind (gtry (get_secret (kubernetesClient cr) (Namespace h) caSecretName)) (\<lambda>real. case real of
        Inl err \<Rightarrow> if is_not_found err then gret ''CA secret not yet available''
                   else gfail (EWrap ''failed to get CA secret'' err)
      | Inr realCASecret \<Rightarrow>
          (let currentCACert = data_at (lsec_data realCASecret) CACertName in
           if currentCACert = [] then gret ''CA secret not yet populated''
           else gbind (gtry (get_secret (kubernetesClient cr) (Namespace h) caBundleSecretName)) (\<lambda>bundle. case bundle of
             Inl err \<Rightarrow> if is_not_found err then put [] currentCACert
                        else gfail (EWrap ''failed to get CA bundle secret'' err)
           | Inr bundleSecret \<Rightarrow>
               (let bundleCurrentCert = data_at (lsec_data bundleSecret) caBundleCurrentCertKey in
                if bundleCurrentCert = currentCACert then gret []
                else put bundleCurrentCert currentCACert)))))"

definition ReconcileCABundles :: "'e certificateReconciler \<Rightarrow> HostedControlPlane \<Rightarrow> Cluster \<Rightarrow> ('e, string) act" where
  "ReconcileCABundles cr h cluster =
     gbind (gcollect caDefinitions (\<lambda>def :: 'e caDefinition.
         gwrap (''failed to reconcile '' @ cd_kind def @ '' bundle'')
           (reconcileCABundle cr h cluster (cd_secret_name def cluster) (cd_bundle_secret_name def cluster))))
       (\<lambda>reasons. gret (join_reasons reasons))"

definition client_certificate_selector :: "Cluster \<Rightarrow> labels" where
  "client_certificate_selector cluster =
     lo_assign [(CertificateKindLabel, ClientCertificateKind)] (GetControlPlaneLabels cluster [])"

definition delete_orphan :: "'e certificateReconciler \<Rightarrow> HostedControlPlane \<Rightarrow> string list \<Rightarrow> live_certificate
    \<Rightarrow> ('e, unit) act" where
  "delete_orphan cr h desiredCertificateNames cert =
     (if lcert_name cert \<in> set desiredCertificateNames then gret ()
      else gseq (gwrap (''failed to delete orphaned certificate '' @ lcert_name cert)
                   (ignore_not_found (invoke (CCertificateDelete (Namespace h) (lcert_name cert))
                      (k_certificate_delete (certManagerClient cr) (Namespace h) (lcert_name cert)))))
             (emit False ''CertificateDeleted'' ''CertificateDeleted''))"

definition cleanupOrphanedCertificates :: "'e certificateReconciler \<Rightarrow> HostedControlPlane \<Rightarrow> Cluster
    \<Rightarrow> ('e, unit) act" where
  "cleanupOrphanedCertificates cr h cluster =
     (let selector = client_certificate_selector cluster in
      gbind (gwrap ''failed to list certificates''
          (invoke (CCertificateList (Namespace h) selector)
             (k_certificate_list (certManagerClient cr) (Namespace h) selector)))
        (\<lambda>certificates.
          let desiredCertificateNames = lo_keys (createCertificateSpecs cr h cluster) in
          gfor certificates (delete_orphan cr h desiredCertificateNames)))"

definition reconcile_spec :: "'e certificateReconciler \<Rightarrow> HostedControlPlane \<Rightarrow> Cluster
    \<Rightarrow> string \<times> certificateSpec \<Rightarrow> ('e, string) act" where
  "reconcile_spec cr h cluster = (\<lambda>(name, certificate).
     gbind (gwrap (''failed to reconcile certificate '' @ csp_kind certificate)
         (reconcileCertificate cr h cluster name certificate))
       (\<lambda>(_, ready). gret (if ready then [] else ''certificate '' @ csp_kind certificate @ '' not ready'')))"

definition ReconcileCertificates :: "'e certificateReconciler \<Rightarrow> HostedControlPlane \<Rightarrow> Cluster \<Rightarrow> ('e, string) act" where
  "ReconcileCertificates cr h cluster =
     gbind (gcollect (createCertificateSpecs cr h cluster) (reconcile_spec cr h cluster)) (\<lambda>reasons.
     gseq (gwrap ''failed to cleanup orphaned certificates'' (cleanupOrphanedCertificates cr h cluster))
       (gret (join_reasons reasons)))"

end
