(* ===== verification/Exposure.thy ===== *)
theory Exposure
  imports Management
begin

text \<open>
  How a control plane is reached from outside: the endpoint derived from the wildcard listener of the gateway
  (\<open>reconcilers/infrastructure_cluster/reconciler.go\<close>) and the two TLS routes
  (\<open>reconcilers/tlsroutes/reconciler.go\<close>). Whether Cluster API can prepare a patch for the infrastructure
  object, and how the endpoint is written into the unstructured object, are parameters of the library.
\<close>

section \<open>The endpoint\<close>

record 'e infrastructureClusterReconciler =
  infraClient :: "'e capi_api"
  infraApiServerServicePort :: int
  ir_new_helper :: "infra_cluster \<Rightarrow> gerr option"
    \<comment> \<open>the error of \<open>patch.NewHelper\<close>\<close>
  ir_set_nested :: "infra_cluster \<Rightarrow> APIEndpoint \<Rightarrow> gerr + infra_cluster"
    \<comment> \<open>\<open>unstructured.SetNestedMap\<close> at \<open>spec.controlPlaneEndpoint\<close>\<close>

definition NewInfrastructureClusterReconciler :: "'e capi_api \<Rightarrow> int \<Rightarrow> (infra_cluster \<Rightarrow> gerr option)
    \<Rightarrow> (infra_cluster \<Rightarrow> APIEndpoint \<Rightarrow> gerr + infra_cluster) \<Rightarrow> 'e infrastructureClusterReconciler" where
  "NewInfrastructureClusterReconciler client port new_helper set_nested =
     \<lparr>infraClient = client, infraApiServerServicePort = port, ir_new_helper = new_helper, ir_set_nested = set_nested\<rparr>"

definition errGatewayMissingListener :: gerr where
  "errGatewayMissingListener = ESentinel ''gateway is missing a TLS listener with a wildcard hostname''"

definition wildcard_listener :: "live_listener \<Rightarrow> bool" where
  "wildcard_listener listener \<longleftrightarrow> ll_protocol listener = ''TLS'' \<and>
     (case ll_hostname listener of None \<Rightarrow> False | Some hostname \<Rightarrow> has_prefix hostname ''*.'')"

definition listener_endpoint :: "Cluster \<Rightarrow> int \<Rightarrow> live_listener \<Rightarrow> APIEndpoint" where
  "listener_endpoint cluster port listener =
     \<lparr>Host = ClusterName cluster @ ''.'' @ ClusterNamespace cluster @ ''.''
        @ trim_prefix (deref (ll_hostname listener) []) ''*.'',
      Port = port\<rparr>"

definition endpoint_is_zero :: "APIEndpoint \<Rightarrow> bool" where
  "endpoint_is_zero e \<longleftrightarrow> Host e = [] \<and> Port e = 0"

definition endpoint_verdict :: "Cluster \<Rightarrow> APIEndpoint \<Rightarrow> string" where
  "endpoint_verdict cluster endpoint =
     (if endpoint_is_zero (ControlPlaneEndpoint cluster) \<or> Host (ControlPlaneEndpoint cluster) \<noteq> Host endpoint
         \<or> Port (ControlPlaneEndpoint cluster) \<noteq> Port endpoint
      then ''control plane endpoint is not yet set'' else [])"

definition SyncControlPlaneEndpoint :: "'e infrastructureClusterReconciler \<Rightarrow> HostedControlPlane \<Rightarrow> Cluster
    \<Rightarrow> ('e, string) act" where
  "SyncControlPlaneEndpoint i h cluster =
     (let gw = Gateway (Spec h) in
      gbind (gwrap ''failed to get gateway''
          (invoke (CGatewayGet (GatewayNamespace gw) (GatewayName gw))
             (k_gateway_get (infraClient i) (GatewayNamespace gw) (GatewayName gw)))) (\<lambda>listeners.
      case List.find wildcard_listener listeners of
        None \<Rightarrow> gfail (EWrap (''no tls listener with wildcard hostname found in gateway ''
                  @ GatewayNamespace gw @ ''/'' @ GatewayName gw) errGatewayMissingListener)
      | Some listener \<Rightarrow>
          (let endpoint = listener_endpoint cluster (infraApiServerServicePort i) listener in
           gbind (gwrap ''failed to get infrastructure cluster object from reference''
               (invoke CInfraGet (k_infra_get (infraClient i)))) (\<lambda>infraCluster.
           case ir_new_helper i infraCluster of
             Some err \<Rightarrow> gfail (EWrap ''failed to create patch helper'' err)
           | None \<Rightarrow>
               (case ir_set_nested i infraCluster endpoint of
                  Inl err \<Rightarrow> gfail (EWrap ''failed to set control plane endpoint'' err)
                | Inr infraCluster' \<Rightarrow>
                    gseq (gwrap ''failed to patch infrastructure cluster''
                            (invoke (CInfraPatch infraCluster') (k_infra_patch (infraClient i) infraCluster')))
                      (gret (endpoint_verdict cluster endpoint)))))))"

section \<open>The routes\<close>

record 'e tlsRoutesReconciler =
  gatewayClient :: "'e capi_api"
  trApiServerServicePort :: int
  trKonnectivityServicePort :: int

definition NewTLSRoutesReconciler :: "'e capi_api \<Rightarrow> int \<Rightarrow> int \<Rightarrow> 'e tlsRoutesReconciler" where
  "NewTLSRoutesReconciler client apiServerPort konnectivityPort =
     \<lparr>gatewayClient = client, trApiServerServicePort = apiServerPort, trKonnectivityServicePort = konnectivityPort\<rparr>"

definition createTLSRoute :: "string \<Rightarrow> Cluster \<Rightarrow> HostedControlPlane \<Rightarrow> string \<Rightarrow> string \<Rightarrow> int \<Rightarrow> tlsroute_ac" where
  "createTLSRoute name cluster h host serviceName port =
     \<lparr>tr_name = name, tr_namespace = ClusterNamespace cluster, tr_labels = GetControlPlaneLabels cluster [],
      tr_owner_refs = [GetOwnerReferenceApplyConfiguration h], tr_hostnames = [host],
      tr_parents = [(GatewayName (Gateway (Spec h)), GatewayNamespace (Gateway (Spec h)))],
      tr_backends = [\<lparr>br_name = serviceName, br_port = port, br_weight = 1\<rparr>]\<rparr>"

definition accepted_by :: "string \<Rightarrow> route_parent \<Rightarrow> bool" where
  "accepted_by gateway_name parent \<longleftrightarrow> rp_name parent = gateway_name \<and>
     list_ex (\<lambda>c. lc_type c = ''Accepted'' \<and> lc_status c = ''True'') (rp_conditions parent)"

definition applyAndCheckTLSRoute :: "'e tlsRoutesReconciler \<Rightarrow> tlsroute_ac \<Rightarrow> ('e, bool) act" where
  "applyAndCheckTLSRoute trr tlsRoute =
     gbind (gwrap (''failed to apply '' @ tr_name tlsRoute @ '' TLSRoute'')
         (invoke (CTLSRouteApply tlsRoute) (k_tlsroute_apply (gatewayClient trr) tlsRoute)))
       (\<lambda>parents. case tr_parents tlsRoute of
           [] \<Rightarrow> if parents = [] then gret False else gfail (EPanic ''index out of range'')
         | (gateway_name, _) # _ \<Rightarrow> gret (list_ex (accepted_by gateway_name) parents))"

definition apiserver_route :: "'e tlsRoutesReconciler \<Rightarrow> HostedControlPlane \<Rightarrow> Cluster \<Rightarrow> tlsroute_ac" where
  "apiserver_route trr h cluster =
     createTLSRoute (GetTLSRouteName cluster) cluster h (Host (ControlPlaneEndpoint cluster))
       (GetServiceName cluster) (trApiServerServicePort trr)"

definition konnectivity_route :: "'e tlsRoutesReconciler \<Rightarrow> HostedControlPlane \<Rightarrow> Cluster \<Rightarrow> tlsroute_ac" where
  "konnectivity_route trr h cluster =
     createTLSRoute (GetKonnectivityTLSRouteName cluster) cluster h (GetKonnectivityServerHost cluster)
       (GetKonnectivityServiceName cluster) (trKonnectivityServicePort trr)"

definition ReconcileTLSRoutes :: "'e tlsRoutesReconciler \<Rightarrow> HostedControlPlane \<Rightarrow> Cluster \<Rightarrow> ('e, string) act" where
  "ReconcileTLSRoutes trr h cluster =
     gbind (applyAndCheckTLSRoute trr (apiserver_route trr h cluster)) (\<lambda>ready.
     if \<not> ready then gret ''Api Server TLS route not ready''
     else gbind (applyAndCheckTLSRoute trr (konnectivity_route trr h cluster)) (\<lambda>ready.
     if \<not> ready then gret ''konnectivity TLS route not ready'' else gret []))"

end
