(* ===== verification/NodeRotation.thy ===== *)
theory NodeRotation
  imports Management
begin

text \<open>
  The rollout of the worker nodes when the certificate authority is renewed
  (\<open>reconcilers/node_rotation/reconciler.go\<close>). The date of the annotation is the RFC 3339 form of the
  standard library, in UTC and without fractions: \<open>rfc3339_utc\<close> computes the civil date from the nanoseconds
  since the first of January of the year 1, for the years up to 9999.
\<close>

section \<open>Dates\<close>

definition is_leap :: "int \<Rightarrow> bool" where
  "is_leap year \<longleftrightarrow> year mod 4 = 0 \<and> (year mod 100 \<noteq> 0 \<or> year mod 400 = 0)"

definition month_lengths :: "int \<Rightarrow> int list" where
  "month_lengths year = [31, if is_leap year then 29 else 28, 31, 30, 31, 30, 31, 31, 30, 31, 30, 31]"

text \<open>The year and the day in the year, from the days since the first day of the year 1.\<close>

definition year_day :: "int \<Rightarrow> int \<times> int" where
  "year_day d =
     (let n400 = d div 146097; d400 = d mod 146097;
          n100 = min (d400 div 36524) 3; d100 = d400 - n100 * 36524;
          n4 = d100 div 1461; d4 = d100 mod 1461;
          n1 = min (d4 div 365) 3
      in (n400 * 400 + n100 * 100 + n4 * 4 + n1 + 1, d4 - n1 * 365))"

fun month_day :: "int list \<Rightarrow> int \<Rightarrow> int \<Rightarrow> int \<times> int" where
  "month_day [] month day = (month, day + 1)"
| "month_day (len # lens) month day =
     (if day < len then (month, day + 1) else month_day lens (month + 1) (day - len))"

definition pad0 :: "nat \<Rightarrow> int \<Rightarrow> string" where
  "pad0 width i = replicate (width - length (int_dec i)) (CHR ''0'') @ int_dec i"

definition rfc3339_utc :: "gtime \<Rightarrow> string" where
  "rfc3339_utc t =
     (let seconds = t div nano; (year, yday) = year_day (seconds div 86400); sod = seconds mod 86400;
          (month, day) = month_day (month_lengths year) 1 yday
      in pad0 4 year @ ''-'' @ pad0 2 month @ ''-'' @ pad0 2 day @ ''T'' @ pad0 2 (sod div 3600) @ '':''
         @ pad0 2 (sod div 60 mod 60) @ '':'' @ pad0 2 (sod mod 60) @ ''Z'')"

section \<open>The reconciler\<close>

record 'e nodeRotationReconciler =
  nrClient :: "'e capi_api"
  nrCertManagerClient :: "'e cert_api"

definition NewNodeRotationReconciler :: "'e capi_api \<Rightarrow> 'e cert_api \<Rightarrow> 'e nodeRotationReconciler" where
  "NewNodeRotationReconciler c cert_client = \<lparr>nrClient = c, nrCertManagerClient = cert_client\<rparr>"

definition caNotBeforeAnnotation :: string where
  "caNotBeforeAnnotation = ''controlplane.cluster.x-k8s.io/ca-not-before''"

definition errCACertificateMissing :: gerr where
  "errCACertificateMissing = ESentinel ''CA Certificate missing''"

definition cluster_selector :: "Cluster \<Rightarrow> labels" where
  "cluster_selector cluster = [(ClusterNameLabel, ClusterName cluster)]"

definition roll_deployment :: "'e nodeRotationReconciler \<Rightarrow> gtime \<Rightarrow> machine_deployment \<Rightarrow> ('e, unit) act" where
  "roll_deployment r rolloutAfter machineDeployment =
     (if md_rollout_after machineDeployment = rolloutAfter then gret ()
      else (let patched = machineDeployment\<lparr>md_rollout_after := rolloutAfter\<rparr> in
        gwrap (''failed to patch MachineDeployment '' @ md_namespace machineDeployment @ ''/'' @ md_name machineDeployment)
          (invoke (CMachineDeploymentPatch patched) (k_md_patch (nrClient r) patched))))"

definition annotate_pool :: "string \<Rightarrow> machine_pool \<Rightarrow> machine_pool" where
  "annotate_pool notBeforeStr machinePool =
     machinePool\<lparr>mp_annotations := Some (mput caNotBeforeAnnotation notBeforeStr (deref (mp_annotations machinePool) []))\<rparr>"

definition pool_annotated :: "string \<Rightarrow> machine_pool \<Rightarrow> bool" where
  "pool_annotated notBeforeStr machinePool \<longleftrightarrow>
     deref (map_of (deref (mp_annotations machinePool) []) caNotBeforeAnnotation) [] = notBeforeStr"

definition roll_pool :: "'e nodeRotationReconciler \<Rightarrow> string \<Rightarrow> machine_pool \<Rightarrow> ('e, unit) act" where
  "roll_pool r notBeforeStr machinePool =
     (if pool_annotated notBeforeStr machinePool then gret ()
      else (let patched = annotate_pool notBeforeStr machinePool in
        gwrap (''failed to patch MachinePool '' @ mp_namespace machinePool @ ''/'' @ mp_name machinePool)
          (invoke (CMachinePoolPatch patched) (k_mp_patch (nrClient r) patched))))"

definition ca_not_before :: "'e nodeRotationReconciler \<Rightarrow> HostedControlPlane \<Rightarrow> Cluster \<Rightarrow> ('e, gtime) act" where
  "ca_not_before r h cluster =
     gbind (gtry (invoke (CCertificateGet (Namespace h) (GetCACertificateName cluster))
         (k_certificate_get (nrCertManagerClient r) (Namespace h) (GetCACertificateName cluster)))) (\<lambda>caCert.
       case caCert of
         Inl err \<Rightarrow> if \<not> is_not_found err then gfail (EWrap ''failed to get CA certificate'' err)
                    else gfail errCACertificateMissing
       | Inr certificate \<Rightarrow>
           (case lcert_not_before certificate of
              None \<Rightarrow> gfail errCACertificateMissing
            | Some notBefore \<Rightarrow> gret notBefore))"

definition ReconcileCARotation :: "'e nodeRotationReconciler \<Rightarrow> HostedControlPlane \<Rightarrow> Cluster \<Rightarrow> ('e, unit) act" where
  "ReconcileCARotation r h cluster =
     gbind (ca_not_before r h cluster) (\<lambda>rolloutAfter.
       let notBeforeStr = rfc3339_utc rolloutAfter; namespace = ClusterNamespace cluster;
           selector = cluster_selector cluster in
       gbind (gwrap ''failed to list MachineDeployments''
           (invoke (CMachineDeploymentList namespace selector) (k_md_list (nrClient r) namespace selector)))
         (\<lambda>machineDeployments.
       gseq (gfor machineDeployments (roll_deployment r rolloutAfter))
       (gbind (gwrap ''failed to list MachinePools''
           (invoke (CMachinePoolList namespace selector) (k_mp_list (nrClient r) namespace selector)))
         (\<lambda>machinePools. gfor machinePools (roll_pool r notBeforeStr)))))"

end
