(* ===== verification/Kubeconfigs.thy ===== *)
theory Kubeconfigs
  imports Management
begin

text \<open>
  The kubeconfig secrets (\<open>reconcilers/kubeconfig/reconciler.go\<close>): four for the components inside the
  management cluster and the one of the administrator. The text of an endpoint (Cluster API) and the
  serialisation of a kubeconfig (client-go) are parameters.
\<close>

section \<open>State\<close>

record 'e kubeconfigReconciler = "'e ManagementResourceReconciler" +
  kcApiServerServicePort :: int
  konnectivityClientUsername :: string
  controllerUsername :: string
  kc_endpoint_string :: "APIEndpoint \<Rightarrow> string"
  kc_write :: "api_config \<Rightarrow> gerr + string"

definition NewKubeconfigReconciler :: "'e core_api \<Rightarrow> int \<Rightarrow> string \<Rightarrow> string \<Rightarrow> (string \<Rightarrow> string) \<Rightarrow> nat
    \<Rightarrow> (APIEndpoint \<Rightarrow> string) \<Rightarrow> (api_config \<Rightarrow> gerr + string) \<Rightarrow> 'e kubeconfigReconciler" where
  "NewKubeconfigReconciler managementClusterClient port konnectivityUser controllerUser md5hex depth
      endpoint_string write =
     \<lparr>ManagementClusterClient = managementClusterClient, CiliumClient = None, WorldComponent = [],
      ControllerNamespace = [], ControllerComponent = [], mr_md5 = md5hex, mr_depth = depth,
      kcApiServerServicePort = port, konnectivityClientUsername = konnectivityUser,
      controllerUsername = controllerUser, kc_endpoint_string = endpoint_string, kc_write = write\<rparr>"

record KubeconfigConfig =
  kcc_secret_name :: string
  kcc_certificate_name :: string
  kcc_endpoint :: APIEndpoint

section \<open>The configurations\<close>

definition adminUsername :: string where "adminUsername = ''admin''"
definition localhostHost :: string where "localhostHost = ''localhost''"

definition CreateAdminKubeconfigConfig :: "Cluster \<Rightarrow> (string, KubeconfigConfig) gomap" where
  "CreateAdminKubeconfigConfig cluster =
     [(adminUsername, \<lparr>kcc_secret_name = ClusterName cluster @ ''-kubeconfig'',
        kcc_certificate_name = GetAdminKubeconfigCertificateName cluster,
        kcc_endpoint = ControlPlaneEndpoint cluster\<rparr>)]"

text \<open>Two equal keys of the literal collapse, the later one wins.\<close>

definition CreateInternalKubeconfigConfigs :: "Cluster \<Rightarrow> APIEndpoint \<Rightarrow> APIEndpoint \<Rightarrow> APIEndpoint \<Rightarrow> string
    \<Rightarrow> string \<Rightarrow> (string, KubeconfigConfig) gomap" where
  "CreateInternalKubeconfigConfigs cluster internalServiceEndpoint localEndpoint clusterInternalServiceEndpoint
      konnectivityUser controllerUser =
     (let entry = (\<lambda>certificate endpoint. \<lparr>kcc_secret_name = [], kcc_certificate_name = certificate,
            kcc_endpoint = endpoint\<rparr>) in
      mput controllerUser
        (entry (GetControlPlaneControllerKubeconfigCertificateName cluster) clusterInternalServiceEndpoint)
      (mput konnectivityUser (entry (GetKonnectivityClientKubeconfigCertificateName cluster) localEndpoint)
        [(''kube-controller-manager'',
            entry (GetControllerManagerKubeconfigCertificateName cluster) internalServiceEndpoint),
         (''kube-scheduler'', entry (GetSchedulerKubeconfigCertificateName cluster) internalServiceEndpoint)]))"

section \<open>Reconciliation\<close>

definition kubeconfig_of :: "'e kubeconfigReconciler \<Rightarrow> Cluster \<Rightarrow> APIEndpoint \<Rightarrow> string \<Rightarrow> live_secret \<Rightarrow> live_secret
    \<Rightarrow> api_config" where
  "kubeconfig_of kr cluster apiEndpoint userName certSecret caSecret =
     (let contextName = userName @ ''@'' @ ClusterName cluster in
      \<lparr>kc_clusters = [(ClusterName cluster,
         \<lparr>kcl_server = ''https://'' @ kc_endpoint_string kr apiEndpoint,
          kcl_ca_data = deref (map_of (lsec_data caSecret) CACertName) [], kcl_ca_file = []\<rparr>)],
       kc_contexts = [(contextName, \<lparr>kcx_cluster = ClusterName cluster, kcx_user = userName\<rparr>)],
       kc_current = contextName,
       kc_users = [(userName,
         \<lparr>kcu_client_certificate = deref (map_of (lsec_data certSecret) TLSCertKey) [],
          kcu_client_key = deref (map_of (lsec_data certSecret) TLSPrivateKeyKey) [], kcu_token = [],
          kcu_token_file = []\<rparr>)]\<rparr>)"

definition generateKubeconfigFromSecret :: "'e kubeconfigReconciler \<Rightarrow> Cluster \<Rightarrow> APIEndpoint \<Rightarrow> string
    \<Rightarrow> live_secret \<Rightarrow> ('e, api_config) act" where
  "generateKubeconfigFromSecret kr cluster apiEndpoint userName certSecret =
     (let namespace = ClusterNamespace cluster; name = GetCABundleSecretName cluster in
      gbind (gwrap ''failed to get CA bundle secret''
          (invoke (CSecretGet namespace name) (k_secret_get (ManagementClusterClient kr) namespace name)))
        (\<lambda>caSecret. gret (kubeconfig_of kr cluster apiEndpoint userName certSecret caSecret)))"

definition secret_owner :: "live_secret \<Rightarrow> owner_ref" where
  "secret_owner s = \<lparr>or_api_version = ''v1'', or_kind = ''Secret'', or_name = lsec_name s, or_uid = lsec_uid s,
     or_controller = None, or_block = None\<rparr>"

definition reconcileKubeconfig :: "'e kubeconfigReconciler \<Rightarrow> Cluster \<Rightarrow> string \<Rightarrow> KubeconfigConfig
    \<Rightarrow> ('e, unit) act" where
  "reconcileKubeconfig kr cluster username config =
     (let namespace = ClusterNamespace cluster; certificate = kcc_certificate_name config in
      gbind (gwrap ''failed to get certificate secret''
          (invoke (CSecretGet namespace certificate)
             (k_secret_get (ManagementClusterClient kr) namespace certificate))) (\<lambda>certSecret.
      gbind (gwrap ''failed to generate kubeconfig''
          (generateKubeconfigFromSecret kr cluster (kcc_endpoint config) username certSecret)) (\<lambda>kubeconfig.
      case kc_write kr kubeconfig of
        Inl err \<Rightarrow> gfail (EWrap ''failed to marshal kubeconfig'' err)
      | Inr kubeconfigBytes \<Rightarrow>
          ReconcileSecret kr (Some (secret_owner certSecret))
            (lo_assign (GetKubeconfigLabels username) (GetControlPlaneLabels cluster ''kubeconfig''))
            namespace (kcc_secret_name config) False [(''value'', kubeconfigBytes)] ''cluster.x-k8s.io/secret'')))"

definition named_config :: "Cluster \<Rightarrow> string \<Rightarrow> KubeconfigConfig \<Rightarrow> KubeconfigConfig" where
  "named_config cluster username config =
     (if kcc_secret_name config = [] then config\<lparr>kcc_secret_name := GetKubeconfigSecretName cluster username\<rparr>
      else config)"

definition reconcileKubeconfigs :: "'e kubeconfigReconciler \<Rightarrow> Cluster \<Rightarrow> (string, KubeconfigConfig) gomap
    \<Rightarrow> ('e, unit) act" where
  "reconcileKubeconfigs kr cluster kubeconfigs =
     gfor kubeconfigs (\<lambda>(username, kubeconfig).
       gwrap ''failed to reconcile kubeconfig''
         (reconcileKubeconfig kr cluster username (named_config cluster username kubeconfig)))"

definition internal_configs :: "'e kubeconfigReconciler \<Rightarrow> Cluster \<Rightarrow> (string, KubeconfigConfig) gomap" where
  "internal_configs kr cluster =
     CreateInternalKubeconfigConfigs cluster
       \<lparr>Host = GetServiceName cluster, Port = kcApiServerServicePort kr\<rparr>
       \<lparr>Host = localhostHost, Port = 6443\<rparr>
       \<lparr>Host = GetInternalServiceHost cluster, Port = kcApiServerServicePort kr\<rparr>
       (konnectivityClientUsername kr) (controllerUsername kr)"

definition ReconcileInternalKubeconfigs :: "'e kubeconfigReconciler \<Rightarrow> Cluster \<Rightarrow> ('e, unit) act" where
  "ReconcileInternalKubeconfigs kr cluster = reconcileKubeconfigs kr cluster (internal_configs kr cluster)"

definition ReconcileAdminKubeconfig :: "'e kubeconfigReconciler \<Rightarrow> Cluster \<Rightarrow> ('e, unit) act" where
  "ReconcileAdminKubeconfig kr cluster = reconcileKubeconfigs kr cluster (CreateAdminKubeconfigConfig cluster)"

end
