(* ===== verification/Controller.thy ===== *)
theory Controller
  imports Workload ApiServer Certificates Exposure NodeRotation Kubeconfigs EtcdStorage
begin

text \<open>
  The controller (\<open>hostedcontrolplane/controller.go\<close>): one reconciliation of a \<open>HostedControlPlane\<close>, from reading
  the object to patching it back, and the phases in between. The object is read into the world, where the
  reconcilers change it; the patch helper keeps the copy it was made from.

  Parameters of the controller are the clients, and the parts of Cluster API it calls: the owner cluster, the
  paused condition, the finalizer, the patch helper and the summary condition; \<open>lo.PascalCase\<close>, the texts of \<open>%q\<close>,
  and the addresses of a network by index. A failing deferred patch is joined with the error of the
  reconciliation. Events that go to the log or the span only are left out.
\<close>

section \<open>State\<close>

record 'e controller_runtime = "'e etcd_runtime" +
  rc_cert :: "'e cert_api"
  rc_capi :: "'e capi_api"
  rc_connection :: "'e connection"
    \<comment> \<open>to the management and, by its kubeconfig, to a workload cluster\<close>
  rc_mgr_config :: string
  rc_hcp_get :: "string \<Rightarrow> string \<Rightarrow> ('e, HostedControlPlane) op"
  rc_owner_cluster :: "HostedControlPlane \<Rightarrow> ('e, Cluster option) op"
  rc_ensure_paused :: "Cluster \<Rightarrow> HostedControlPlane \<Rightarrow> ('e, bool \<times> bool \<times> condition list) op"
    \<comment> \<open>is paused, requeue, and the conditions of the object afterwards\<close>
  rc_ensure_finalizer :: "HostedControlPlane \<Rightarrow> string \<Rightarrow> ('e, bool) op"
  rc_remove_finalizer :: "string list \<Rightarrow> string \<Rightarrow> string list"
  rc_new_helper :: "HostedControlPlane \<Rightarrow> gerr option"
  rc_patch :: "HostedControlPlane \<Rightarrow> HostedControlPlane \<Rightarrow> string list \<Rightarrow> ('e, unit) op"
    \<comment> \<open>the object when the helper was made, the object now, the owned conditions\<close>
  rc_summary :: "condition list \<Rightarrow> string list \<Rightarrow> gerr + condition"
  rc_pascal :: "string \<Rightarrow> string"
  rc_quote :: "string \<Rightarrow> string"
  rc_quote_net :: "ip_net \<Rightarrow> string"
  rc_indexed_ip :: "ip_net \<Rightarrow> int \<Rightarrow> gerr + ip"
  rc_infra_helper :: "infra_cluster \<Rightarrow> gerr option"
  rc_set_nested :: "infra_cluster \<Rightarrow> APIEndpoint \<Rightarrow> gerr + infra_cluster"
  rc_api_server :: "'e apiServerResourcesReconciler"
    \<comment> \<open>the parameters of the API server reconciler\<close>
  rc_workload :: "'e workload_params"

record 'e hostedControlPlaneReconciler =
  r_runtime :: "'e controller_runtime"
  r_worldComponent :: string
  r_controllerNamespace :: string
  r_controllerComponent :: string
  r_reconcileFilter :: string
  r_caCertificatesDuration :: duration
  r_certificatesDuration :: duration
  r_apiServerComponentLabel :: string
  r_apiServerServicePort :: int
  r_etcdComponentLabel :: string
  r_etcdServerPort :: int
  r_etcdServerStorageBuffer :: quantity
  r_etcdServerStorageIncrement :: quantity
  r_konnectivityNamespace :: string
  r_konnectivityServiceAccount :: string
  r_konnectivityClientUsername :: string
  r_controllerUsername :: string
  r_konnectivityServerAudience :: string
  r_apiServerServiceLegacyPortName :: string
  r_konnectivityServicePort :: int
  r_finalizer :: string

definition NewHostedControlPlaneReconciler :: "'e controller_runtime \<Rightarrow> string \<Rightarrow> string
    \<Rightarrow> 'e hostedControlPlaneReconciler" where
  "NewHostedControlPlaneReconciler rt controllerNamespace reconcileFilter =
     \<lparr>r_runtime = rt, r_worldComponent = ''world'', r_controllerNamespace = controllerNamespace,
      r_controllerComponent = ''hosted-control-plane-controller'', r_reconcileFilter = reconcileFilter,
      r_caCertificatesDuration = 2 * 24 * hour, r_certificatesDuration = 24 * hour,
      r_apiServerComponentLabel = ''api-server'', r_apiServerServicePort = 443, r_etcdComponentLabel = ''etcd'',
      r_etcdServerPort = etcdServerPort_default, r_etcdServerStorageBuffer = etcdServerStorageBuffer_default,
      r_etcdServerStorageIncrement = etcdServerStorageIncrement_default, r_konnectivityNamespace = NamespaceSystem,
      r_konnectivityServiceAccount = ''konnectivity-agent'',
      r_konnectivityClientUsername = KonnectivityClientUsername, r_controllerUsername = ControllerUsername,
      r_konnectivityServerAudience = ''system:konnectivity-server'',
      r_apiServerServiceLegacyPortName = ''legacy-api'', r_konnectivityServicePort = 8132,
      r_finalizer = ''hcp.'' @ GroupName\<rparr>"

section \<open>The networks of the workload cluster\<close>

record network_settings =
  ns_domain :: string
  ns_services :: ip_net
  ns_pods :: ip_net
  ns_dns :: ip
  ns_kubernetes :: ip

definition default_services :: ip_net where
  "default_services = \<lparr>net_ip = [10, 96, 0, 0], net_ones = 12\<rparr>"

definition default_pods :: ip_net where
  "default_pods = \<lparr>net_ip = [10, 0, 0, 0], net_ones = 16\<rparr>"

definition network_condition :: "string \<Rightarrow> condition" where
  "network_condition message =
     \<lparr>cond_type = WorkloadClusterResourcesReadyCondition, cond_status = ConditionFalse,
      cond_reason = WorkloadClusterResourcesFailedReason, cond_message = message\<rparr>"

text \<open>A failure is recorded as a condition and wrapped; both texts name the value.\<close>

definition or_condition :: "'e controller_runtime \<Rightarrow> string \<Rightarrow> string \<Rightarrow> gerr + 'a \<Rightarrow> ('e, 'a) act" where
  "or_condition rt headline message r =
     (case r of
        Inr x \<Rightarrow> gret x
      | Inl err \<Rightarrow>
          gseq (set_condition (wp_set_c (rc_workload rt))
                  (network_condition (headline @ '': '' @ err_text (wp_api_text (rc_workload rt)) err)))
            (gfail (EWrap message err)))"

definition parse_network :: "'e controller_runtime \<Rightarrow> string \<Rightarrow> ip_net \<Rightarrow> string \<Rightarrow> ('e, ip_net) act" where
  "parse_network rt what default_net s =
     (if s = [] then gret default_net
      else or_condition rt (''Failed to parse '' @ what @ '' CIDR '' @ rc_quote rt s)
             (''failed to parse '' @ what @ '' CIDR '' @ rc_quote rt s)
             (ParseCIDR (wp_parse6 (rc_workload rt)) s))"

definition service_ip :: "'e controller_runtime \<Rightarrow> string \<Rightarrow> ip_net \<Rightarrow> int \<Rightarrow> ('e, ip) act" where
  "service_ip rt what services index =
     (let text = what @ '' from Service CIDR '' @ rc_quote_net rt services in
      or_condition rt (''Failed to calculate '' @ text) (''failed to calculate '' @ text)
        (rc_indexed_ip rt services index))"

definition cluster_networks :: "'e controller_runtime \<Rightarrow> Cluster \<Rightarrow> ('e, network_settings) act" where
  "cluster_networks rt cluster =
     gbind (parse_network rt ''Service'' default_services (ServicesCIDR cluster)) (\<lambda>services.
     gbind (parse_network rt ''Pod'' default_pods (PodsCIDR cluster)) (\<lambda>pods.
     gbind (service_ip rt ''DNS IP'' services 10) (\<lambda>dns.
     gbind (service_ip rt ''Kubernetes Service IP'' services 1) (\<lambda>kubernetes.
       gret \<lparr>ns_domain = (if ServiceDomain cluster \<noteq> [] then ServiceDomain cluster else ''cluster.local''),
             ns_services = services, ns_pods = pods, ns_dns = dns, ns_kubernetes = kubernetes\<rparr>))))"

text \<open>The Cilium client of the management cluster, if its API is served.\<close>

definition management_cilium :: "'e controller_runtime \<Rightarrow> ('e, 'e cilium_api option) act" where
  "management_cilium rt =
     (let cn = rc_connection rt; config = rc_mgr_config rt in
      gbind (gwrap ''failed to discover server groups'' (invoke CServerGroups (cn_server_groups cn config))) (\<lambda>groups.
        if CiliumGroup \<in> set groups
        then gwrap ''failed to create cilium client'' (tolerate_missing_cilium (GetCiliumClient cn config))
        else gret None))"

section \<open>The reconcilers it runs\<close>

definition hcp_certificates :: "'e hostedControlPlaneReconciler \<Rightarrow> network_settings \<Rightarrow> HostedControlPlane
    \<Rightarrow> 'e certificateReconciler" where
  "hcp_certificates r n h =
     (let rt = r_runtime r in
      NewCertificateReconciler (rc_cert rt) (rt_core rt)
        (ip_string (wp_string6 (rc_workload rt)) (ns_kubernetes n))
        (RootCACertificateDurationOrDefault (Certificates (Spec h)))
        (CACertificateDurationOrDefault (Certificates (Spec h)))
        (r_certificatesDuration r) (r_konnectivityServerAudience r))"

definition hcp_kubeconfigs :: "'e hostedControlPlaneReconciler \<Rightarrow> 'e kubeconfigReconciler" where
  "hcp_kubeconfigs r =
     (let rt = r_runtime r in
      NewKubeconfigReconciler (rt_core rt) (r_apiServerServicePort r) (r_konnectivityClientUsername r)
        (r_controllerUsername r) (rt_md5 rt) (rt_depth rt) (wp_endpoint_string (rc_workload rt))
        (wp_write (rc_workload rt)))"

definition hcp_etcd :: "'e hostedControlPlaneReconciler \<Rightarrow> 'e cilium_api option \<Rightarrow> 'e etcdClusterReconciler" where
  "hcp_etcd r C =
     (let rt = r_runtime r in
      NewEtcdClusterReconciler (rt_core rt) C (r_etcdServerPort r) (r_etcdServerStorageBuffer r)
        (r_etcdServerStorageIncrement r) (operator_etcd_client rt) (operator_s3_client rt)
        (GetMaxEtcdVolumeUsage (rt_unmarshal_stats rt) (rt_core rt))
        (r_etcdComponentLabel r) (r_apiServerComponentLabel r) (r_controllerNamespace r) (r_controllerComponent r)
        (rt_md5 rt) (rt_depth rt) (rt_clock rt) (rt_cron rt) (rt_quantity_string rt) (rt_must_lt37 rt)
        (rt_tolerant_lt37 rt) (rt_health_timeout rt) (rt_stalled rt))"

definition hcp_api_server :: "'e hostedControlPlaneReconciler \<Rightarrow> network_settings \<Rightarrow> 'e cilium_api option
    \<Rightarrow> 'e apiServerResourcesReconciler" where
  "hcp_api_server r n C =
     (let rt = r_runtime r in
      NewApiServerResourcesReconciler (rt_core rt) C (r_worldComponent r) (ns_services n) (ns_pods n)
        (r_apiServerComponentLabel r) (r_apiServerServicePort r) (r_apiServerServiceLegacyPortName r)
        (r_etcdComponentLabel r) (r_etcdServerPort r) (r_konnectivityNamespace r) (r_konnectivityServiceAccount r)
        (r_konnectivityServicePort r) (r_konnectivityClientUsername r) (r_konnectivityServerAudience r)
        (rc_api_server rt))"

definition hcp_routes :: "'e hostedControlPlaneReconciler \<Rightarrow> 'e tlsRoutesReconciler" where
  "hcp_routes r =
     NewTLSRoutesReconciler (rc_capi (r_runtime r)) (r_apiServerServicePort r) (r_konnectivityServicePort r)"

definition hcp_infrastructure :: "'e hostedControlPlaneReconciler \<Rightarrow> 'e infrastructureClusterReconciler" where
  "hcp_infrastructure r =
     (let rt = r_runtime r in
      NewInfrastructureClusterReconciler (rc_capi rt) (r_apiServerServicePort r) (rc_infra_helper rt)
        (rc_set_nested rt))"

definition hcp_rotation :: "'e hostedControlPlaneReconciler \<Rightarrow> 'e nodeRotationReconciler" where
  "hcp_rotation r = NewNodeRotationReconciler (rc_capi (r_runtime r)) (rc_cert (r_runtime r))"

definition hcp_workload :: "'e hostedControlPlaneReconciler \<Rightarrow> network_settings \<Rightarrow> HostedControlPlane
    \<Rightarrow> 'e workloadClusterReconciler" where
  "hcp_workload r n h =
     (let rt = r_runtime r in
      NewWorkloadClusterReconciler (rt_core rt)
        (\<lambda>managementClusterClient cluster.
           GetWorkloadClusterClient (rc_connection rt) managementClusterClient cluster (r_controllerUsername r))
        (CACertificateDurationOrDefault (Certificates (Spec h))) (r_certificatesDuration r)
        (ns_domain n) (ns_services n) (ns_pods n) (ns_dns n) (r_konnectivityNamespace r)
        (r_konnectivityServiceAccount r) (r_konnectivityServerAudience r) (r_apiServerServicePort r) (rc_workload rt))"

section \<open>The phases\<close>

definition with_hcp :: "(HostedControlPlane \<Rightarrow> Cluster \<Rightarrow> ('e, string) act) \<Rightarrow> Cluster \<Rightarrow> ('e, string) act" where
  "with_hcp f cluster = gbind get_hcp (\<lambda>h. f h cluster)"

definition deployments_phase :: "'e apiServerResourcesReconciler \<Rightarrow> Cluster \<Rightarrow> ('e, string) act" where
  "deployments_phase arr cluster =
     gbind (gwrap ''reconcile api server deployments'' (ReconcileApiServerDeployments arr cluster)) (\<lambda>notReady.
       if notReady \<noteq> [] then gret notReady
       else gseq (mod_status (\<lambda>s. s\<lparr>ControlPlaneInitialized := Some True\<rparr>)) (gret []))"

definition admin_kubeconfig_phase :: "'e kubeconfigReconciler \<Rightarrow> Cluster \<Rightarrow> ('e, string) act" where
  "admin_kubeconfig_phase kr cluster =
     gseq (gwrap ''reconcile api server deployments'' (ReconcileAdminKubeconfig kr cluster))
       (gseq (mod_status (\<lambda>s. s\<lparr>Ready := True\<rparr>)) (gret []))"

definition managementPhases :: "'e hostedControlPlaneReconciler \<Rightarrow> network_settings \<Rightarrow> 'e cilium_api option
    \<Rightarrow> HostedControlPlane \<Rightarrow> 'e Phase list" where
  "managementPhases r n C h =
     [phase ''CA certificates'' (with_hcp (ReconcileCACertificates (hcp_certificates r n h)))
        CACertificatesReadyCondition CACertificatesFailedReason,
      phase ''CA bundles'' (with_hcp (ReconcileCABundles (hcp_certificates r n h)))
        CABundleReadyCondition CABundleFailedReason,
      phase ''apiserver service'' (ReconcileApiServerService (hcp_api_server r n C))
        APIServerServiceReadyCondition APIServerServiceFailedReason,
      phase ''sync controlplane endpoint'' (with_hcp (SyncControlPlaneEndpoint (hcp_infrastructure r)))
        SyncControlPlaneEndpointReadyCondition SyncControlPlaneEndpointFailedReason,
      phase ''tlsroutes'' (with_hcp (ReconcileTLSRoutes (hcp_routes r)))
        APIServerTLSRoutesReadyCondition APIServerTLSRoutesFailedReason,
      phase ''certificates'' (with_hcp (ReconcileCertificates (hcp_certificates r n h)))
        CertificatesReadyCondition CertificatesFailedReason,
      phase ''etcd cluster'' (ReconcileEtcdCluster (hcp_etcd r C))
        EtcdClusterReadyCondition EtcdClusterFailedReason,
      phase ''internal kubeconfig'' (\<lambda>cluster. gseq (ReconcileInternalKubeconfigs (hcp_kubeconfigs r) cluster) (gret []))
        InternalKubeconfigReadyCondition InternalKubeconfigFailedReason,
      phase ''apiserver deployments'' (deployments_phase (hcp_api_server r n C))
        APIServerDeploymentsReadyCondition APIServerDeploymentsFailedReason,
      phase ''kubernetes service'' (ReconcileKubernetesService (hcp_workload r n h))
        KubernetesServiceReadyCondition KubernetesServiceFailedReason,
      phase ''admin kubeconfig'' (admin_kubeconfig_phase (hcp_kubeconfigs r))
        AdminKubeconfigReadyCondition AdminKubeconfigFailedReason,
      phase ''CA rotation annotation'' (with_hcp (\<lambda>h cluster.
          gseq (ReconcileCARotation (hcp_rotation r) h cluster) (gret [])))
        CARotationAnnotationReadyCondition CARotationAnnotationFailedReason,
      phase ''workload cluster resources'' (ReconcileWorkloadClusterResources (hcp_workload r n h))
        WorkloadClusterResourcesReadyCondition WorkloadClusterResourcesFailedReason]"

definition controller_messages :: phase_messages where
  "controller_messages =
     \<lparr>pm_failed = (\<lambda>name err. ''Reconciling phase '' @ name @ '' failed: '' @ err),
      pm_not_ready = (\<lambda>name reason. ''phase '' @ name @ '' not ready''),
      pm_ready = (\<lambda>name. ''Management phase '' @ name @ '' reconciled successfully'')\<rparr>"

text \<open>\<open>ctrl.Result\<close> is the time after which to come back, 0 for none.\<close>

definition second :: duration where "second = nano"

definition reconcileNormal :: "'e hostedControlPlaneReconciler \<Rightarrow> Cluster \<Rightarrow> ('e, duration) act" where
  "reconcileNormal r cluster =
     (let rt = r_runtime r in
      gbind (cluster_networks rt cluster) (\<lambda>n.
      gbind (management_cilium rt) (\<lambda>C.
      gbind get_hcp (\<lambda>h.
      gbind (run_phases (wp_set_c (rc_workload rt)) (wp_api_text (rc_workload rt)) controller_messages cluster
          (managementPhases r n C h)) (\<lambda>notReadyReason.
        gret (if notReadyReason \<noteq> [] then 10 * second else 60 * second))))))"

definition reconcileDelete :: "'e hostedControlPlaneReconciler \<Rightarrow> ('e, duration) act" where
  "reconcileDelete r =
     gseq (mod_hcp (\<lambda>h. h\<lparr>Finalizers := rc_remove_finalizer (r_runtime r) (Finalizers h) (r_finalizer r)\<rparr>)) (gret 0)"

section \<open>The patch\<close>

definition pascal_reason :: "'e controller_runtime \<Rightarrow> string \<Rightarrow> string" where
  "pascal_reason rt reason =
     str_join '','' (map (\<lambda>subReason. rc_pascal rt (map (\<lambda>c. if c = CHR '' '' then CHR ''_'' else c) subReason))
       (str_split (CHR '','') reason))"

definition ReadyCondition :: string where "ReadyCondition = ''Ready''"
definition PausedCondition :: string where "PausedCondition = ''Paused''"

definition applicable_conditions :: "condition list \<Rightarrow> string list" where
  "applicable_conditions cs =
     filter (\<lambda>t. t \<notin> {ReadyCondition, PausedCondition} \<and> \<not> has_prefix t ''Workload'') (map cond_type cs)"

definition summarise :: "'e controller_runtime \<Rightarrow> string list \<Rightarrow> ('e, unit) act" where
  "summarise rt applicable =
     (if applicable = [] then gret ()
      else gbind get_hcp (\<lambda>h. case rc_summary rt (GetConditions h) applicable of
             Inl err \<Rightarrow> gfail (EWrap ''failed to set summary condition'' err)
           | Inr c \<Rightarrow> set_condition (wp_set_c (rc_workload rt)) c))"

definition patch_hcp :: "'e controller_runtime \<Rightarrow> HostedControlPlane \<Rightarrow> ('e, unit) act" where
  "patch_hcp rt before =
     gseq (mod_hcp (\<lambda>h. SetConditions h
             (map (\<lambda>c. c\<lparr>cond_reason := pascal_reason rt (cond_reason c)\<rparr>) (GetConditions h))))
       (gbind get_hcp (\<lambda>h.
         let applicable = applicable_conditions (GetConditions h); owned = applicable @ [ReadyCondition] in
         gseq (summarise rt applicable)
           (gbind get_hcp (\<lambda>h.
              gwrap ''failed to patch HostedControlPlane'' (invoke (CHcpPatch before h owned) (rc_patch rt before h owned))))))"

section \<open>One reconciliation\<close>

definition filtered_out :: "'e hostedControlPlaneReconciler \<Rightarrow> HostedControlPlane \<Rightarrow> Cluster \<Rightarrow> bool" where
  "filtered_out r h cluster \<longleftrightarrow>
     (let f = r_reconcileFilter r in
      f \<noteq> [] \<and>
      (if CHR ''/'' \<in> set f
       then Namespace h @ ''/'' @ Name h \<noteq> f \<and> ClusterNamespace cluster @ ''/'' @ ClusterName cluster \<noteq> f
       else Name h \<noteq> f \<and> ClusterName cluster \<noteq> f))"

text \<open>The deferred patch runs after every outcome; its error is joined with the one of the body.\<close>

definition deferred_patch :: "'e controller_runtime \<Rightarrow> HostedControlPlane \<Rightarrow> ('e, 'a) act \<Rightarrow> ('e, 'a) act" where
  "deferred_patch rt before body =
     gbind (gtry body) (\<lambda>result.
     gseq (mod_hcp (\<lambda>h. h\<lparr>Status := (Status h)\<lparr>ObservedGeneration := Generation h\<rparr>\<rparr>))
     (gbind (gtry (patch_hcp rt before)) (\<lambda>patched.
       case (result, patched) of
         (Inr x, Inr _) \<Rightarrow> gret x
       | (Inl err, Inr _) \<Rightarrow> gfail err
       | (Inr x, Inl perr) \<Rightarrow> gfail (EJoin [perr])
       | (Inl err, Inl perr) \<Rightarrow> gfail (EJoin [err, perr]))))"

definition reconcile_object :: "'e hostedControlPlaneReconciler \<Rightarrow> Cluster \<Rightarrow> ('e, duration) act" where
  \<comment> \<open>from the patch helper to the end\<close>
  "reconcile_object r cluster =
     gbind get_hcp (\<lambda>before. case rc_new_helper (r_runtime r) before of
       Some err \<Rightarrow> gfail (EWrap ''failed to create patch helper for HostedControlPlane'' err)
     | None \<Rightarrow>
         gseq (mod_status (\<lambda>s. s\<lparr>ExternalManagedControlPlane := Some True\<rparr>))
           (deferred_patch (r_runtime r) before
             (if DeletionTimestamp before \<noteq> 0 then reconcileDelete r else reconcileNormal r cluster)))"

definition ensure_finalizer :: "'e hostedControlPlaneReconciler \<Rightarrow> ('e, bool) act" where
  "ensure_finalizer r =
     gbind get_hcp (\<lambda>h.
       if DeletionTimestamp h \<noteq> 0 then gret False
       else gwrap ''failed to ensure finalizer''
              (invoke (CHcpFinalizer (r_finalizer r)) (rc_ensure_finalizer (r_runtime r) h (r_finalizer r))))"

definition ensure_paused :: "'e hostedControlPlaneReconciler \<Rightarrow> Cluster \<Rightarrow> ('e, bool) act" where
  "ensure_paused r cluster =
     gbind get_hcp (\<lambda>h.
     gbind (gwrap ''failed to verify paused condition'' (invoke CHcpPaused (rc_ensure_paused (r_runtime r) cluster h)))
       (\<lambda>(isPaused, requeue, cs). gseq (mod_hcp (\<lambda>h. SetConditions h cs)) (gret (isPaused \<or> requeue))))"

definition Reconcile :: "'e hostedControlPlaneReconciler \<Rightarrow> string \<Rightarrow> string \<Rightarrow> ('e, duration) act" where
  "Reconcile r namespace name =
     (let rt = r_runtime r in
      gbind (gtry (invoke (CHcpGet namespace name) (rc_hcp_get rt namespace name))) (\<lambda>got. case got of
        Inl err \<Rightarrow> if is_not_found err then gret 0 else gfail (EWrap ''failed to get HostedControlPlane'' err)
      | Inr h \<Rightarrow>
          gseq (mod_hcp (\<lambda>_. h))
          (gbind (gwrap ''failed to retrieve owner Cluster'' (invoke COwnerCluster (rc_owner_cluster rt h))) (\<lambda>owner.
           case owner of
             None \<Rightarrow> gret (5 * second)
           | Some cluster \<Rightarrow>
               if filtered_out r h cluster then gret 0
               else gbind (ensure_paused r cluster) (\<lambda>held.
                 if held then gret (10 * second)
                 else gbind (ensure_finalizer r) (\<lambda>finalizerAdded.
                   if finalizerAdded then gret 0 else reconcile_object r cluster))))))"

end
