(* ===== verification/Frames.thy ===== *)
theory Frames
  imports Controller
begin

text \<open>
  What one reconciliation leaves alone. Most reconcilers only talk to the API servers: they keep every relation
  of the locale \<open>env_relation\<close>, in particular the \<open>HostedControlPlane\<close> as it is. The others write fields of the
  status; none of them writes the conditions, which belong to the loop over the phases, and only the one of etcd
  writes the size of the volumes (\<open>size_kept\<close> of \<open>EtcdStorage\<close>).
\<close>

section \<open>Reconcilers that only talk to the API servers\<close>

lemma keeps_case_list:
  "keeps R m \<Longrightarrow> (\<And>x xs. keeps R (f x xs)) \<Longrightarrow> keeps R (case xs of [] \<Rightarrow> m | x # xs \<Rightarrow> f x xs)"
  by (cases xs) simp_all

context env_relation
begin

lemma keeps_get: "keeps R get_hcp"
  by (rule keeps_get_hcp [OF refl_R])

lemmas keeps_all = keeps_basic keeps_get keeps_case_list keeps_management keeps_arguments keeps_deployment
  keeps_service keeps_configmap keeps_workload keeps_ignore_not_found

lemma keeps_certificates:
  "keeps R (ReconcileCACertificates cr h cluster)" "keeps R (ReconcileCABundles cr h cluster)"
  "keeps R (ReconcileCertificates cr h cluster)"
  unfolding ReconcileCACertificates_def reconcileCA_def reconcileCertificate_def ReconcileCABundles_def
    reconcileCABundle_def get_secret_def ReconcileCertificates_def reconcile_spec_def cleanupOrphanedCertificates_def
    delete_orphan_def Let_def
  by (intro keeps_all)+

lemma keeps_exposure:
  "keeps R (SyncControlPlaneEndpoint i h cluster)" "keeps R (ReconcileTLSRoutes trr h cluster)"
  unfolding SyncControlPlaneEndpoint_def ReconcileTLSRoutes_def applyAndCheckTLSRoute_def Let_def
  by (intro keeps_all)+

lemma keeps_kubeconfigs:
  "keeps R (ReconcileInternalKubeconfigs kr cluster)" "keeps R (ReconcileAdminKubeconfig kr cluster)"
  unfolding ReconcileInternalKubeconfigs_def ReconcileAdminKubeconfig_def reconcileKubeconfigs_def
    reconcileKubeconfig_def generateKubeconfigFromSecret_def Let_def
  by (intro keeps_all)+

lemma keeps_rotation: "keeps R (ReconcileCARotation nr h cluster)"
  unfolding ReconcileCARotation_def ca_not_before_def roll_deployment_def roll_pool_def Let_def
  by (intro keeps_all)

lemma keeps_api_server_config:
  "keeps R (reconcileKonnectivityConfig arr cluster)" "keeps R (reconcileAuditConfig arr cluster)"
  "keeps R (reconcileAuthenticationConfig arr cluster)"
  unfolding reconcileKonnectivityConfig_def reconcileAuditConfig_def audit_data_def generateWebhookConfigs_def
    generateNginxConfig_def webhook_target_def getAuditWebhookAuthenticationToken_def
    reconcileAuthenticationConfig_def Let_def
  by (intro keeps_all)+

lemma keeps_api_server_containers:
  "keeps R (createKonnectivityContainer arr h v1 v2 m1)"
  "keeps R (audit_init_containers cluster a)"
  "keeps R (createAPIServerContainer arr h cluster v1 v2 ov v3 m1 ms)"
  "keeps R (createSchedulerContainer arr h v1)"
  "keeps R (createControllerManagerContainer arr h cluster m1 v1)"
  unfolding createKonnectivityContainer_def audit_init_containers_def createAuditWebhookSidecarContainer_def
    createAPIServerContainer_def createSchedulerContainer_def createControllerManagerContainer_def
    buildAPIServerArgs_def buildKonnectivityServerArgs_def buildSchedulerArgs_def buildControllerManagerArgs_def Let_def
  by (intro keeps_all)+

lemma keeps_secondary_deployments:
  "keeps R (reconcileControllerManagerDeployment arr cluster)" "keeps R (reconcileSchedulerDeployment arr cluster)"
  unfolding reconcileControllerManagerDeployment_def reconcileSchedulerDeployment_def Let_def
  by (intro keeps_all keeps_api_server_containers)+

lemma keeps_workload_resources:
  "keeps R (Workload_ReconcileService wr namespace name labels serviceType serviceIP headless ports)"
  "keeps R (Workload_ReconcileConfigmap wr namespace name deleteResource labels data)"
  "keeps R (Workload_ReconcileDeployment wr namespace name deleteResource replicas podOptions labels ingress egress
      containers volumes)"
  "keeps R (Workload_ReconcileDaemonSet wr namespace name deleteResource podOptions labels ingress egress
      containers volumes)"
  "keeps R (apply_service_account W sa)" "keeps R (apply_role W role)" "keeps R (apply_role_binding W rb)"
  "keeps R (delete_role_binding W rb)" "keeps R (list_nodes W)"
  unfolding Workload_ReconcileService_def Workload_ReconcileConfigmap_def Workload_ReconcileDeployment_def
    Workload_ReconcileDaemonSet_def apply_service_account_def apply_role_def apply_role_binding_def
    delete_role_binding_def list_nodes_def Let_def
  by (intro keeps_all)+

lemma keeps_rbac_phases: "keeps R (run_rbac_phases W phases)"
  unfolding reconcile_role_def reconcile_role_binding_def
proof (induction phases)
  case (Cons p ps)
  then show ?case
    unfolding run_rbac_phases.simps reconcile_rbac_phase_def reconcile_role_def reconcile_role_binding_def
      recreate_invalid_def
    by (intro keeps_all keeps_workload_resources; assumption?)
qed (simp add: keeps_gret refl_R)

lemma keeps_workload_config:
  "keeps R (ReconcileClusterInfoConfigMap ccr K cluster)" "keeps R (ReconcileKubeadmConfig ccr h cluster)"
  "keeps R (ReconcileKubeletConfig ccr)" "keeps R (ReconcileKubernetesEndpoints ks h)"
  unfolding ReconcileClusterInfoConfigMap_def ReconcileKubeadmConfig_def ReconcileKubeletConfig_def
    ReconcileKubernetesEndpoints_def applyEndpointSlice_def applyEndpoints_def Let_def
  by (intro keeps_all keeps_workload_resources)+

lemmas keeps_addon = keeps_all keeps_workload_resources

lemma keeps_kube_proxy: "keeps R (ReconcileKubeProxy kr h cluster deleteResource)"
  unfolding ReconcileKubeProxy_def run_steps.simps reconcileKubeProxyConfigMap_def reconcileKubeProxyRBAC_def
    apply_or_delete_def reconcileKubeProxyDaemonSet_def kubeproxy_buildArgs_def Let_def
  by (intro keeps_addon)

lemma keeps_core_dns: "keeps R (ReconcileCoreDNS cr h)"
  unfolding ReconcileCoreDNS_def run_steps.simps reconcileCoreDNSConfigMap_def reconcileCoreDNSRBAC_def
    reconcileCoreDNSDeployment_def core_dns_container_def reconcileCoreDNSService_def Let_def
  by (intro keeps_addon)

lemma keeps_konnectivity: "keeps R (ReconcileKonnectivity ka h cluster)"
  unfolding ReconcileKonnectivity_def run_steps.simps reconcileKonnectivityRBAC_def bind_or_recreate_def
    reconcileKonnectivityDeployment_def konnectivity_container_def buildKonnectivityClientArgs_def Let_def
  by (intro keeps_addon)

end

section \<open>Reconcilers that write the status\<close>

lemmas size_intros = size_env.keeps_all size_env.keeps_api_server_containers
  keeps_size_mod_status

lemma keeps_size_api_server_service: "keeps size_kept (ReconcileApiServerService arr cluster)"
  unfolding ReconcileApiServerService_def Let_def by (intro size_intros) simp_all

lemma keeps_size_api_server_deployment: "keeps size_kept (reconcileAPIServerDeployment arr cluster)"
  unfolding reconcileAPIServerDeployment_def record_api_server_def Let_def by (intro size_intros) simp_all

lemma keeps_size_deployments: "keeps size_kept (deployments_phase arr cluster)"
  unfolding deployments_phase_def ReconcileApiServerDeployments_def Let_def
  by (intro size_intros size_env.keeps_api_server_config size_env.keeps_secondary_deployments
      keeps_size_api_server_deployment) simp_all

lemma keeps_size_admin_kubeconfig: "keeps size_kept (admin_kubeconfig_phase kr cluster)"
  unfolding admin_kubeconfig_phase_def by (intro size_intros size_env.keeps_kubeconfigs) simp_all

text \<open>The etcd reconciler that the controller makes has the contract of the one the operator makes.\<close>

interpretation hcp_etcd: etcd_reconciler "hcp_etcd r C"
  using operator_etcd.etcd_reconciler_axioms [of "r_runtime r" C]
  by (simp add: etcd_reconciler_def etcd_reconciler_axioms_def hcp_etcd_def operator_etcd_simps
      NewEtcdClusterReconciler_def Let_def)

lemma keeps_conditions_etcd: "keeps conditions_kept (ReconcileEtcdCluster (hcp_etcd r C) cluster)"
  by (rule keeps_mono [OF hcp_etcd.keeps_etcd_step]) (simp add: volume_step_def)

lemma keeps_workload_client:
  "keeps size_kept (GetWorkloadClusterClient cn K cluster user)"
  unfolding GetWorkloadClusterClient_def tolerate_missing_cilium_def GetCiliumClient_def Let_def
  by (intro size_intros)

lemma keeps_size_workload_phases:
  "p \<in> set (workloadPhases wr W C) \<Longrightarrow> keeps size_kept (ph_reconcile p cluster)"
  by (auto simp: workloadPhases_def Let_def phase_def ReconcileRBAC_def
      intro!: size_intros size_env.keeps_rbac_phases size_env.keeps_workload_config
        size_env.keeps_kube_proxy size_env.keeps_core_dns size_env.keeps_konnectivity)

lemma keeps_size_kubernetes_service:
  assumes "\<And>K. keeps size_kept (workloadClusterClientFactory wr K cluster)"
  shows "keeps size_kept (ReconcileKubernetesService wr cluster)"
  unfolding ReconcileKubernetesService_def workload_client_def
  by (intro size_intros size_env.keeps_workload_config assms)

end
