(* ===== verification/PhaseOutcome.thy ===== *)
theory PhaseOutcome
  imports Frames
begin

text \<open>
  What the loops over phases leave in the conditions. The abstract view of the conditions is the map from type to
  condition; a run of the phases refines the update of that map by \<open>recorded\<close>: the phases up to the one that
  stops the loop are recorded as ready, that one with the reason, and nothing else changes. The contract of the
  loop is the locale \<open>phase_loop\<close>, met by the phases of the controller and by those of the workload cluster.
\<close>

section \<open>Keeping some conditions\<close>

definition conditions_map :: "'e world \<Rightarrow> string \<rightharpoonup> condition" where
  "conditions_map w = condition_of (GetConditions (hcp w))"

definition kept_on :: "string set \<Rightarrow> 'e world \<Rightarrow> 'e world \<Rightarrow> bool" where
  "kept_on T w w' \<longleftrightarrow> hcp w' = (hcp w)\<lparr>Status := Status (hcp w')\<rparr> \<and>
     (\<forall>t\<in>T. conditions_map w' t = conditions_map w t)"

lemma kept_on_refl [simp]: "kept_on T w w"
  by (simp add: kept_on_def)

lemma kept_on_trans: "kept_on T u v \<Longrightarrow> kept_on T v w \<Longrightarrow> kept_on T u w"
  by (cases "hcp u"; cases "hcp v"; cases "hcp w") (simp add: kept_on_def)

lemma kept_on_mono: "kept_on T w w' \<Longrightarrow> S \<subseteq> T \<Longrightarrow> kept_on S w w'"
  by (auto simp: kept_on_def)

lemma reflp_kept_on [simp]: "reflp (kept_on T)"
  by (rule reflpI) simp

lemma transp_kept_on [simp]: "transp (kept_on T)"
  by (rule transpI) (rule kept_on_trans)

lemma conditions_kept_on: "conditions_kept w w' \<Longrightarrow> kept_on T w w'"
  by (simp add: conditions_kept_def kept_on_def conditions_map_def GetConditions_def)

lemma keeps_on_conditions: "keeps conditions_kept m \<Longrightarrow> keeps (kept_on T) m"
  by (erule keeps_mono) (rule conditions_kept_on)

lemma keeps_on_size: "keeps size_kept m \<Longrightarrow> keeps (kept_on T) m"
  by (rule keeps_on_conditions, erule keeps_mono) (simp add: size_kept_def)

lemma set_condition_run: "set_condition set_c c w = (Inr (), w\<lparr>hcp := SetConditions (hcp w) (set_c (GetConditions (hcp w)) c)\<rparr>)"
  by (simp add: set_condition_def mod_hcp_def gmod_def)

lemma set_condition_map:
  "lawful_set set_c \<Longrightarrow> set_condition set_c c w = (r, w') \<Longrightarrow> conditions_map w' = (conditions_map w)(cond_type c \<mapsto> c)"
  by (auto simp: set_condition_run conditions_map_def lawful_set_def GetConditions_def SetConditions_def)

lemma keeps_set_condition: "lawful_set set_c \<Longrightarrow> cond_type c \<notin> T \<Longrightarrow> keeps (kept_on T) (set_condition set_c c)"
  by (auto simp: keeps_def set_condition_run kept_on_def conditions_map_def lawful_set_def GetConditions_def
      SetConditions_def)

lemma phase_condition_types [simp]:
  "cond_type (failed_condition m api p err) = ph_condition p"
  "cond_type (not_ready_condition m p reason) = ph_condition p"
  "cond_type (ready_condition m p) = ph_condition p"
  by (simp_all add: failed_condition_def not_ready_condition_def ready_condition_def)

section \<open>The abstract view\<close>

definition recorded :: "phase_messages \<Rightarrow> (api_reason \<Rightarrow> string) \<Rightarrow> 'e Phase list \<Rightarrow> nat \<Rightarrow> gerr + string
    \<Rightarrow> condition list" where
  "recorded m api ps n r =
     map (ready_condition m) (take n ps) @
     (case drop n ps of
        [] \<Rightarrow> []
      | p # _ \<Rightarrow>
          (case r of
             Inl err \<Rightarrow> if panics err then [] else [failed_condition m api p err]
           | Inr reason \<Rightarrow> [not_ready_condition m p reason]))"

definition updates :: "condition list \<Rightarrow> string \<rightharpoonup> condition" where
  "updates cs = map_of (map (\<lambda>c. (cond_type c, c)) cs)"

text \<open>The first \<open>n\<close> phases were ready and the next one, if there is one, answered \<open>r\<close>.\<close>

definition stopped_at :: "Cluster \<Rightarrow> 'e Phase list \<Rightarrow> nat \<Rightarrow> gerr + string \<Rightarrow> bool" where
  "stopped_at cluster ps n r \<longleftrightarrow> n \<le> length ps \<and>
     (\<forall>p \<in> set (take n ps). \<exists>v. fst (ph_reconcile p cluster v) = Inr []) \<and>
     (if n = length ps then r = Inr [] else r \<noteq> Inr [] \<and> (\<exists>v. fst (ph_reconcile (ps ! n) cluster v) = r))"

lemma stopped_at_Suc: "fst (ph_reconcile p cluster v) = Inr [] \<Longrightarrow> stopped_at cluster ps n r
    \<Longrightarrow> stopped_at cluster (p # ps) (Suc n) r"
  by (auto simp: stopped_at_def)

lemma stopped_at_0: "r \<noteq> Inr [] \<Longrightarrow> fst (ph_reconcile p cluster v) = r \<Longrightarrow> stopped_at cluster (p # ps) 0 r"
  by (auto simp: stopped_at_def)

lemma recorded_Suc: "recorded m api (p # ps) (Suc n) r = ready_condition m p # recorded m api ps n r"
  by (simp add: recorded_def)

lemma recorded_types: "cond_type ` set (recorded m api ps n r) \<subseteq> ph_condition ` set ps"
proof (cases "drop n ps")
  case Nil
  then show ?thesis by (auto simp: recorded_def dest: in_set_takeD)
next
  case (Cons p rest)
  then have "p \<in> set ps" using in_set_dropD [of p n ps] by simp
  with Cons show ?thesis
    by (auto simp: recorded_def dest: in_set_takeD split: sum.splits if_splits)
qed

lemma updates_outside: "t \<notin> cond_type ` set cs \<Longrightarrow> updates cs t = None"
  by (auto simp: updates_def map_of_eq_None_iff)

section \<open>The contract of the loop\<close>

locale phase_loop =
  fixes set_c :: "condition list \<Rightarrow> condition \<Rightarrow> condition list"
    and cluster :: Cluster and ps :: "'e Phase list" and T :: "string set"
  assumes types_distinct: "distinct (map ph_condition ps)"
    and types_kept: "ph_condition ` set ps \<subseteq> T"
    and phase_keeps: "lawful_set set_c \<Longrightarrow> p \<in> set ps \<Longrightarrow> keeps (kept_on T) (ph_reconcile p cluster)"
begin

lemma tail: "ps = q # qs \<Longrightarrow> phase_loop set_c cluster qs T"
  using types_distinct types_kept phase_keeps by (auto simp: phase_loop_def)

lemma phase_kept:
  "lawful_set set_c \<Longrightarrow> p \<in> set ps \<Longrightarrow> ph_reconcile p cluster w = (r, w') \<Longrightarrow> kept_on T w w'"
  by (rule keepsD [OF phase_keeps])

end

text \<open>One turn of the loop: the phase ends it, or is ready and the others follow.\<close>

lemma run_phases_turn:
  assumes "run_phases set_c api m cluster (p # ps) w = (r, w')" "ph_reconcile p cluster w = (res, w1)"
  shows "(\<exists>w2. res = Inr [] \<and> set_condition set_c (ready_condition m p) w1 = (Inr (), w2)
      \<and> run_phases set_c api m cluster ps w2 = (r, w'))
    \<or> r = res \<and> res \<noteq> Inr [] \<and>
      (case recorded m api (p # ps) 0 res of
         [] \<Rightarrow> w' = w1 | c # _ \<Rightarrow> set_condition set_c c w1 = (Inr (), w'))"
  using assms
  by (cases res) (auto simp: gtry_def gseq_def gbind_def set_condition_run gret_eq gfail_eq recorded_def
      split: if_splits)

lemma phase_loop_outcome:
  assumes lawful: "lawful_set set_c"
    and "phase_loop set_c cluster ps T" "run_phases set_c api m cluster ps w = (r, w')"
  shows "\<exists>n. stopped_at cluster ps n r \<and> hcp w' = (hcp w)\<lparr>Status := Status (hcp w')\<rparr> \<and>
    (\<forall>t\<in>T. conditions_map w' t = (conditions_map w ++ updates (recorded m api ps n r)) t)"
  using assms(2,3)
proof (induction ps arbitrary: w)
  case Nil
  then have "r = Inr []" "w' = w" by (auto simp: gret_eq)
  then show ?case by (auto simp: stopped_at_def recorded_def updates_def)
next
  case (Cons p ps)
  note loop = Cons.prems(1)
  obtain res w1 where p: "ph_reconcile p cluster w = (res, w1)" by fastforce
  with loop have w1: "kept_on T w w1" by (auto dest: phase_loop.phase_kept [OF _ lawful])
  from run_phases_turn [OF Cons.prems(2) p] show ?case
  proof (elim disjE exE conjE)
    fix w2 assume res: "res = Inr []" and w2: "set_condition set_c (ready_condition m p) w1 = (Inr (), w2)"
      and rest: "run_phases set_c api m cluster ps w2 = (r, w')"
    from Cons.IH [OF phase_loop.tail [OF loop refl] rest] obtain n where
      n: "stopped_at cluster ps n r" and hcp: "hcp w' = (hcp w2)\<lparr>Status := Status (hcp w')\<rparr>"
      and conds: "\<forall>t\<in>T. conditions_map w' t = (conditions_map w2 ++ updates (recorded m api ps n r)) t"
      by blast
    have "updates (recorded m api ps n r) (ph_condition p) = None"
      using phase_loop.types_distinct [OF loop] recorded_types [of m api ps n r]
      by (intro updates_outside) auto
    then have "\<forall>t\<in>T. conditions_map w' t = (conditions_map w ++ updates (recorded m api (p # ps) (Suc n) r)) t"
      using conds w1 set_condition_map [OF lawful w2]
      by (auto simp: recorded_Suc updates_def kept_on_def map_add_def split: option.splits)
    moreover have "hcp w' = (hcp w)\<lparr>Status := Status (hcp w')\<rparr>"
      using hcp w1 w2 by (cases "hcp w"; cases "hcp w1"; cases "hcp w'")
        (auto simp: kept_on_def set_condition_run SetConditions_def)
    moreover have "stopped_at cluster (p # ps) (Suc n) r"
      by (rule stopped_at_Suc [OF _ n, of _ w]) (simp add: p res)
    ultimately show ?case by blast
  next
    assume r: "r = res" "res \<noteq> Inr []"
      and w': "case recorded m api (p # ps) 0 res of [] \<Rightarrow> w' = w1 | c # _ \<Rightarrow> set_condition set_c c w1 = (Inr (), w')"
    have "stopped_at cluster (p # ps) 0 r"
      by (rule stopped_at_0 [of _ _ _ w]) (simp_all add: p r)
    moreover have "hcp w' = (hcp w)\<lparr>Status := Status (hcp w')\<rparr>"
      using w' w1 by (cases "hcp w"; cases "hcp w1"; cases "hcp w'")
        (auto simp: kept_on_def set_condition_run SetConditions_def split: list.splits)
    moreover have "\<forall>t\<in>T. conditions_map w' t = (conditions_map w ++ updates (recorded m api (p # ps) 0 r)) t"
      using w' w1 r(1)
      by (auto simp: recorded_def updates_def kept_on_def dest!: set_condition_map [OF lawful]
          split: sum.splits if_splits)
    ultimately show ?case by blast
  qed
qed

section \<open>The phases of the workload cluster\<close>

definition workload_conditions :: "string list" where
  "workload_conditions =
     [WorkloadRBACReadyCondition, WorkloadClusterInfoReadyCondition, WorkloadKubeadmConfigReadyCondition,
      WorkloadKubeletConfigReadyCondition, WorkloadKubeProxyReadyCondition, WorkloadCoreDNSReadyCondition,
      WorkloadKonnectivityReadyCondition]"

lemma workloadPhases_types: "map ph_condition (workloadPhases wr W C) = workload_conditions"
  by (simp add: workloadPhases_def workload_conditions_def Let_def phase_def)

interpretation workload_loop: phase_loop "wp_set_c (wcr_params wr)" cluster "workloadPhases wr W C" UNIV
proof unfold_locales
  show "distinct (map ph_condition (workloadPhases wr W C))"
    by (simp add: workloadPhases_types workload_conditions_def condition_name_defs)
qed (auto intro: keeps_on_size keeps_size_workload_phases)

lemma run_phases_kept:
  assumes "lawful_set set_c" "phase_loop set_c cluster ps T" "S \<subseteq> T" "S \<inter> ph_condition ` set ps = {}"
  shows "keeps (kept_on S) (run_phases set_c api m cluster ps)"
  unfolding keeps_def
proof
  fix w
  obtain r w' where run: "run_phases set_c api m cluster ps w = (r, w')" by fastforce
  from phase_loop_outcome [OF assms(1,2) run] obtain n where
    "hcp w' = (hcp w)\<lparr>Status := Status (hcp w')\<rparr>"
    and conds: "\<forall>t\<in>T. conditions_map w' t = (conditions_map w ++ updates (recorded m api ps n r)) t"
    by blast
  moreover have "conditions_map w' t = conditions_map w t" if "t \<in> S" for t
  proof -
    have "updates (recorded m api ps n r) t = None"
      using that assms(4) recorded_types [of m api ps n r] by (intro updates_outside) blast
    then show ?thesis using conds that assms(3) by (auto simp: map_add_def)
  qed
  ultimately have "kept_on S w w'" by (simp add: kept_on_def)
  then show "kept_on S w (snd (run_phases set_c api m cluster ps w))" by (simp add: run)
qed

lemma keeps_workload_management:
  assumes "lawful_set (wp_set_c (wcr_params wr))"
    and "\<And>K. keeps size_kept (workloadClusterClientFactory wr K cluster)"
  shows "keeps (kept_on (- set workload_conditions)) (ReconcileWorkloadClusterResources wr cluster)"
proof -
  have "ph_condition ` set (workloadPhases wr W C) = set workload_conditions" for W C
    by (metis workloadPhases_types set_map)
  then have phases: "keeps (kept_on (- set workload_conditions))
      (run_phases (wp_set_c (wcr_params wr)) api m cluster (workloadPhases wr W C))" for api m W C
    by (intro run_phases_kept [OF assms(1) workload_loop.phase_loop_axioms]) auto
  show ?thesis
    unfolding ReconcileWorkloadClusterResources_def workload_client_def
    by (intro keeps_gbind keeps_gwrap keeps_on_size assms(2) keeps_case_prod phases) simp
qed

section \<open>The phases of the controller\<close>

definition management_conditions :: "string list" where
  "management_conditions =
     [CACertificatesReadyCondition, CABundleReadyCondition, APIServerServiceReadyCondition,
      SyncControlPlaneEndpointReadyCondition, APIServerTLSRoutesReadyCondition, CertificatesReadyCondition,
      EtcdClusterReadyCondition, InternalKubeconfigReadyCondition, APIServerDeploymentsReadyCondition,
      KubernetesServiceReadyCondition, AdminKubeconfigReadyCondition, CARotationAnnotationReadyCondition,
      WorkloadClusterResourcesReadyCondition]"

lemma managementPhases_types: "map ph_condition (managementPhases r n C h) = management_conditions"
  by (simp add: managementPhases_def management_conditions_def phase_def)

lemma conditions_disjoint: "set management_conditions \<inter> set workload_conditions = {}"
  by (simp add: management_conditions_def workload_conditions_def condition_name_defs)

lemma hcp_workload_simps:
  "wcr_params (hcp_workload r n h) = rc_workload (r_runtime r)"
  "workloadClusterClientFactory (hcp_workload r n h) = (\<lambda>K cluster.
     GetWorkloadClusterClient (rc_connection (r_runtime r)) K cluster (r_controllerUsername r))"
  by (simp_all add: hcp_workload_def NewWorkloadClusterReconciler_def Let_def)

lemma keeps_size_management_phase:
  assumes "p \<in> set (managementPhases r n C h)"
    and "ph_name p \<noteq> ''workload cluster resources''" "ph_name p \<noteq> ''etcd cluster''"
  shows "keeps size_kept (ph_reconcile p cluster)"
proof -
  have client: "keeps size_kept (workloadClusterClientFactory (hcp_workload r n h) K cluster)" for K cluster
    by (simp add: hcp_workload_simps keeps_workload_client)
  from assms show ?thesis
    by (auto simp: managementPhases_def phase_def with_hcp_def
        intro!: size_intros size_env.keeps_certificates keeps_size_api_server_service size_env.keeps_exposure
          size_env.keeps_kubeconfigs keeps_size_deployments keeps_size_admin_kubeconfig size_env.keeps_rotation
          keeps_size_kubernetes_service client)
qed

lemma keeps_management_phase:
  assumes workload: "keeps (kept_on T) (ReconcileWorkloadClusterResources (hcp_workload r n h) cluster)"
    and p: "p \<in> set (managementPhases r n C h)"
  shows "keeps (kept_on T) (ph_reconcile p cluster)"
proof -
  consider "ph_name p = ''workload cluster resources''" | "ph_name p = ''etcd cluster''"
    | "ph_name p \<noteq> ''workload cluster resources''" "ph_name p \<noteq> ''etcd cluster''" by blast
  then show ?thesis
  proof cases
    case 1
    with p workload show ?thesis by (auto simp: managementPhases_def phase_def)
  next
    case 2
    with p show ?thesis
      by (auto simp: managementPhases_def phase_def intro!: keeps_on_conditions [OF keeps_conditions_etcd])
  next
    case 3
    with p show ?thesis by (intro keeps_on_size keeps_size_management_phase)
  qed
qed

interpretation management_loop: phase_loop "wp_set_c (rc_workload (r_runtime r))" cluster
    "managementPhases r n C h" "- set workload_conditions"
proof unfold_locales
  show "distinct (map ph_condition (managementPhases r n C h))"
    by (simp add: managementPhases_types management_conditions_def condition_name_defs)
  have "ph_condition ` set (managementPhases r n C h) = set management_conditions"
    by (metis managementPhases_types set_map)
  then show "ph_condition ` set (managementPhases r n C h) \<subseteq> - set workload_conditions"
    using conditions_disjoint by auto
  show "keeps (kept_on (- set workload_conditions)) (ph_reconcile p cluster)"
    if "lawful_set (wp_set_c (rc_workload (r_runtime r)))" "p \<in> set (managementPhases r n C h)" for p
    by (rule keeps_management_phase [OF keeps_workload_management that(2)])
      (simp_all add: hcp_workload_simps keeps_workload_client that(1))
qed

section \<open>Nothing but the status\<close>

lemma keeps_run_phases:
  assumes "reflp R" "transp R" "\<And>c. keeps R (set_condition set_c c)"
    and "\<And>p. p \<in> set ps \<Longrightarrow> keeps R (ph_reconcile p cluster)"
  shows "keeps R (run_phases set_c api m cluster ps)"
  using assms(4)
proof (induction ps)
  case (Cons p ps)
  then show ?case
    unfolding run_phases.simps
    by (intro keeps_gbind keeps_gtry keeps_case_sum keeps_if keeps_gseq keeps_gfail keeps_gret assms(1-3)) simp_all
qed (simp add: keeps_gret assms(1))

lemma keeps_spec_set_condition: "keeps (kept_on {}) (set_condition set_c c)"
  by (simp add: keeps_def set_condition_run kept_on_def SetConditions_def)

lemma keeps_spec_management_phase:
  assumes "p \<in> set (managementPhases r n C h)"
  shows "keeps (kept_on {}) (ph_reconcile p cluster)"
proof (rule keeps_management_phase [OF _ assms])
  show "keeps (kept_on {}) (ReconcileWorkloadClusterResources (hcp_workload r n h) cluster)"
    unfolding ReconcileWorkloadClusterResources_def workload_client_def hcp_workload_simps
    by (intro keeps_gbind keeps_gwrap keeps_on_size keeps_case_prod keeps_run_phases keeps_spec_set_condition
        keeps_size_workload_phases keeps_workload_client) simp_all
qed

lemma keeps_spec_networks: "keeps (kept_on {}) (cluster_networks rt cluster)"
  unfolding cluster_networks_def parse_network_def service_ip_def or_condition_def Let_def
  by (intro keeps_gbind keeps_if keeps_gret keeps_gfail keeps_case_sum keeps_gseq keeps_spec_set_condition) simp_all

lemma keeps_size_cilium: "keeps size_kept (management_cilium rt)"
  unfolding management_cilium_def tolerate_missing_cilium_def GetCiliumClient_def Let_def
  by (intro size_intros)

lemma keeps_spec_reconcileNormal: "keeps (kept_on {}) (reconcileNormal r cluster)"
  unfolding reconcileNormal_def Let_def
  by (intro keeps_gbind keeps_spec_networks keeps_on_size [OF keeps_size_cilium] keeps_get_hcp keeps_gret
      keeps_run_phases keeps_spec_set_condition keeps_spec_management_phase) simp_all

end
