(* ===== verification/CertificateLaws.thy ===== *)
theory CertificateLaws
  imports Certificates NodeRotation
begin

text \<open>
  What the certificates of a control plane promise: the thirteen certificates are well-formed and apart from the
  authorities, the removal of orphans touches exactly the certificates that are not wanted, a rotated authority
  stays trusted through its bundle, and the rollout of the nodes comes to rest.
\<close>

lemma invoke_eq: "invoke c f w = (fst (f (env w)), w\<lparr>env := snd (f (env w)), clog := clog w @ [c]\<rparr>)"
  by (simp add: invoke_def split: prod.split)

section \<open>Sample clients\<close>

text \<open>Of the listed certificates one is no longer wanted, and one machine deployment has not been rolled.\<close>

definition wit_certificate :: "string \<Rightarrow> live_certificate" where
  "wit_certificate n = \<lparr>lcert_name = n, lcert_secret_name = n, lcert_not_before = Some (365 * 24 * hour),
     lcert_conditions = [], lcert_owner_refs = []\<rparr>"

definition wit_cert_api :: "unit cert_api" where
  "wit_cert_api = \<lparr>k_issuer_apply = (\<lambda>i e. (Inr \<lparr>liss_conditions = []\<rparr>, e)),
     k_certificate_apply = (\<lambda>c e. (Inr (wit_certificate (cert_name c)), e)),
     k_certificate_get = (\<lambda>ns n e. (Inr (wit_certificate n), e)),
     k_certificate_list = (\<lambda>ns l e. (Inr [wit_certificate (GetAdminCertificateName wit_cluster), wit_certificate ''old''], e)),
     k_certificate_delete = (\<lambda>ns n e. (Inr (), e))\<rparr>"

definition wit_capi_api :: "unit capi_api" where
  "wit_capi_api = \<lparr>k_gateway_get = (\<lambda>ns n e. (Inr [], e)), k_tlsroute_apply = (\<lambda>t e. (Inr [], e)),
     k_infra_get = (\<lambda>e. (Inl (EApi NotFound), e)), k_infra_patch = (\<lambda>i e. (Inr (), e)),
     k_md_list = (\<lambda>ns l e. (Inr [\<lparr>md_name = ''workers'', md_namespace = ns, md_rollout_after = 0\<rparr>], e)),
     k_md_patch = (\<lambda>m e. (Inr (), e)),
     k_mp_list = (\<lambda>ns l e. (Inr [], e)), k_mp_patch = (\<lambda>m e. (Inr (), e))\<rparr>"

definition wit_certificates :: "unit certificateReconciler" where
  "wit_certificates = NewCertificateReconciler wit_cert_api wit_env_api ''10.96.0.1'' hour hour hour ''konnectivity''"

lemma wit_simps: "clog wit_world = []" "Namespace wit_hcp = ''prod''" "lcert_name (wit_certificate n) = n"
  by (simp_all add: wit_world_def wit_hcp_def wit_certificate_def)

section \<open>The wanted certificates\<close>

definition is_client_spec :: "Cluster \<Rightarrow> certificateSpec \<Rightarrow> bool" where
  "is_client_spec cluster spec \<longleftrightarrow> \<not> cs_is_ca (csp_spec spec) \<and>
     cs_issuer (csp_spec spec) \<in> {GetCAIssuerName cluster, GetEtcdCAName cluster, GetFrontProxyCAName cluster} \<and>
     map_of (csp_labels spec) CertificateKindLabel = Some ClientCertificateKind"

lemma keys_createCertificateSpecs:
  "map fst (createCertificateSpecs cr h cluster) = map fst (plain_certificate_specs cr h cluster)"
  by (simp add: createCertificateSpecs_def case_prod_unfold comp_def)

lemma keys_plain_certificate_specs:
  "map fst (plain_certificate_specs cr h cluster) =
     [GetAPIServerCertificateName cluster, GetAPIServerKubeletClientCertificateName cluster,
      GetFrontProxyCertificateName cluster, GetServiceAccountCertificateName cluster, GetAdminCertificateName cluster,
      GetControllerManagerKubeconfigCertificateName cluster, GetSchedulerKubeconfigCertificateName cluster,
      GetKonnectivityClientKubeconfigCertificateName cluster,
      GetControlPlaneControllerKubeconfigCertificateName cluster, GetEtcdServerCertificateName cluster,
      GetEtcdPeerCertificateName cluster, GetEtcdAPIServerClientCertificateName cluster,
      GetEtcdControllerClientCertificateName cluster]"
  by (simp add: plain_certificate_specs_def Let_def)

text \<open>Is a certificate with these labels listed when orphans are looked for?\<close>

definition listed :: "Cluster \<Rightarrow> labels \<Rightarrow> bool" where
  "listed cluster ls \<longleftrightarrow>
     list_all (\<lambda>(key, value). map_of ls key = Some value) (client_certificate_selector cluster)"

definition applied_labels :: "HostedControlPlane \<Rightarrow> Cluster \<Rightarrow> string \<times> certificateSpec \<Rightarrow> labels" where
  "applied_labels h cluster = (\<lambda>(name, spec). cert_labels (certificate_ac_of h cluster name spec))"

definition ca_entries :: "'e certificateReconciler \<Rightarrow> Cluster \<Rightarrow> (string \<times> certificateSpec) list" where
  "ca_entries cr cluster = map (\<lambda>d. (cd_certificate_name d cluster, ca_certificate_spec cr cluster d)) caDefinitions"

lemma client_certificate_selector_eq:
  "client_certificate_selector cluster =
     [(CertificateKindLabel, ClientCertificateKind), (ClusterNameLabel, ClusterName cluster)]"
  by (simp add: client_certificate_selector_def GetControlPlaneLabels_def lo_assign_def AList.merge_def
      CertificateKindLabel_def ClusterNameLabel_def)

lemma listed_iff:
  "listed cluster (lo_assign ls (GetControlPlaneLabels cluster [])) \<longleftrightarrow>
     map_of ls CertificateKindLabel = Some ClientCertificateKind"
  by (simp add: listed_def client_certificate_selector_eq map_of_GetControlPlaneLabels map_add_def
      CertificateKindLabel_def ClusterNameLabel_def)

lemma listed_applied:
  "listed cluster (applied_labels h cluster (name, spec)) \<longleftrightarrow>
     map_of (csp_labels spec) CertificateKindLabel = Some ClientCertificateKind"
  by (simp add: applied_labels_def certificate_ac_of_def Let_def listed_iff)

lemma createCertificateSpecs_all:
  "list_all P (createCertificateSpecs cr h cluster) \<longleftrightarrow>
     list_all (\<lambda>(name, spec). P (name, spec\<lparr>csp_labels :=
       lo_assign (csp_labels spec) [(CertificateKindLabel, ClientCertificateKind)]\<rparr>)) (plain_certificate_specs cr h cluster)"
  by (simp add: createCertificateSpecs_def list.pred_map comp_def case_prod_unfold)

lemma certificate_secrets:
  "map (\<lambda>(name, spec). cs_secret_name (csp_spec spec)) (createCertificateSpecs cr h cluster) =
     map (\<lambda>(name, spec). cs_secret_name (csp_spec spec)) (plain_certificate_specs cr h cluster)"
  by (simp add: createCertificateSpecs_def comp_def case_prod_unfold)

text \<open>
  C10: the certificates of a control plane are thirteen under different names, none is an authority, all are signed
  by one of its three authorities and all are found by the search for orphans, which finds no authority. No two
  of them, their authorities and the bundles of these share a secret.
\<close>

theorem certificates_well_formed:
  fixes cr :: "'e certificateReconciler"
  shows "gomap_ok (createCertificateSpecs cr h cluster) \<and> length (createCertificateSpecs cr h cluster) = 13 \<and>
   list_all (\<lambda>(name, spec). is_client_spec cluster spec) (createCertificateSpecs cr h cluster) \<and>
   list_all (\<lambda>entry. listed cluster (applied_labels h cluster entry)) (createCertificateSpecs cr h cluster) \<and>
   list_all (\<lambda>entry. \<not> listed cluster (applied_labels h cluster entry)) (ca_entries cr cluster) \<and>
   distinct (map (\<lambda>(name, spec). cs_secret_name (csp_spec spec)) (ca_entries cr cluster @ createCertificateSpecs cr h cluster)
     @ map (\<lambda>d :: 'e caDefinition. cd_bundle_secret_name d cluster) caDefinitions)"
proof (intro conjI)
  show "gomap_ok (createCertificateSpecs cr h cluster)"
    unfolding gomap_ok_def keys_createCertificateSpecs keys_plain_certificate_specs by (simp add: names_defs)
  show "length (createCertificateSpecs cr h cluster) = 13"
    by (simp add: createCertificateSpecs_def plain_certificate_specs_def Let_def)
  show "list_all (\<lambda>(name, spec). is_client_spec cluster spec) (createCertificateSpecs cr h cluster)"
    unfolding createCertificateSpecs_all
    by (simp add: plain_certificate_specs_def Let_def is_client_spec_def createCertificateSpec_def)
  show "list_all (\<lambda>entry. listed cluster (applied_labels h cluster entry)) (createCertificateSpecs cr h cluster)"
    unfolding createCertificateSpecs_all by (simp add: listed_applied list_all_iff case_prod_unfold)
  show "list_all (\<lambda>entry. \<not> listed cluster (applied_labels h cluster entry)) (ca_entries cr cluster)"
    by (simp add: ca_entries_def list.pred_map comp_def listed_applied ca_certificate_spec_def list_all_iff
        CACertificateKind_def ClientCertificateKind_def)
  show "distinct (map (\<lambda>(name, spec). cs_secret_name (csp_spec spec)) (ca_entries cr cluster @ createCertificateSpecs cr h cluster)
     @ map (\<lambda>d :: 'e caDefinition. cd_bundle_secret_name d cluster) caDefinitions)"
    unfolding map_append certificate_secrets
    by (simp add: ca_entries_def caDefinitions_def ca_certificate_spec_def plain_certificate_specs_def Let_def
        createCertificateSpec_def names_defs)
qed

section \<open>Orphans\<close>

definition orphans :: "'e certificateReconciler \<Rightarrow> HostedControlPlane \<Rightarrow> Cluster \<Rightarrow> live_certificate list
    \<Rightarrow> live_certificate list" where
  "orphans cr h cluster =
     filter (\<lambda>c. lcert_name c \<notin> set (map fst (plain_certificate_specs cr h cluster)))"

lemma delete_orphans_run:
  assumes "gfor certs (delete_orphan cr h desired) w = (res, w')"
  shows "\<exists>n \<le> length (filter (\<lambda>c. lcert_name c \<notin> set desired) certs).
    clog w' = clog w @ map (\<lambda>c. CCertificateDelete (Namespace h) (lcert_name c))
      (take n (filter (\<lambda>c. lcert_name c \<notin> set desired) certs)) \<and>
    (res = Inr () \<longrightarrow> n = length (filter (\<lambda>c. lcert_name c \<notin> set desired) certs))"
  using assms
proof (induction certs arbitrary: w)
  case Nil
  then show ?case by (simp add: gret_eq)
next
  case (Cons c certs)
  show ?case
  proof (cases "lcert_name c \<in> set desired")
    case True
    with Cons.prems have "gfor certs (delete_orphan cr h desired) w = (res, w')"
      by (simp add: delete_orphan_def [of cr h desired c] gseq_def)
    from Cons.IH [OF this] True show ?thesis by simp
  next
    case False
    let ?d = "CCertificateDelete (Namespace h) (lcert_name c)"
    obtain x w1 where x: "ignore_not_found (invoke ?d
        (k_certificate_delete (certManagerClient cr) (Namespace h) (lcert_name c))) w = (x, w1)"
      by fastforce
    then have log: "clog w1 = clog w @ [?d]" by (rule ignore_not_found_clog)
    show ?thesis
    proof (cases x)
      case (Inl err)
      with Cons.prems False x have "w' = w1" "res \<noteq> Inr ()"
        by (auto simp: delete_orphan_def [of cr h desired c] gseq_def gbind_def gwrap_def)
      with log False show ?thesis by (intro exI [of _ 1]) simp
    next
      case (Inr u)
      define w2 where "w2 = w1\<lparr>events := events w1 @ [\<lparr>ev_warning = False, ev_reason = ''CertificateDeleted'',
        ev_action = ''CertificateDeleted''\<rparr>]\<rparr>"
      have "gfor certs (delete_orphan cr h desired) w2 = (res, w')"
        using Cons.prems False x Inr
        by (simp add: delete_orphan_def [of cr h desired c] gseq_def gbind_def gwrap_def emit_def gmod_def w2_def)
      from Cons.IH [OF this] obtain n where n: "n \<le> length (filter (\<lambda>c. lcert_name c \<notin> set desired) certs)"
        "clog w' = clog w2 @ map (\<lambda>c. CCertificateDelete (Namespace h) (lcert_name c))
          (take n (filter (\<lambda>c. lcert_name c \<notin> set desired) certs))"
        "res = Inr () \<longrightarrow> n = length (filter (\<lambda>c. lcert_name c \<notin> set desired) certs)" by blast
      with log False show ?thesis by (intro exI [of _ "Suc n"]) (simp add: w2_def)
    qed
  qed
qed

text \<open>
  C18: the removal of orphans deletes, in the order of the list, exactly the listed certificates that are not
  among the thirteen, up to the first deletion that fails; if it succeeds it has deleted all of them.
\<close>

theorem cleanupOrphanedCertificates_exact:
  assumes "fst (k_certificate_list (certManagerClient cr) (Namespace h) (client_certificate_selector cluster) (env w))
      = Inr certs"
    and "cleanupOrphanedCertificates cr h cluster w = (res, w')"
  shows "\<exists>n \<le> length (orphans cr h cluster certs).
    clog w' = clog w @ CCertificateList (Namespace h) (client_certificate_selector cluster) #
      map (\<lambda>c. CCertificateDelete (Namespace h) (lcert_name c)) (take n (orphans cr h cluster certs)) \<and>
    (res = Inr () \<longrightarrow> n = length (orphans cr h cluster certs))"
proof -
  let ?l = "k_certificate_list (certManagerClient cr) (Namespace h) (client_certificate_selector cluster) (env w)"
  define w1 where "w1 = w\<lparr>env := snd ?l, clog := clog w @ [CCertificateList (Namespace h) (client_certificate_selector cluster)]\<rparr>"
  have "gfor certs (delete_orphan cr h (map fst (plain_certificate_specs cr h cluster))) w1 = (res, w')"
    using assms
    by (cases ?l) (simp add: cleanupOrphanedCertificates_def Let_def gbind_def gwrap_def invoke_def w1_def lo_keys_def
        keys_createCertificateSpecs)
  from delete_orphans_run [OF this] show ?thesis by (simp add: orphans_def w1_def)
qed

theorem cleanupOrphanedCertificates_exact_witness:
  "\<exists>n \<le> 1. clog (snd (cleanupOrphanedCertificates wit_certificates wit_hcp wit_cluster wit_world)) =
     CCertificateList ''prod'' (client_certificate_selector wit_cluster) # take n [CCertificateDelete ''prod'' ''old'']"
proof -
  let ?certs = "[wit_certificate (GetAdminCertificateName wit_cluster), wit_certificate ''old'']"
  obtain res w' where run: "cleanupOrphanedCertificates wit_certificates wit_hcp wit_cluster wit_world = (res, w')"
    by fastforce
  have answer: "fst (k_certificate_list (certManagerClient wit_certificates) (Namespace wit_hcp)
      (client_certificate_selector wit_cluster) (env wit_world)) = Inr ?certs"
    by (simp add: wit_certificates_def NewCertificateReconciler_def wit_cert_api_def)
  have "orphans wit_certificates wit_hcp wit_cluster ?certs = [wit_certificate ''old'']"
    unfolding orphans_def keys_plain_certificate_specs by (simp add: wit_certificate_def wit_cluster_def names_defs)
  with cleanupOrphanedCertificates_exact [OF answer run] show ?thesis
    unfolding run snd_conv by (auto simp: wit_simps take_Cons' split: if_splits)
qed

section \<open>Bundles\<close>

text \<open>
  The abstract bundle is the current and the old certificate of an authority. Rotation puts a new certificate in
  front; the one before is kept, and trusted, for one more rotation.
\<close>

definition bundle_of :: "labels \<Rightarrow> string \<times> string" where
  "bundle_of data = (data_at data caBundleCurrentCertKey, data_at data caBundleOldCertKey)"

definition rotate_bundle :: "string \<Rightarrow> string \<times> string \<Rightarrow> string \<times> string" where
  "rotate_bundle ca b = (if fst b = ca then b else (ca, fst b))"

definition prior_bundle :: "gerr + live_secret \<Rightarrow> (string \<times> string) option" where
  "prior_bundle answer =
     (case answer of
        Inr s \<Rightarrow> Some (bundle_of (lsec_data s))
      | Inl err \<Rightarrow> if is_not_found err then Some ([], []) else None)"

text \<open>
  C9: the reconciliation of a bundle refines the rotation of the abstract bundle: with the authority's
  certificate \<open>ca\<close> and the bundle \<open>b\<close> that is stored (none is the empty one), the secret of the rotated bundle is
  applied if it differs from \<open>b\<close>, and nothing is written otherwise. What is applied trusts the old certificate
  and the current one.
\<close>

theorem reconcileCABundle_refines:
  assumes "fst (k_secret_get (kubernetesClient cr) (Namespace h) caName (env w)) = Inr real"
    and "data_at (lsec_data real) CACertName = ca" "ca \<noteq> []"
    and "prior_bundle (fst (k_secret_get (kubernetesClient cr) (Namespace h) bundleName
      (snd (k_secret_get (kubernetesClient cr) (Namespace h) caName (env w))))) = Some b"
    and "reconcileCABundle cr h cluster caName bundleName w = (res, w')"
  shows "let ac = bundle_secret h cluster bundleName (snd (rotate_bundle ca b)) ca in
    clog w' = clog w @ [CSecretGet (Namespace h) caName, CSecretGet (Namespace h) bundleName]
      @ (if rotate_bundle ca b = b then [] else [CSecretApply ac]) \<and>
    bundle_of (sec_data ac) = rotate_bundle ca b \<and>
    data_at (sec_data ac) CACertName = snd (rotate_bundle ca b) @ fst (rotate_bundle ca b)"
proof -
  let ?K = "kubernetesClient cr" and ?ns = "Namespace h"
  define w1 where "w1 = w\<lparr>env := snd (k_secret_get ?K ?ns caName (env w)), clog := clog w @ [CSecretGet ?ns caName]\<rparr>"
  define w2 where "w2 = w1\<lparr>env := snd (k_secret_get ?K ?ns bundleName (env w1)), clog := clog w1 @ [CSecretGet ?ns bundleName]\<rparr>"
  define ac where "ac = bundle_secret h cluster bundleName (snd (rotate_bundle ca b)) ca"
  have gets: "get_secret ?K ?ns caName w = (Inr real, w1)"
    "get_secret ?K ?ns bundleName w1 = (fst (k_secret_get ?K ?ns bundleName (env w1)), w2)"
    using assms(1) by (simp_all add: get_secret_def invoke_eq w1_def w2_def)
  have put: "clog w' = clog w2 @ [CSecretApply (bundle_secret h cluster bundleName old ca)]"
    if "gseq (gwrap msg (invoke (CSecretApply (bundle_secret h cluster bundleName old ca))
        (k_secret_apply ?K (bundle_secret h cluster bundleName old ca)))) (gret []) w2 = (res, w')" for old msg
    using that by (auto simp: gseq_def gbind_def gwrap_def invoke_eq gret_eq split: sum.splits)
  have "clog w' = clog w2 @ (if rotate_bundle ca b = b then [] else [CSecretApply ac])"
  proof (cases "fst (k_secret_get ?K ?ns bundleName (env w1))")
    case (Inl err)
    with assms(3-5) have b: "b = ([], [])" "is_not_found err"
      by (auto simp: prior_bundle_def w1_def split: if_splits)
    with assms gets Inl have "clog w' = clog w2 @ [CSecretApply (bundle_secret h cluster bundleName [] ca)]"
      by (intro put) (simp add: reconcileCABundle_def gbind_def gtry_def Let_def)
    with b assms(3) show ?thesis by (simp add: rotate_bundle_def ac_def)
  next
    case (Inr s)
    with assms(4) have b: "b = bundle_of (lsec_data s)" by (simp add: prior_bundle_def w1_def)
    show ?thesis
    proof (cases "data_at (lsec_data s) caBundleCurrentCertKey = ca")
      case True
      with assms gets Inr have "w' = w2"
        by (simp add: reconcileCABundle_def gbind_def gtry_def Let_def gret_eq)
      with True b show ?thesis by (simp add: rotate_bundle_def bundle_of_def)
    next
      case False
      with assms gets Inr have "clog w' = clog w2 @
          [CSecretApply (bundle_secret h cluster bundleName (data_at (lsec_data s) caBundleCurrentCertKey) ca)]"
        by (intro put) (simp add: reconcileCABundle_def gbind_def gtry_def Let_def)
      with False b show ?thesis by (auto simp: rotate_bundle_def bundle_of_def ac_def)
    qed
  qed
  moreover have "bundle_of (sec_data ac) = rotate_bundle ca b"
    "data_at (sec_data ac) CACertName = snd (rotate_bundle ca b) @ fst (rotate_bundle ca b)"
    by (auto simp: ac_def bundle_secret_def bundle_data_def bundle_of_def data_at_def rotate_bundle_def
        caBundleCurrentCertKey_def caBundleOldCertKey_def CACertName_def prod_eq_iff)
  ultimately show ?thesis by (simp add: ac_def w2_def w1_def Let_def)
qed

theorem reconcileCABundle_refines_witness:
  "rotate_bundle ''PEM'' ([], []) = (''PEM'', []) \<and>
   clog (snd (reconcileCABundle wit_certificates wit_hcp wit_cluster ''ca'' ''bundle'' wit_world)) =
     [CSecretGet ''prod'' ''ca'', CSecretGet ''prod'' ''bundle'',
      CSecretApply (bundle_secret wit_hcp wit_cluster ''bundle'' [] ''PEM'')]"
proof -
  let ?s = "\<lambda>n. \<lparr>lsec_name = n, lsec_uid = ''u2'', lsec_data = [(''ca.crt'', ''PEM'')]\<rparr>"
  obtain res w' where run: "reconcileCABundle wit_certificates wit_hcp wit_cluster ''ca'' ''bundle'' wit_world = (res, w')"
    by fastforce
  have answers: "k_secret_get (kubernetesClient wit_certificates) ns n e = (Inr (?s n), e)" for ns n e
    by (simp add: wit_certificates_def NewCertificateReconciler_def wit_env_api_def)
  have keys: "data_at [(''ca.crt'', ''PEM'')] CACertName = ''PEM''"
    "prior_bundle (Inr (?s ''bundle'')) = Some ([], [])"
    by (simp_all add: data_at_def CACertName_def prior_bundle_def bundle_of_def caBundleCurrentCertKey_def
        caBundleOldCertKey_def)
  from reconcileCABundle_refines [of wit_certificates wit_hcp "''ca''" wit_world "?s ''ca''" "''PEM''" "''bundle''" "([], [])",
      OF _ _ _ _ run]
  show ?thesis
    unfolding run snd_conv by (simp add: answers keys rotate_bundle_def Let_def wit_simps)
qed

section \<open>The rollout of the nodes\<close>

lemma gfor_log:
  assumes "\<And>x v v'. f x v = (Inr (), v') \<Longrightarrow> clog v' = clog v @ (if P x then [g x] else [])"
    and "gfor xs f w = (Inr (), w')"
  shows "clog w' = clog w @ map g (filter P xs)"
  using assms(2)
proof (induction xs arbitrary: w)
  case (Cons x xs)
  then obtain w1 where "f x w = (Inr (), w1)" "gfor xs f w1 = (Inr (), w')"
    by (auto simp: gseq_def elim!: gbind_InrE)
  with assms(1) Cons.IH show ?case by auto
qed (simp add: gret_eq)

lemma roll_deployment_log:
  "roll_deployment nr t m v = (Inr (), v') \<Longrightarrow>
    clog v' = clog v @ (if md_rollout_after m \<noteq> t then [CMachineDeploymentPatch (m\<lparr>md_rollout_after := t\<rparr>)] else [])"
  by (auto simp: roll_deployment_def Let_def gret_eq gwrap_def invoke_eq split: if_splits sum.splits)

lemma roll_pool_log:
  "roll_pool nr s m v = (Inr (), v') \<Longrightarrow>
    clog v' = clog v @ (if \<not> pool_annotated s m then [CMachinePoolPatch (annotate_pool s m)] else [])"
  by (auto simp: roll_pool_def Let_def gret_eq gwrap_def invoke_eq split: if_splits sum.splits)

lemma annotate_pool_settled [simp]: "pool_annotated s (annotate_pool s m)"
  by (simp add: pool_annotated_def annotate_pool_def)

lemma ca_not_before_run:
  "ca_not_before nr h cluster w = (Inr t, w') \<Longrightarrow>
    (\<exists>c. fst (k_certificate_get (nrCertManagerClient nr) (Namespace h) (GetCACertificateName cluster) (env w)) = Inr c \<and>
      lcert_not_before c = Some t) \<and>
    clog w' = clog w @ [CCertificateGet (Namespace h) (GetCACertificateName cluster)]"
  by (auto simp: ca_not_before_def gbind_def gtry_def invoke_eq gfail_def gret_eq split: sum.splits option.splits if_splits)

lemma gwrap_invoke_run:
  "gwrap msg (invoke c f) w = (Inr x, w') \<Longrightarrow> fst (f (env w)) = Inr x \<and> clog w' = clog w @ [c]"
  by (auto simp: gwrap_def invoke_eq split: sum.splits)

text \<open>
  C19: a rollout that succeeds starts from the beginning \<open>t\<close> of the validity of the CA certificate and patches
  exactly the machine deployments that do not roll out after \<open>t\<close> and the machine pools that do not carry its date;
  what is sent for them does, so a pass over objects that were patched sends nothing more.
\<close>

theorem ReconcileCARotation_exact:
  assumes "ReconcileCARotation nr h cluster w = (Inr (), w')"
  shows "\<exists>c t mds mps e e'.
    fst (k_certificate_get (nrCertManagerClient nr) (Namespace h) (GetCACertificateName cluster) (env w)) = Inr c \<and>
    lcert_not_before c = Some t \<and>
    fst (k_md_list (nrClient nr) (ClusterNamespace cluster) (cluster_selector cluster) e) = Inr mds \<and>
    fst (k_mp_list (nrClient nr) (ClusterNamespace cluster) (cluster_selector cluster) e') = Inr mps \<and>
    clog w' = clog w @
      [CCertificateGet (Namespace h) (GetCACertificateName cluster),
       CMachineDeploymentList (ClusterNamespace cluster) (cluster_selector cluster)] @
      map (\<lambda>m. CMachineDeploymentPatch (m\<lparr>md_rollout_after := t\<rparr>)) (filter (\<lambda>m. md_rollout_after m \<noteq> t) mds) @
      [CMachinePoolList (ClusterNamespace cluster) (cluster_selector cluster)] @
      map (\<lambda>m. CMachinePoolPatch (annotate_pool (rfc3339_utc t) m))
        (filter (\<lambda>m. \<not> pool_annotated (rfc3339_utc t) m) mps) \<and>
    filter (\<lambda>m. md_rollout_after m \<noteq> t) (map (md_rollout_after_update (\<lambda>_. t)) mds) = [] \<and>
    filter (\<lambda>m. \<not> pool_annotated (rfc3339_utc t) m) (map (annotate_pool (rfc3339_utc t)) mps) = []"
  using assms unfolding ReconcileCARotation_def Let_def gseq_def
proof (elim gbind_InrE)
  fix t w1 mds w2 u w3 mps w4
  let ?ns = "ClusterNamespace cluster" and ?sel = "cluster_selector cluster"
  assume t: "ca_not_before nr h cluster w = (Inr t, w1)"
    and mds: "gwrap ''failed to list MachineDeployments'' (invoke (CMachineDeploymentList ?ns ?sel)
      (k_md_list (nrClient nr) ?ns ?sel)) w1 = (Inr mds, w2)"
    and roll: "gfor mds (roll_deployment nr t) w2 = (Inr u, w3)"
    and mps: "gwrap ''failed to list MachinePools'' (invoke (CMachinePoolList ?ns ?sel)
      (k_mp_list (nrClient nr) ?ns ?sel)) w3 = (Inr mps, w4)"
    and pools: "gfor mps (roll_pool nr (rfc3339_utc t)) w4 = (Inr (), w')"
  from roll have "clog w3 = clog w2 @ map (\<lambda>m. CMachineDeploymentPatch (m\<lparr>md_rollout_after := t\<rparr>))
      (filter (\<lambda>m. md_rollout_after m \<noteq> t) mds)"
    by (intro gfor_log [OF roll_deployment_log]) simp_all
  moreover have "clog w' = clog w4 @ map (\<lambda>m. CMachinePoolPatch (annotate_pool (rfc3339_utc t) m))
      (filter (\<lambda>m. \<not> pool_annotated (rfc3339_utc t) m) mps)"
    by (rule gfor_log [OF roll_pool_log pools])
  ultimately show ?thesis
    using ca_not_before_run [OF t] gwrap_invoke_run [OF mds] gwrap_invoke_run [OF mps]
    by (elim conjE exE, intro exI conjI) (assumption | simp add: filter_empty_conv)+
qed

lemma wit_rotation:
  "fst (ReconcileCARotation (NewNodeRotationReconciler wit_capi_api wit_cert_api) wit_hcp wit_cluster wit_world) = Inr ()"
  by code_simp

theorem ReconcileCARotation_exact_witness:
  "CMachineDeploymentPatch \<lparr>md_name = ''workers'', md_namespace = ClusterNamespace wit_cluster,
     md_rollout_after = 365 * 24 * hour\<rparr>
   \<in> set (clog (snd (ReconcileCARotation (NewNodeRotationReconciler wit_capi_api wit_cert_api) wit_hcp wit_cluster wit_world)))"
proof -
  let ?nr = "NewNodeRotationReconciler wit_capi_api wit_cert_api"
  obtain w' where run: "ReconcileCARotation ?nr wit_hcp wit_cluster wit_world = (Inr (), w')"
    using wit_rotation by (cases "ReconcileCARotation ?nr wit_hcp wit_cluster wit_world") simp
  from ReconcileCARotation_exact [OF run] show ?thesis
    unfolding run snd_conv
    by (auto simp: NewNodeRotationReconciler_def wit_cert_api_def wit_capi_api_def wit_certificate_def hour_def nano_def)
qed

end
