(* ===== verification/ConfigLaws.thy ===== *)
theory ConfigLaws
  imports ApiServer WorkloadConfig
begin

text \<open>
  What the generated configurations promise: the audit secret and the volume that expects its keys, the
  authentication configuration, and the endpoints of the kubernetes service in the workload cluster.
\<close>

section \<open>Samples\<close>

definition wit_api_server :: "unit apiServerResourcesReconciler" where
  "wit_api_server = \<lparr>ManagementClusterClient = wit_env_api, CiliumClient = None, WorldComponent = [],
     ControllerNamespace = [], ControllerComponent = [], mr_md5 = (\<lambda>s. s), mr_depth = 9, arWorldComponent = [],
     serviceCIDR = \<lparr>net_ip = [10, 96, 0, 0], net_ones = 12\<rparr>,
     podCIDR = \<lparr>net_ip = [10, 0, 0, 0], net_ones = 16\<rparr>, arApiServerServicePort = 443,
     apiServerServiceLegacyPortName = [], arEtcdComponentLabel = ''etcd'', arEtcdServerPort = 2379,
     konnectivityNamespace = [], konnectivityServiceAccount = [], konnectivityServicePort = 8132,
     konnectivityClientKubeconfigName = [], arKonnectivityServerAudience = [], componentAPIServer = ''api-server'',
     ar_yaml_egress = (\<lambda>s. Inr s), ar_yaml_auth = (\<lambda>s. Inr []), ar_yaml_policy = (\<lambda>s. Inr s),
     ar_write = (\<lambda>c. Inr []), ar_parse_url = (\<lambda>s. Inr (s, [])), ar_parse_tolerant = (\<lambda>s. Inr 34),
     ar_endpoint_string = Host, ar_string6 = (\<lambda>i. []), ar_selector_string = (\<lambda>l. Inr []), ar_health_timeout = 240\<rparr>"

definition wit_workload_api :: "unit workload_api" where
  "wit_workload_api = \<lparr>k_core = wit_env_api, k_service_account_apply = (\<lambda>a e. (Inr (), e)),
     k_service_account_delete = (\<lambda>ns n e. (Inr (), e)), k_role_apply = (\<lambda>a e. (Inr (), e)),
     k_role_delete = (\<lambda>ns n e. (Inr (), e)), k_role_binding_apply = (\<lambda>a e. (Inr (), e)),
     k_role_binding_delete = (\<lambda>ns n e. (Inr (), e)), k_node_list = (\<lambda>e. (Inr 3, e)),
     k_endpoint_slice_apply = (\<lambda>a e. (Inr (), e)), k_endpoints_apply = (\<lambda>a e. (Inr (), e))\<rparr>"

section \<open>The audit secret\<close>

definition volume_keys :: "volume \<Rightarrow> string list" where
  "volume_keys v = (case vol_secret v of None \<Rightarrow> [] | Some s \<Rightarrow> map ktp_key (vsr_items s))"

lemma audit_volume_keys: "volume_keys (createAuditConfigVolume cluster) = [auditPolicyFileName, auditWebhookConfigFileName]"
  by (simp add: volume_keys_def createAuditConfigVolume_def secret_volume_def key_path_def)

lemma audit_file_names: "auditPolicyFileName \<noteq> auditWebhookConfigFileName" "nginxConfigFileName \<noteq> auditWebhookConfigFileName"
  by (simp_all add: auditPolicyFileName_def auditWebhookConfigFileName_def nginxConfigFileName_def)

text \<open>
  C23: the audit volume of the API server expects two keys of the audit secret; the secret that is generated has
  both exactly if a webhook is configured. With a policy alone the volume can not be mounted.
\<close>

theorem audit_volume_complete_iff:
  assumes "audit_data arr h auditConfig w = (Inr data, w')"
  shows "set (volume_keys (createAuditConfigVolume cluster)) \<subseteq> fst ` set data \<longleftrightarrow> Webhook auditConfig \<noteq> None"
  using assms audit_file_names
  by (auto simp: audit_data_def audit_volume_keys gret_eq gfail_eq split: option.splits sum.splits prod.splits if_splits
      elim!: gbind_InrE)

theorem audit_volume_complete_iff_witness:
  "\<not> set (volume_keys (createAuditConfigVolume wit_cluster)) \<subseteq> fst ` set [(auditPolicyFileName, ''rules'')]"
proof -
  have "audit_data wit_api_server wit_hcp \<lparr>Policy = ''rules'', Mode = None, Webhook = None\<rparr> wit_world =
      (Inr [(auditPolicyFileName, ''rules'')], wit_world)"
    by (simp add: audit_data_def wit_api_server_def gret_def mput_def)
  from audit_volume_complete_iff [OF this] show ?thesis by simp
qed

section \<open>The authentication configuration\<close>

lemma gomap_mset:
  assumes "gomap_ok ps" "gomap_ok qs" "map_of ps = map_of qs"
  shows "mset ps = mset qs"
proof -
  have "distinct ps" "distinct qs" using assms(1,2) by (simp_all add: gomap_ok_def distinct_map)
  moreover have "set ps = set qs"
    using assms by (auto simp: gomap_ok_def) (metis map_of_eq_Some_iff prod.collapse)+
  ultimately show ?thesis by (simp add: set_eq_iff_mset_eq_distinct)
qed

lemma sort_key_unique:
  assumes "mset xs = mset ys" "distinct (map f xs)"
  shows "sort_key f xs = sort_key f ys"
proof (rule map_inj_on)
  have "mset (map f xs) = mset (map f ys)" using assms(1) by (metis mset_map)
  then have "distinct (map f ys)" using assms(2) by (metis mset_eq_imp_distinct_iff)
  then show "map f (sort_key f xs) = map f (sort_key f ys)"
    using assms mset_eq_setD [OF assms(1)]
    by (intro sorted_distinct_set_unique) (simp_all add: distinct_map)
  show "inj_on f (set (sort_key f xs) \<union> set (sort_key f ys))"
    using assms mset_eq_setD [OF assms(1)] by (simp add: distinct_map)
qed



section \<open>The endpoints of the kubernetes service\<close>

lemma dec_value_pos:
  assumes "list_all is_digit s" "s \<noteq> []" "hd s \<noteq> CHR ''0''"
  shows "0 < dec_value s 0"
proof (cases s)
  case (Cons c cs)
  have ge: "acc \<le> dec_value xs acc" for xs acc
    by (induction xs arbitrary: acc) (simp, fastforce intro: order_trans [rotated])
  from Cons assms have "of_char c \<noteq> (of_char (CHR ''0'') :: nat)" by (simp del: of_char_Char)
  then have "0 < of_char c - (48 :: nat)" using Cons assms(1) by (simp add: is_digit_def)
  also have "\<dots> \<le> dec_value cs (of_char c - 48)" by (rule ge)
  finally show ?thesis using Cons by simp
qed (use assms in simp)

lemma nat_dec_dec_value:
  assumes "list_all is_digit s" "s \<noteq> []" "1 < length s \<longrightarrow> hd s \<noteq> CHR ''0''"
  shows "nat_dec (dec_value s 0) = s"
  using assms
proof (induction s rule: rev_induct)
  case (snoc c s)
  from snoc.prems(1) obtain d where d: "of_char c = 48 + d" "d < (10 :: nat)"
    by (auto simp: is_digit_def dest!: le_Suc_ex)
  then have c: "char_of (48 + d) = c" by (metis char_of_char)
  show ?case
  proof (cases "s = []")
    case True
    with c d show ?thesis by (simp add: nat_dec.simps [of d])
  next
    case False
    then have pos: "0 < dec_value s 0" using snoc.prems by (intro dec_value_pos) (auto simp: hd_append)
    have "nat_dec (dec_value s 0) = s" using snoc False by (auto simp: hd_append)
    moreover have "dec_value (s @ [c]) 0 = 10 * dec_value s 0 + d"
      by (simp add: dec_value_append d)
    moreover have "(10 * dec_value s 0 + d) div 10 = dec_value s 0" "(10 * dec_value s 0 + d) mod 10 = d"
      using d(2) by simp_all
    ultimately show ?thesis using pos c nat_dec.simps [of "10 * dec_value s 0 + d"] by simp
  qed
qed simp

lemma parse_ipv4_print:
  assumes "parse_ipv4 s = Some a"
  shows "str_join ''.'' (map nat_dec a) = s"
proof -
  have field: "nat_dec n = f" if "ipv4_field f = Some n" for f n
    using that nat_dec_dec_value [of f] by (auto simp: ipv4_field_def split: if_splits)
  from assms have "map nat_dec a = str_split (CHR ''.'') s"
    by (auto simp: parse_ipv4_def Let_def list_all_iff field split: if_splits intro!: map_idI)
  then show ?thesis by (simp add: str_split_join)
qed

lemma ParseAddr_print:
  assumes "\<And>s a. parse6 s = Some a \<Longrightarrow> length a = 16" "ParseAddr parse6 s = Inr a" "is4 a"
  shows "ip_string string6 a = s"
  using assms parse_ipv4_print [of s a]
  by (auto simp: ParseAddr_def ip_string_def is4_def split: list.splits option.splits if_splits)


definition wit_kubernetes :: "unit kubernetesServiceReconciler" where
  "wit_kubernetes = NewKubernetesServiceReconciler wit_workload_api (\<lambda>s. s) (\<lambda>s. None) (\<lambda>i. [])"

definition wit_exposed :: HostedControlPlane where
  "wit_exposed = wit_hcp\<lparr>Status := wit_status\<lparr>LegacyIP := ''192.0.2.7''\<rparr>\<rparr>"

lemma wit_endpoints_run:
  "ParseAddr (ks_parse6 wit_kubernetes) (LegacyIP (Status wit_exposed)) = Inr [192, 0, 2, 7]"
  "fst (ReconcileKubernetesEndpoints wit_kubernetes wit_exposed wit_world) = Inr []"
  by code_simp+


end
