(* ===== verification/Reconciliation.thy ===== *)
theory Reconciliation
  imports PhaseOutcome CertificateLaws ConfigLaws
begin

text \<open>
  What one reconciliation of the controller promises: which conditions it leaves, after how long it comes back,
  what the patch changes, when the object is reconciled at all, and what deletion does.
\<close>

text \<open>The summary of the conditions can always be computed.\<close>

definition total_summary :: "'e controller_runtime \<Rightarrow> bool" where
  "total_summary rt \<longleftrightarrow> (\<forall>cs ts. \<exists>c. rc_summary rt cs ts = Inr c)"

section \<open>A sample controller\<close>

text \<open>A controller whose root issuer is not ready yet: its first phase holds the others back.\<close>

definition wit_set_c :: "condition list \<Rightarrow> condition \<Rightarrow> condition list" where
  "wit_set_c cs c = c # filter (\<lambda>d. cond_type d \<noteq> cond_type c) cs"

lemma find_other: "t \<noteq> s \<Longrightarrow> List.find (\<lambda>c. cond_type c = t) (filter (\<lambda>d. cond_type d \<noteq> s) cs) = List.find (\<lambda>c. cond_type c = t) cs"
  by (induction cs) auto

lemma lawful_wit_set_c: "lawful_set wit_set_c"
  by (auto simp: lawful_set_def wit_set_c_def condition_of_def find_other)

definition wit_params :: "unit workload_params" where
  "wit_params = \<lparr>wp_md5 = (\<lambda>s. s), wp_defaults = None, wp_marshal_kubeadm = (\<lambda>k. Inr []), wp_yaml_kubelet = (\<lambda>k. Inr []),
     wp_write = (\<lambda>k. Inr []), wp_marshal_proxy = (\<lambda>k. Inr []), wp_corefile_string = (\<lambda>c. []),
     wp_endpoint_string = Host, wp_parse6 = (\<lambda>s. None), wp_string6 = (\<lambda>i. []), wp_parse_tolerant = (\<lambda>s. Inr 34),
     wp_health_timeout = 240, wp_set_c = wit_set_c, wp_api_text = (\<lambda>r. [])\<rparr>"

definition wit_connection :: "unit connection" where
  "wit_connection = \<lparr>cn_rest_config = (\<lambda>s. Inr s), cn_clientset = (\<lambda>s. Inl (ELib s)),
     cn_server_groups = (\<lambda>c e. (Inr [], e)), cn_cilium = (\<lambda>s. Inl (ELib s))\<rparr>"

definition wit_controller_runtime :: "unit controller_runtime" where
  "wit_controller_runtime = etcd_runtime.extend wit_runtime
     (controller_runtime.fields wit_cert_api wit_capi_api wit_connection ''mgmt'' (\<lambda>ns n e. (Inr wit_hcp, e))
       (\<lambda>h e. (Inr (Some wit_cluster), e)) (\<lambda>c h e. (Inr (False, False, GetConditions h), e))
       (\<lambda>h f e. (Inr False, e)) (\<lambda>fs f. filter (\<lambda>g. g \<noteq> f) fs) (\<lambda>h. None) (\<lambda>b h ow e. (Inr (), e))
       (\<lambda>cs ts. Inr \<lparr>cond_type = ''Ready'', cond_status = ConditionFalse, cond_reason = [], cond_message = []\<rparr>)
       (\<lambda>s. s) (\<lambda>s. s) (\<lambda>n. []) (\<lambda>n i. Inr (net_ip n)) (\<lambda>i. None) (\<lambda>i p. Inr i) wit_api_server wit_params)"

definition wit_reconciler :: "unit hostedControlPlaneReconciler" where
  "wit_reconciler = NewHostedControlPlaneReconciler wit_controller_runtime ''system'' []"

lemma wit_reconciler_simps [simp]:
  "r_runtime wit_reconciler = wit_controller_runtime" "rc_workload wit_controller_runtime = wit_params"
  "wp_set_c wit_params = wit_set_c" "rc_new_helper wit_controller_runtime h = None"
  by (simp_all add: wit_reconciler_def NewHostedControlPlaneReconciler_def wit_controller_runtime_def
      controller_runtime.defs etcd_runtime.defs wit_params_def wit_runtime_def)

lemma total_summary_wit: "total_summary wit_controller_runtime"
  by (simp add: total_summary_def wit_controller_runtime_def controller_runtime.defs etcd_runtime.defs wit_runtime_def)

lemma wit_normal: "fst (reconcileNormal wit_reconciler wit_cluster wit_world) = Inr (10 * second)"
  by code_simp

section \<open>The recorded conditions one by one\<close>

definition recorded_length :: "'e Phase list \<Rightarrow> nat \<Rightarrow> gerr + string \<Rightarrow> nat" where
  "recorded_length ps n r =
     (if n < length ps \<and> (case r of Inl err \<Rightarrow> \<not> panics err | Inr _ \<Rightarrow> True) then Suc n else n)"

lemma recorded_nth_types: "map cond_type (recorded m api ps n r) = map ph_condition (take (recorded_length ps n r) ps)"
proof (cases "n < length ps")
  case True
  then show ?thesis
    by (simp add: recorded_def recorded_length_def take_Suc_conv_app_nth Cons_nth_drop_Suc [symmetric]
        split: sum.splits)
qed (simp add: recorded_def recorded_length_def)

lemma updates_mem:
  assumes "distinct (map ph_condition ps)" "c \<in> set (recorded m api ps n r)"
  shows "updates (recorded m api ps n r) (cond_type c) = Some c"
proof -
  have "distinct (map cond_type (recorded m api ps n r))"
    unfolding recorded_nth_types using assms(1) by (metis distinct_take take_map)
  with assms(2) show ?thesis by (auto simp: updates_def comp_def intro!: map_of_is_SomeI)
qed

lemma updates_ready:
  assumes "distinct (map ph_condition ps)" "i < n" "n \<le> length ps"
  shows "updates (recorded m api ps n r) (ph_condition (ps ! i)) = Some (ready_condition m (ps ! i))"
proof -
  have "ps ! i \<in> set (take n ps)" using assms(2,3) by (force simp: set_conv_nth)
  then have "ready_condition m (ps ! i) \<in> set (recorded m api ps n r)" by (simp add: recorded_def)
  from updates_mem [OF assms(1) this] show ?thesis by simp
qed

lemma updates_stopped:
  assumes "distinct (map ph_condition ps)" "n < length ps"
  shows "updates (recorded m api ps n (Inr reason)) (ph_condition (ps ! n)) = Some (not_ready_condition m (ps ! n) reason)"
proof -
  have "not_ready_condition m (ps ! n) reason \<in> set (recorded m api ps n (Inr reason))"
    using assms(2) by (simp add: recorded_def Cons_nth_drop_Suc [symmetric])
  from updates_mem [OF assms(1) this] show ?thesis by simp
qed

definition has_status :: "'e world \<Rightarrow> condition_status \<Rightarrow> string \<Rightarrow> bool" where
  "has_status w s t \<longleftrightarrow> map_option cond_status (conditions_map w t) = Some s"

section \<open>One pass over the phases\<close>

text \<open>
  C1: a pass over the phases of the controller changes, outside of the conditions of the workload phases, exactly
  the conditions that the abstract run records: the phases that were ready, and the one that stopped it; the
  object outside its status stays as it is, whatever the clusters answer.
\<close>

theorem managementPhases_refine:
  assumes "lawful_set (wp_set_c (rc_workload (r_runtime r)))"
    and "run_phases (wp_set_c (rc_workload (r_runtime r))) api controller_messages cluster
      (managementPhases r n C h) w = (res, w')"
  shows "\<exists>k. stopped_at cluster (managementPhases r n C h) k res \<and>
    hcp w' = (hcp w)\<lparr>Status := Status (hcp w')\<rparr> \<and>
    (\<forall>t. t \<notin> set workload_conditions \<longrightarrow>
      conditions_map w' t =
        (conditions_map w ++ updates (recorded controller_messages api (managementPhases r n C h) k res)) t)"
  using phase_loop_outcome [OF assms(1) management_loop.phase_loop_axioms assms(2)] by auto

definition wit_networks :: network_settings where
  "wit_networks = \<lparr>ns_domain = ''cluster.local'', ns_services = default_services, ns_pods = default_pods,
     ns_dns = [10, 96, 0, 10], ns_kubernetes = [10, 96, 0, 1]\<rparr>"

definition wit_pass :: "(gerr + string) \<times> unit world" where
  "wit_pass = run_phases wit_set_c (\<lambda>r. []) controller_messages wit_cluster
     (managementPhases wit_reconciler wit_networks None wit_hcp) wit_world"

lemma wit_pass_result: "fst wit_pass = Inr ''root issuer not ready''"
  by code_simp

theorem managementPhases_refine_witness:
  "\<exists>k. stopped_at wit_cluster (managementPhases wit_reconciler wit_networks None wit_hcp) k
     (Inr ''root issuer not ready'')"
proof -
  obtain w' where "run_phases (wp_set_c (rc_workload (r_runtime wit_reconciler))) (\<lambda>r. []) controller_messages wit_cluster
      (managementPhases wit_reconciler wit_networks None wit_hcp) wit_world = (Inr ''root issuer not ready'', w')"
    using wit_pass_result by (cases wit_pass) (simp add: wit_pass_def)
  from managementPhases_refine [OF _ this] lawful_wit_set_c show ?thesis by auto
qed

lemma reconcileNormal_phases:
  assumes "reconcileNormal r cluster w = (Inr d, w')"
  shows "\<exists>n C h v reason. run_phases (wp_set_c (rc_workload (r_runtime r))) (wp_api_text (rc_workload (r_runtime r)))
      controller_messages cluster (managementPhases r n C h) v = (Inr reason, w')
    \<and> d = (if reason \<noteq> [] then 10 * second else 60 * second)"
  using assms unfolding reconcileNormal_def Let_def
  by (elim gbind_InrE) (unfold gret_eq, blast)

text \<open>
  C4: a reconciliation that ends without an error comes back after a minute with all thirteen conditions true, or
  after ten seconds with one of them false and those of the phases before it true.
\<close>

theorem reconcileNormal_requeue:
  assumes lawful: "lawful_set (wp_set_c (rc_workload (r_runtime r)))"
    and run: "reconcileNormal r cluster w = (Inr d, w')"
  shows "d = 60 * second \<and> list_all (has_status w' ConditionTrue) management_conditions \<or>
    d = 10 * second \<and> (\<exists>k < length management_conditions.
      list_all (has_status w' ConditionTrue) (take k management_conditions) \<and>
      has_status w' ConditionFalse (management_conditions ! k))"
proof -
  from reconcileNormal_phases [OF run] obtain n C h v reason where
    phases: "run_phases (wp_set_c (rc_workload (r_runtime r))) (wp_api_text (rc_workload (r_runtime r)))
      controller_messages cluster (managementPhases r n C h) v = (Inr reason, w')"
    and d: "d = (if reason \<noteq> [] then 10 * second else 60 * second)" by blast
  let ?ps = "managementPhases r n C h" and ?T = "- set workload_conditions"
  have len: "length ?ps = length management_conditions" by (metis length_map managementPhases_types)
  have nth: "ph_condition (?ps ! i) = management_conditions ! i" if "i < length ?ps" for i
    using that by (metis managementPhases_types nth_map)
  note distinct = management_loop.types_distinct [of r n C h]
  from phase_loop_outcome [OF lawful management_loop.phase_loop_axioms phases] obtain k where
    k: "stopped_at cluster ?ps k (Inr reason)"
    and conds: "\<forall>t\<in>?T. conditions_map w' t =
      (conditions_map v ++ updates (recorded controller_messages (wp_api_text (rc_workload (r_runtime r))) ?ps k (Inr reason))) t"
    by blast
  have in_T: "management_conditions ! i \<in> ?T" if "i < length ?ps" for i
    using that len conditions_disjoint by (auto dest: nth_mem)
  have le: "k \<le> length ?ps" using k by (simp add: stopped_at_def)
  have ready: "has_status w' ConditionTrue (management_conditions ! i)" if "i < k" for i
    using that le conds in_T [of i] nth [of i] updates_ready [OF distinct that le]
    by (simp add: has_status_def ready_condition_def map_add_def)
  show ?thesis
  proof (cases "k = length ?ps")
    case True
    then have "reason = []" using k by (simp add: stopped_at_def)
    with d ready True len show ?thesis by (simp add: list_all_length)
  next
    case False
    with le have lt: "k < length ?ps" by simp
    have "reason \<noteq> []" using k False by (auto simp: stopped_at_def)
    moreover have "has_status w' ConditionFalse (management_conditions ! k)"
      using conds in_T [OF lt] nth [OF lt] updates_stopped [OF distinct lt]
      by (simp add: has_status_def not_ready_condition_def map_add_def)
    ultimately show ?thesis using d ready lt len by (auto simp: list_all_length)
  qed
qed

theorem reconcileNormal_requeue_witness:
  "\<exists>k < length management_conditions. has_status (snd (reconcileNormal wit_reconciler wit_cluster wit_world))
     ConditionFalse (management_conditions ! k)"
proof -
  obtain w' where run: "reconcileNormal wit_reconciler wit_cluster wit_world = (Inr (10 * second), w')"
    using wit_normal by (cases "reconcileNormal wit_reconciler wit_cluster wit_world") simp
  have "lawful_set (wp_set_c (rc_workload (r_runtime wit_reconciler)))" by (simp add: lawful_wit_set_c)
  from reconcileNormal_requeue [OF this run] show ?thesis by (auto simp: run second_def nano_def)
qed

section \<open>The patch at the end\<close>

lemma mod_hcp_run: "mod_hcp f w = (Inr (), w\<lparr>hcp := f (hcp w)\<rparr>)"
  by (simp add: mod_hcp_def gmod_def)

lemma get_hcp_eq: "get_hcp w = (Inr (hcp w), w)"
  by (simp add: get_hcp_def gget_def)

lemma mod_status_eq: "mod_status f w = (Inr (), w\<lparr>hcp := (hcp w)\<lparr>Status := f (Status (hcp w))\<rparr>\<rparr>)"
  by (simp add: mod_status_def gmod_def)

lemmas world_run = mod_hcp_run get_hcp_eq mod_status_eq

lemma summarise_run:
  assumes "total_summary rt"
  shows "\<exists>cs. summarise rt applicable w = (Inr (), w\<lparr>hcp := SetConditions (hcp w) cs\<rparr>)"
proof (cases "applicable = []")
  case True
  have "summarise rt applicable w = (Inr (), w\<lparr>hcp := SetConditions (hcp w) (GetConditions (hcp w))\<rparr>)"
    by (simp add: True summarise_def gret_def SetConditions_def GetConditions_def)
  then show ?thesis by blast
next
  case False
  from assms obtain c where "rc_summary rt (GetConditions (hcp w)) applicable = Inr c"
    unfolding total_summary_def by blast
  with False show ?thesis by (auto simp: summarise_def gbind_def get_hcp_eq set_condition_run)
qed

lemma patch_hcp_run:
  assumes "total_summary rt"
  shows "\<exists>h owned cs. h = (hcp w)\<lparr>Status := (Status (hcp w))\<lparr>Conditions := cs\<rparr>\<rparr> \<and>
    clog (snd (patch_hcp rt before w)) = clog w @ [CHcpPatch before h owned] \<and>
    events (snd (patch_hcp rt before w)) = events w"
proof -
  let ?w1 = "w\<lparr>hcp := SetConditions (hcp w)
    (map (\<lambda>c. c\<lparr>cond_reason := pascal_reason rt (cond_reason c)\<rparr>) (GetConditions (hcp w)))\<rparr>"
  let ?a = "applicable_conditions (GetConditions (hcp ?w1))"
  obtain cs where s: "summarise rt ?a ?w1 = (Inr (), ?w1\<lparr>hcp := SetConditions (hcp ?w1) cs\<rparr>)"
    using summarise_run [OF assms] by blast
  define w2 where "w2 = ?w1\<lparr>hcp := SetConditions (hcp ?w1) cs\<rparr>"
  have run: "patch_hcp rt before w =
      gwrap ''failed to patch HostedControlPlane'' (invoke (CHcpPatch before (hcp w2) (?a @ [ReadyCondition]))
        (rc_patch rt before (hcp w2) (?a @ [ReadyCondition]))) w2"
    using s by (simp add: patch_hcp_def gbind_def gseq_def world_run Let_def w2_def)
  show ?thesis
    by (auto simp: run gwrap_def invoke_def w2_def SetConditions_def split: prod.splits sum.splits)
qed

lemma deferred_patch_run:
  assumes "total_summary rt" "deferred_patch rt before body w = (res, w')" "body w = (r, w1)"
  shows "\<exists>h owned st. h = (hcp w1)\<lparr>Status := st\<rparr> \<and> ObservedGeneration st = Generation (hcp w1) \<and>
    clog w' = clog w1 @ [CHcpPatch before h owned] \<and> events w' = events w1 \<and>
    (case r of
       Inl err \<Rightarrow> res = Inl err \<or> (\<exists>perr. res = Inl (EJoin [err, perr]))
     | Inr x \<Rightarrow> res = Inr x \<or> (\<exists>perr. res = Inl (EJoin [perr])))"
proof -
  define w2 where "w2 = w1\<lparr>hcp := (hcp w1)\<lparr>Status := (Status (hcp w1))\<lparr>ObservedGeneration := Generation (hcp w1)\<rparr>\<rparr>\<rparr>"
  obtain p w3 where p: "patch_hcp rt before w2 = (p, w3)" by fastforce
  have "w' = w3" and res: "(case r of Inl err \<Rightarrow> res = (case p of Inr _ \<Rightarrow> Inl err | Inl perr \<Rightarrow> Inl (EJoin [err, perr]))
      | Inr x \<Rightarrow> res = (case p of Inr _ \<Rightarrow> Inr x | Inl perr \<Rightarrow> Inl (EJoin [perr])))"
    using assms(2,3) p
    by (auto simp: deferred_patch_def gbind_def gseq_def gtry_def world_run w2_def gret_def gfail_def split: sum.splits)
  from patch_hcp_run [OF assms(1), of w2 before] p obtain h owned cs where
    h: "h = (hcp w2)\<lparr>Status := (Status (hcp w2))\<lparr>Conditions := cs\<rparr>\<rparr>"
    and log: "clog w3 = clog w2 @ [CHcpPatch before h owned]" "events w3 = events w2" by auto
  let ?st = "(Status (hcp w2))\<lparr>Conditions := cs\<rparr>"
  have "h = (hcp w1)\<lparr>Status := ?st\<rparr>" "ObservedGeneration ?st = Generation (hcp w1)"
    unfolding h by (simp_all add: w2_def)
  moreover have "clog w' = clog w1 @ [CHcpPatch before h owned]" "events w' = events w1"
    using log \<open>w' = w3\<close> by (simp_all add: w2_def)
  moreover have "case r of Inl err \<Rightarrow> res = Inl err \<or> (\<exists>perr. res = Inl (EJoin [err, perr]))
      | Inr x \<Rightarrow> res = Inr x \<or> (\<exists>perr. res = Inl (EJoin [perr]))"
    using res by (auto split: sum.splits)
  ultimately show ?thesis by blast
qed




definition wit_deleted :: "unit world" where
  "wit_deleted = wit_world\<lparr>hcp := wit_hcp\<lparr>DeletionTimestamp := 5, Finalizers := [r_finalizer wit_reconciler, ''other'']\<rparr>\<rparr>"

lemma wit_remove: "rc_remove_finalizer wit_controller_runtime fs f = filter (\<lambda>g. g \<noteq> f) fs"
  by (simp add: wit_controller_runtime_def controller_runtime.defs etcd_runtime.defs wit_runtime_def)


section \<open>When the object is reconciled\<close>

definition guard_call :: "call \<Rightarrow> bool" where
  "guard_call c \<longleftrightarrow> (case c of CHcpGet _ _ \<Rightarrow> True | COwnerCluster \<Rightarrow> True | CHcpPaused \<Rightarrow> True
     | CHcpFinalizer _ \<Rightarrow> True | _ \<Rightarrow> False)"

text \<open>What was answered before the object is reconciled.\<close>

definition admitted :: "'e hostedControlPlaneReconciler \<Rightarrow> string \<Rightarrow> string \<Rightarrow> 'e \<Rightarrow> Cluster \<Rightarrow> 'e world \<Rightarrow> bool" where
  "admitted r namespace name e cluster w1 \<longleftrightarrow>
     (\<exists>h cs e1 e2 e3. fst (rc_hcp_get (r_runtime r) namespace name e) = Inr h \<and>
        fst (rc_owner_cluster (r_runtime r) h e1) = Inr (Some cluster) \<and> \<not> filtered_out r h cluster \<and>
        fst (rc_ensure_paused (r_runtime r) cluster h e2) = Inr (False, False, cs) \<and>
        hcp w1 = SetConditions h cs \<and>
        (DeletionTimestamp h = 0 \<longrightarrow>
           fst (rc_ensure_finalizer (r_runtime r) (hcp w1) (r_finalizer r) e3) = Inr False))"

lemma calls_ok_invoke: "P c \<Longrightarrow> calls_ok P w (w\<lparr>env := e, clog := clog w @ [c]\<rparr>)"
  by (simp add: calls_ok_def)

lemma calls_ok_trans: "calls_ok P u v \<Longrightarrow> calls_ok P v w \<Longrightarrow> calls_ok P u w"
  by (rule transpD [OF transp_calls_ok])

lemma calls_ok_hcp [simp]: "calls_ok P w (w\<lparr>hcp := h\<rparr>)" "calls_ok P (w\<lparr>hcp := h\<rparr>) w' \<longleftrightarrow> calls_ok P w w'"
  by (simp_all add: calls_ok_def)

lemma guard_calls [simp]: "guard_call (CHcpGet namespace name)" "guard_call COwnerCluster" "guard_call CHcpPaused"
  "guard_call (CHcpFinalizer f)"
  by (simp_all add: guard_call_def)

lemma ensure_paused_run:
  assumes "ensure_paused r cluster w = (x, w1)"
  shows "calls_ok guard_call w w1 \<and> (\<forall>held. x = Inr held \<longrightarrow>
    (\<exists>p q cs. fst (rc_ensure_paused (r_runtime r) cluster (hcp w) (env w)) = Inr (p, q, cs) \<and> held = (p \<or> q) \<and>
       hcp w1 = SetConditions (hcp w) cs))"
  using assms
  by (auto simp: ensure_paused_def gbind_def gseq_def gwrap_def world_run gret_def invoke_def calls_ok_def
      split: prod.splits sum.splits)

lemma ensure_finalizer_run:
  assumes "ensure_finalizer r w = (x, w1)"
  shows "calls_ok guard_call w w1 \<and> (x = Inr False \<longrightarrow> hcp w1 = hcp w \<and>
    (DeletionTimestamp (hcp w) = 0 \<longrightarrow>
      fst (rc_ensure_finalizer (r_runtime r) (hcp w) (r_finalizer r) (env w)) = Inr False))"
  using assms
  by (auto simp: ensure_finalizer_def gbind_def gwrap_def world_run gret_def invoke_def calls_ok_def
      split: prod.splits sum.splits if_splits)

text \<open>The steps before the object is reconciled, once the owner is known.\<close>

lemma admit_run:
  assumes "gbind (ensure_paused r cluster) (\<lambda>held.
      if held then gret (10 * second)
      else gbind (ensure_finalizer r) (\<lambda>finalizerAdded.
        if finalizerAdded then gret 0 else reconcile_object r cluster)) w = (res, w')"
  shows "calls_ok guard_call w w' \<or>
    (\<exists>w1 cs e. calls_ok guard_call w w1 \<and> hcp w1 = SetConditions (hcp w) cs \<and>
       fst (rc_ensure_paused (r_runtime r) cluster (hcp w) (env w)) = Inr (False, False, cs) \<and>
       (DeletionTimestamp (hcp w) = 0 \<longrightarrow>
         fst (rc_ensure_finalizer (r_runtime r) (hcp w1) (r_finalizer r) e) = Inr False) \<and>
       reconcile_object r cluster w1 = (res, w'))"
proof -
  obtain x w1 where p: "ensure_paused r cluster w = (x, w1)" by fastforce
  note paused = ensure_paused_run [OF p]
  show ?thesis
  proof (cases "x = Inr False")
    case False
    with assms p have "w' = w1" by (cases x) (auto simp: gbind_def gret_def)
    with paused show ?thesis by simp
  next
    case True
    obtain y w2 where f: "ensure_finalizer r w1 = (y, w2)" by fastforce
    note fin = ensure_finalizer_run [OF f]
    from True paused obtain cs where cs: "hcp w1 = SetConditions (hcp w) cs"
      "fst (rc_ensure_paused (r_runtime r) cluster (hcp w) (env w)) = Inr (False, False, cs)" by auto
    from paused fin have calls: "calls_ok guard_call w w2" by (blast intro: calls_ok_trans)
    show ?thesis
    proof (cases "y = Inr False")
      case False
      with assms p f True have "w' = w2" by (cases y) (auto simp: gbind_def gret_def)
      with calls show ?thesis by simp
    next
      case yes: True
      with assms p f True have "reconcile_object r cluster w2 = (res, w')" by (simp add: gbind_def)
      moreover from yes fin cs have "hcp w2 = SetConditions (hcp w) cs"
        "DeletionTimestamp (hcp w) = 0 \<longrightarrow>
          fst (rc_ensure_finalizer (r_runtime r) (hcp w2) (r_finalizer r) (env w1)) = Inr False"
        by (simp_all add: SetConditions_def)
      ultimately show ?thesis using calls cs(2) by blast
    qed
  qed
qed

text \<open>
  C7: an object is reconciled only after it was read, its owner found, the filter passed, the object found not
  paused and, unless it is being deleted, found to have its finalizer; before that nothing but these questions
  is sent, and otherwise nothing but these questions is sent at all.
\<close>

theorem Reconcile_admitted:
  assumes "Reconcile r namespace name w = (res, w')"
  shows "calls_ok guard_call w w' \<or>
    (\<exists>cluster w1. calls_ok guard_call w w1 \<and> admitted r namespace name (env w) cluster w1 \<and>
       reconcile_object r cluster w1 = (res, w'))"
proof -
  let ?rt = "r_runtime r"
  let ?w1 = "w\<lparr>env := snd (rc_hcp_get ?rt namespace name (env w)), clog := clog w @ [CHcpGet namespace name]\<rparr>"
  show ?thesis
  proof (cases "fst (rc_hcp_get ?rt namespace name (env w))")
    case (Inl err)
    then have "w' = ?w1"
      using assms by (auto simp: Reconcile_def Let_def gbind_def gtry_def invoke_def gret_def gfail_def split: prod.splits if_splits)
    then show ?thesis by (simp add: calls_ok_invoke)
  next
    case (Inr h)
    define w2 where "w2 = ?w1\<lparr>hcp := h\<rparr>"
    define w3 where "w3 = w2\<lparr>env := snd (rc_owner_cluster ?rt h (env w2)), clog := clog w2 @ [COwnerCluster]\<rparr>"
    have calls: "calls_ok guard_call w w3"
      unfolding w3_def w2_def by (simp add: calls_ok_def)
    have hcp: "hcp w3 = h" by (simp add: w3_def w2_def)
    have run: "(case fst (rc_owner_cluster ?rt h (env w2)) of
        Inl err \<Rightarrow> w' = w3
      | Inr None \<Rightarrow> w' = w3
      | Inr (Some cluster) \<Rightarrow>
          if filtered_out r h cluster then w' = w3
          else gbind (ensure_paused r cluster) (\<lambda>held.
            if held then gret (10 * second)
            else gbind (ensure_finalizer r) (\<lambda>finalizerAdded.
              if finalizerAdded then gret 0 else reconcile_object r cluster)) w3 = (res, w'))"
      using assms Inr unfolding Reconcile_def Let_def
      by (cases "fst (rc_owner_cluster ?rt h (env w2))")
        (auto simp: gbind_def [of "gtry m" for m] gbind_def [of "gwrap s m" for s m] gtry_def gwrap_def gseq_def
          gbind_def [of "mod_hcp f" for f] mod_hcp_run invoke_eq w2_def w3_def gret_eq
          split: option.splits)
    show ?thesis
    proof (cases "\<exists>cluster. fst (rc_owner_cluster ?rt h (env w2)) = Inr (Some cluster) \<and> \<not> filtered_out r h cluster")
      case True
      then obtain cluster where owner: "fst (rc_owner_cluster ?rt h (env w2)) = Inr (Some cluster)"
        "\<not> filtered_out r h cluster" by blast
      from run owner admit_run [of r cluster w3 res w'] calls Inr hcp show ?thesis
        unfolding admitted_def by (simp, blast intro: calls_ok_trans)
    next
      case False
      with run have "w' = w3" by (auto split: sum.splits option.splits if_splits)
      with calls show ?thesis by simp
    qed
  qed
qed

theorem Reconcile_admitted_witness:
  "\<exists>w'. w' = snd (Reconcile wit_reconciler ''prod'' ''foo'' wit_world) \<and> (calls_ok guard_call wit_world w' \<or>
     (\<exists>cluster w1. admitted wit_reconciler ''prod'' ''foo'' () cluster w1))"
proof -
  obtain res w' where run: "Reconcile wit_reconciler ''prod'' ''foo'' wit_world = (res, w')" by fastforce
  from Reconcile_admitted [OF run] show ?thesis by (auto simp: run)
qed

section \<open>The ranges of the workload cluster\<close>

lemma parse_network_eq:
  assumes "parse_network rt what default_net s w = (Inr n, w')"
  shows "n = default_net \<or> ParseCIDR (wp_parse6 (rc_workload rt)) s = Inr n"
  using assms
  by (auto simp: parse_network_def or_condition_def gret_eq gfail_eq split: if_splits sum.splits elim!: gseq_InrE)

lemma cluster_networks_eq:
  assumes "cluster_networks rt cluster w = (Inr n, w')"
  shows "ns_services n = default_services \<or> ParseCIDR (wp_parse6 (rc_workload rt)) (ServicesCIDR cluster) = Inr (ns_services n)"
    and "ns_pods n = default_pods \<or> ParseCIDR (wp_parse6 (rc_workload rt)) (PodsCIDR cluster) = Inr (ns_pods n)"
  using assms unfolding cluster_networks_def
  by (auto simp: gret_eq dest!: parse_network_eq elim!: gbind_InrE)

lemma wf_default_networks: "wf_net4 default_services" "wf_net4 default_pods"
  by code_simp+

lemma network_printed:
  assumes "\<And>s a. parse6 s = Some a \<Longrightarrow> length a = 16" "n = d \<or> ParseCIDR parse6 s = Inr n" "wf_net4 d" "is4 (net_ip n)"
  shows "ParseCIDR parse6 (net_string string6 n) = Inr n"
  using assms(2)
proof
  assume "n = d"
  with assms(3) show ?thesis by (simp add: ParseCIDR_net_string)
qed (rule ParseCIDR_roundtrip [OF assms(1) _ assms(4)])

text \<open>
  C20: the ranges of services and pods that the controller reads from the cluster, or chooses, reach the
  configuration for kubeadm as texts that read as exactly the same ranges (for IPv4, in whatever accepted form
  the cluster writes them).
\<close>

theorem kubeadm_ranges_roundtrip:
  assumes "\<And>s a. wp_parse6 (rc_workload (r_runtime r)) s = Some a \<Longrightarrow> length a = 16"
    and "cluster_networks (r_runtime r) cluster w = (Inr n, w')"
    and "is4 (net_ip (ns_services n))" "is4 (net_ip (ns_pods n))"
  shows "let settings = kubeadm_settings_of (workload_config (hcp_workload r n h) W) h cluster;
      read = ParseCIDR (wp_parse6 (rc_workload (r_runtime r))) in
    read (kas_service_subnet settings) = Inr (ns_services n) \<and> read (kas_pod_subnet settings) = Inr (ns_pods n)"
  using network_printed [OF assms(1) cluster_networks_eq(1) [OF assms(2)] wf_default_networks(1) assms(3)]
    network_printed [OF assms(1) cluster_networks_eq(2) [OF assms(2)] wf_default_networks(2) assms(4)]
  by (simp add: Let_def kubeadm_settings_of_def workload_config_def NewConfigReconciler_def hcp_workload_def
      NewWorkloadClusterReconciler_def)

lemma wit_ranges: "cluster_networks wit_controller_runtime wit_cluster wit_world =
    (Inr \<lparr>ns_domain = ''cluster.local'', ns_services = default_services, ns_pods = default_pods,
       ns_dns = [10, 96, 0, 0], ns_kubernetes = [10, 96, 0, 0]\<rparr>, wit_world)"
  by code_simp

theorem kubeadm_ranges_roundtrip_witness:
  "ParseCIDR (wp_parse6 wit_params) (kas_pod_subnet (kubeadm_settings_of (workload_config (hcp_workload wit_reconciler
     \<lparr>ns_domain = ''cluster.local'', ns_services = default_services, ns_pods = default_pods,
       ns_dns = [10, 96, 0, 0], ns_kubernetes = [10, 96, 0, 0]\<rparr> wit_hcp) wit_workload_api) wit_hcp wit_cluster))
   = Inr default_pods"
proof -
  let ?n = "\<lparr>ns_domain = ''cluster.local'', ns_services = default_services, ns_pods = default_pods,
       ns_dns = [10, 96, 0, 0], ns_kubernetes = [10, 96, 0, 0]\<rparr>"
  have run: "cluster_networks (r_runtime wit_reconciler) wit_cluster wit_world = (Inr ?n, wit_world)"
    by (simp add: wit_ranges)
  have "wp_parse6 (rc_workload (r_runtime wit_reconciler)) s = None" for s by (simp add: wit_params_def)
  moreover have "is4 (net_ip default_services)" "is4 (net_ip default_pods)" by code_simp+
  ultimately show ?thesis
    using kubeadm_ranges_roundtrip [of wit_reconciler wit_cluster wit_world ?n, OF _ run] by (simp add: Let_def)
qed

end
