(* ===== verification/Webhook.thy ===== *)
theory Webhook
  imports OperatorUtil
begin

text \<open>
  The validating webhook (\<open>api/v1alpha1/webhook/hostedcontrolplane_webhook.go\<close>). \<open>semver.ParseTolerant\<close> is the
  parameter \<open>parse\<close> (\<open>None\<close>: an error) and \<open>version.Compare(_, _, WithBuildTags())\<close> of Cluster API the
  parameter \<open>vcmp\<close>. A field error is a cause of the \<open>Invalid\<close> status with its field path and its detail;
  the rendering of the rejected value in the message is left out. The warnings are always empty.
\<close>

definition field_invalid :: "string \<Rightarrow> string \<Rightarrow> status_cause" where
  "field_invalid path detail =
     \<lparr>cause_type = ''FieldValueInvalid'', cause_field = path, cause_message = detail\<rparr>"

definition NewInvalid :: "status_cause list \<Rightarrow> gerr" where
  "NewInvalid fieldErrs = EApi (Invalid fieldErrs)"

definition quantity_is_zero :: "quantity \<Rightarrow> bool" where
  "quantity_is_zero q \<longleftrightarrow> q = 0"

definition parseVersion :: "(string \<Rightarrow> 'v option) \<Rightarrow> HostedControlPlane \<Rightarrow> status_cause + 'v" where
  "parseVersion parse h =
     (case parse (Version (Spec h)) of
        None \<Rightarrow> Inl (field_invalid ''spec.version'' ''version must be a valid semantic version'')
      | Some v \<Rightarrow> Inr v)"

text \<open>The field errors of \<open>ValidateCreate\<close>, in the order in which the code appends them.\<close>

definition volume_size_unset :: "HostedControlPlane \<Rightarrow> bool" where
  "volume_size_unset h \<longleftrightarrow>
     (case VolumeSize (ETCD (Spec h)) of None \<Rightarrow> True | Some q \<Rightarrow> quantity_is_zero q)"

definition create_field_errors :: "(string \<Rightarrow> 'v option) \<Rightarrow> HostedControlPlane \<Rightarrow> status_cause list" where
  "create_field_errors parse h =
     (case parseVersion parse h of Inl fieldErr \<Rightarrow> [fieldErr] | Inr _ \<Rightarrow> [])
     @ (if AutoGrowEnabled (Some (ETCD (Spec h))) \<and> \<not> volume_size_unset h
        then [field_invalid ''spec.etcd.autoGrow'' ''autoGrow cannot be true when volumeSize is set''] else [])
     @ (if \<not> AutoGrowEnabled (Some (ETCD (Spec h))) \<and> volume_size_unset h
        then [field_invalid ''spec.etcd.autoGrow'' ''autoGrow cannot be false when volumeSize is not set''] else [])
     @ map (\<lambda>issuerURL. field_invalid (''spec.oidcProviders['' @ issuerURL @ '']'')
              ''issuer URL cannot be the management Kubernetes service account issuer'')
         (filter (\<lambda>issuerURL. issuerURL = LocalClusterOIDCEndpoint) (lo_keys (OIDCProviders (Spec h))))
     @ (if RootCACertificateDurationOrDefault (Certificates (Spec h))
            < CACertificateDurationOrDefault (Certificates (Spec h))
        then [field_invalid ''spec.certificates.rootCaCertificateDuration''
                ''rootCaCertificateDuration must be greater than or equal to caCertificateDuration''] else [])"

definition ValidateCreate :: "(string \<Rightarrow> 'v option) \<Rightarrow> HostedControlPlane \<Rightarrow> gerr option" where
  "ValidateCreate parse h =
     (let fieldErrs = create_field_errors parse h in
      if fieldErrs \<noteq> [] then Some (NewInvalid fieldErrs) else None)"

definition volume_decreased :: gerr where
  "volume_decreased = NewInvalid [field_invalid ''spec.etcd.volumeSize'' ''volume size cannot be decreased'']"

definition ValidateUpdate ::
  "(string \<Rightarrow> 'v option) \<Rightarrow> ('v \<Rightarrow> 'v \<Rightarrow> int) \<Rightarrow> HostedControlPlane \<Rightarrow> HostedControlPlane \<Rightarrow> gerr option" where
  "ValidateUpdate parse vcmp oldH newH =
     (case parseVersion parse oldH of
        Inl fieldErr \<Rightarrow> Some (NewInvalid [fieldErr])
      | Inr oldVersion \<Rightarrow>
        (case ValidateCreate parse newH of
           Some objErr \<Rightarrow> Some objErr
         | None \<Rightarrow>
           (case parseVersion parse newH of
              Inl _ \<Rightarrow> Some (EPanic ''nil dereference of newVersion'')
            | Inr newVersion \<Rightarrow>
              if vcmp newVersion oldVersion = -1
              then Some (NewInvalid [field_invalid ''spec.version'' ''version cannot be decreased''])
              else if AutoGrowEnabled (Some (ETCD (Spec newH))) then None
              else (case VolumeSize (ETCD (Spec newH)) of
                      None \<Rightarrow> None
                    | Some newSize \<Rightarrow>
                      if AutoGrowEnabled (Some (ETCD (Spec oldH))) \<and> newSize < ETCDVolumeSize (Status oldH)
                      then Some volume_decreased
                      else (case VolumeSize (ETCD (Spec oldH)) of
                              None \<Rightarrow> None
                            | Some oldSize \<Rightarrow> if newSize < oldSize then Some volume_decreased else None)))))"

definition ValidateDelete :: "HostedControlPlane \<Rightarrow> gerr option" where
  "ValidateDelete h = None"

section \<open>Properties\<close>

lemma ValidateCreate_None:
  "ValidateCreate parse h = None \<longleftrightarrow> create_field_errors parse h = []"
  by (simp add: ValidateCreate_def Let_def)

lemma parseVersion_Inr: "parseVersion parse h = Inr v \<longleftrightarrow> parse (Version (Spec h)) = Some v"
  by (simp add: parseVersion_def split: option.split)

lemma parseVersion_Inl: "(\<exists>e. parseVersion parse h = Inl e) \<longleftrightarrow> parse (Version (Spec h)) = None"
  by (simp add: parseVersion_def split: option.split)

text \<open>
  C32: an object is accepted on creation exactly if its version parses, it has a volume size exactly when
  it does not grow automatically, no OIDC provider is the issuer of the management cluster, and the root
  certificate lives at least as long as the ones it signs.
\<close>

theorem ValidateCreate_accepts_iff:
  "ValidateCreate parse h = None \<longleftrightarrow>
     parse (Version (Spec h)) \<noteq> None
     \<and> (AutoGrowEnabled (Some (ETCD (Spec h))) \<longleftrightarrow> volume_size_unset h)
     \<and> LocalClusterOIDCEndpoint \<notin> fst ` set (OIDCProviders (Spec h))
     \<and> CACertificateDurationOrDefault (Certificates (Spec h))
          \<le> RootCACertificateDurationOrDefault (Certificates (Spec h))"
proof -
  have "(case parseVersion parse h of Inl fieldErr \<Rightarrow> [fieldErr] | Inr _ \<Rightarrow> []) = []
      \<longleftrightarrow> parse (Version (Spec h)) \<noteq> None"
    by (simp add: parseVersion_def split: option.split)
  moreover have "filter (\<lambda>issuerURL. issuerURL = LocalClusterOIDCEndpoint) (lo_keys (OIDCProviders (Spec h))) = []
      \<longleftrightarrow> LocalClusterOIDCEndpoint \<notin> fst ` set (OIDCProviders (Spec h))"
    unfolding filter_empty_conv lo_keys_def set_map by blast
  ultimately show ?thesis
    unfolding ValidateCreate_None create_field_errors_def
    by (simp only: append_is_Nil_conv map_is_Nil_conv) (auto simp: not_less)
qed

lemma ValidateUpdate_create:
  "ValidateUpdate parse vcmp oldH newH = None \<Longrightarrow> ValidateCreate parse newH = None"
  by (auto simp: ValidateUpdate_def split: sum.splits option.splits)

lemma accepted_size:
  assumes "ValidateCreate parse h = None" "\<not> AutoGrowEnabled (Some (ETCD (Spec h)))"
  obtains q where "VolumeSize (ETCD (Spec h)) = Some q" "q \<noteq> 0"
  using assms unfolding ValidateCreate_accepts_iff volume_size_unset_def quantity_is_zero_def
  by (auto split: option.splits)

lemma ValidateUpdate_size:
  assumes "ValidateUpdate parse vcmp oldH newH = None"
    and "\<not> AutoGrowEnabled (Some (ETCD (Spec newH)))"
  obtains q where "VolumeSize (ETCD (Spec newH)) = Some q"
    and "AutoGrowEnabled (Some (ETCD (Spec oldH))) \<Longrightarrow> ETCDVolumeSize (Status oldH) \<le> q"
    and "\<And>p. VolumeSize (ETCD (Spec oldH)) = Some p \<Longrightarrow> p \<le> q"
proof -
  from accepted_size [OF ValidateUpdate_create [OF assms(1)] assms(2)]
  obtain q where q: "VolumeSize (ETCD (Spec newH)) = Some q" by blast
  show thesis
  proof (rule that [OF q])
    show "ETCDVolumeSize (Status oldH) \<le> q" if "AutoGrowEnabled (Some (ETCD (Spec oldH)))"
      using assms q that by (auto simp: ValidateUpdate_def split: sum.splits option.splits if_splits)
    show "p \<le> q" if "VolumeSize (ETCD (Spec oldH)) = Some p" for p
      using assms q that by (auto simp: ValidateUpdate_def split: sum.splits option.splits if_splits)
  qed
qed

text \<open>
  C11: an update never panics (the version the code dereferences without a check has been parsed by then)
  and never lowers the version.
\<close>

theorem ValidateUpdate_no_panic_no_downgrade:
  "ValidateUpdate parse vcmp oldH newH \<noteq> Some (EPanic s)
   \<and> (ValidateUpdate parse vcmp oldH newH = None \<longrightarrow>
        (\<exists>vo vn. parse (Version (Spec oldH)) = Some vo \<and> parse (Version (Spec newH)) = Some vn \<and> vcmp vn vo \<noteq> -1))"
proof (intro conjI impI)
  have parsed: "parse (Version (Spec newH)) \<noteq> None" if "ValidateCreate parse newH = None"
    using that by (simp add: ValidateCreate_accepts_iff)
  show "ValidateUpdate parse vcmp oldH newH \<noteq> Some (EPanic s)"
    using parsed
    by (auto simp: ValidateUpdate_def NewInvalid_def volume_decreased_def parseVersion_def ValidateCreate_def Let_def
        split: sum.splits option.splits if_splits)
  assume "ValidateUpdate parse vcmp oldH newH = None"
  then show "\<exists>vo vn. parse (Version (Spec oldH)) = Some vo \<and> parse (Version (Spec newH)) = Some vn \<and> vcmp vn vo \<noteq> -1"
    by (auto simp: ValidateUpdate_def parseVersion_def split: sum.splits option.splits if_splits)
qed

theorem ValidateUpdate_no_panic_no_downgrade_witness:
  "(2::int) \<noteq> -1 \<and> ValidateUpdate (\<lambda>s. Some (2::int)) (\<lambda>a b. a - b) wit_hcp wit_hcp = None
    \<and> (\<exists>vo vn. Some (2::int) = Some vo \<and> Some 2 = Some vn \<and> vn - vo \<noteq> -1)"
proof -
  have "ValidateUpdate (\<lambda>s. Some (2::int)) (\<lambda>a b. a - b) wit_hcp wit_hcp = None"
    by code_simp
  then show ?thesis
    using ValidateUpdate_no_panic_no_downgrade [of "\<lambda>s. Some (2::int)" "\<lambda>a b. a - b" wit_hcp wit_hcp] by simp
qed

end
