(* ===== verification/Lifecycle.thy ===== *)
theory Lifecycle
  imports Reconciliation Webhook
begin

text \<open>
  The webhook and the controller together: the life of a control plane as a step relation. Users change the
  specification through the admission webhook, the controller works on a copy it has read and patches the status
  back. The relation has a flag: with \<open>serial\<close> no update comes between the reading of the object and the patch.
\<close>

section \<open>The size of the volumes over one reconciliation\<close>

text \<open>What a whole reconciliation does to the size (compare \<open>volume_step\<close>, for etcd alone).\<close>

definition size_step :: "quantity \<Rightarrow> 'e world \<Rightarrow> 'e world \<Rightarrow> bool" where
  "size_step incr w w' \<longleftrightarrow> Spec (hcp w') = Spec (hcp w) \<and>
     (let old = ETCDVolumeSize (Status (hcp w)); new = ETCDVolumeSize (Status (hcp w')) in
      new = old \<or>
      (if AutoGrowEnabled (Some (ETCD (Spec (hcp w)))) then new = old + incr
       else VolumeSize (ETCD (Spec (hcp w))) = Some new))"

text \<open>The steps before and after etcd keep the specification and the size.\<close>

definition same_size :: "'e world \<Rightarrow> 'e world \<Rightarrow> bool" where
  "same_size w w' \<longleftrightarrow> Spec (hcp w') = Spec (hcp w) \<and>
     ETCDVolumeSize (Status (hcp w')) = ETCDVolumeSize (Status (hcp w))"

lemma same_size_refl [simp]: "same_size w w"
  by (simp add: same_size_def)

lemma same_size_trans: "same_size u v \<Longrightarrow> same_size v w \<Longrightarrow> same_size u w"
  by (simp add: same_size_def)

lemma reflp_same_size [simp]: "reflp same_size"
  by (rule reflpI) simp

lemma transp_same_size [simp]: "transp same_size"
  by (rule transpI) (rule same_size_trans)

lemma keeps_same_size: "keeps size_kept m \<Longrightarrow> keeps same_size m"
  by (erule keeps_mono) (simp add: size_kept_def conditions_kept_Spec same_size_def)

lemma keeps_same_size_set_condition: "keeps same_size (set_condition set_c c)"
  by (simp add: keeps_def set_condition_run same_size_def SetConditions_def)

lemma same_size_step: "same_size w w' \<Longrightarrow> size_step incr w w'"
  by (simp add: same_size_def size_step_def)

lemma size_step_before: "same_size u v \<Longrightarrow> size_step incr v w \<Longrightarrow> size_step incr u w"
  by (auto simp: same_size_def size_step_def Let_def split: if_splits)

lemma size_step_after: "size_step incr u v \<Longrightarrow> same_size v w \<Longrightarrow> size_step incr u w"
  by (simp add: same_size_def size_step_def)

text \<open>A run in which one phase steps and the others keep the size.\<close>

lemma run_phases_same_size:
  assumes "\<And>p. p \<in> set ps \<Longrightarrow> keeps same_size (ph_reconcile p cluster)"
  shows "keeps same_size (run_phases set_c api m cluster ps)"
  by (rule keeps_run_phases) (simp_all add: keeps_same_size_set_condition assms)

lemma run_phases_size_step:
  assumes "\<And>q. q \<in> set ps \<Longrightarrow> keeps same_size (ph_reconcile q cluster)"
    and "keeps (size_step incr) (ph_reconcile p cluster)"
    and "\<And>q. q \<in> set qs \<Longrightarrow> keeps same_size (ph_reconcile q cluster)"
    and "run_phases set_c api m cluster (ps @ p # qs) w = (r, w')"
  shows "size_step incr w w'"
  using assms(1,4)
proof (induction ps arbitrary: w)
  case Nil
  obtain res w1 where p: "ph_reconcile p cluster w = (res, w1)" by fastforce
  with assms(2) have step: "size_step incr w w1" by (rule keepsD)
  from Nil have "run_phases set_c api m cluster (p # qs) w = (r, w')" by simp
  from run_phases_turn [OF this p] have "same_size w1 w'"
    using keepsD [OF run_phases_same_size [OF assms(3)]] keepsD [OF keeps_same_size_set_condition]
    by (fastforce intro: same_size_trans split: list.splits)
  with step show ?case by (rule size_step_after)
next
  case (Cons q ps)
  obtain res w1 where q: "ph_reconcile q cluster w = (res, w1)" by fastforce
  with Cons.prems(1) have same: "same_size w w1" by (auto intro: keepsD)
  from Cons.prems(2) have "run_phases set_c api m cluster (q # ps @ p # qs) w = (r, w')" by simp
  from run_phases_turn [OF this q] show ?case
  proof (elim disjE exE conjE)
    fix w2 assume "set_condition set_c (ready_condition m q) w1 = (Inr (), w2)"
      and rest: "run_phases set_c api m cluster (ps @ p # qs) w2 = (r, w')"
    then have "same_size w w2" using same keepsD [OF keeps_same_size_set_condition] by (blast intro: same_size_trans)
    with Cons.IH [OF _ rest] Cons.prems(1) show ?thesis by (auto intro: size_step_before)
  next
    assume "case recorded m api (q # ps @ p # qs) 0 res of [] \<Rightarrow> w' = w1 | c # _ \<Rightarrow> set_condition set_c c w1 = (Inr (), w')"
    then have "same_size w1 w'" using keepsD [OF keeps_same_size_set_condition] by (auto split: list.splits)
    with same show ?thesis by (blast intro: same_size_step same_size_trans)
  qed
qed

lemma keeps_size_step_gbind:
  assumes "keeps same_size m" "\<And>x. keeps (size_step incr) (f x)"
  shows "keeps (size_step incr) (gbind m f)"
  unfolding keeps_def
proof
  fix w
  obtain r w1 where m: "m w = (r, w1)" by fastforce
  with assms(1) have same: "same_size w w1" by (rule keepsD)
  show "size_step incr w (snd (gbind m f w))"
  proof (cases r)
    case (Inl e)
    with m same show ?thesis by (simp add: gbind_def same_size_step)
  next
    case (Inr x)
    have "size_step incr w1 (snd (f x w1))" using assms(2) by (simp add: keeps_def)
    with m Inr same show ?thesis by (simp add: gbind_def size_step_before)
  qed
qed

section \<open>The phases\<close>

lemma keeps_size_step_etcd:
  "keeps (size_step (r_etcdServerStorageIncrement r)) (ReconcileEtcdCluster (hcp_etcd r C) cluster)"
  by (rule keeps_mono [OF hcp_etcd.keeps_etcd_step])
    (auto simp: volume_step_def size_step_def Let_def conditions_kept_Spec hcp_etcd_def NewEtcdClusterReconciler_def
      split: if_splits)

lemma keeps_same_size_workload: "keeps same_size (ReconcileWorkloadClusterResources (hcp_workload r n h) cluster)"
  unfolding ReconcileWorkloadClusterResources_def workload_client_def hcp_workload_simps
  by (intro keeps_gbind keeps_gwrap keeps_same_size [OF keeps_workload_client] keeps_case_prod keeps_run_phases
      keeps_same_size_set_condition keeps_same_size [OF keeps_size_workload_phases]) simp_all

lemma keeps_same_size_phase:
  assumes "p \<in> set (managementPhases r n C h)" "ph_name p \<noteq> ''etcd cluster''"
  shows "keeps same_size (ph_reconcile p cluster)"
proof (cases "ph_name p = ''workload cluster resources''")
  case True
  with assms(1) show ?thesis by (auto simp: managementPhases_def phase_def keeps_same_size_workload)
next
  case False
  with assms show ?thesis by (intro keeps_same_size keeps_size_management_phase)
qed

lemma keeps_size_step_phases:
  "keeps (size_step (r_etcdServerStorageIncrement r)) (run_phases set_c api m cluster (managementPhases r n C h))"
  unfolding keeps_def
proof
  fix w
  let ?ps = "managementPhases r n C h"
  have split: "?ps = take 6 ?ps @ ?ps ! 6 # drop (Suc 6) ?ps"
    by (rule id_take_nth_drop) (simp add: managementPhases_def)
  have etcd: "ph_reconcile (?ps ! 6) = ReconcileEtcdCluster (hcp_etcd r C)"
    by (simp add: managementPhases_def phase_def)
  have others: "list_all (\<lambda>p. ph_name p \<noteq> ''etcd cluster'') (take 6 ?ps @ drop (Suc 6) ?ps)"
    by (simp add: managementPhases_def phase_def)
  obtain res w' where run: "run_phases set_c api m cluster ?ps w = (res, w')" by fastforce
  have "size_step (r_etcdServerStorageIncrement r) w w'"
  proof (rule run_phases_size_step)
    show "run_phases set_c api m cluster (take 6 ?ps @ ?ps ! 6 # drop (Suc 6) ?ps) w = (res, w')"
      using run split by simp
    show "keeps (size_step (r_etcdServerStorageIncrement r)) (ph_reconcile (?ps ! 6) cluster)"
      by (simp add: etcd keeps_size_step_etcd)
    show "keeps same_size (ph_reconcile q cluster)" if "q \<in> set (take 6 ?ps)" for q
      using that others by (intro keeps_same_size_phase [of q r n C h]) (auto simp: list_all_iff dest: in_set_takeD)
    show "keeps same_size (ph_reconcile q cluster)" if "q \<in> set (drop (Suc 6) ?ps)" for q
      using that others by (intro keeps_same_size_phase [of q r n C h]) (auto simp: list_all_iff dest: in_set_dropD)
  qed
  then show "size_step (r_etcdServerStorageIncrement r) w (snd (run_phases set_c api m cluster ?ps w))"
    by (simp add: run)
qed

section \<open>One reconciliation\<close>

lemma keeps_same_size_networks: "keeps same_size (cluster_networks rt cluster)"
  unfolding cluster_networks_def parse_network_def service_ip_def or_condition_def Let_def
  by (intro keeps_gbind keeps_if keeps_gret keeps_gfail keeps_case_sum keeps_gseq keeps_same_size_set_condition) simp_all

lemma keeps_size_step_gret: "keeps (size_step incr) (gret x)"
  by (simp add: keeps_def gret_def same_size_step)

lemma keeps_size_step_then:
  assumes "keeps (size_step incr) m" "\<And>x. keeps same_size (f x)"
  shows "keeps (size_step incr) (gbind m f)"
  unfolding keeps_def
proof
  fix w
  obtain r w1 where m: "m w = (r, w1)" by fastforce
  with assms(1) have step: "size_step incr w w1" by (rule keepsD)
  show "size_step incr w (snd (gbind m f w))"
  proof (cases r)
    case (Inl e)
    with m step show ?thesis by (simp add: gbind_def)
  next
    case (Inr x)
    have "same_size w1 (snd (f x w1))" using assms(2) by (simp add: keeps_def)
    with m Inr step show ?thesis by (simp add: gbind_def size_step_after)
  qed
qed

lemma keeps_same_size_gret: "keeps same_size (gret x)"
  by (simp add: keeps_gret)

lemma keeps_size_step_normal:
  "keeps (size_step (r_etcdServerStorageIncrement r)) (reconcileNormal r cluster)"
  unfolding reconcileNormal_def Let_def
  by (intro keeps_size_step_gbind keeps_same_size_networks keeps_same_size [OF keeps_size_cilium]
      keeps_size_step_then keeps_size_step_phases keeps_same_size_gret keeps_get_hcp reflp_same_size)

lemma keeps_same_size_mod_hcp:
  "(\<And>h. Spec (f h) = Spec h) \<Longrightarrow> (\<And>h. ETCDVolumeSize (Status (f h)) = ETCDVolumeSize (Status h))
    \<Longrightarrow> keeps same_size (mod_hcp f)"
  by (simp add: keeps_def mod_hcp_def gmod_def same_size_def)

lemma keeps_same_size_mod_status:
  "(\<And>s. ETCDVolumeSize (f s) = ETCDVolumeSize s) \<Longrightarrow> keeps same_size (mod_status f)"
  by (simp add: keeps_def mod_status_def gmod_def same_size_def)

lemma keeps_same_size_invoke: "keeps same_size (invoke c f)"
  by (rule keeps_same_size, rule size_env.keeps_invoke)

lemma keeps_same_size_patch: "keeps same_size (patch_hcp rt before)"
  unfolding patch_hcp_def summarise_def Let_def
  by (intro keeps_gseq keeps_gbind keeps_get_hcp keeps_if keeps_case_sum keeps_gfail keeps_gret keeps_gwrap
      keeps_same_size_invoke keeps_same_size_set_condition keeps_same_size_mod_hcp)
    (simp_all add: SetConditions_def)

lemma keeps_size_step_deferred:
  assumes "keeps (size_step incr) body"
  shows "keeps (size_step incr) (deferred_patch rt before body)"
proof -
  have body: "keeps (size_step incr) (gtry body)"
    using assms by (simp add: keeps_def gtry_def case_prod_unfold)
  show ?thesis
    unfolding deferred_patch_def
    by (rule keeps_size_step_then [OF body],
        intro keeps_gseq keeps_gbind keeps_gtry keeps_same_size_patch keeps_same_size_mod_hcp)
      (simp_all add: keeps_gret keeps_gfail split: sum.split)
qed

lemma keeps_size_step_delete: "keeps (size_step incr) (reconcileDelete r)"
  by (rule keeps_mono [of same_size])
    (auto simp: reconcileDelete_def same_size_step intro!: keeps_gseq keeps_gret keeps_same_size_mod_hcp)

lemma keeps_size_step_object:
  "keeps (size_step (r_etcdServerStorageIncrement r)) (reconcile_object r cluster)"
  unfolding reconcile_object_def gseq_def
  by (intro keeps_size_step_gbind keeps_get_hcp reflp_same_size)
    (auto split: option.split intro!: keeps_size_step_gbind keeps_same_size_mod_status keeps_size_step_deferred
      keeps_size_step_normal keeps_size_step_delete keeps_mono [OF keeps_gfail same_size_step])

section \<open>The system\<close>

text \<open>
  \<open>stored\<close> is the object in the API server, \<open>working\<close> the copy the controller works on. The patch writes the
  finalizers and the status, which \<open>reconcile_object\<close> leaves as the only difference, into the stored object; a pass
  whose patch is not accepted is dropped. What the clusters answer is arbitrary: the world \<open>w\<close> of a pass has any
  environment.
\<close>

record system =
  stored :: HostedControlPlane
  working :: "HostedControlPlane option"

definition patched :: "HostedControlPlane \<Rightarrow> HostedControlPlane \<Rightarrow> HostedControlPlane" where
  "patched h h' = h\<lparr>Finalizers := Finalizers h', Status := Status h'\<rparr>"

inductive sys_step :: "bool \<Rightarrow> 'e hostedControlPlaneReconciler \<Rightarrow> (string \<Rightarrow> 'v option) \<Rightarrow> ('v \<Rightarrow> 'v \<Rightarrow> int)
    \<Rightarrow> system \<Rightarrow> system \<Rightarrow> bool" for serial r parse vcmp where
  sys_update: "sys_step serial r parse vcmp s (s\<lparr>stored := h\<rparr>)"
    if "ValidateUpdate parse vcmp (stored s) h = None" "Status h = Status (stored s)" "serial \<longrightarrow> working s = None"
| sys_read: "sys_step serial r parse vcmp s (s\<lparr>working := Some (stored s)\<rparr>)"
    if "working s = None"
| sys_finish: "sys_step serial r parse vcmp s \<lparr>stored = patched (stored s) (hcp w'), working = None\<rparr>"
    if "working s = Some (hcp w)" "reconcile_object r cluster w = (res, w')"
| sys_drop: "sys_step serial r parse vcmp s (s\<lparr>working := None\<rparr>)"

inductive_cases sys_stepE: "sys_step serial r parse vcmp s s'"

lemma patched_simps [simp]: "Spec (patched h h') = Spec h" "Status (patched h h') = Status h'"
  by (simp_all add: patched_def)

definition has_size :: "HostedControlPlane \<Rightarrow> bool" where
  "has_size h \<longleftrightarrow> AutoGrowEnabled (Some (ETCD (Spec h))) \<or> VolumeSize (ETCD (Spec h)) \<noteq> None"

definition sys_sized :: "system \<Rightarrow> bool" where
  "sys_sized s \<longleftrightarrow> has_size (stored s) \<and> (\<forall>h. working s = Some h \<longrightarrow> has_size h)"

lemma ValidateCreate_has_size: "ValidateCreate parse h = None \<Longrightarrow> has_size h"
  using accepted_size [of parse h] by (auto simp: has_size_def)

lemma has_size_patched [simp]: "has_size (patched h h') \<longleftrightarrow> has_size h"
  by (simp add: has_size_def)

lemma sys_sized_step: "sys_step serial r parse vcmp s s' \<Longrightarrow> sys_sized s \<Longrightarrow> sys_sized s'"
  by (erule sys_stepE) (auto simp: sys_sized_def dest: ValidateUpdate_create ValidateCreate_has_size)

lemma sys_sized_reachable: "(sys_step serial r parse vcmp)\<^sup>*\<^sup>* s s' \<Longrightarrow> sys_sized s \<Longrightarrow> sys_sized s'"
  by (induction rule: rtranclp_induct) (auto intro: sys_sized_step)

text \<open>
  C5: in every state that a created control plane reaches through updates the webhook accepts and passes of the
  controller, in any order and also with updates in the middle of a pass, the copy the controller works on lets
  it compute the size of the volumes: the pointer it dereferences without a check is never nil.
\<close>

theorem reachable_volume_size:
  assumes "(sys_step serial r parse vcmp)\<^sup>*\<^sup>* \<lparr>stored = h0, working = None\<rparr> s"
    and "ValidateCreate parse h0 = None" "working s = Some h" "Spec (hcp w) = Spec h"
  shows "\<exists>v w'. getETCDVolumeSize er w = (Inr v, w')"
proof -
  have "sys_sized \<lparr>stored = h0, working = None\<rparr>"
    using ValidateCreate_has_size [OF assms(2)] by (simp add: sys_sized_def)
  from sys_sized_reachable [OF assms(1) this] assms(3,4) have "has_size (hcp w)"
    by (simp add: sys_sized_def has_size_def)
  then show ?thesis
    by (auto simp: has_size_def getETCDVolumeSize_def gbind_def gseq_def gret_def emit_def gmod_def get_hcp_eq)
qed

lemma wit_valid: "ValidateCreate (\<lambda>s. Some s) wit_hcp = None"
  by code_simp

theorem reachable_volume_size_witness:
  "\<exists>v w'. getETCDVolumeSize (hcp_etcd wit_reconciler None) wit_world = (Inr v, w')"
proof (rule reachable_volume_size)
  show "(sys_step False wit_reconciler (\<lambda>s. Some s) (\<lambda>a b. 0))\<^sup>*\<^sup>* \<lparr>stored = wit_hcp, working = None\<rparr>
      \<lparr>stored = wit_hcp, working = Some wit_hcp\<rparr>"
    using sys_read [of "\<lparr>stored = wit_hcp, working = None\<rparr>"] by fastforce
qed (simp_all add: wit_valid wit_world_def)

section \<open>The size never shrinks\<close>

definition size_bounded :: "HostedControlPlane \<Rightarrow> bool" where
  "size_bounded h \<longleftrightarrow> AutoGrowEnabled (Some (ETCD (Spec h))) \<or>
     (\<exists>v. VolumeSize (ETCD (Spec h)) = Some v \<and> ETCDVolumeSize (Status h) \<le> v)"

definition sys_bounded :: "system \<Rightarrow> bool" where
  "sys_bounded s \<longleftrightarrow> size_bounded (stored s) \<and> working s \<in> {None, Some (stored s)}"

lemma update_bounded:
  assumes "ValidateUpdate parse vcmp old new = None" "Status new = Status old" "size_bounded old"
  shows "size_bounded new"
proof (cases "AutoGrowEnabled (Some (ETCD (Spec new)))")
  case False
  from ValidateUpdate_size [OF assms(1) False] obtain q where "VolumeSize (ETCD (Spec new)) = Some q"
    "AutoGrowEnabled (Some (ETCD (Spec old))) \<Longrightarrow> ETCDVolumeSize (Status old) \<le> q"
    "\<And>p. VolumeSize (ETCD (Spec old)) = Some p \<Longrightarrow> p \<le> q" by blast
  with assms(2,3) show ?thesis by (fastforce simp: size_bounded_def)
qed (simp add: size_bounded_def)

lemma pass_size:
  assumes "reconcile_object r cluster w = (res, w')" "hcp w = h" "size_bounded h" "0 \<le> r_etcdServerStorageIncrement r"
  shows "ETCDVolumeSize (Status h) \<le> ETCDVolumeSize (Status (hcp w'))" and "size_bounded (patched h (hcp w'))"
  using keepsD [OF keeps_size_step_object assms(1)] assms(2-4)
  by (auto simp: size_step_def size_bounded_def Let_def split: if_splits)

lemma bounded_step:
  assumes "sys_step True r parse vcmp s s'" "sys_bounded s" "0 \<le> r_etcdServerStorageIncrement r"
  shows "sys_bounded s' \<and> ETCDVolumeSize (Status (stored s)) \<le> ETCDVolumeSize (Status (stored s'))"
  using assms by (elim sys_stepE) (auto simp: sys_bounded_def intro: update_bounded pass_size)

lemma bounded_reachable:
  assumes "(sys_step True r parse vcmp)\<^sup>*\<^sup>* s s'" "sys_bounded s" "0 \<le> r_etcdServerStorageIncrement r"
  shows "sys_bounded s' \<and> ETCDVolumeSize (Status (stored s)) \<le> ETCDVolumeSize (Status (stored s'))"
  using assms(1)
proof (induction rule: rtranclp_induct)
  case (step y z)
  with bounded_step [OF step.hyps(2) _ assms(3)] show ?case by force
qed (simp add: assms(2))


definition wit_fixed :: HostedControlPlane where
  "wit_fixed = wit_hcp\<lparr>Spec := wit_spec\<lparr>ETCD := wit_etcd\<lparr>VolumeSize := Some (quantity_of (5 * 2 ^ 30)),
     AutoGrow := Some False\<rparr>\<rparr>\<rparr>"

lemma wit_fixed_accepted: "ValidateUpdate (\<lambda>s. Some s) (\<lambda>a b. 0) wit_hcp wit_fixed = None"
  by code_simp


end
