(* ===== verification/S3Transfer.thy ===== *)
theory S3Transfer
  imports S3Client
begin

text \<open>
  What lies between the transfer manager and the S3 backend in \<open>etcd_cluster/s3_client/s3_client.go\<close>: the client
  that strips checksum algorithms, and the listener that reports progress. The transfer manager is outside; it
  is any strategy that picks the next request from the answers so far, so what is proved holds for all of them.
\<close>

section \<open>Requests\<close>

datatype s3_operation = OpCreateMultipartUpload | OpUploadPart | OpPutObject | OpOther string

record 'p s3_request =
  ChecksumAlgorithm :: string
  rq_rest :: 'p

type_synonym ('s, 'p, 'o) s3_method = "'p s3_request \<Rightarrow> ('s, 'o) gom"

record ('s, 'p, 'o) S3APIClient =
  CreateMultipartUpload :: "('s, 'p, 'o) s3_method"
  UploadPart :: "('s, 'p, 'o) s3_method"
  PutObject :: "('s, 'p, 'o) s3_method"
  OtherOperation :: "string \<Rightarrow> ('s, 'p, 'o) s3_method"

section \<open>The client that strips checksums\<close>

definition stripping_CreateMultipartUpload :: "('s, 'p, 'o) S3APIClient \<Rightarrow> ('s, 'p, 'o) s3_method" where
  "stripping_CreateMultipartUpload c input =
     gwrap ''CreateMultipartUpload'' (CreateMultipartUpload c (input\<lparr>ChecksumAlgorithm := []\<rparr>))"

definition stripping_UploadPart :: "('s, 'p, 'o) S3APIClient \<Rightarrow> ('s, 'p, 'o) s3_method" where
  "stripping_UploadPart c input = gwrap ''UploadPart'' (UploadPart c (input\<lparr>ChecksumAlgorithm := []\<rparr>))"

definition stripping_PutObject :: "('s, 'p, 'o) S3APIClient \<Rightarrow> ('s, 'p, 'o) s3_method" where
  "stripping_PutObject c input = gwrap ''PutObject'' (PutObject c (input\<lparr>ChecksumAlgorithm := []\<rparr>))"

text \<open>The other methods are those of the embedded client.\<close>

definition checksumStrippingS3Client :: "('s, 'p, 'o) S3APIClient \<Rightarrow> ('s, 'p, 'o) S3APIClient" where
  "checksumStrippingS3Client c =
     \<lparr>CreateMultipartUpload = stripping_CreateMultipartUpload c, UploadPart = stripping_UploadPart c,
      PutObject = stripping_PutObject c, OtherOperation = OtherOperation c\<rparr>"

text \<open>Which client the transfer manager gets: the stripping one exactly for an endpoint of its own.\<close>

definition s3APIClient :: "s3Client \<Rightarrow> ('s, 'p, 'o) S3APIClient \<Rightarrow> ('s, 'p, 'o) S3APIClient" where
  "s3APIClient s rawS3 = (if s3_strip_checksums s then checksumStrippingS3Client rawS3 else rawS3)"

section \<open>Progress\<close>

text \<open>The pointer to the watcher, which a transfer reads while an upload may replace it: both are atomic.\<close>

type_synonym 's progress_watcher = "('s \<Rightarrow> 's) option"

definition setWatcher :: "('s \<Rightarrow> 's) \<Rightarrow> 's progress_watcher \<Rightarrow> 's progress_watcher" where
  "setWatcher fn p = Some fn"

definition OnObjectBytesTransferred :: "'s progress_watcher \<Rightarrow> 's \<Rightarrow> 's" where
  "OnObjectBytesTransferred p s = (case p of Some fn \<Rightarrow> fn s | None \<Rightarrow> s)"

section \<open>What reaches the backend\<close>

text \<open>A backend that records the requests it gets.\<close>

record ('b, 'p) s3_backend =
  be_state :: 'b
  be_requests :: "(s3_operation \<times> 'p s3_request) list"

type_synonym ('b, 'p, 'o) s3_answer = "s3_operation \<Rightarrow> 'p s3_request \<Rightarrow> 'b \<Rightarrow> (gerr + 'o) \<times> 'b"

definition backend_call :: "('b, 'p, 'o) s3_answer \<Rightarrow> s3_operation \<Rightarrow> (('b, 'p) s3_backend, 'p, 'o) s3_method" where
  "backend_call A op input w =
     (case A op input (be_state w) of
        (r, b) \<Rightarrow> (r, w\<lparr>be_state := b, be_requests := be_requests w @ [(op, input)]\<rparr>))"

definition raw_client :: "('b, 'p, 'o) s3_answer \<Rightarrow> (('b, 'p) s3_backend, 'p, 'o) S3APIClient" where
  "raw_client A =
     \<lparr>CreateMultipartUpload = backend_call A OpCreateMultipartUpload, UploadPart = backend_call A OpUploadPart,
      PutObject = backend_call A OpPutObject, OtherOperation = (\<lambda>name. backend_call A (OpOther name))\<rparr>"

primrec client_call :: "('s, 'p, 'o) S3APIClient \<Rightarrow> s3_operation \<Rightarrow> ('s, 'p, 'o) s3_method" where
  "client_call c OpCreateMultipartUpload = CreateMultipartUpload c"
| "client_call c OpUploadPart = UploadPart c"
| "client_call c OpPutObject = PutObject c"
| "client_call c (OpOther name) = OtherOperation c name"

text \<open>A run of at most \<open>n\<close> requests of a transfer manager.\<close>

primrec transfer :: "nat \<Rightarrow> ((gerr + 'o) list \<Rightarrow> (s3_operation \<times> 'p s3_request) option)
    \<Rightarrow> ('s, 'p, 'o) S3APIClient \<Rightarrow> (gerr + 'o) list \<Rightarrow> 's \<Rightarrow> 's" where
  "transfer 0 manager c answers w = w"
| "transfer (Suc n) manager c answers w =
     (case manager answers of
        None \<Rightarrow> w
      | Some (op, input) \<Rightarrow>
          (case client_call c op input w of (r, w') \<Rightarrow> transfer n manager c (answers @ [r]) w'))"

definition uploads :: "s3_operation \<Rightarrow> bool" where
  "uploads op \<longleftrightarrow> op = OpCreateMultipartUpload \<or> op = OpUploadPart \<or> op = OpPutObject"

definition stripped :: "s3_operation \<times> 'p s3_request \<Rightarrow> bool" where
  "stripped q \<longleftrightarrow> (uploads (fst q) \<longrightarrow> ChecksumAlgorithm (snd q) = [])"

lemma stripping_call:
  "be_requests (snd (client_call (checksumStrippingS3Client (raw_client A)) op input w)) =
     be_requests w @ [(op, if uploads op then input\<lparr>ChecksumAlgorithm := []\<rparr> else input)]"
  by (cases op) (simp_all add: checksumStrippingS3Client_def stripping_CreateMultipartUpload_def
      stripping_UploadPart_def stripping_PutObject_def raw_client_def backend_call_def gwrap_def uploads_def
      split: prod.split sum.split)



end
