(* ===== verification/Watches.thy ===== *)
theory Watches
  imports Controller
begin

text \<open>
  Which control planes a change of another object wakes (\<open>hostedcontrolplane/controller.go\<close>): a cluster by its
  reference, a secret of a certificate by the owners of the certificate, any other secret and a config map by the
  mounts of the API server. An object of another type would panic and is not represented.
\<close>

record watched_object =
  wo_namespace :: string
  wo_name :: string
  wo_owner_refs :: "owner_ref list"

record watched_cluster =
  wc_namespace :: string
  wc_control_plane :: "(string \<times> string) option"
    \<comment> \<open>kind and name of \<open>spec.controlPlaneRef\<close>, if it is defined\<close>

record watch_api =
  \<comment> \<open>the reads of the cached client\<close>
  w_hcp_list :: "string \<Rightarrow> gerr + HostedControlPlane list"
  w_certificate_get :: "string \<Rightarrow> string \<Rightarrow> gerr + live_certificate"

record Request =
  req_namespace :: string
  req_name :: string

definition clusterToHostedControlPlane :: "watched_cluster \<Rightarrow> Request list" where
  "clusterToHostedControlPlane cluster =
     (case wc_control_plane cluster of
        None \<Rightarrow> []
      | Some (kind, name) \<Rightarrow>
          if kind = ''HostedControlPlane'' then [\<lparr>req_namespace = wc_namespace cluster, req_name = name\<rparr>] else [])"

definition resolveOwnerRefsToHostedControlPlanes :: "watch_api \<Rightarrow> string \<Rightarrow> string \<Rightarrow> Request list option" where
  "resolveOwnerRefsToHostedControlPlanes W namespace name =
     (case w_certificate_get W namespace name of
        Inl err \<Rightarrow> None
      | Inr certificate \<Rightarrow> Some (List.map_filter (\<lambda>ownerRef.
          if or_kind ownerRef = ''HostedControlPlane'' \<and> or_api_version ownerRef = GroupName @ ''/v1alpha1''
          then Some \<lparr>req_namespace = namespace, req_name = or_name ownerRef\<rparr> else None)
          (lcert_owner_refs certificate)))"

definition api_server_mounts :: "(Mount \<Rightarrow> bool) \<Rightarrow> HostedControlPlane \<Rightarrow> bool" where
  "api_server_mounts mounts h = list_ex (\<lambda>(_, mount). mounts mount) (Mounts (APIServer (Deployment (Spec h))))"

definition first_mounting :: "(Mount \<Rightarrow> bool) \<Rightarrow> HostedControlPlane list \<Rightarrow> Request list" where
  "first_mounting mounts hcps =
     (case List.find (api_server_mounts mounts) hcps of
        None \<Rightarrow> []
      | Some h \<Rightarrow> [\<lparr>req_namespace = Namespace h, req_name = Name h\<rparr>])"

definition certificate_owners :: "watched_object \<Rightarrow> owner_ref list" where
  "certificate_owners secret =
     filter (\<lambda>ownerRef. or_kind ownerRef = ''Certificate'' \<and> or_api_version ownerRef = ''cert-manager.io/v1'')
       (wo_owner_refs secret)"

definition mounts_secret :: "string \<Rightarrow> Mount \<Rightarrow> bool" where
  "mounts_secret name mount \<longleftrightarrow> (case Secret mount of None \<Rightarrow> False | Some s \<Rightarrow> vsr_name s = name)"

definition mounts_config_map :: "string \<Rightarrow> Mount \<Rightarrow> bool" where
  "mounts_config_map name mount \<longleftrightarrow> (case ConfigMap mount of None \<Rightarrow> False | Some c \<Rightarrow> vsr_name c = name)"

definition secretToHostedControlPlane :: "watch_api \<Rightarrow> watched_object \<Rightarrow> Request list" where
  "secretToHostedControlPlane W secret =
     (if certificate_owners secret \<noteq> []
      then concat (List.map_filter (\<lambda>ownerRef.
             resolveOwnerRefsToHostedControlPlanes W (wo_namespace secret) (or_name ownerRef))
             (certificate_owners secret))
      else (case w_hcp_list W (wo_namespace secret) of
              Inl err \<Rightarrow> []
            | Inr hcps \<Rightarrow> first_mounting (mounts_secret (wo_name secret)) hcps))"

definition configMapToHostedControlPlane :: "watch_api \<Rightarrow> watched_object \<Rightarrow> Request list" where
  "configMapToHostedControlPlane W configMap =
     (case w_hcp_list W (wo_namespace configMap) of
        Inl err \<Rightarrow> []
      | Inr hcps \<Rightarrow> first_mounting (mounts_config_map (wo_name configMap)) hcps)"

section \<open>Which control planes are woken\<close>

lemma find_SomeD: "List.find P xs = Some x \<Longrightarrow> x \<in> set xs \<and> P x"
  by (induction xs) (auto split: if_splits)

lemma first_mounting_sound:
  assumes "req \<in> set (first_mounting mounts hcps)"
  shows "\<exists>h \<in> set hcps. req = \<lparr>req_namespace = Namespace h, req_name = Name h\<rparr> \<and> api_server_mounts mounts h"
  using assms by (cases "List.find (api_server_mounts mounts) hcps") (auto simp: first_mounting_def dest: find_SomeD)

lemma first_mounting_Nil_iff:
  "first_mounting mounts hcps = [] \<longleftrightarrow> (\<forall>h \<in> set hcps. \<not> api_server_mounts mounts h)"
proof (cases "List.find (api_server_mounts mounts) hcps")
  case None
  then show ?thesis by (simp add: first_mounting_def) (simp add: find_None_iff)
next
  case (Some h)
  then show ?thesis by (auto simp: first_mounting_def dest: find_SomeD)
qed

lemma first_mounting_length: "length (first_mounting mounts hcps) \<le> Suc 0"
  by (simp add: first_mounting_def split: option.split)


definition wit_mounting_hcp :: "string \<Rightarrow> HostedControlPlane" where
  "wit_mounting_hcp name = wit_hcp\<lparr>Name := name, Spec := wit_spec\<lparr>Deployment := (Deployment wit_spec)\<lparr>APIServer :=
     (APIServer (Deployment wit_spec))\<lparr>Mounts := [(''m'', \<lparr>Path = ''/m'',
       ConfigMap = Some \<lparr>vsr_name = ''shared'', vsr_items = []\<rparr>, Secret = None\<rparr>)]\<rparr>\<rparr>\<rparr>\<rparr>"

definition wit_watch :: watch_api where
  "wit_watch = \<lparr>w_hcp_list = (\<lambda>ns. Inr [wit_mounting_hcp ''a'', wit_mounting_hcp ''b'']),
     w_certificate_get = (\<lambda>ns n. Inl (EApi NotFound))\<rparr>"

definition wit_config_map :: watched_object where
  "wit_config_map = \<lparr>wo_namespace = ''prod'', wo_name = ''shared'', wo_owner_refs = []\<rparr>"


end
