(* ===== verification/Logging.thy ===== *)
theory Logging
  imports Prelude
begin

text \<open>
  The log handlers (\<open>util/logging/logging.go\<close>) and how \<open>configureLogging\<close> stacks them
  (\<open>operator/operator.go\<close>). The handlers of \<open>log/slog\<close> that write a line are modelled by what they are told:
  the stream, the format, the minimal level and the attributes and groups that were added, in order. Writing
  the line is an argument.
\<close>

section \<open>Records and the handlers of slog\<close>

text \<open>\<open>slog.Level\<close> is an integer; the named levels are four apart.\<close>

datatype slog_level = Level (level_int: int)

instantiation slog_level :: linorder
begin

definition less_eq_slog_level :: "slog_level \<Rightarrow> slog_level \<Rightarrow> bool" where
  "less_eq_slog_level a b \<longleftrightarrow> level_int a \<le> level_int b"

definition less_slog_level :: "slog_level \<Rightarrow> slog_level \<Rightarrow> bool" where
  "less_slog_level a b \<longleftrightarrow> level_int a < level_int b"

instance
  by standard (auto simp: less_eq_slog_level_def less_slog_level_def slog_level.expand)

end

definition LevelInfo :: slog_level where "LevelInfo = Level 0"
definition LevelWarn :: slog_level where "LevelWarn = Level 4"
definition LevelError :: slog_level where "LevelError = Level 8"

datatype attr_value = AttrText string | AttrGroup "(string \<times> attr_value) list"

type_synonym log_attr = "string \<times> attr_value"

record log_record =
  lr_level :: slog_level
  lr_message :: string
  lr_attrs :: "log_attr list"

datatype log_stream = Stdout | Stderr

datatype log_format = FormatJSON | FormatText

datatype group_or_attrs = GoaGroup string | GoaAttrs "log_attr list"

record std_handler =
  sh_stream :: log_stream
  sh_format :: log_format
  sh_min :: slog_level
  sh_goas :: "group_or_attrs list"

text \<open>A line: every attribute with the groups that qualify its key.\<close>

record log_line =
  ll_stream :: log_stream
  ll_format :: log_format
  ll_level :: slog_level
  ll_message :: string
  ll_attrs :: "(string list \<times> log_attr) list"

primrec line_attrs :: "string list \<Rightarrow> log_attr list \<Rightarrow> group_or_attrs list \<Rightarrow> (string list \<times> log_attr) list" where
  "line_attrs path attrs [] = map (Pair path) attrs"
| "line_attrs path attrs (g # gs) =
     (case g of
        GoaGroup name \<Rightarrow> line_attrs (path @ [name]) attrs gs
      | GoaAttrs as \<Rightarrow> map (Pair path) as @ line_attrs path attrs gs)"

definition std_line :: "std_handler \<Rightarrow> log_record \<Rightarrow> log_line" where
  "std_line s r = \<lparr>ll_stream = sh_stream s, ll_format = sh_format s, ll_level = lr_level r,
     ll_message = lr_message r, ll_attrs = line_attrs [] (lr_attrs r) (sh_goas s)\<rparr>"

text \<open>\<open>Record.AddAttrs\<close> omits groups without attributes.\<close>

definition empty_group :: "log_attr \<Rightarrow> bool" where
  "empty_group a \<longleftrightarrow> snd a = AttrGroup []"

definition AddAttrs :: "log_attr list \<Rightarrow> log_record \<Rightarrow> log_record" where
  "AddAttrs attrs r = r\<lparr>lr_attrs := lr_attrs r @ filter (\<lambda>a. \<not> empty_group a) attrs\<rparr>"

section \<open>The handlers of the operator\<close>

text \<open>
  The values of the interface \<open>slog.Handler\<close>: a handler of the library, the three wrappers, and \<open>nil\<close>, on which
  every method panics (\<open>None\<close>). A wrapper keeps the attributes by key.
\<close>

datatype log_handler =
    NilHandler
  | StdHandler std_handler
  | DeduplicatingHandler log_handler "(string, log_attr) gomap"
  | TracingHandler log_handler
  | SplittingHandler log_handler log_handler

text \<open>The span of the context.\<close>

record log_span =
  sp_noop :: bool
  sp_valid :: bool
  sp_trace_id :: string
  sp_span_id :: string

definition attrs_by_key :: "log_attr list \<Rightarrow> (string, log_attr) gomap \<Rightarrow> (string, log_attr) gomap" where
  "attrs_by_key attrs m = fold (\<lambda>a. mput (fst a) a) attrs m"

definition NewDeduplicatingLoggingHandler :: "log_handler \<Rightarrow> log_handler" where
  "NewDeduplicatingLoggingHandler h = DeduplicatingHandler h []"

definition NewTracingLoggingHandler :: "log_handler \<Rightarrow> log_handler" where
  "NewTracingLoggingHandler h = TracingHandler h"

definition NewSplittingLoggingHandler :: "log_handler \<Rightarrow> log_handler \<Rightarrow> log_handler" where
  "NewSplittingLoggingHandler out err = SplittingHandler out err"

definition dedup_WithAttrs :: "(string, log_attr) gomap \<Rightarrow> log_attr list \<Rightarrow> (string, log_attr) gomap" where
  "dedup_WithAttrs attributes attrs = lo_assign attributes (attrs_by_key attrs [])"

definition dedup_record :: "(string, log_attr) gomap \<Rightarrow> log_record \<Rightarrow> log_record" where
  "dedup_record attributes r =
     (let recorded = attrs_by_key (lr_attrs r) [];
          fresh = \<lparr>lr_level = lr_level r, lr_message = lr_message r, lr_attrs = []\<rparr>
      in if length (lr_attrs r) + length attributes > 0
         then AddAttrs (lo_values (lo_assign attributes recorded)) fresh
         else fresh)"

definition span_attrs :: "log_span \<Rightarrow> log_attr list option" where
  "span_attrs sp =
     (if \<not> sp_noop sp \<and> sp_valid sp
      then Some [(''traceID'', AttrText (sp_trace_id sp)), (''spanID'', AttrText (sp_span_id sp))]
      else None)"

definition split_handler :: "log_handler \<Rightarrow> log_handler \<Rightarrow> log_record \<Rightarrow> log_handler" where
  "split_handler out err r = (if LevelError \<le> lr_level r then err else out)"

primrec Enabled :: "log_handler \<Rightarrow> slog_level \<Rightarrow> bool option" where
  "Enabled NilHandler level = None"
| "Enabled (StdHandler s) level = Some (sh_min s \<le> level)"
| "Enabled (DeduplicatingHandler h attributes) level = Enabled h level"
| "Enabled (TracingHandler h) level = Enabled h level"
| "Enabled (SplittingHandler out err) level =
     (case Enabled out level of
        None \<Rightarrow> None
      | Some True \<Rightarrow> Some True
      | Some False \<Rightarrow> Enabled err level)"

primrec WithAttrs :: "log_handler \<Rightarrow> log_attr list \<Rightarrow> log_handler option" where
  "WithAttrs NilHandler attrs = None"
| "WithAttrs (StdHandler s) attrs = Some (StdHandler (s\<lparr>sh_goas := sh_goas s @ [GoaAttrs attrs]\<rparr>))"
| "WithAttrs (DeduplicatingHandler h attributes) attrs =
     Some (DeduplicatingHandler h (dedup_WithAttrs attributes attrs))"
| "WithAttrs (TracingHandler h) attrs = map_option TracingHandler (WithAttrs h attrs)"
| "WithAttrs (SplittingHandler out err) attrs =
     (case WithAttrs out attrs of
        None \<Rightarrow> None
      | Some out' \<Rightarrow> map_option (SplittingHandler out') (WithAttrs err attrs))"

primrec WithGroup :: "log_handler \<Rightarrow> string \<Rightarrow> log_handler option" where
  "WithGroup NilHandler name = None"
| "WithGroup (StdHandler s) name = Some (StdHandler (s\<lparr>sh_goas := sh_goas s @ [GoaGroup name]\<rparr>))"
| "WithGroup (DeduplicatingHandler h attributes) name =
     map_option (\<lambda>h'. DeduplicatingHandler h' attributes) (WithGroup h name)"
| "WithGroup (TracingHandler h) name = map_option TracingHandler (WithGroup h name)"
| "WithGroup (SplittingHandler out err) name =
     (case WithGroup out name of
        None \<Rightarrow> None
      | Some out' \<Rightarrow> map_option (SplittingHandler out') (WithGroup err name))"

lemma size_WithAttrs [simp]: "WithAttrs h attrs = Some h' \<Longrightarrow> size h' = size h"
  by (induction h arbitrary: h') (auto split: option.splits)

text \<open>\<open>Handle\<close>: which line is written; \<open>None\<close> is the panic of a nil handler.\<close>

function (sequential) Handle :: "log_handler \<Rightarrow> log_span \<Rightarrow> log_record \<Rightarrow> log_line option" where
  "Handle NilHandler sp r = None"
| "Handle (StdHandler s) sp r = Some (std_line s r)"
| "Handle (DeduplicatingHandler h attributes) sp r = Handle h sp (dedup_record attributes r)"
| "Handle (TracingHandler h) sp r =
     (case span_attrs sp of
        None \<Rightarrow> Handle h sp r
      | Some attrs \<Rightarrow> (case WithAttrs h attrs of None \<Rightarrow> None | Some h' \<Rightarrow> Handle h' sp r))"
| "Handle (SplittingHandler out err) sp r =
     Handle (split_handler out err r) sp r"
  by pat_completeness auto
termination by (relation "measure (\<lambda>(h, _, _). size h)") (auto simp: split_handler_def)

text \<open>\<open>slog.Logger.log\<close>: a record is handled if its level is enabled. The lines written so far are the state.\<close>

definition log_call ::
  "log_handler \<Rightarrow> log_span \<Rightarrow> slog_level \<Rightarrow> string \<Rightarrow> log_attr list \<Rightarrow> (log_line list, unit) gom" where
  "log_call h sp level msg attrs =
     (case Enabled h level of
        None \<Rightarrow> gfail (EPanic ''nil handler'')
      | Some False \<Rightarrow> gret ()
      | Some True \<Rightarrow>
          (case Handle h sp (AddAttrs attrs \<lparr>lr_level = level, lr_message = msg, lr_attrs = []\<rparr>) of
             None \<Rightarrow> gfail (EPanic ''nil handler'')
           | Some line \<Rightarrow> gmod (\<lambda>ls. ls @ [line])))"

text \<open>
  \<open>configureLogging\<close>. The format is any text (the environment is not checked); another one than \<open>json\<close> and
  \<open>text\<close> leaves both handlers nil.
\<close>

definition format_handler :: "string \<Rightarrow> slog_level \<Rightarrow> log_stream \<Rightarrow> log_handler" where
  "format_handler format logLevel stream =
     (if format = ''json''
      then StdHandler \<lparr>sh_stream = stream, sh_format = FormatJSON, sh_min = logLevel, sh_goas = []\<rparr>
      else if format = ''text''
      then StdHandler \<lparr>sh_stream = stream, sh_format = FormatText, sh_min = logLevel, sh_goas = []\<rparr>
      else NilHandler)"

definition configureLogging :: "string \<Rightarrow> slog_level \<Rightarrow> log_handler" where
  "configureLogging format logLevel =
     NewTracingLoggingHandler (NewDeduplicatingLoggingHandler (NewSplittingLoggingHandler
       (format_handler format logLevel Stdout) (format_handler format logLevel Stderr)))"

section \<open>One line per record, one attribute per key\<close>

text \<open>A logger with attributes: \<open>Logger.With\<close>, several times.\<close>

fun with_attrs :: "log_attr list list \<Rightarrow> log_handler \<Rightarrow> log_handler option" where
  "with_attrs [] h = Some h"
| "with_attrs (attrs # attrss) h = (case WithAttrs h attrs of None \<Rightarrow> None | Some h' \<Rightarrow> with_attrs attrss h')"

text \<open>What a reader expects: the last value of every key.\<close>

definition last_attr :: "log_attr list \<Rightarrow> string \<rightharpoonup> log_attr" where
  "last_attr attrs = map_of (map (\<lambda>a. (fst a, a)) (rev attrs))"

lemma last_attr_append: "last_attr (as @ bs) = last_attr as ++ last_attr bs"
  by (simp add: last_attr_def)

lemma map_of_attrs_by_key: "map_of (attrs_by_key attrs m) = map_of m ++ last_attr attrs"
  by (induction attrs arbitrary: m) (simp_all add: attrs_by_key_def last_attr_def fun_eq_iff map_add_def split: option.split)

lemma gomap_ok_attrs_by_key [simp]: "gomap_ok m \<Longrightarrow> gomap_ok (attrs_by_key attrs m)"
  by (induction attrs arbitrary: m) (simp_all add: attrs_by_key_def)

text \<open>An attribute is filed under its own key.\<close>

definition keyed :: "(string, log_attr) gomap \<Rightarrow> bool" where
  "keyed m \<longleftrightarrow> gomap_ok m \<and> (\<forall>e \<in> set m. fst (snd e) = fst e)"

lemma keyed_iff: "keyed m \<longleftrightarrow> gomap_ok m \<and> (\<forall>k a. map_of m k = Some a \<longrightarrow> fst a = k)"
proof (cases "gomap_ok m")
  case True
  then show ?thesis by (simp add: keyed_def gomap_entry_iff [OF True, symmetric]) fastforce
qed (simp add: keyed_def)

lemma keyed_mput: "keyed m \<Longrightarrow> keyed (mput (fst a) a m)"
  unfolding keyed_iff map_of_mput fun_upd_apply by (metis gomap_ok_mput option.inject)

lemma keyed_attrs_by_key: "keyed m \<Longrightarrow> keyed (attrs_by_key attrs m)"
  by (induction attrs arbitrary: m) (simp_all add: attrs_by_key_def keyed_mput)

lemma keyed_lo_assign: "keyed m \<Longrightarrow> keyed m' \<Longrightarrow> keyed (lo_assign m m')"
  by (simp add: keyed_iff map_add_def split: option.split)

lemma keyed_Nil: "keyed []"
  by (simp add: keyed_def)

lemmas keyed_intros = keyed_Nil keyed_attrs_by_key keyed_lo_assign

lemma keyed_values:
  assumes "keyed m"
  shows "distinct (map fst (lo_values m)) \<and> (\<forall>a. a \<in> set (lo_values m) \<longleftrightarrow> map_of m (fst a) = Some a)"
proof -
  have "map fst (lo_values m) = map fst m"
    using assms by (simp add: keyed_def lo_values_def)
  moreover have "a \<in> set (lo_values m) \<longleftrightarrow> map_of m (fst a) = Some a" for a
    using assms gomap_entry_iff [of m "fst a" a] by (force simp: keyed_def lo_values_def)
  ultimately show ?thesis using assms by (simp add: keyed_def gomap_ok_def)
qed

lemma dedup_WithAttrs_map: "map_of (dedup_WithAttrs m attrs) = map_of m ++ last_attr attrs"
  by (simp add: dedup_WithAttrs_def map_of_attrs_by_key)

lemma dedup_WithAttrs_keyed: "keyed m \<Longrightarrow> keyed (dedup_WithAttrs m attrs)"
  by (simp add: dedup_WithAttrs_def keyed_intros)

lemma dedup_all_keyed: "keyed m \<Longrightarrow> keyed (foldl dedup_WithAttrs m attrss)"
  by (induction attrss arbitrary: m) (simp_all add: dedup_WithAttrs_keyed)

lemma dedup_all_map: "map_of (foldl dedup_WithAttrs m attrss) = map_of m ++ last_attr (concat attrss)"
  by (induction attrss arbitrary: m)
    (simp_all add: dedup_WithAttrs_map last_attr_append map_add_assoc, simp add: last_attr_def)

lemma with_attrs_wrapped:
  "with_attrs attrss (TracingHandler (DeduplicatingHandler h m)) =
     Some (TracingHandler (DeduplicatingHandler h (foldl dedup_WithAttrs m attrss)))"
  by (induction attrss arbitrary: m) simp_all

text \<open>The attributes that the deduplicating handler passes on.\<close>

lemma dedup_record_attrs:
  assumes "keyed m"
  shows "distinct (map fst (lr_attrs (dedup_record m r))) \<and>
     (\<forall>a. a \<in> set (lr_attrs (dedup_record m r)) \<longleftrightarrow>
        (map_of m ++ last_attr (lr_attrs r)) (fst a) = Some a \<and> \<not> empty_group a)"
proof -
  have k: "keyed (lo_assign m (attrs_by_key (lr_attrs r) []))"
    using assms by (intro keyed_intros)
  show ?thesis
    using keyed_values [OF k]
    by (auto simp: dedup_record_def Let_def AddAttrs_def map_of_attrs_by_key last_attr_def intro!: distinct_map_filter)
qed

lemma configureLogging_shape:
  "configureLogging format least = TracingHandler (DeduplicatingHandler
     (SplittingHandler (format_handler format least Stdout) (format_handler format least Stderr)) [])"
  by (simp add: configureLogging_def NewTracingLoggingHandler_def NewDeduplicatingLoggingHandler_def
      NewSplittingLoggingHandler_def)

lemma format_handlerE:
  assumes "format \<in> {''json'', ''text''}"
  obtains f where "\<And>stream. format_handler format least stream =
    StdHandler \<lparr>sh_stream = stream, sh_format = f, sh_min = least, sh_goas = []\<rparr>"
  using assms by (auto simp: format_handler_def)

lemma Handle_wrapped:
  "Handle (TracingHandler (DeduplicatingHandler h m)) sp r =
     Handle h sp (dedup_record (case span_attrs sp of None \<Rightarrow> m | Some ids \<Rightarrow> dedup_WithAttrs m ids) r)"
  by (simp split: option.split)

lemma dedup_record_simps [simp]:
  "lr_level (dedup_record m r) = lr_level r" "lr_message (dedup_record m r) = lr_message r"
  by (simp_all add: dedup_record_def Let_def AddAttrs_def)

lemma std_line_simps [simp]:
  "ll_stream (std_line s r) = sh_stream s" "ll_level (std_line s r) = lr_level r"
  "ll_message (std_line s r) = lr_message r"
  "sh_goas s = [] \<Longrightarrow> ll_attrs (std_line s r) = map (Pair []) (lr_attrs r)"
  by (simp_all add: std_line_def)

lemma AddAttrs_simps [simp]:
  "lr_level (AddAttrs attrs r) = lr_level r" "lr_message (AddAttrs attrs r) = lr_message r"
  "lr_attrs (AddAttrs attrs r) = lr_attrs r @ filter (\<lambda>a. \<not> empty_group a) attrs"
  by (simp_all add: AddAttrs_def)

text \<open>
  With one of the two formats, a logger that got attributes in any number of steps writes exactly one line for
  an enabled record and nothing for another one: to stderr from the level of errors on, to stdout below, each
  key at most once and with its last value, where the attributes of the call override the ids of the span and
  these the attributes of the logger. Go's order of the map does not matter: the attributes are stated as a set.
\<close>

theorem logged_once:
  assumes "format \<in> {''json'', ''text''}"
  shows "\<exists>h. with_attrs attrss (configureLogging format least) = Some h \<and>
    (level < least \<longrightarrow> log_call h sp level msg attrs ls = (Inr (), ls)) \<and>
    (least \<le> level \<longrightarrow> (\<exists>line. log_call h sp level msg attrs ls = (Inr (), ls @ [line]) \<and>
       ll_stream line = (if LevelError \<le> level then Stderr else Stdout) \<and>
       ll_level line = level \<and> ll_message line = msg \<and>
       distinct (map (fst \<circ> snd) (ll_attrs line)) \<and>
       (\<forall>path a. (path, a) \<in> set (ll_attrs line) \<longleftrightarrow>
          path = [] \<and> \<not> empty_group a \<and>
          last_attr (concat attrss @ (case span_attrs sp of None \<Rightarrow> [] | Some ids \<Rightarrow> ids) @
            filter (\<lambda>a. \<not> empty_group a) attrs) (fst a) = Some a)))"
proof -
  obtain f where f: "\<And>stream. format_handler format least stream =
      StdHandler \<lparr>sh_stream = stream, sh_format = f, sh_min = least, sh_goas = []\<rparr>"
    using format_handlerE [OF assms] by blast
  define m where "m = foldl dedup_WithAttrs [] attrss"
  define m' where "m' = (case span_attrs sp of None \<Rightarrow> m | Some ids \<Rightarrow> dedup_WithAttrs m ids)"
  define r where "r = AddAttrs attrs \<lparr>lr_level = level, lr_message = msg, lr_attrs = []\<rparr>"
  let ?split = "SplittingHandler (format_handler format least Stdout) (format_handler format least Stderr)"
  let ?h = "TracingHandler (DeduplicatingHandler ?split m)"
  let ?line = "std_line \<lparr>sh_stream = if LevelError \<le> level then Stderr else Stdout, sh_format = f,
      sh_min = least, sh_goas = []\<rparr> (dedup_record m' r)"
  have "keyed m'"
    by (simp add: m'_def m_def dedup_all_keyed dedup_WithAttrs_keyed keyed_Nil split: option.split)
  note attrs = dedup_record_attrs [OF this, of r]
  have m': "map_of m' ++ last_attr (lr_attrs r) =
      last_attr (concat attrss @ (case span_attrs sp of None \<Rightarrow> [] | Some ids \<Rightarrow> ids) @
        filter (\<lambda>a. \<not> empty_group a) attrs)"
    by (simp add: m'_def m_def r_def dedup_WithAttrs_map dedup_all_map last_attr_append split: option.split)
      (simp add: last_attr_def)
  have h: "with_attrs attrss (configureLogging format least) = Some ?h"
    by (simp add: configureLogging_shape with_attrs_wrapped m_def)
  have enabled: "Enabled ?h level = Some (least \<le> level)"
    by (simp add: f split: bool.split)
  have handled: "Handle ?h sp r = Some ?line"
    by (simp only: Handle_wrapped m'_def [symmetric]) (simp add: f r_def split_handler_def)
  have run: "log_call ?h sp level msg attrs ls = (Inr (), if least \<le> level then ls @ [?line] else ls)"
    unfolding log_call_def enabled r_def [symmetric] handled by (simp add: gmod_def gret_def)
  have "distinct (map (fst \<circ> snd) (ll_attrs ?line))"
    using attrs by (simp add: comp_def)
  moreover have lines: "(path, a) \<in> set (ll_attrs ?line) \<longleftrightarrow>
      path = [] \<and> a \<in> set (lr_attrs (dedup_record m' r))" for path a
    by auto
  moreover have "(path, a) \<in> set (ll_attrs ?line) \<longleftrightarrow> path = [] \<and> \<not> empty_group a \<and>
      last_attr (concat attrss @ (case span_attrs sp of None \<Rightarrow> [] | Some ids \<Rightarrow> ids) @
        filter (\<lambda>a. \<not> empty_group a) attrs) (fst a) = Some a" for path a
    unfolding lines conjunct2 [OF attrs, rule_format, of a] m' by blast
  moreover have "ll_stream ?line = (if LevelError \<le> level then Stderr else Stdout)"
    "ll_level ?line = level" "ll_message ?line = msg"
    by (simp_all add: r_def)
  ultimately show ?thesis
    using h run by (intro exI [of _ ?h] conjI impI exI [of _ ?line] allI) (simp_all only: if_True if_False not_le [symmetric])
qed

text \<open>
  Any other text for \<open>LOG_FORMAT\<close> is accepted when the configuration is read, and every call of the logger
  dereferences a nil handler.
\<close>

theorem unknown_format_panics:
  assumes "format \<notin> {''json'', ''text''}"
  shows "log_call (configureLogging format least) sp level msg attrs ls = (Inl (EPanic ''nil handler''), ls)"
  using assms by (simp add: log_call_def configureLogging_shape format_handler_def gfail_def)

text \<open>
  The deduplicating handler keeps the attributes to itself and passes a group on: an attribute that was added
  before the group ends up inside of it. \<open>slog\<close> asks that only later attributes are qualified.
\<close>

theorem attribute_moves_into_group:
  "(case WithAttrs (configureLogging ''json'' LevelInfo) [(''a'', AttrText ''1'')] of
      None \<Rightarrow> None
    | Some h \<Rightarrow> (case WithGroup h ''g'' of
          None \<Rightarrow> None
        | Some h' \<Rightarrow> map_option ll_attrs (Handle h' \<lparr>sp_noop = True, sp_valid = False, sp_trace_id = [], sp_span_id = []\<rparr>
            \<lparr>lr_level = LevelInfo, lr_message = ''m'', lr_attrs = []\<rparr>)))
    = Some [([''g''], (''a'', AttrText ''1''))]"
  by code_simp

theorem logged_once_witness:
  "\<exists>h line. with_attrs [[(''a'', AttrText ''1'')], [(''a'', AttrText ''2'')]] (configureLogging ''json'' LevelInfo) = Some h \<and>
     log_call h \<lparr>sp_noop = True, sp_valid = False, sp_trace_id = [], sp_span_id = []\<rparr> LevelError ''m'' [] [] = (Inr (), [line]) \<and>
     ll_stream line = Stderr \<and> ([], (''a'', AttrText ''2'')) \<in> set (ll_attrs line)"
  using logged_once [of "''json''" "[[(''a'', AttrText ''1'')], [(''a'', AttrText ''2'')]]" LevelInfo LevelError
      "\<lparr>sp_noop = True, sp_valid = False, sp_trace_id = [], sp_span_id = []\<rparr>" "''m''" "[]" "[]"]
  by (auto simp: LevelInfo_def LevelError_def less_eq_slog_level_def less_slog_level_def span_attrs_def last_attr_def
      empty_group_def)

theorem unknown_format_panics_witness:
  "log_call (configureLogging ''xml'' LevelInfo) \<lparr>sp_noop = True, sp_valid = False, sp_trace_id = [], sp_span_id = []\<rparr>
     LevelInfo ''m'' [] [] = (Inl (EPanic ''nil handler''), [])"
  using unknown_format_panics [of "''xml''"] by simp

end
