(* ===== verification/Telemetry.thy ===== *)
theory Telemetry
  imports Effects "HOL-Library.Word"
begin

text \<open>
  Events, logs and spans: \<open>operator/util/emit/emit.go\<close> with its three sinks, the recorder of
  \<open>operator/util/recorder\<close>, and the wrappers of \<open>util/tracing/tracing.go\<close> around every operation of the
  program. The other theories leave them out; the theorems here say why they may: a wrapper returns what its
  block returns and ends every span, and an event depends on its arguments only. Writing \<open>%v\<close> of a value
  that is no string and the English title case are arguments.
\<close>

unbundle bit_operations_syntax

section \<open>The recorder\<close>

text \<open>An object of the cluster, as far as events read it.\<close>

datatype event_object =
    NilObject
  | UnknownObject
  | MetaObject string string
    \<comment> \<open>namespace and name\<close>

datatype event_recorder = DiscardingRecorder | ClusterRecorder

record recorder =
  eventRecorder :: event_recorder
  regarding :: event_object

record recorded_event =
  re_regarding :: event_object
  re_related :: event_object
  re_type :: string
  re_reason :: string
  re_action :: string
  re_note :: string
  re_args :: "string list"

definition recorder_New :: "event_recorder \<Rightarrow> event_object \<Rightarrow> recorder" where
  "recorder_New er object = \<lparr>eventRecorder = er, regarding = object\<rparr>"

text \<open>A context holds a recorder or none.\<close>

definition recorder_FromContext :: "recorder option \<Rightarrow> recorder" where
  "recorder_FromContext ctx =
     (case ctx of Some r \<Rightarrow> r | None \<Rightarrow> recorder_New DiscardingRecorder UnknownObject)"

definition recorder_IntoContext :: "recorder option \<Rightarrow> recorder \<Rightarrow> recorder option" where
  "recorder_IntoContext ctx r = Some r"

text \<open>What has been emitted so far: events, log lines and events of the span.\<close>

record 'v emitted =
  em_events :: "recorded_event list"
  em_logs :: "(bool \<times> string \<times> 'v list) list"
    \<comment> \<open>whether it is a warning, the message, keys and values in turn\<close>
  em_span_events :: "(string \<times> (string \<times> string) list) list"

type_synonym ('v, 'a) emitting = "('v emitted, 'a) gom"

definition recorder_eventf :: "recorder \<Rightarrow> event_object \<Rightarrow> string \<Rightarrow> string \<Rightarrow> string \<Rightarrow> string \<Rightarrow> string list
    \<Rightarrow> ('v, unit) emitting" where
  "recorder_eventf r related eventType reason action note args =
     (case eventRecorder r of
        DiscardingRecorder \<Rightarrow> gret ()
      | ClusterRecorder \<Rightarrow> gmod (\<lambda>w. w\<lparr>em_events := em_events w @
          [\<lparr>re_regarding = regarding r, re_related = related, re_type = eventType, re_reason = reason,
            re_action = action, re_note = note, re_args = args\<rparr>]\<rparr>))"

definition recorder_Warnf :: "recorder \<Rightarrow> event_object \<Rightarrow> string \<Rightarrow> string \<Rightarrow> string \<Rightarrow> string list \<Rightarrow> ('v, unit) emitting" where
  "recorder_Warnf r related reason action note args =
     recorder_eventf r related ''Warning'' reason action note args"

definition recorder_Normalf :: "recorder \<Rightarrow> event_object \<Rightarrow> string \<Rightarrow> string \<Rightarrow> string \<Rightarrow> string list \<Rightarrow> ('v, unit) emitting" where
  "recorder_Normalf r related reason action note args =
     recorder_eventf r related ''Normal'' reason action note args"

section \<open>Emitting to several sinks\<close>

type_synonym Sink = "64 word"

definition SinkRecorder :: Sink where "SinkRecorder = 1"
definition SinkLogger :: Sink where "SinkLogger = 2"
definition SinkSpanEvent :: Sink where "SinkSpanEvent = 4"
definition SinkAll :: Sink where "SinkAll = SinkRecorder OR SinkLogger OR SinkSpanEvent"

text \<open>The operands of a log call are values of any type: strings, or others.\<close>

datatype 'o log_value = LogString string | LogOther 'o

primrec fmt_v :: "('o \<Rightarrow> string) \<Rightarrow> 'o log_value \<Rightarrow> string" where
  "fmt_v fmt (LogString s) = s"
| "fmt_v fmt (LogOther x) = fmt x"

fun pairs_text :: "('o \<Rightarrow> string) \<Rightarrow> 'o log_value list \<Rightarrow> string" where
  "pairs_text fmt (k # v # kvs) = '' '' @ fmt_v fmt k @ ''='' @ fmt_v fmt v @ pairs_text fmt kvs"
| "pairs_text fmt kvs = []"

definition noteWithFields :: "('o \<Rightarrow> string) \<Rightarrow> string \<Rightarrow> 'o log_value list \<Rightarrow> string" where
  "noteWithFields fmt msg kvs = (if length kvs = 0 then msg else msg @ pairs_text fmt kvs)"

definition writeRecorder :: "('o \<Rightarrow> string) \<Rightarrow> recorder option \<Rightarrow> bool \<Rightarrow> event_object \<Rightarrow> string \<Rightarrow> string \<Rightarrow> string
    \<Rightarrow> 'o log_value list \<Rightarrow> ('o log_value, unit) emitting" where
  "writeRecorder fmt ctx warn related reason action msg kvs =
     (let rec = recorder_FromContext ctx; note = noteWithFields fmt msg kvs
      in if warn then recorder_Warnf rec related reason action ''%s'' [note]
         else recorder_Normalf rec related reason action ''%s'' [note])"

definition relatedFields :: "event_object \<Rightarrow> (string \<times> string) list" where
  "relatedFields related =
     (case related of
        MetaObject ns name \<Rightarrow>
          (if name \<noteq> [] then [(''related.name'', name)] else []) @
          (if ns \<noteq> [] then [(''related.namespace'', ns)] else [])
      | _ \<Rightarrow> [])"

text \<open>The log fields are the same pairs, flattened; the attributes of the span the pairs themselves.\<close>

definition log_pairs :: "(string \<times> string) list \<Rightarrow> 'o log_value list" where
  "log_pairs kvs = concat (map (\<lambda>(k, v). [LogString k, LogString v]) kvs)"

definition writeLogAndSpan :: "Sink \<Rightarrow> bool \<Rightarrow> event_object \<Rightarrow> string \<Rightarrow> string \<Rightarrow> string
    \<Rightarrow> 'o log_value list \<Rightarrow> ('o log_value, unit) emitting" where
  "writeLogAndSpan sinks warn related reason action msg extraFields =
     (let logFields = log_pairs ([(''reason'', reason), (''action'', action)] @ relatedFields related) @ extraFields;
          spanAttrs = [(''reason'', reason), (''message'', msg)] @ relatedFields related
      in gseq (if sinks AND SinkLogger \<noteq> 0
               then gmod (\<lambda>w. w\<lparr>em_logs := em_logs w @ [(warn, msg, logFields)]\<rparr>) else gret ())
          (if sinks AND SinkSpanEvent \<noteq> 0
               then gmod (\<lambda>w. w\<lparr>em_span_events := em_span_events w @ [(action, spanAttrs)]\<rparr>) else gret ()))"

definition emit_to :: "('o \<Rightarrow> string) \<Rightarrow> recorder option \<Rightarrow> bool \<Rightarrow> Sink \<Rightarrow> event_object \<Rightarrow> string \<Rightarrow> string \<Rightarrow> string
    \<Rightarrow> 'o log_value list \<Rightarrow> ('o log_value, unit) emitting" where
  "emit_to fmt ctx warn sinks related reason action msg kvs =
     gseq (if sinks AND SinkRecorder \<noteq> 0
           then writeRecorder fmt ctx warn related reason action msg kvs else gret ())
       (if sinks AND (SinkLogger OR SinkSpanEvent) \<noteq> 0
           then writeLogAndSpan sinks warn related reason action msg kvs else gret ())"

definition emit_Warn :: "('o \<Rightarrow> string) \<Rightarrow> recorder option \<Rightarrow> Sink \<Rightarrow> event_object \<Rightarrow> string \<Rightarrow> string \<Rightarrow> string
    \<Rightarrow> 'o log_value list \<Rightarrow> ('o log_value, unit) emitting" where
  "emit_Warn fmt ctx = emit_to fmt ctx True"

definition emit_Info :: "('o \<Rightarrow> string) \<Rightarrow> recorder option \<Rightarrow> Sink \<Rightarrow> event_object \<Rightarrow> string \<Rightarrow> string \<Rightarrow> string
    \<Rightarrow> 'o log_value list \<Rightarrow> ('o log_value, unit) emitting" where
  "emit_Info fmt ctx = emit_to fmt ctx False"

text \<open>The text of the event carries the message as it is, percent signs included, and all pairs in order.\<close>

definition event_of :: "recorded_event \<Rightarrow> event" where
  "event_of e = \<lparr>ev_warning = (re_type e = ''Warning''), ev_reason = re_reason e, ev_action = re_action e\<rparr>"

lemma sink_all: "SinkAll AND SinkRecorder \<noteq> 0" "SinkAll AND SinkLogger \<noteq> 0" "SinkAll AND SinkSpanEvent \<noteq> 0"
  "SinkAll AND (SinkLogger OR SinkSpanEvent) \<noteq> 0"
  by (simp_all add: SinkAll_def SinkRecorder_def SinkLogger_def SinkSpanEvent_def)

text \<open>
  The abstract \<open>emit\<close> of the other theories is what the recorder sink does, for the recorder of a reconciliation:
  one event with this type, reason and action if the sink is among them, none otherwise. Without a recorder in the
  context nothing reaches the cluster.
\<close>

theorem emit_refines:
  "map event_of (em_events (snd (emit_to fmt (Some (recorder_New ClusterRecorder object)) warn sinks related reason action msg kvs t)))
     = map event_of (em_events t) @ (if sinks AND SinkRecorder \<noteq> 0
         then [\<lparr>ev_warning = warn, ev_reason = reason, ev_action = action\<rparr>] else [])"
  "em_events (snd (emit_to fmt None warn sinks related reason action msg kvs t)) = em_events t"
  "events (snd (emit warn reason action w)) = events w @ [\<lparr>ev_warning = warn, ev_reason = reason, ev_action = action\<rparr>]"
  by (auto simp: emit_to_def writeRecorder_def writeLogAndSpan_def recorder_Warnf_def recorder_Normalf_def
      recorder_eventf_def recorder_FromContext_def recorder_New_def Let_def gseq_def gbind_def gret_def gmod_def
      event_of_def emit_def)

section \<open>Spans\<close>

record traced_span =
  ts_tracer :: string
  ts_name :: string
  ts_ended :: nat
  ts_errors :: "gerr list"
    \<comment> \<open>\<open>RecordError\<close> and \<open>SetStatus(codes.Error)\<close> with it\<close>

record 'w traced =
  traced_inner :: 'w
  traced_spans :: "traced_span list"

definition GetTracer :: "(string \<Rightarrow> string) \<Rightarrow> string list \<Rightarrow> string" where
  "GetTracer titleCase components =
     ''HostedControlPlane'' @ concat (map titleCase components) @ ''Reconciler''"

definition update_span :: "nat \<Rightarrow> (traced_span \<Rightarrow> traced_span) \<Rightarrow> 'w traced \<Rightarrow> 'w traced" where
  "update_span i f w = w\<lparr>traced_spans := (traced_spans w)[i := f (traced_spans w ! i)]\<rparr>"

definition start_span :: "string \<Rightarrow> string \<Rightarrow> 'w traced \<Rightarrow> 'w traced" where
  "start_span tracer name w = w\<lparr>traced_spans := traced_spans w @
     [\<lparr>ts_tracer = tracer, ts_name = name, ts_ended = 0, ts_errors = []\<rparr>]\<rparr>"

definition record_error :: "nat \<Rightarrow> gerr \<Rightarrow> 'w traced \<Rightarrow> 'w traced" where
  "record_error i e = update_span i (\<lambda>s. s\<lparr>ts_errors := ts_errors s @ [e]\<rparr>)"

definition end_span :: "nat \<Rightarrow> 'w traced \<Rightarrow> 'w traced" where
  "end_span i = update_span i (\<lambda>s. s\<lparr>ts_ended := Suc (ts_ended s)\<rparr>)"

text \<open>
  A panic travels as an error value (\<open>panics\<close>); whether the value it was raised with is an error is an argument.
  \<open>handlePanic\<close> records such a value and panics again.
\<close>

definition handlePanic :: "(gerr \<Rightarrow> bool) \<Rightarrow> nat \<Rightarrow> gerr \<Rightarrow> 'w traced \<Rightarrow> 'w traced" where
  "handlePanic isErr i rec w = (if isErr rec then record_error i rec w else w)"

definition WithSpan :: "(gerr \<Rightarrow> bool) \<Rightarrow> string \<Rightarrow> string \<Rightarrow> (nat \<Rightarrow> ('w traced, 'a) gom) \<Rightarrow> ('w traced, 'a) gom" where
  "WithSpan isErr tracer name block w =
     (let i = length (traced_spans w)
      in case block i (start_span tracer name w) of
           (Inr r, w') \<Rightarrow> (Inr r, end_span i w')
         | (Inl err, w') \<Rightarrow>
             (Inl err, end_span i (if panics err then handlePanic isErr i err w' else record_error i err w')))"

text \<open>The variants for a block that returns only an error, and for one that returns two values.\<close>

definition WithSpan1 :: "(gerr \<Rightarrow> bool) \<Rightarrow> string \<Rightarrow> string \<Rightarrow> (nat \<Rightarrow> ('w traced, unit) gom) \<Rightarrow> ('w traced, unit) gom" where
  "WithSpan1 = WithSpan"

definition WithSpan3 :: "(gerr \<Rightarrow> bool) \<Rightarrow> string \<Rightarrow> string \<Rightarrow> (nat \<Rightarrow> ('w traced, 'a \<times> 'b) gom) \<Rightarrow> ('w traced, 'a \<times> 'b) gom" where
  "WithSpan3 = WithSpan"

text \<open>A computation that knows nothing of spans.\<close>

definition untraced :: "('w, 'a) gom \<Rightarrow> ('w traced, 'a) gom" where
  "untraced m w = (case m (traced_inner w) of (r, s) \<Rightarrow> (r, w\<lparr>traced_inner := s\<rparr>))"

text \<open>Between two states every span that was added has ended once, and the older ones are as they were.\<close>

definition spans_ended :: "'w traced \<Rightarrow> 'w traced \<Rightarrow> bool" where
  "spans_ended w w' \<longleftrightarrow>
     (\<exists>n. map ts_ended (traced_spans w') = map ts_ended (traced_spans w) @ replicate n (Suc 0))"

lemma reflp_spans_ended [simp]: "reflp spans_ended"
  by (rule reflpI) (simp add: spans_ended_def exI [of _ 0])

lemma transp_spans_ended [simp]: "transp spans_ended"
proof (rule transpI)
  fix a b c :: "'w traced"
  assume "spans_ended a b" "spans_ended b c"
  then obtain n k where
    "map ts_ended (traced_spans b) = map ts_ended (traced_spans a) @ replicate n (Suc 0)"
    "map ts_ended (traced_spans c) = map ts_ended (traced_spans b) @ replicate k (Suc 0)"
    unfolding spans_ended_def by blast
  then show "spans_ended a c"
    unfolding spans_ended_def by (intro exI [of _ "n + k"]) (simp add: replicate_add)
qed

lemma update_span_simps [simp]:
  "traced_inner (update_span i f w) = traced_inner w"
  "map ts_ended (traced_spans (record_error i e w)) = map ts_ended (traced_spans w)"
  "map ts_ended (traced_spans (end_span i w)) =
     (map ts_ended (traced_spans w))[i := Suc (ts_ended (traced_spans w ! i))]"
  by (simp_all add: update_span_def record_error_def end_span_def map_update)
    (metis list_update_id list_update_beyond map_update nth_map linorder_not_less)

lemma start_span_simps [simp]:
  "traced_inner (start_span tracer name w) = traced_inner w"
  "map ts_ended (traced_spans (start_span tracer name w)) = map ts_ended (traced_spans w) @ [0]"
  by (simp_all add: start_span_def)

lemma end_span_ended:
  assumes "map ts_ended (traced_spans w') = xs @ 0 # replicate n (Suc 0)"
  shows "map ts_ended (traced_spans (end_span (length xs) w')) = xs @ replicate (Suc n) (Suc 0)"
proof -
  have "length xs < length (traced_spans w')"
    using arg_cong [OF assms, of length] by simp
  then have "ts_ended (traced_spans w' ! length xs) = 0"
    using assms by (metis nth_append_length nth_map)
  then show ?thesis by (simp add: assms)
qed

lemma WithSpan_result:
  assumes "block (length (traced_spans w)) (start_span tracer name w) = (r, w')"
  shows "fst (WithSpan isErr tracer name block w) = r
    \<and> traced_inner (snd (WithSpan isErr tracer name block w)) = traced_inner w'"
  using assms by (cases r) (auto simp: WithSpan_def Let_def handlePanic_def record_error_def end_span_def)

text \<open>
  Every span ends exactly once, whether the block returns, fails or panics, however the spans are nested.
\<close>

theorem WithSpan_ends [keeps_intros]:
  assumes "\<And>i. keeps spans_ended (block i)"
  shows "keeps spans_ended (WithSpan isErr tracer name block)"
  unfolding keeps_def
proof
  fix w
  obtain r w' where run: "block (length (traced_spans w)) (start_span tracer name w) = (r, w')"
    by fastforce
  have "spans_ended (start_span tracer name w) w'"
    using keepsD [OF assms run] .
  then obtain n where n: "map ts_ended (traced_spans w') = map ts_ended (traced_spans w) @ 0 # replicate n (Suc 0)"
    by (auto simp: spans_ended_def)
  let ?i = "length (traced_spans w)"
  have ended: "map ts_ended (traced_spans (end_span ?i v)) = map ts_ended (traced_spans w) @ replicate (Suc n) (Suc 0)"
    if "map ts_ended (traced_spans v) = map ts_ended (traced_spans w') " for v :: "'a traced"
    using end_span_ended [of v "map ts_ended (traced_spans w)" n] that n by (simp del: update_span_simps)
  have "map ts_ended (traced_spans (snd (WithSpan isErr tracer name block w))) =
      map ts_ended (traced_spans w) @ replicate (Suc n) (Suc 0)"
    using run by (cases r) (auto simp: WithSpan_def Let_def handlePanic_def ended simp del: update_span_simps(3))
  then show "spans_ended w (snd (WithSpan isErr tracer name block w))"
    unfolding spans_ended_def by blast
qed

text \<open>
  A wrapper around a computation that knows nothing of spans is that computation: it returns the same, changes
  the state in the same way and adds one span, which has ended and carries the error.
\<close>

theorem WithSpan_transparent:
  "WithSpan isErr tracer name (\<lambda>_. untraced m) w =
     (case m (traced_inner w) of (r, s) \<Rightarrow>
        (r, w\<lparr>traced_inner := s, traced_spans := traced_spans w @
           [\<lparr>ts_tracer = tracer, ts_name = name, ts_ended = 1,
             ts_errors = (case r of Inl e \<Rightarrow> if panics e \<and> \<not> isErr e then [] else [e] | Inr x \<Rightarrow> [])\<rparr>]\<rparr>))"
  by (auto simp: WithSpan_def Let_def untraced_def start_span_def end_span_def update_span_def record_error_def
      handlePanic_def nth_append split: prod.split sum.split)

end
