(* ===== verification/Operator.thy ===== *)
theory Operator
  imports Watches Logging Telemetry
begin

text \<open>
  Starting the operator: \<open>main.go\<close>, \<open>operator/etc/etc.go\<close>, \<open>operator/operator.go\<close>, the scheme of
  \<open>hostedcontrolplane/register.go\<close> and \<open>SetupWithManager\<close> of the controller. What is outside (the parser of
  the environment, controller-runtime, the clientsets, the telemetry SDK) are operations of the environment that
  fail or not; a step records what it was told. The clients the controller gets are the parameters of its model
  (\<open>Controller\<close>, \<open>EtcdStorage\<close>).
\<close>

section \<open>Configuration\<close>

record operator_config =
  LeaderElection :: bool
  WebhookCertDir :: string
  MaxConcurrentReconciles :: int
  ControllerNamespace :: string
  LogFormat :: string
  LogLevel :: slog_level
  ReconcileFilter :: string

text \<open>The tags of the fields: the variable, the default and whether the variable is required.\<close>

definition operator_config_tags :: "(string \<times> string option \<times> bool) list" where
  "operator_config_tags =
     [(''LEADER_ELECTION'', Some ''true'', False),
      (''WEBHOOK_CERT_DIR'', None, False),
      (''MAX_CONCURRENT_RECONCILES'', Some ''10'', False),
      (''CONTROLLER_NAMESPACE'', None, True),
      (''LOG_FORMAT'', Some ''json'', False),
      (''LOG_LEVEL'', Some ''INFO'', False),
      (''HCP_RECONCILE_FILTER'', None, False)]"

definition GetOperatorConfig :: "((string \<times> string option \<times> bool) list \<Rightarrow> gerr + operator_config) \<Rightarrow> gerr + operator_config" where
  "GetOperatorConfig env_Parse =
     (case env_Parse operator_config_tags of
        Inl err \<Rightarrow> Inl (EWrap ''failed to parse operator config'' err)
      | Inr config \<Rightarrow> Inr config)"

section \<open>The registration of the controller\<close>

datatype watched_kind =
    KHostedControlPlane | KCertificate | KSecret | KService | KConfigMap | KStatefulSet | KDeployment
  | KPodDisruptionBudget | KTLSRoute | KCluster

datatype request_mapping = SecretMapping | ConfigMapMapping | ClusterMapping

datatype registration =
    ForKind watched_kind
  | OwnsKind watched_kind
  | WatchesChanged watched_kind request_mapping
    \<comment> \<open>with the predicate \<open>ResourceIsChanged\<close>\<close>

record controller_registration =
  cr_max_concurrent :: int
  cr_registrations :: "registration list"

definition controller_registrations :: "int \<Rightarrow> controller_registration" where
  "controller_registrations maxConcurrentReconciles =
     \<lparr>cr_max_concurrent = maxConcurrentReconciles,
      cr_registrations =
        [ForKind KHostedControlPlane, OwnsKind KCertificate, OwnsKind KSecret, OwnsKind KService, OwnsKind KConfigMap,
         OwnsKind KStatefulSet, OwnsKind KDeployment, OwnsKind KPodDisruptionBudget, OwnsKind KTLSRoute,
         WatchesChanged KSecret SecretMapping, WatchesChanged KConfigMap ConfigMapMapping,
         WatchesChanged KCluster ClusterMapping]\<rparr>"

text \<open>What the mappings are.\<close>

datatype watched_change = ObjectChange watched_object | ClusterChange watched_cluster

definition mapped_requests :: "watch_api \<Rightarrow> request_mapping \<Rightarrow> watched_change \<Rightarrow> Request list" where
  "mapped_requests W mapping change =
     (case (mapping, change) of
        (SecretMapping, ObjectChange secret) \<Rightarrow> secretToHostedControlPlane W secret
      | (ConfigMapMapping, ObjectChange configMap) \<Rightarrow> configMapToHostedControlPlane W configMap
      | (ClusterMapping, ClusterChange cluster) \<Rightarrow> clusterToHostedControlPlane cluster
      | _ \<Rightarrow> [])"

text \<open>The API groups that the scheme knows, in the order they are added.\<close>

datatype api_package =
    ApiV1alpha1 | ApiExtensions | ApiApps | ApiClusterV1beta2 | ApiCertManager | ApiCilium | ApiCore | ApiGateway
  | ApiNetworking | ApiPolicy | ApiKubeadm

definition addToSchemeFuncs :: "api_package list" where
  "addToSchemeFuncs =
     [ApiV1alpha1, ApiExtensions, ApiApps, ApiClusterV1beta2, ApiCertManager, ApiCilium, ApiCore, ApiGateway,
      ApiNetworking, ApiPolicy, ApiKubeadm]"

primrec kind_package :: "watched_kind \<Rightarrow> api_package" where
  "kind_package KHostedControlPlane = ApiV1alpha1"
| "kind_package KCertificate = ApiCertManager"
| "kind_package KSecret = ApiCore"
| "kind_package KService = ApiCore"
| "kind_package KConfigMap = ApiCore"
| "kind_package KStatefulSet = ApiApps"
| "kind_package KDeployment = ApiApps"
| "kind_package KPodDisruptionBudget = ApiPolicy"
| "kind_package KTLSRoute = ApiGateway"
| "kind_package KCluster = ApiClusterV1beta2"

primrec registered_kind :: "registration \<Rightarrow> watched_kind" where
  "registered_kind (ForKind k) = k"
| "registered_kind (OwnsKind k) = k"
| "registered_kind (WatchesChanged k m) = k"

section \<open>The steps of the start\<close>

record manager_options =
  mo_leader_election_release :: bool
  mo_metrics_address :: string
  mo_health_address :: string
  mo_webhook_port :: int
  mo_webhook_cert_dir :: string
  mo_leader_election :: bool
  mo_leader_election_id :: string

datatype start_step =
    AddToScheme api_package
  | GetRestConfig
  | NewManager manager_options
  | AddReadyzCheck string
  | AddHealthzCheck string
  | NewExporter
  | MergeResources string string
  | NewTracerProvider
  | NewKubernetesClient
  | NewCertManagerClient
  | NewGatewayClient
  | SetupController controller_registration string string string
    \<comment> \<open>with the field owner, the namespace of the controller and the filter\<close>
  | SetupWebhook
  | StartManager
  | ShutdownTracerProvider

record 'e starting =
  st_env :: 'e
  st_log :: "start_step list"

type_synonym 'e start_api = "start_step \<Rightarrow> 'e \<Rightarrow> (gerr + unit) \<times> 'e"

definition start_step :: "'e start_api \<Rightarrow> start_step \<Rightarrow> ('e starting, unit) gom" where
  "start_step A c w = (case A c (st_env w) of (r, e) \<Rightarrow> (r, w\<lparr>st_env := e, st_log := st_log w @ [c]\<rparr>))"

definition start_note :: "start_step \<Rightarrow> ('e starting, unit) gom" where
  "start_note c = gmod (\<lambda>w. w\<lparr>st_log := st_log w @ [c]\<rparr>)"

definition hostedControlPlaneControllerName :: string where
  "hostedControlPlaneControllerName = ''hcp-controller''"

definition NewScheme :: "'e start_api \<Rightarrow> ('e starting, unit) gom" where
  "NewScheme A = gfor addToSchemeFuncs (\<lambda>f. start_step A (AddToScheme f))"

definition start_manager_options :: "operator_config \<Rightarrow> manager_options" where
  "start_manager_options operatorConfig =
     \<lparr>mo_leader_election_release = True, mo_metrics_address = ''0.0.0.0:8080'', mo_health_address = '':8081'',
      mo_webhook_port = 9443, mo_webhook_cert_dir = WebhookCertDir operatorConfig,
      mo_leader_election = LeaderElection operatorConfig, mo_leader_election_id = GroupName\<rparr>"

definition newResource :: "'e start_api \<Rightarrow> string \<Rightarrow> string \<Rightarrow> ('e starting, unit) gom" where
  "newResource A serviceName version =
     gwrap ''failed to merge resources'' (start_step A (MergeResources serviceName version))"

text \<open>\<open>endpointSet\<close>: whether \<open>OTEL_EXPORTER_OTLP_TRACES_ENDPOINT\<close> is in the environment.\<close>

definition setupTracerProvider :: "'e start_api \<Rightarrow> bool \<Rightarrow> string \<Rightarrow> string \<Rightarrow> ('e starting, unit) gom" where
  "setupTracerProvider A endpointSet serviceName version =
     gseq (if endpointSet then gwrap ''failed to create otlptrace exporter'' (start_step A NewExporter) else gret ())
       (gseq (gwrap ''failed to create otlp applicationResource'' (newResource A serviceName version))
         (start_note NewTracerProvider))"

text \<open>
  \<open>configureLogging\<close> has put a logger into the context of the start, so that \<open>logger\<close> is true there.
\<close>

definition setupControllers :: "'e start_api \<Rightarrow> bool \<Rightarrow> int \<Rightarrow> string \<Rightarrow> string \<Rightarrow> ('e starting, unit) gom" where
  "setupControllers A logger maxConcurrentReconciles controllerNamespace reconcileFilter =
     gseq (if logger then gret ()
           else gfail (EWrap ''failed to get logger from context'' (ELib ''no logr.Logger was present'')))
     (gseq (gwrap ''failed to create kubernetes client'' (start_step A NewKubernetesClient))
     (gseq (gwrap ''failed to create cert-manager client'' (start_step A NewCertManagerClient))
     (gseq (gwrap ''failed to create gateway client'' (start_step A NewGatewayClient))
     (gseq (gwrap ''failed to setup controller'' (gwrap ''failed to setup HostedControlPlane controller''
              (start_step A (SetupController (controller_registrations maxConcurrentReconciles)
                 hostedControlPlaneControllerName controllerNamespace reconcileFilter))))
       (gwrap ''failed to setup webhook for HostedControlPlane'' (gwrap ''failed to setup webhook''
              (start_step A SetupWebhook)))))))"

text \<open>The deferred shutdown: its failure joins the error that is returned.\<close>

definition with_tracer_provider :: "'e start_api \<Rightarrow> ('e starting, unit) gom \<Rightarrow> ('e starting, unit) gom" where
  "with_tracer_provider A body =
     gbind (gtry body) (\<lambda>r.
     gbind (gtry (start_step A ShutdownTracerProvider)) (\<lambda>c.
       case c of
         Inr _ \<Rightarrow> (case r of Inl err \<Rightarrow> gfail err | Inr x \<Rightarrow> gret x)
       | Inl err \<Rightarrow> gfail (EJoin ((case r of Inl retErr \<Rightarrow> [retErr] | Inr x \<Rightarrow> [])
                      @ [EWrap ''shutting down trace provider'' err]))))"

definition Start :: "'e start_api \<Rightarrow> bool \<Rightarrow> string \<Rightarrow> operator_config \<Rightarrow> ('e starting, unit) gom" where
  "Start A endpointSet version operatorConfig =
     gseq (gwrap ''failed to create scheme'' (NewScheme A))
     (gseq (gwrap ''failed to get Kubernetes client config'' (start_step A GetRestConfig))
     (gseq (gwrap ''failed to construct manager'' (start_step A (NewManager (start_manager_options operatorConfig))))
     (gseq (gwrap ''failed to create readieness check'' (start_step A (AddReadyzCheck ''webhook'')))
     (gseq (gwrap ''failed to create health check'' (start_step A (AddHealthzCheck ''webhook'')))
     (gseq (setupTracerProvider A endpointSet hostedControlPlaneControllerName version)
       (with_tracer_provider A
         (gseq (setupControllers A True (MaxConcurrentReconciles operatorConfig) (ControllerNamespace operatorConfig)
                 (ReconcileFilter operatorConfig))
           (gwrap ''failed to start manager'' (start_step A StartManager)))))))))"

text \<open>\<open>main.run\<close>; \<open>main\<close> logs its error and exits with 1.\<close>

definition operator_run :: "((string \<times> string option \<times> bool) list \<Rightarrow> gerr + operator_config) \<Rightarrow> 'e start_api \<Rightarrow> bool
    \<Rightarrow> string \<Rightarrow> ('e starting, unit) gom" where
  "operator_run env_Parse A endpointSet version =
     (case GetOperatorConfig env_Parse of
        Inl err \<Rightarrow> gfail (EWrap ''failed to get operator config'' err)
      | Inr operatorConfig \<Rightarrow> gwrap ''failed to start operator'' (Start A endpointSet version operatorConfig))"

section \<open>The order of the start\<close>

text \<open>A computation that makes the listed steps in order, up to the first that fails.\<close>

definition makes :: "('e starting, unit) gom \<Rightarrow> start_step list \<Rightarrow> bool" where
  "makes m cs \<longleftrightarrow> (\<forall>w. \<exists>k \<le> length cs. st_log (snd (m w)) = st_log w @ take k cs \<and>
     ((\<exists>x. fst (m w) = Inr x) \<longrightarrow> k = length cs))"

lemma makesE:
  assumes "makes m cs" "m w = (r, w')"
  obtains k where "k \<le> length cs" "st_log w' = st_log w @ take k cs" "\<exists>x. r = Inr x \<Longrightarrow> k = length cs"
  using assms unfolding makes_def by (metis fst_conv snd_conv)

lemma makes_start_step: "makes (start_step A c) [c]"
  unfolding makes_def by (intro allI exI [of _ "length [c]"]) (simp add: start_step_def split: prod.split)

lemma makes_start_note: "makes (start_note c) [c]"
  unfolding makes_def by (intro allI exI [of _ "length [c]"]) (simp add: start_note_def gmod_def)

lemma makes_gret: "makes (gret x) []"
  by (simp add: makes_def gret_def)

lemma gwrap_snd: "snd (gwrap msg m w) = snd (m w)"
  by (simp add: gwrap_def split: prod.split sum.split)

lemma gwrap_fst_Inr: "(\<exists>x. fst (gwrap msg m w) = Inr x) \<longleftrightarrow> (\<exists>x. fst (m w) = Inr x)"
  by (simp add: gwrap_def split: prod.split sum.split)

lemma makes_gwrap: "makes m cs \<Longrightarrow> makes (gwrap msg m) cs"
  unfolding makes_def gwrap_snd gwrap_fst_Inr .

lemma makes_gseq:
  assumes "makes m cs" "makes n ds"
  shows "makes (gseq m n) (cs @ ds)"
  unfolding makes_def
proof
  fix w
  obtain r w1 where m: "m w = (r, w1)" by fastforce
  from makesE [OF assms(1) m] obtain k where k: "k \<le> length cs" "st_log w1 = st_log w @ take k cs"
    "\<exists>x. r = Inr x \<Longrightarrow> k = length cs" by blast
  show "\<exists>k\<le>length (cs @ ds). st_log (snd (gseq m n w)) = st_log w @ take k (cs @ ds) \<and>
      ((\<exists>x. fst (gseq m n w) = Inr x) \<longrightarrow> k = length (cs @ ds))"
  proof (cases r)
    case (Inl e)
    with k m show ?thesis by (intro exI [of _ k]) (simp add: gseq_fail)
  next
    case (Inr x)
    obtain r2 w2 where n: "n w1 = (r2, w2)" by fastforce
    from makesE [OF assms(2) n] obtain j where "j \<le> length ds" "st_log w2 = st_log w1 @ take j ds"
      "\<exists>x. r2 = Inr x \<Longrightarrow> j = length ds" by blast
    with k m n Inr show ?thesis by (intro exI [of _ "length cs + j"]) (auto simp: gseq_run)
  qed
qed

lemma makes_gfor: "(\<And>x. makes (f x) [c x]) \<Longrightarrow> makes (gfor xs f) (map c xs)"
proof (induction xs)
  case (Cons x xs)
  then show ?case using makes_gseq [of "f x" "[c x]" "gfor xs f" "map c xs"] by simp
qed (simp add: makes_gret)

lemmas makes_intros = makes_gseq makes_gwrap makes_start_step makes_start_note makes_gret

lemma makes_NewScheme: "makes (NewScheme A) (map AddToScheme addToSchemeFuncs)"
  unfolding NewScheme_def by (rule makes_gfor) (rule makes_start_step)

lemma gseq_assoc: "gseq (gseq l m) n = gseq l (gseq m n)"
  by (simp add: gseq_def gbind_assoc)

text \<open>The same, with a shutdown at the end as soon as more than the first list was made.\<close>

definition makes_and_shuts_down :: "('e starting, unit) gom \<Rightarrow> start_step list \<Rightarrow> start_step list \<Rightarrow> bool" where
  "makes_and_shuts_down m cs ds \<longleftrightarrow> (\<forall>w. \<exists>k \<le> length (cs @ ds).
     st_log (snd (m w)) = st_log w @ take k (cs @ ds) @ (if length cs < k then [ShutdownTracerProvider] else []) \<and>
     ((\<exists>x. fst (m w) = Inr x) \<longrightarrow> k = length (cs @ ds)))"

lemma shutdown_after:
  assumes "makes l as" "makes_and_shuts_down n cs ds" and "ds \<noteq> []"
  shows "makes_and_shuts_down (gseq l n) (as @ cs) ds"
  unfolding makes_and_shuts_down_def
proof
  fix w
  obtain r w1 where l: "l w = (r, w1)" by fastforce
  from makesE [OF assms(1) l] obtain k where k: "k \<le> length as" "st_log w1 = st_log w @ take k as"
    "\<exists>x. r = Inr x \<Longrightarrow> k = length as" by blast
  show "\<exists>k\<le>length ((as @ cs) @ ds). st_log (snd (gseq l n w)) = st_log w @ take k ((as @ cs) @ ds) @
      (if length (as @ cs) < k then [ShutdownTracerProvider] else []) \<and>
      ((\<exists>x. fst (gseq l n w) = Inr x) \<longrightarrow> k = length ((as @ cs) @ ds))"
  proof (cases r)
    case (Inl e)
    with k l show ?thesis by (intro exI [of _ k]) (simp add: gseq_fail)
  next
    case (Inr x)
    then have all: "st_log w1 = st_log w @ as" using k by simp
    obtain j where "j \<le> length (cs @ ds)"
      "st_log (snd (n w1)) = st_log w1 @ take j (cs @ ds) @ (if length cs < j then [ShutdownTracerProvider] else [])"
      "(\<exists>x. fst (n w1) = Inr x) \<longrightarrow> j = length (cs @ ds)"
      using assms(2) unfolding makes_and_shuts_down_def by blast
    moreover have "gseq l n w = n w1"
      using l Inr by (cases "n w1") (simp add: gseq_run)
    ultimately show ?thesis using all by (intro exI [of _ "length as + j"]) auto
  qed
qed

lemma shutdown_with_tracer_provider:
  fixes body :: "('e starting, unit) gom"
  assumes "makes body ds"
  shows "makes_and_shuts_down (gseq (start_note c) (with_tracer_provider A body)) [] (c # ds)"
  unfolding makes_and_shuts_down_def
proof
  fix w :: "'e starting"
  let ?w0 = "w\<lparr>st_log := st_log w @ [c]\<rparr>"
  obtain r w1 where b: "body ?w0 = (r, w1)" by fastforce
  from makesE [OF assms b] obtain k where k: "k \<le> length ds" "st_log w1 = st_log w @ c # take k ds"
    "\<exists>x. r = Inr x \<Longrightarrow> k = length ds" by auto
  obtain q e where s: "A ShutdownTracerProvider (st_env w1) = (q, e)" by fastforce
  have "st_log (snd (gseq (start_note c) (with_tracer_provider A body) w)) =
      st_log w @ c # take k ds @ [ShutdownTracerProvider]"
    using b s k(2)
    by (cases r; cases q) (simp_all add: gseq_def gbind_def gtry_def start_note_def gmod_def with_tracer_provider_def
        start_step_def gret_def gfail_def)
  moreover have "(\<exists>x. fst (gseq (start_note c) (with_tracer_provider A body) w) = Inr x) \<longrightarrow> (\<exists>x. r = Inr x)"
    using b s
    by (cases r; cases q) (simp_all add: gseq_def gbind_def gtry_def start_note_def gmod_def with_tracer_provider_def
        start_step_def gret_def gfail_def)
  ultimately show "\<exists>k\<le>length ([] @ c # ds). st_log (snd (gseq (start_note c) (with_tracer_provider A body) w)) =
      st_log w @ take k ([] @ c # ds) @ (if length [] < k then [ShutdownTracerProvider] else []) \<and>
      ((\<exists>x. fst (gseq (start_note c) (with_tracer_provider A body) w) = Inr x) \<longrightarrow> k = length ([] @ c # ds))"
    using k by (intro exI [of _ "Suc k"]) auto
qed

text \<open>The steps before and from the tracer provider on.\<close>

definition steps_before :: "bool \<Rightarrow> string \<Rightarrow> operator_config \<Rightarrow> start_step list" where
  "steps_before endpointSet version operatorConfig =
     map AddToScheme addToSchemeFuncs @ [GetRestConfig, NewManager (start_manager_options operatorConfig),
       AddReadyzCheck ''webhook'', AddHealthzCheck ''webhook''] @ (if endpointSet then [NewExporter] else []) @
       [MergeResources hostedControlPlaneControllerName version]"

definition steps_after :: "operator_config \<Rightarrow> start_step list" where
  "steps_after operatorConfig =
     [NewTracerProvider, NewKubernetesClient, NewCertManagerClient, NewGatewayClient,
      SetupController (controller_registrations (MaxConcurrentReconciles operatorConfig))
        hostedControlPlaneControllerName (ControllerNamespace operatorConfig) (ReconcileFilter operatorConfig),
      SetupWebhook, StartManager]"

lemma makes_setupControllers:
  "makes (setupControllers A True n controllerNamespace reconcileFilter)
     [NewKubernetesClient, NewCertManagerClient, NewGatewayClient,
      SetupController (controller_registrations n) hostedControlPlaneControllerName controllerNamespace reconcileFilter,
      SetupWebhook]"
proof -
  have "makes (setupControllers A True n controllerNamespace reconcileFilter)
     ([] @ [NewKubernetesClient] @ [NewCertManagerClient] @ [NewGatewayClient] @
      [SetupController (controller_registrations n) hostedControlPlaneControllerName controllerNamespace reconcileFilter] @
      [SetupWebhook])"
    unfolding setupControllers_def if_True by (intro makes_intros)
  then show ?thesis by simp
qed

text \<open>
  The start makes its steps in one order up to the first that fails. So the manager runs only after the scheme,
  the readiness checks, the controller and the webhook are set up; and the tracer provider is shut down, once and
  as the last step, exactly if it was made, also when a later step fails.
\<close>

theorem Start_sequence:
  "\<exists>k \<le> length (steps_before endpointSet version operatorConfig @ steps_after operatorConfig).
     st_log (snd (Start A endpointSet version operatorConfig w)) =
       st_log w @ take k (steps_before endpointSet version operatorConfig @ steps_after operatorConfig)
       @ (if length (steps_before endpointSet version operatorConfig) < k then [ShutdownTracerProvider] else []) \<and>
     ((\<exists>x. fst (Start A endpointSet version operatorConfig w) = Inr x) \<longrightarrow>
       k = length (steps_before endpointSet version operatorConfig @ steps_after operatorConfig))"
proof -
  let ?body = "gseq (setupControllers A True (MaxConcurrentReconciles operatorConfig) (ControllerNamespace operatorConfig)
      (ReconcileFilter operatorConfig)) (gwrap ''failed to start manager'' (start_step A StartManager))"
  have body: "makes ?body (tl (steps_after operatorConfig))"
    using makes_gseq [OF makes_setupControllers makes_gwrap [OF makes_start_step]]
    by (simp add: steps_after_def)
  have exporter: "makes (if endpointSet then gwrap ''failed to create otlptrace exporter'' (start_step A NewExporter)
      else gret ()) (if endpointSet then [NewExporter] else [])"
    by (simp add: makes_intros)
  have "makes_and_shuts_down (Start A endpointSet version operatorConfig)
    (map AddToScheme addToSchemeFuncs @ [GetRestConfig] @ [NewManager (start_manager_options operatorConfig)] @
       [AddReadyzCheck ''webhook''] @ [AddHealthzCheck ''webhook''] @ (if endpointSet then [NewExporter] else []) @
       [MergeResources hostedControlPlaneControllerName version] @ [])
    (NewTracerProvider # tl (steps_after operatorConfig))"
    unfolding Start_def setupTracerProvider_def newResource_def gseq_assoc
    by (intro shutdown_after makes_gwrap makes_NewScheme makes_start_step exporter
        shutdown_with_tracer_provider body) simp_all
  then have "makes_and_shuts_down (Start A endpointSet version operatorConfig)
      (steps_before endpointSet version operatorConfig) (steps_after operatorConfig)"
    by (simp add: steps_before_def steps_after_def)
  then show ?thesis unfolding makes_and_shuts_down_def by blast
qed

text \<open>The scheme knows every kind that the controller watches.\<close>

theorem watched_kinds_in_scheme:
  "\<forall>r \<in> set (cr_registrations (controller_registrations n)). kind_package (registered_kind r) \<in> set addToSchemeFuncs"
  by (simp add: controller_registrations_def addToSchemeFuncs_def)

end
